(* ===== verification/Prelude.thy ===== *)
theory Prelude
  imports Main "HOL-Library.AList"
begin

text \<open>
  The prelude of the development: the machine integers of Go written out over \<open>int\<close>, Go maps as
  association lists with distinct keys, the result type of fallible Go functions, and the generic
  lemmas the components share.  The named collections below carry the component proofs:
  \<open>gomap_simps\<close> rewrites map look-ups after updates and deletions, \<open>int64_simps\<close> decides
  wrap-around on values in range.
\<close>

named_theorems gomap_simps
named_theorems int64_simps

section \<open>Machine integers\<close>

text \<open>
  Go's \<open>int\<close> (on the 64-bit targets the program builds for), \<open>int64\<close> and \<open>time.Duration\<close> are
  two's complement 64-bit values.  A value is an \<open>int\<close> in range, and every operation that can
  leave the range is wrapped with \<open>wrap64\<close>.
\<close>

type_synonym int64 = int

definition int64_min :: int where
  "int64_min = - (2 ^ 63)"

definition int64_max :: int where
  "int64_max = 2 ^ 63 - 1"

definition in_int64 :: "int \<Rightarrow> bool" where
  "in_int64 x \<longleftrightarrow> int64_min \<le> x \<and> x \<le> int64_max"

definition wrap64 :: "int \<Rightarrow> int64" where
  "wrap64 x = (x + 2 ^ 63) mod 2 ^ 64 - 2 ^ 63"

lemma wrap64_in_range [int64_simps]: "in_int64 x \<Longrightarrow> wrap64 x = x"
  by (auto simp: in_int64_def int64_min_def int64_max_def wrap64_def)

lemma in_int64_wrap64 [simp]: "in_int64 (wrap64 x)"
proof -
  have "0 \<le> (x + 2 ^ 63) mod 2 ^ 64" and "(x + 2 ^ 63) mod 2 ^ 64 < 2 ^ 64"
    by simp_all
  then show ?thesis
    by (simp add: in_int64_def int64_min_def int64_max_def wrap64_def)
qed

text \<open>Durations are nanoseconds in an \<open>int64\<close>.\<close>

definition time_Millisecond :: int64 where
  "time_Millisecond = 1000000"

definition time_Second :: int64 where
  "time_Second = 1000000000"

definition time_Minute :: int64 where
  "time_Minute = 60 * 1000000000"

text \<open>Go's integer division truncates towards zero (Isabelle's rounds down).\<close>

definition go_div :: "int \<Rightarrow> int \<Rightarrow> int" where
  "go_div a b = sgn a * sgn b * (\<bar>a\<bar> div \<bar>b\<bar>)"

lemma go_div_nonneg: "0 \<le> a \<Longrightarrow> 0 < b \<Longrightarrow> go_div a b = a div b"
  by (cases "a = 0") (auto simp: go_div_def)

section \<open>Go maps\<close>

text \<open>
  A Go map is an association list with distinct keys.  The order of the list stands for one of
  the iteration orders the runtime may choose: a theorem about every such list is a theorem about
  every order.
\<close>

type_synonym ('k, 'v) gomap = "('k \<times> 'v) list"

abbreviation gm_lookup :: "('k, 'v) gomap \<Rightarrow> 'k \<Rightarrow> 'v option" where
  "gm_lookup \<equiv> map_of"

abbreviation gm_update :: "'k \<Rightarrow> 'v \<Rightarrow> ('k, 'v) gomap \<Rightarrow> ('k, 'v) gomap" where
  "gm_update \<equiv> AList.update"

abbreviation gm_delete :: "'k \<Rightarrow> ('k, 'v) gomap \<Rightarrow> ('k, 'v) gomap" where
  "gm_delete \<equiv> AList.delete"

abbreviation gm_keys :: "('k, 'v) gomap \<Rightarrow> 'k set" where
  "gm_keys m \<equiv> fst ` set m"

abbreviation gm_values :: "('k, 'v) gomap \<Rightarrow> 'v list" where
  "gm_values m \<equiv> map snd m"

definition gm_wf :: "('k, 'v) gomap \<Rightarrow> bool" where
  "gm_wf m \<longleftrightarrow> distinct (map fst m)"

text \<open>Applying one function to every stored value keeps the keys.\<close>

definition gm_map :: "('v \<Rightarrow> 'w) \<Rightarrow> ('k, 'v) gomap \<Rightarrow> ('k, 'w) gomap" where
  "gm_map f m = map (\<lambda>(k, v). (k, f v)) m"

lemma gm_wf_Nil [simp, intro]: "gm_wf []"
  by (simp add: gm_wf_def)

lemma gm_wf_update [simp, intro]: "gm_wf m \<Longrightarrow> gm_wf (gm_update k v m)"
  by (simp add: gm_wf_def distinct_update)

lemma gm_wf_delete [simp, intro]: "gm_wf m \<Longrightarrow> gm_wf (gm_delete k m)"
  by (simp add: gm_wf_def distinct_delete)

lemma gm_wf_map [simp]: "gm_wf (gm_map f m) \<longleftrightarrow> gm_wf m"
  by (simp add: gm_wf_def gm_map_def comp_def case_prod_beta)

lemma gm_lookup_update [gomap_simps]:
  "gm_lookup (gm_update k v m) k' = (if k' = k then Some v else gm_lookup m k')"
  by (simp add: update_conv)

lemma gm_lookup_delete [gomap_simps]:
  "gm_lookup (gm_delete k m) k' = (if k' = k then None else gm_lookup m k')"
  by (simp add: delete_conv)

lemma gm_lookup_map [gomap_simps]: "gm_lookup (gm_map f m) k = map_option f (gm_lookup m k)"
  by (induction m) (auto simp: gm_map_def)

lemma gm_keys_map [simp]: "gm_keys (gm_map f m) = gm_keys m"
  by (force simp: gm_map_def)

lemma gm_keys_update [simp]: "gm_keys (gm_update k v m) = insert k (gm_keys m)"
  by (simp add: dom_update)

lemma gm_keys_delete [simp]: "gm_keys (gm_delete k m) = gm_keys m - {k}"
  by (induction m) auto

lemma gm_lookup_None: "gm_lookup m k = None \<longleftrightarrow> k \<notin> gm_keys m"
  by (simp add: map_of_eq_None_iff)

lemma gm_values_ran: "gm_wf m \<Longrightarrow> set (gm_values m) = ran (gm_lookup m)"
  by (simp add: gm_wf_def ran_distinct)

lemma gm_lookup_value: "gm_lookup m k = Some v \<Longrightarrow> v \<in> set (gm_values m)"
  by (auto dest: map_of_SomeD intro: rev_image_eqI)

lemma gm_value_lookup: "gm_wf m \<Longrightarrow> v \<in> set (gm_values m) \<Longrightarrow> \<exists>k. gm_lookup m k = Some v"
  by (auto simp: gm_wf_def)

lemma gm_value_update:
  "gm_wf m \<Longrightarrow> w \<in> set (gm_values (gm_update k v m)) \<longleftrightarrow>
     w = v \<or> (\<exists>k'. k' \<noteq> k \<and> gm_lookup m k' = Some w)"
  by (subst gm_values_ran) (auto simp: ran_def gomap_simps)

lemma gm_value_delete:
  "gm_wf m \<Longrightarrow> w \<in> set (gm_values (gm_delete k m)) \<longleftrightarrow> (\<exists>k'. k' \<noteq> k \<and> gm_lookup m k' = Some w)"
  by (subst gm_values_ran) (auto simp: ran_def gomap_simps)

section \<open>Lists\<close>

lemma filter_length_less: "x \<in> set xs \<Longrightarrow> \<not> P x \<Longrightarrow> length (filter P xs) < length xs"
  by (induction xs) (auto simp: less_Suc_eq_le)

lemma takeWhile_dropWhile_eq: "takeWhile P xs @ dropWhile P xs = xs"
  by simp

end
