(* ===== verification/GoStrings.thy ===== *)
theory GoStrings
  imports Prelude
begin

text \<open>
  The functions of Go's \<open>strings\<close> and \<open>strconv\<close> packages that the program calls.  A Go string is
  a byte string, and a \<open>char\<close> is one byte.  \<open>TrimSpace\<close> and \<open>Fields\<close> know every Unicode space by
  its UTF-8 encoding; the case mappings act on the ASCII letters and leave every other byte
  alone.
\<close>

named_theorems go_string

section \<open>White space\<close>

definition ascii_space :: "char \<Rightarrow> bool" where
  "ascii_space c \<longleftrightarrow> c \<in> {CHR 0x09, CHR 0x0A, CHR 0x0B, CHR 0x0C, CHR 0x0D, CHR 0x20}"

definition space2 :: "char \<Rightarrow> char \<Rightarrow> bool" where
  "space2 a b \<longleftrightarrow> a = CHR 0xC2 \<and> (b = CHR 0x85 \<or> b = CHR 0xA0)"

definition space3 :: "char \<Rightarrow> char \<Rightarrow> char \<Rightarrow> bool" where
  "space3 a b c \<longleftrightarrow>
     (a = CHR 0xE1 \<and> b = CHR 0x9A \<and> c = CHR 0x80)
   \<or> (a = CHR 0xE2 \<and> b = CHR 0x80 \<and>
       (c \<in> {CHR 0x80, CHR 0x81, CHR 0x82, CHR 0x83, CHR 0x84, CHR 0x85, CHR 0x86, CHR 0x87,
             CHR 0x88, CHR 0x89, CHR 0x8A, CHR 0xA8, CHR 0xA9, CHR 0xAF}))
   \<or> (a = CHR 0xE2 \<and> b = CHR 0x81 \<and> c = CHR 0x9F)
   \<or> (a = CHR 0xE3 \<and> b = CHR 0x80 \<and> c = CHR 0x80)"

text \<open>The number of bytes of the white-space rune a string starts with, 0 if there is none.\<close>

fun space_len :: "string \<Rightarrow> nat" where
  "space_len [] = 0"
| "space_len [a] = (if ascii_space a then 1 else 0)"
| "space_len [a, b] = (if ascii_space a then 1 else if space2 a b then 2 else 0)"
| "space_len (a # b # c # _) =
     (if ascii_space a then 1 else if space2 a b then 2 else if space3 a b c then 3 else 0)"

text \<open>The same at the end of a string, read on the reversed string.\<close>

fun space_len_rev :: "string \<Rightarrow> nat" where
  "space_len_rev [] = 0"
| "space_len_rev [a] = (if ascii_space a then 1 else 0)"
| "space_len_rev [b, a] = (if ascii_space b then 1 else if space2 a b then 2 else 0)"
| "space_len_rev (c # b # a # _) =
     (if ascii_space c then 1 else if space2 b c then 2 else if space3 a b c then 3 else 0)"

lemma space_len_le: "space_len s \<le> length s"
  by (cases s rule: space_len.cases) auto

lemma space_len_rev_le: "space_len_rev s \<le> length s"
  by (cases s rule: space_len_rev.cases) auto

function trim_with :: "(string \<Rightarrow> nat) \<Rightarrow> string \<Rightarrow> string" where
  "trim_with sl s = (if sl s = 0 \<or> s = [] then s else trim_with sl (drop (sl s) s))"
  by pat_completeness auto
termination
  by (relation "measure (\<lambda>(sl, s). length s)") auto

declare trim_with.simps [simp del]

definition TrimSpace :: "string \<Rightarrow> string" where
  "TrimSpace s = rev (trim_with space_len_rev (rev (trim_with space_len s)))"

lemma trim_with_stop: "sl s = 0 \<Longrightarrow> trim_with sl s = s"
  by (subst trim_with.simps) simp

lemma length_trim_with: "length (trim_with sl s) \<le> length s"
proof (induction sl s rule: trim_with.induct)
  case (1 sl s)
  then show ?case
    by (cases "sl s = 0 \<or> s = []") (auto simp: trim_with.simps [of sl s])
qed

lemma set_trim_with: "set (trim_with sl s) \<subseteq> set s"
proof (induction sl s rule: trim_with.induct)
  case (1 sl s)
  then show ?case
    by (cases "sl s = 0 \<or> s = []") (auto simp: trim_with.simps [of sl s] dest: in_set_dropD)
qed

lemma length_TrimSpace: "length (TrimSpace s) \<le> length s"
  using length_trim_with [of space_len s]
    length_trim_with [of space_len_rev "rev (trim_with space_len s)"]
  by (simp add: TrimSpace_def)

lemma set_TrimSpace: "set (TrimSpace s) \<subseteq> set s"
  using set_trim_with [of space_len s]
    set_trim_with [of space_len_rev "rev (trim_with space_len s)"]
  by (auto simp: TrimSpace_def)

text \<open>The visible ASCII characters, 0x21 to 0x7e.\<close>

definition graphic :: "char \<Rightarrow> bool" where
  "graphic c \<longleftrightarrow> (33::nat) \<le> of_char c \<and> of_char c \<le> (126::nat)"

lemma graphic_not_space: "graphic c \<Longrightarrow> \<not> ascii_space c \<and> \<not> space2 c x \<and> \<not> space2 x c \<and>
    \<not> space3 c x y \<and> \<not> space3 x y c"
  by (auto simp: graphic_def ascii_space_def space2_def space3_def)

lemma space_len_graphic: "graphic c \<Longrightarrow> space_len (c # s) = 0"
  using graphic_not_space [of c] by (cases "c # s" rule: space_len.cases) auto

lemma space_len_rev_graphic: "graphic c \<Longrightarrow> space_len_rev (c # s) = 0"
  using graphic_not_space [of c] by (cases "c # s" rule: space_len_rev.cases) auto

lemma TrimSpace_Nil [simp]: "TrimSpace [] = []"
  by (simp add: TrimSpace_def trim_with_stop)

lemma TrimSpace_graphic:
  assumes "s = [] \<or> graphic (hd s) \<and> graphic (last s)"
  shows "TrimSpace s = s"
proof (cases "s = []")
  case False
  then obtain c r where s: "s = c # r" and c: "graphic c"
    using assms by (cases s) auto
  obtain d q where r: "rev s = d # q" and d: "graphic d"
    using assms False by (cases "rev s") (auto simp: last_rev [symmetric])
  show ?thesis
    using trim_with_stop [of space_len s] trim_with_stop [of space_len_rev "rev s"] s r
      space_len_graphic [OF c] space_len_rev_graphic [OF d]
    by (simp add: TrimSpace_def) (metis rev_rev_ident rev.simps(2))
qed simp

lemma trim_with_stopped: "trim_with sl s = [] \<or> sl (trim_with sl s) = 0"
proof (induction sl s rule: trim_with.induct)
  case (1 sl s)
  then show ?case
    by (cases "sl s = 0 \<or> s = []") (auto simp: trim_with.simps [of sl s])
qed

lemma space_len_prefix: "space_len (p @ q) = 0 \<Longrightarrow> space_len p = 0"
  by (cases p rule: space_len.cases; cases "p @ q" rule: space_len.cases) (auto split: if_splits)

lemma trim_with_suffix: "\<exists>p. s = p @ trim_with sl s"
proof (induction sl s rule: trim_with.induct)
  case (1 sl s)
  show ?case
  proof (cases "sl s = 0 \<or> s = []")
    case True
    then show ?thesis by (auto simp: trim_with.simps [of sl s])
  next
    case False
    then obtain p where "drop (sl s) s = p @ trim_with sl (drop (sl s) s)" using 1 by blast
    with False show ?thesis
      by (intro exI [of _ "take (sl s) s @ p"]) (simp add: trim_with.simps [of sl s] append_take_drop_id [symmetric])
  qed
qed

text \<open>Trimming leaves nothing to trim.\<close>

lemma TrimSpace_idem [simp]: "TrimSpace (TrimSpace s) = TrimSpace s"
proof -
  define t where "t = trim_with space_len s"
  define u where "u = rev (trim_with space_len_rev (rev t))"
  have u: "TrimSpace s = u" by (simp add: TrimSpace_def t_def u_def)
  obtain p where "rev t = p @ trim_with space_len_rev (rev t)" using trim_with_suffix by blast
  from arg_cong [OF this, of rev] have q: "t = u @ rev p" by (simp only: u_def rev_append rev_rev_ident)
  have "t = [] \<or> space_len t = 0" unfolding t_def by (rule trim_with_stopped)
  then have "space_len u = 0" using q space_len_prefix [of u "rev p"] by (cases "t = []") auto
  then have a: "trim_with space_len u = u" by (rule trim_with_stop)
  have "rev u = [] \<or> space_len_rev (rev u) = 0"
    using trim_with_stopped [of space_len_rev "rev t"] by (simp add: u_def)
  then have "trim_with space_len_rev (rev u) = rev u"
    by (metis space_len_rev.simps(1) trim_with_stop)
  then have "TrimSpace u = u" unfolding TrimSpace_def a by simp
  then show ?thesis by (simp only: u)
qed

section \<open>Case mapping\<close>

definition lower_char :: "char \<Rightarrow> char" where
  "lower_char c = (if (65::nat) \<le> of_char c \<and> of_char c \<le> (90::nat)
                   then char_of (of_char c + (32::nat)) else c)"

definition upper_char :: "char \<Rightarrow> char" where
  "upper_char c = (if (97::nat) \<le> of_char c \<and> of_char c \<le> (122::nat)
                   then char_of (of_char c - (32::nat)) else c)"

definition ToLower :: "string \<Rightarrow> string" where
  "ToLower s = map lower_char s"

definition ToUpper :: "string \<Rightarrow> string" where
  "ToUpper s = map upper_char s"

definition EqualFold :: "string \<Rightarrow> string \<Rightarrow> bool" where
  "EqualFold s t \<longleftrightarrow> ToLower s = ToLower t"

lemma EqualFold_refl [simp, intro]: "EqualFold s s"
  by (simp add: EqualFold_def)

lemma EqualFold_sym: "EqualFold s t \<longleftrightarrow> EqualFold t s"
  by (auto simp: EqualFold_def)

lemma EqualFold_trans: "EqualFold s t \<Longrightarrow> EqualFold t u \<Longrightarrow> EqualFold s u"
  by (simp add: EqualFold_def)

section \<open>Splitting and searching\<close>

text \<open>\<open>strings.Split(s, sep)\<close> for a one-byte separator.\<close>

fun Split :: "string \<Rightarrow> char \<Rightarrow> string list" where
  "Split [] c = [[]]"
| "Split (x # xs) c =
     (if x = c then [] # Split xs c
      else (case Split xs c of [] \<Rightarrow> [[x]] | p # ps \<Rightarrow> (x # p) # ps))"

text \<open>\<open>strings.Join(parts, sep)\<close>.\<close>

fun Join :: "string list \<Rightarrow> string \<Rightarrow> string" where
  "Join [] sep = []"
| "Join [p] sep = p"
| "Join (p # q # ps) sep = p @ sep @ Join (q # ps) sep"

lemma Split_nonempty: "Split s c \<noteq> []"
  by (induction s) (auto split: list.splits)

lemma Join_Cons: "ps \<noteq> [] \<Longrightarrow> Join (p # ps) sep = p @ sep @ Join ps sep"
  by (cases ps) auto

lemma Join_Split: "Join (Split s c) [c] = s"
proof (induction s)
  case (Cons x xs)
  obtain p ps where "Split xs c = p # ps"
    using Split_nonempty [of xs c] by (cases "Split xs c") auto
  with Cons show ?case
    by (cases ps) (auto simp: Join_Cons Split_nonempty)
qed simp

lemma Split_no_sep: "c \<notin> set s \<Longrightarrow> Split s c = [s]"
  by (induction s) auto

lemma Split_append_sep: "c \<notin> set p \<Longrightarrow> Split (p @ c # s) c = p # Split s c"
  by (induction p) auto

lemma Split_Join:
  "ps \<noteq> [] \<Longrightarrow> (\<forall>p \<in> set ps. c \<notin> set p) \<Longrightarrow> Split (Join ps [c]) c = ps"
  by (induction ps "[c]" rule: Join.induct) (auto simp: Split_no_sep Split_append_sep)

lemma Split_parts_no_sep: "p \<in> set (Split s c) \<Longrightarrow> c \<notin> set p"
  by (induction s arbitrary: p) (auto split: if_splits list.splits)

text \<open>\<open>strings.Fields\<close>: the maximal runs of bytes that belong to no white-space rune.\<close>

function fields_acc :: "string \<Rightarrow> string \<Rightarrow> string list" where
  "fields_acc acc s =
     (if s = [] then (if acc = [] then [] else [rev acc])
      else if space_len s = 0 then fields_acc (hd s # acc) (tl s)
      else (if acc = [] then [] else [rev acc]) @ fields_acc [] (drop (space_len s) s))"
  by pat_completeness auto
termination
  by (relation "measure (\<lambda>(acc, s). length s)") auto

declare fields_acc.simps [simp del]

definition Fields :: "string \<Rightarrow> string list" where
  "Fields s = fields_acc [] s"

text \<open>\<open>strings.IndexByte\<close> and \<open>strings.LastIndexByte\<close>; Go's -1 is \<open>None\<close>.\<close>

fun IndexByte :: "string \<Rightarrow> char \<Rightarrow> nat option" where
  "IndexByte [] c = None"
| "IndexByte (x # xs) c = (if x = c then Some 0 else map_option Suc (IndexByte xs c))"

definition LastIndexByte :: "string \<Rightarrow> char \<Rightarrow> nat option" where
  "LastIndexByte s c = map_option (\<lambda>i. length s - Suc i) (IndexByte (rev s) c)"

definition HasPrefix :: "string \<Rightarrow> string \<Rightarrow> bool" where
  "HasPrefix s p \<longleftrightarrow> take (length p) s = p"

definition HasSuffix :: "string \<Rightarrow> string \<Rightarrow> bool" where
  "HasSuffix s p \<longleftrightarrow> HasPrefix (rev s) (rev p)"

text \<open>\<open>strings.TrimRight(s, "/")\<close> for a one-byte cutset, and \<open>strings.ReplaceAll(s, " ", "")\<close>.\<close>

definition TrimRightByte :: "string \<Rightarrow> char \<Rightarrow> string" where
  "TrimRightByte s c = rev (dropWhile (\<lambda>x. x = c) (rev s))"

definition RemoveByte :: "string \<Rightarrow> char \<Rightarrow> string" where
  "RemoveByte s c = filter (\<lambda>x. x \<noteq> c) s"

lemma IndexByte_None [go_string]: "IndexByte s c = None \<longleftrightarrow> c \<notin> set s"
  by (induction s) auto

lemma IndexByte_Some:
  "IndexByte s c = Some i \<Longrightarrow> i < length s \<and> s ! i = c \<and> c \<notin> set (take i s)"
  by (induction s arbitrary: i) (auto split: if_splits simp: less_Suc_eq_0_disj)

lemma IndexByte_append [go_string]: "c \<notin> set p \<Longrightarrow> IndexByte (p @ c # s) c = Some (length p)"
  by (induction p) auto

lemma LastIndexByte_None [go_string]: "LastIndexByte s c = None \<longleftrightarrow> c \<notin> set s"
  by (simp add: LastIndexByte_def IndexByte_None)

lemma LastIndexByte_append [go_string]:
  "c \<notin> set s \<Longrightarrow> LastIndexByte (p @ c # s) c = Some (length p)"
  using IndexByte_append [of c "rev s" "rev p"] by (simp add: LastIndexByte_def)

lemma LastIndexByte_Some:
  assumes "LastIndexByte s c = Some i"
  shows "\<exists>p q. s = p @ c # q \<and> length p = i \<and> c \<notin> set q"
proof -
  obtain j where j: "IndexByte (rev s) c = Some j" and i: "i = length s - Suc j"
    using assms by (auto simp: LastIndexByte_def)
  from IndexByte_Some [OF j] have "rev s = take j (rev s) @ c # drop (Suc j) (rev s)"
    using id_take_nth_drop [of j "rev s"] by simp
  then have "s = rev (drop (Suc j) (rev s)) @ c # rev (take j (rev s))"
    by (metis append_Cons append_Nil append_assoc rev.simps(2) rev_append rev_rev_ident)
  moreover have "length (rev (drop (Suc j) (rev s))) = i"
    using i by simp
  moreover have "c \<notin> set (rev (take j (rev s)))"
    using IndexByte_Some [OF j] by simp
  ultimately show ?thesis by blast
qed

section \<open>Decimal conversion\<close>

definition digit_char :: "nat \<Rightarrow> char" where
  "digit_char d = char_of (48 + d)"

definition digit_val :: "char \<Rightarrow> nat option" where
  "digit_val c = (if (48::nat) \<le> of_char c \<and> of_char c \<le> (57::nat)
                  then Some (of_char c - 48) else None)"

fun nat_digits :: "nat \<Rightarrow> string" where
  "nat_digits n = (if n < 10 then [digit_char n] else nat_digits (n div 10) @ [digit_char (n mod 10)])"

declare nat_digits.simps [simp del]

text \<open>\<open>strconv.Itoa\<close> and \<open>strconv.FormatInt(_, 10)\<close>.\<close>

definition Itoa :: "int \<Rightarrow> string" where
  "Itoa n = (if n < 0 then CHR ''-'' # nat_digits (nat (- n)) else nat_digits (nat n))"

fun parse_digits :: "nat \<Rightarrow> string \<Rightarrow> nat option" where
  "parse_digits acc [] = Some acc"
| "parse_digits acc (c # s) =
     (case digit_val c of None \<Rightarrow> None | Some d \<Rightarrow> parse_digits (10 * acc + d) s)"

text \<open>
  \<open>strconv.Atoi\<close> and \<open>strconv.ParseInt(_, 10, 64)\<close>: an optional sign, at least one digit, and a
  value in the 64-bit range; the error is \<open>None\<close>.
\<close>

definition Atoi :: "string \<Rightarrow> int option" where
  "Atoi s =
     (let (neg, ds) = (case s of c # r \<Rightarrow> (if c = CHR ''-'' then (True, r)
                                          else if c = CHR ''+'' then (False, r) else (False, s))
                                | [] \<Rightarrow> (False, []))
      in if ds = [] then None
         else (case parse_digits 0 ds of
                 None \<Rightarrow> None
               | Some n \<Rightarrow> (let v = (if neg then - int n else int n)
                           in if in_int64 v then Some v else None)))"

lemma of_char_digit_char: "d < 10 \<Longrightarrow> (of_char (digit_char d) :: nat) = 48 + d"
  by (simp add: digit_char_def)

lemma digit_val_digit_char [simp]: "d < 10 \<Longrightarrow> digit_val (digit_char d) = Some d"
  by (simp add: digit_val_def of_char_digit_char)

lemma digit_char_range: "d < 10 \<Longrightarrow> digit_char d \<noteq> c \<or> (48::nat) \<le> of_char c \<and> of_char c \<le> (57::nat)"
  by (auto simp: of_char_digit_char)

lemma parse_digits_append:
  "parse_digits acc (s @ t) =
     (case parse_digits acc s of None \<Rightarrow> None | Some n \<Rightarrow> parse_digits n t)"
  by (induction acc s rule: parse_digits.induct) (auto split: option.splits)

lemma parse_nat_digits: "parse_digits 0 (nat_digits n) = Some n"
proof (induction n rule: nat_digits.induct)
  case (1 n)
  show ?case
  proof (cases "n < 10")
    case True
    then show ?thesis by (simp add: nat_digits.simps [of n])
  next
    case False
    with 1 show ?thesis by (simp add: nat_digits.simps [of n] parse_digits_append)
  qed
qed

lemma nat_digits_nonempty: "nat_digits n \<noteq> []"
  by (subst nat_digits.simps) simp

lemma nat_digits_chars: "c \<in> set (nat_digits n) \<Longrightarrow> (48::nat) \<le> of_char c \<and> of_char c \<le> (57::nat)"
proof (induction n rule: nat_digits.induct)
  case (1 n)
  then show ?case
    by (cases "n < 10") (auto simp: nat_digits.simps [of n] of_char_digit_char)
qed

lemma Atoi_Itoa: "in_int64 n \<Longrightarrow> Atoi (Itoa n) = Some n"
proof -
  assume n: "in_int64 n"
  obtain c r where m: "nat_digits (nat n) = c # r"
    using nat_digits_nonempty by (cases "nat_digits (nat n)") auto
  have "(48::nat) \<le> of_char c \<and> of_char c \<le> (57::nat)"
    by (rule nat_digits_chars [of c "nat n"]) (simp add: m)
  then have "c \<noteq> CHR ''-''" and "c \<noteq> CHR ''+''" by auto
  with n m parse_nat_digits [of "nat n"] parse_nat_digits [of "nat (- n)"] show ?thesis
    by (auto simp: Atoi_def Itoa_def nat_digits_nonempty)
qed

lemma Itoa_chars: "c \<in> set (Itoa n) \<Longrightarrow> c = CHR ''-'' \<or> (48::nat) \<le> of_char c \<and> of_char c \<le> (57::nat)"
  by (auto simp: Itoa_def dest: nat_digits_chars split: if_splits)

lemma nat_digits_inj: "nat_digits m = nat_digits n \<Longrightarrow> m = n"
  by (metis parse_nat_digits option.inject)

lemma nat_digits_not_minus: "nat_digits k \<noteq> CHR ''-'' # s"
  using nat_digits_chars [of "CHR ''-''" k] by auto

lemma Itoa_inj:
  assumes "Itoa m = Itoa n"
  shows "m = n"
proof (cases "m < 0"; cases "n < 0")
  assume "m < 0" "n < 0"
  with assms nat_digits_inj [of "nat (- m)" "nat (- n)"] show ?thesis
    by (simp add: Itoa_def)
next
  assume "m < 0" "\<not> n < 0"
  with assms nat_digits_not_minus [of "nat n"] show ?thesis
    by (metis Itoa_def)
next
  assume "\<not> m < 0" "n < 0"
  with assms nat_digits_not_minus [of "nat m"] show ?thesis
    by (metis Itoa_def)
next
  assume "\<not> m < 0" "\<not> n < 0"
  with assms nat_digits_inj [of "nat m" "nat n"] show ?thesis
    by (simp add: Itoa_def)
qed

section \<open>Quoting\<close>

text \<open>
  \<open>strconv.Quote\<close> (the verb \<open>%q\<close>) on ASCII; bytes from 128 on stay as they are, which is what it does
  to valid UTF-8 of printable characters.
\<close>

definition hex_digit :: "nat \<Rightarrow> char" where
  "hex_digit n = ''0123456789abcdef'' ! n"

definition quote_char :: "char \<Rightarrow> string" where
  "quote_char c =
     (let n = of_char c :: nat in
      if c = CHR 0x22 then [CHR 0x5C, CHR 0x22]
      else if c = CHR 0x5C then [CHR 0x5C, CHR 0x5C]
      else if n = 7 then CHR 0x5C # ''a''
      else if n = 8 then CHR 0x5C # ''b''
      else if n = 9 then CHR 0x5C # ''t''
      else if n = 10 then CHR 0x5C # ''n''
      else if n = 11 then CHR 0x5C # ''v''
      else if n = 12 then CHR 0x5C # ''f''
      else if n = 13 then CHR 0x5C # ''r''
      else if n < 32 \<or> n = 127 then CHR 0x5C # CHR ''x'' # [hex_digit (n div 16), hex_digit (n mod 16)]
      else [c])"

definition Quote :: "string \<Rightarrow> string" where
  "Quote s = CHR 0x22 # concat (map quote_char s) @ [CHR 0x22]"

end
