(* ===== verification/Entity.thy ===== *)
theory Entity
  imports GoStrings
begin

text \<open>
  The data of the program (\<open>internal/entity\<close>): jobs with their state machine, users and the
  transfer objects of the two API versions.  A nilable Go pointer is an \<open>option\<close>, a nil slice is
  the empty list, and a struct is a record whose fields carry the struct's name as a prefix.
\<close>

section \<open>Jobs\<close>

text \<open>
  \<open>JobStatus\<close> and \<open>JobTransition\<close> are string types in Go: besides the declared constants there
  are all other strings.
\<close>

datatype JobStatus = JobQueued | JobRunning | JobSucceeded | JobFailed | JobStatusOther string

datatype JobTransition = JobTransitionStart | JobTransitionSucceed | JobTransitionFail
  | JobTransitionOther string

definition JobStatus_string :: "JobStatus \<Rightarrow> string" where
  "JobStatus_string s = (case s of
     JobQueued \<Rightarrow> ''queued''
   | JobRunning \<Rightarrow> ''running''
   | JobSucceeded \<Rightarrow> ''succeeded''
   | JobFailed \<Rightarrow> ''failed''
   | JobStatusOther t \<Rightarrow> t)"

definition JobStatus_of_string :: "string \<Rightarrow> JobStatus" where
  "JobStatus_of_string t =
     (if t = ''queued'' then JobQueued
      else if t = ''running'' then JobRunning
      else if t = ''succeeded'' then JobSucceeded
      else if t = ''failed'' then JobFailed
      else JobStatusOther t)"

record JobTransitionSpec =
  spec_Intent :: JobTransition
  spec_From :: "JobStatus list"
  spec_To :: JobStatus

definition jobTransitionSpecs :: "(JobTransition, JobTransitionSpec) gomap" where
  "jobTransitionSpecs =
    [(JobTransitionStart,
       \<lparr>spec_Intent = JobTransitionStart, spec_From = [JobQueued], spec_To = JobRunning\<rparr>),
     (JobTransitionSucceed,
       \<lparr>spec_Intent = JobTransitionSucceed, spec_From = [JobRunning], spec_To = JobSucceeded\<rparr>),
     (JobTransitionFail,
       \<lparr>spec_Intent = JobTransitionFail, spec_From = [JobQueued, JobRunning], spec_To = JobFailed\<rparr>)]"

definition IsTerminal :: "JobStatus \<Rightarrow> bool" where
  "IsTerminal s \<longleftrightarrow> s = JobSucceeded \<or> s = JobFailed"

text \<open>\<open>JobTransitionFor\<close> copies the \<open>From\<close> slice so that callers cannot change the table; over
  values the copy is the slice itself.\<close>

definition JobTransitionFor :: "JobTransition \<Rightarrow> JobTransitionSpec option" where
  "JobTransitionFor intent =
     (case gm_lookup jobTransitionSpecs intent of
        None \<Rightarrow> None
      | Some spec \<Rightarrow> Some (spec\<lparr>spec_From := [] @ spec_From spec\<rparr>))"

definition CanTransitionJob :: "JobStatus \<Rightarrow> JobTransition \<Rightarrow> bool" where
  "CanTransitionJob from intent =
     (case JobTransitionFor intent of
        None \<Rightarrow> False
      | Some spec \<Rightarrow> list_ex (\<lambda>allowedFrom. from = allowedFrom) (spec_From spec))"

record JobInvalidParam =
  jip_Name :: string
  jip_Reason :: string

record JobProblem =
  jp_Type :: string
  jp_Title :: string
  jp_Status :: int
  jp_Detail :: string
  jp_Instance :: string
  jp_RequestID :: string
  jp_InvalidParams :: "JobInvalidParam list"

record JobResult =
  jr_UserID :: int64

record Job =
  job_ID :: int64
  job_Status :: JobStatus
  job_Result :: "JobResult option"
  job_Error :: "JobProblem option"
  job_OwnerUserID :: int64

record JobBridgeDTO =
  jb_ID :: int64
  jb_Status :: string
  jb_Source :: string

definition zero_JobProblem :: JobProblem where
  "zero_JobProblem = \<lparr>jp_Type = '''', jp_Title = '''', jp_Status = 0, jp_Detail = '''',
     jp_Instance = '''', jp_RequestID = '''', jp_InvalidParams = []\<rparr>"

section \<open>Users\<close>

record User =
  user_ID :: int64
  user_Name :: string
  user_Age :: int64
  user_Email :: string
  user_Version :: int64

record UserDTO =
  dto_ID :: int64
  dto_Name :: string
  dto_Email :: string

record CreateUserInput =
  cui_Name :: string
  cui_Age :: int64
  cui_Email :: string

record UserDTOV2 =
  dto2_ID :: int64
  dto2_FullName :: string
  dto2_Email :: string

record CreateUserInputV2 =
  cui2_FullName :: string
  cui2_Age :: int64
  cui2_Email :: string

record UserExport =
  exp_ID :: int64
  exp_Name :: string
  exp_Email :: string
  exp_Age :: int64

record ProfileDTO =
  pdto_Bio :: string
  pdto_City :: string

record UserProfileDTO =
  updto_ID :: int64
  updto_Name :: string
  updto_Email :: string
  updto_Profile :: ProfileDTO

definition MapCreateV2ToV1 :: "CreateUserInputV2 \<Rightarrow> CreateUserInput" where
  "MapCreateV2ToV1 i = \<lparr>cui_Name = cui2_FullName i, cui_Age = cui2_Age i, cui_Email = cui2_Email i\<rparr>"

definition MapUserDTOToV2 :: "UserDTO \<Rightarrow> UserDTOV2" where
  "MapUserDTOToV2 u = \<lparr>dto2_ID = dto_ID u, dto2_FullName = dto_Name u, dto2_Email = dto_Email u\<rparr>"

definition MapUsersToV2 :: "User list \<Rightarrow> UserDTOV2 list" where
  "MapUsersToV2 users =
     map (\<lambda>u. \<lparr>dto2_ID = user_ID u, dto2_FullName = user_Name u, dto2_Email = user_Email u\<rparr>) users"

section \<open>The job state machine\<close>

text \<open>One legal change of a job's status, and the statuses a job goes through.\<close>

inductive job_step :: "JobStatus \<Rightarrow> JobStatus \<Rightarrow> bool" where
  transition: "JobTransitionFor intent = Some spec \<Longrightarrow> CanTransitionJob s intent \<Longrightarrow>
    job_step s (spec_To spec)"

inductive_cases job_stepE: "job_step s t"

definition job_rank :: "JobStatus \<Rightarrow> nat" where
  "job_rank s = (case s of JobQueued \<Rightarrow> 0 | JobRunning \<Rightarrow> 1 | _ \<Rightarrow> 2)"

lemma JobTransitionFor_simps [simp]:
  "JobTransitionFor JobTransitionStart =
     Some \<lparr>spec_Intent = JobTransitionStart, spec_From = [JobQueued], spec_To = JobRunning\<rparr>"
  "JobTransitionFor JobTransitionSucceed =
     Some \<lparr>spec_Intent = JobTransitionSucceed, spec_From = [JobRunning], spec_To = JobSucceeded\<rparr>"
  "JobTransitionFor JobTransitionFail =
     Some \<lparr>spec_Intent = JobTransitionFail, spec_From = [JobQueued, JobRunning], spec_To = JobFailed\<rparr>"
  "JobTransitionFor (JobTransitionOther t) = None"
  by (simp_all add: JobTransitionFor_def jobTransitionSpecs_def)

lemma CanTransitionJob_simps [simp]:
  "CanTransitionJob s JobTransitionStart \<longleftrightarrow> s = JobQueued"
  "CanTransitionJob s JobTransitionSucceed \<longleftrightarrow> s = JobRunning"
  "CanTransitionJob s JobTransitionFail \<longleftrightarrow> s = JobQueued \<or> s = JobRunning"
  "\<not> CanTransitionJob s (JobTransitionOther t)"
  by (auto simp: CanTransitionJob_def)

lemma job_step_iff:
  "job_step s t \<longleftrightarrow> (s = JobQueued \<and> t = JobRunning) \<or> (s = JobRunning \<and> t = JobSucceeded) \<or>
     ((s = JobQueued \<or> s = JobRunning) \<and> t = JobFailed)"
proof
  assume "job_step s t"
  then show "(s = JobQueued \<and> t = JobRunning) \<or> (s = JobRunning \<and> t = JobSucceeded) \<or>
     ((s = JobQueued \<or> s = JobRunning) \<and> t = JobFailed)"
  proof (cases rule: job_step.cases)
    case (transition intent spec)
    then show ?thesis by (cases intent) auto
  qed
next
  assume "(s = JobQueued \<and> t = JobRunning) \<or> (s = JobRunning \<and> t = JobSucceeded) \<or>
     ((s = JobQueued \<or> s = JobRunning) \<and> t = JobFailed)"
  then show "job_step s t"
    using job_step.transition [of JobTransitionStart _ s]
      job_step.transition [of JobTransitionSucceed _ s] job_step.transition [of JobTransitionFail _ s]
    by auto
qed

lemma job_step_rank: "job_step s t \<Longrightarrow> job_rank s < job_rank t"
  by (auto simp: job_step_iff job_rank_def)

lemma IsTerminal_no_step: "IsTerminal s \<Longrightarrow> \<not> job_step s t"
  by (auto simp: IsTerminal_def job_step_iff)

lemma job_steps_rank: "job_step\<^sup>*\<^sup>* s t \<Longrightarrow> s = t \<or> job_rank s < job_rank t"
  by (induction rule: rtranclp_induct) (auto dest: job_step_rank)

lemma job_steps_terminal: "job_step\<^sup>*\<^sup>* s t \<Longrightarrow> IsTerminal s \<Longrightarrow> t = s"
  by (induction rule: converse_rtranclp_induct) (auto dest: IsTerminal_no_step)

text \<open>A queued job can reach every other declared status, and within two steps it is terminal.\<close>

lemma job_reachable_from_queued:
  "job_step\<^sup>*\<^sup>* JobQueued t \<longleftrightarrow> t \<in> {JobQueued, JobRunning, JobSucceeded, JobFailed}"
proof
  assume "job_step\<^sup>*\<^sup>* JobQueued t"
  then show "t \<in> {JobQueued, JobRunning, JobSucceeded, JobFailed}"
    by (induction rule: rtranclp_induct) (auto simp: job_step_iff)
next
  have r: "job_step\<^sup>*\<^sup>* JobQueued JobRunning" and f: "job_step\<^sup>*\<^sup>* JobQueued JobFailed"
    by (auto simp: job_step_iff intro!: r_into_rtranclp)
  have s: "job_step\<^sup>*\<^sup>* JobQueued JobSucceeded"
    by (rule rtranclp.rtrancl_into_rtrancl [OF r]) (simp add: job_step_iff)
  assume "t \<in> {JobQueued, JobRunning, JobSucceeded, JobFailed}"
  with r f s show "job_step\<^sup>*\<^sup>* JobQueued t" by auto
qed

lemma JobStatus_roundtrip [simp]: "JobStatus_string (JobStatus_of_string t) = t"
  by (simp add: JobStatus_string_def JobStatus_of_string_def)

lemma JobStatus_of_string_string:
  "s \<in> {JobQueued, JobRunning, JobSucceeded, JobFailed} \<Longrightarrow>
     JobStatus_of_string (JobStatus_string s) = s"
  by (auto simp: JobStatus_string_def JobStatus_of_string_def)

end
