(* ===== verification/GoErrors.thy ===== *)
theory GoErrors
  imports Entity
begin

text \<open>
  Go's \<open>error\<close> values as trees.  A package-level \<open>errors.New\<close> value is a \<open>Sentinel\<close> (compared by
  identity), each error struct of the program is a constructor with the struct's fields, and
  \<open>fmt.Errorf\<close> with \<open>%w\<close> and \<open>errors.Join\<close> are inner nodes.  \<open>errors_Is\<close> and \<open>errors_As\<close>
  search the tree depth first in pre-order, as the standard library does.
\<close>

section \<open>Sentinels and kinds\<close>

datatype sentinel =
    ErrUserNotFound | ErrJobNotFound | ErrUserAlreadyExists
  | ErrConflict | ErrForbidden | ErrJobTransitionConflict
  | ErrQueueFull | ErrQueueStopped | ErrHubClosed | ErrPoolNotRunning | ErrPoolStopping
  | ErrBulkheadRejected | ErrNotAcceptable | ErrProtobufUnavailable
  | ErrJSONEmptyBody | ErrJSONTrailingData | ErrJSONUnknownField | ErrJSONBadSyntax
  | ErrJSONTypeMismatch | ErrJSONDecodeFailure | ErrUnsupportedMediaType | ErrStreamingUnsupported
  | ErrGRPCBridgeUnavailable | ErrGRPCBridgeTimeout | ErrGRPCBridgeCanceled
  | Profile_ErrTimeout | Profile_ErrCanceled | Profile_ErrNetwork | Profile_ErrUpstream5xx
  | Profile_ErrUpstream4xx | Profile_ErrParse | Profile_ErrBadResponse
  | ErrGRPCServerNotRunning | ErrGRPCServerAlreadyStarted | ErrGRPCServerRuntimeRequired
  | ErrNoKID
  \<comment> \<open>sentinels of the standard library and of the libraries the program imports\<close>
  | ContextCanceled | ContextDeadlineExceeded | Sql_ErrNoRows | Io_EOF | Io_ErrUnexpectedEOF
  | Http_ErrServerClosed | Http_ErrNotSupported | Grpc_ErrServerStopped
  | Jwt_ErrTokenSignatureInvalid | Jwt_ErrTokenExpired | Jwt_ErrTokenNotValidYet

text \<open>\<open>apperr.ErrNotFound\<close> is \<open>entity.ErrUserNotFound\<close> itself.\<close>

abbreviation ErrNotFound :: sentinel where
  "ErrNotFound \<equiv> ErrUserNotFound"

datatype AuthNErrorKind = AuthNMissing | AuthNInvalid | AuthNExpired | AuthNNotYetValid
  | AuthNKindOther string

datatype AuthZErrorKind = AuthZForbidden | AuthZAdminRequired | AuthZNoPolicyRule | AuthZUnknownAccess

datatype grpc_code = Codes_OK | Codes_Canceled | Codes_InvalidArgument | Codes_DeadlineExceeded
  | Codes_NotFound | Codes_PermissionDenied | Codes_Unauthenticated | Codes_Unavailable
  | Codes_Internal | Codes_Other nat

datatype shutdownOutcome = ShutdownGraceful | ShutdownForced | ShutdownTimedOut | ShutdownFailed

record InvalidParam =
  ip_Name :: string
  ip_Reason :: string

section \<open>Error values\<close>

datatype go_error =
    Sentinel sentinel
  | JobTransitionConflictError int64 JobStatus JobStatus JobTransition
  | BadRequestError string
  | MethodNotAllowedError string
  | ValidationError "InvalidParam list"
  | RateLimitError int64
  | UnauthorizedError AuthNErrorKind "go_error option"
  | ForbiddenError AuthZErrorKind "go_error option"
  | AuthNError AuthNErrorKind "go_error option"
  | JSONRequestError sentinel string int64 "go_error option"
  | ProfileError sentinel int "go_error option"
  | ComponentShutdownError string shutdownOutcome "go_error option"
  | WrapError string go_error
  | JoinError "go_error list"
  | OpaqueError string
  \<comment> \<open>error types of the standard library and of imported libraries that the program inspects\<close>
  | MaxBytesError int64
  | JsonSyntaxError int64
  | JsonUnmarshalTypeError string
  | NetError bool "go_error option"
  | PgError string
  | GrpcStatusError grpc_code string

text \<open>What an error's \<open>Unwrap\<close> method returns: none, one possibly nil error, or a slice.\<close>

datatype unwrapping = UnwrapNone | UnwrapSingle "go_error option" | UnwrapMulti "go_error list"

definition kind_and_cause :: "sentinel \<Rightarrow> go_error option \<Rightarrow> go_error list" where
  "kind_and_cause k c = Sentinel k # (case c of None \<Rightarrow> [] | Some e \<Rightarrow> [e])"

fun Unwrap :: "go_error \<Rightarrow> unwrapping" where
  "Unwrap (JobTransitionConflictError _ _ _ _) =
     UnwrapMulti [Sentinel ErrJobTransitionConflict, Sentinel ErrConflict]"
| "Unwrap (UnauthorizedError _ c) = UnwrapSingle c"
| "Unwrap (ForbiddenError _ c) = UnwrapSingle c"
| "Unwrap (AuthNError _ c) = UnwrapSingle c"
| "Unwrap (JSONRequestError k _ _ c) = UnwrapMulti (kind_and_cause k c)"
| "Unwrap (ProfileError k _ c) = UnwrapMulti (kind_and_cause k c)"
| "Unwrap (ComponentShutdownError _ _ c) = UnwrapSingle c"
| "Unwrap (WrapError _ e) = UnwrapSingle (Some e)"
| "Unwrap (JoinError es) = UnwrapMulti es"
| "Unwrap (NetError _ c) = UnwrapSingle c"
| "Unwrap _ = UnwrapNone"

definition children :: "go_error \<Rightarrow> go_error list" where
  "children e = (case Unwrap e of
     UnwrapNone \<Rightarrow> [] | UnwrapSingle None \<Rightarrow> [] | UnwrapSingle (Some c) \<Rightarrow> [c] | UnwrapMulti es \<Rightarrow> es)"

text \<open>A measure that decreases from an error to what it wraps.\<close>

definition err_size :: "go_error \<Rightarrow> nat" where
  "err_size e = (case e of Sentinel _ \<Rightarrow> 0 | _ \<Rightarrow> Suc (size e))"

lemma err_size_le: "err_size c \<le> Suc (size c)"
  by (simp add: err_size_def split: go_error.splits)

lemma err_size_children: "c \<in> set (children e) \<Longrightarrow> err_size c < err_size e"
  using err_size_le [of c]
  by (cases e)
     (auto simp: children_def kind_and_cause_def err_size_def less_Suc_eq_le
           dest: size_list_estimation' [where f = size] split: option.splits)

text \<open>The error and everything it wraps, in the order the standard library visits them.\<close>

function chain :: "go_error \<Rightarrow> go_error list" where
  "chain e = e # concat (map chain (children e))"
  by pat_completeness auto
termination
  by (relation "measure err_size") (auto simp: err_size_children)

declare chain.simps [simp del]

definition errors_Is :: "go_error \<Rightarrow> sentinel \<Rightarrow> bool" where
  "errors_Is e s \<longleftrightarrow> List.member (chain e) (Sentinel s)"

definition errors_As :: "(go_error \<Rightarrow> 'a option) \<Rightarrow> go_error \<Rightarrow> 'a option" where
  "errors_As sel e = (case filter (\<lambda>x. sel x \<noteq> None) (chain e) of [] \<Rightarrow> None | x # _ \<Rightarrow> sel x)"

text \<open>The type assertions the program passes to \<open>errors.As\<close>.\<close>

fun as_BadRequest :: "go_error \<Rightarrow> string option" where
  "as_BadRequest (BadRequestError d) = Some d" | "as_BadRequest _ = None"

fun as_MethodNotAllowed :: "go_error \<Rightarrow> string option" where
  "as_MethodNotAllowed (MethodNotAllowedError a) = Some a" | "as_MethodNotAllowed _ = None"

fun as_Unauthorized :: "go_error \<Rightarrow> AuthNErrorKind option" where
  "as_Unauthorized (UnauthorizedError k _) = Some k" | "as_Unauthorized _ = None"

fun as_Forbidden :: "go_error \<Rightarrow> AuthZErrorKind option" where
  "as_Forbidden (ForbiddenError k _) = Some k" | "as_Forbidden _ = None"

fun as_AuthN :: "go_error \<Rightarrow> AuthNErrorKind option" where
  "as_AuthN (AuthNError k _) = Some k" | "as_AuthN _ = None"

fun as_Validation :: "go_error \<Rightarrow> InvalidParam list option" where
  "as_Validation (ValidationError ps) = Some ps" | "as_Validation _ = None"

fun as_MaxBytes :: "go_error \<Rightarrow> int64 option" where
  "as_MaxBytes (MaxBytesError n) = Some n" | "as_MaxBytes _ = None"

fun as_JSONRequest :: "go_error \<Rightarrow> string option" where
  "as_JSONRequest (JSONRequestError _ f _ _) = Some f" | "as_JSONRequest _ = None"

fun as_RateLimit :: "go_error \<Rightarrow> int64 option" where
  "as_RateLimit (RateLimitError d) = Some d" | "as_RateLimit _ = None"

fun as_Profile :: "go_error \<Rightarrow> int option" where
  "as_Profile (ProfileError _ st _) = Some st" | "as_Profile _ = None"

fun as_ComponentShutdown :: "go_error \<Rightarrow> shutdownOutcome option" where
  "as_ComponentShutdown (ComponentShutdownError _ o' _) = Some o'" | "as_ComponentShutdown _ = None"

fun as_NetTimeout :: "go_error \<Rightarrow> bool option" where
  "as_NetTimeout (NetError t _) = Some t" | "as_NetTimeout _ = None"

fun as_Pg :: "go_error \<Rightarrow> string option" where
  "as_Pg (PgError c) = Some c" | "as_Pg _ = None"

fun as_GrpcStatus :: "go_error \<Rightarrow> (grpc_code \<times> string) option" where
  "as_GrpcStatus (GrpcStatusError c m) = Some (c, m)" | "as_GrpcStatus _ = None"

fun as_JsonSyntax :: "go_error \<Rightarrow> int64 option" where
  "as_JsonSyntax (JsonSyntaxError off) = Some off" | "as_JsonSyntax _ = None"

fun as_JsonUnmarshalType :: "go_error \<Rightarrow> string option" where
  "as_JsonUnmarshalType (JsonUnmarshalTypeError f) = Some f" | "as_JsonUnmarshalType _ = None"

section \<open>Constructors the program calls\<close>

definition NewJobTransitionConflict :: "int64 \<Rightarrow> JobStatus \<Rightarrow> JobTransitionSpec \<Rightarrow> go_error" where
  "NewJobTransitionConflict jobID from spec =
     JobTransitionConflictError jobID from (spec_To spec) (spec_Intent spec)"

definition NewUnauthorized :: "AuthNErrorKind \<Rightarrow> go_error option \<Rightarrow> go_error" where
  "NewUnauthorized kind cause = UnauthorizedError kind cause"

definition NewForbidden :: "AuthZErrorKind \<Rightarrow> go_error option \<Rightarrow> go_error" where
  "NewForbidden kind cause = ForbiddenError kind cause"

text \<open>\<open>errors.Join\<close> drops nil errors and is nil when nothing is left.\<close>

definition errors_Join :: "go_error option list \<Rightarrow> go_error option" where
  "errors_Join es = (let xs = concat (map (\<lambda>e. case e of None \<Rightarrow> [] | Some x \<Rightarrow> [x]) es)
                     in if xs = [] then None else Some (JoinError xs))"

section \<open>Searching error trees\<close>

lemma chain_leaf [simp]:
  "children e = [] \<Longrightarrow> chain e = [e]"
  by (subst chain.simps) simp

lemma children_simps [simp]:
  "children (Sentinel s) = []"
  "children (BadRequestError d) = []"
  "children (MethodNotAllowedError al) = []"
  "children (ValidationError ps) = []"
  "children (RateLimitError r) = []"
  "children (OpaqueError m) = []"
  "children (MaxBytesError n) = []"
  "children (JsonSyntaxError n) = []"
  "children (JsonUnmarshalTypeError f) = []"
  "children (PgError pc) = []"
  "children (GrpcStatusError gc m) = []"
  "children (JobTransitionConflictError i fr to tr) =
     [Sentinel ErrJobTransitionConflict, Sentinel ErrConflict]"
  "children (WrapError m e) = [e]"
  "children (JoinError es) = es"
  "children (UnauthorizedError k c) = (case c of None \<Rightarrow> [] | Some e \<Rightarrow> [e])"
  "children (ForbiddenError z c) = (case c of None \<Rightarrow> [] | Some e \<Rightarrow> [e])"
  "children (AuthNError k c) = (case c of None \<Rightarrow> [] | Some e \<Rightarrow> [e])"
  "children (ComponentShutdownError cn out c) = (case c of None \<Rightarrow> [] | Some e \<Rightarrow> [e])"
  "children (NetError tm c) = (case c of None \<Rightarrow> [] | Some e \<Rightarrow> [e])"
  "children (JSONRequestError k2 f p c) = Sentinel k2 # (case c of None \<Rightarrow> [] | Some e \<Rightarrow> [e])"
  "children (ProfileError k2 st c) = Sentinel k2 # (case c of None \<Rightarrow> [] | Some e \<Rightarrow> [e])"
  by (auto simp: children_def kind_and_cause_def split: option.splits)

lemma set_chain: "set (chain e) = insert e (\<Union>c \<in> set (children e). set (chain c))"
  by (subst chain.simps) simp

lemma chain_self [simp, intro]: "e \<in> set (chain e)"
  by (subst set_chain) simp

lemma errors_Is_children:
  "errors_Is e s \<longleftrightarrow> e = Sentinel s \<or> (\<exists>c \<in> set (children e). errors_Is c s)"
  by (auto simp: errors_Is_def set_chain [of e])

lemma errors_Is_leaf: "children e = [] \<Longrightarrow> errors_Is e s \<longleftrightarrow> e = Sentinel s"
  by (simp add: errors_Is_children [of e])

lemma errors_Is_Sentinel [simp]: "errors_Is (Sentinel t) s \<longleftrightarrow> t = s"
  by (simp add: errors_Is_leaf)

lemma errors_Is_simps [simp]:
  "errors_Is (WrapError m e0) s \<longleftrightarrow> errors_Is e0 s"
  "errors_Is (JoinError es) s \<longleftrightarrow> (\<exists>e \<in> set es. errors_Is e s)"
  "errors_Is (JobTransitionConflictError i fr to tr) s \<longleftrightarrow> s = ErrJobTransitionConflict \<or> s = ErrConflict"
  "errors_Is (UnauthorizedError k c) s \<longleftrightarrow> (\<exists>e. c = Some e \<and> errors_Is e s)"
  "errors_Is (ForbiddenError z c) s \<longleftrightarrow> (\<exists>e. c = Some e \<and> errors_Is e s)"
  "errors_Is (AuthNError k c) s \<longleftrightarrow> (\<exists>e. c = Some e \<and> errors_Is e s)"
  "errors_Is (ComponentShutdownError cn out c) s \<longleftrightarrow> (\<exists>e. c = Some e \<and> errors_Is e s)"
  "errors_Is (NetError tm c) s \<longleftrightarrow> (\<exists>e. c = Some e \<and> errors_Is e s)"
  "errors_Is (JSONRequestError k2 f p c) s \<longleftrightarrow> s = k2 \<or> (\<exists>e. c = Some e \<and> errors_Is e s)"
  "errors_Is (ProfileError k2 st c) s \<longleftrightarrow> s = k2 \<or> (\<exists>e. c = Some e \<and> errors_Is e s)"
  by (auto simp: errors_Is_children [of "WrapError _ _"] errors_Is_children [of "JoinError _"]
        errors_Is_children [of "JobTransitionConflictError _ _ _ _"]
        errors_Is_children [of "UnauthorizedError _ _"] errors_Is_children [of "ForbiddenError _ _"]
        errors_Is_children [of "AuthNError _ _"] errors_Is_children [of "NetError _ _"]
        errors_Is_children [of "ComponentShutdownError _ _ _"]
        errors_Is_children [of "JSONRequestError _ _ _ _"] errors_Is_children [of "ProfileError _ _ _"]
      split: option.splits)

lemma errors_Is_leaf_simps [simp]:
  "\<not> errors_Is (BadRequestError d) s"
  "\<not> errors_Is (MethodNotAllowedError al) s"
  "\<not> errors_Is (ValidationError ps) s"
  "\<not> errors_Is (RateLimitError r) s"
  "\<not> errors_Is (OpaqueError m) s"
  "\<not> errors_Is (MaxBytesError n) s"
  "\<not> errors_Is (JsonSyntaxError n) s"
  "\<not> errors_Is (JsonUnmarshalTypeError f) s"
  "\<not> errors_Is (PgError pc) s"
  "\<not> errors_Is (GrpcStatusError gc m) s"
  by (simp_all add: errors_Is_leaf)

lemma errors_As_None: "errors_As sel e = None \<longleftrightarrow> (\<forall>x \<in> set (chain e). sel x = None)"
proof (cases "filter (\<lambda>x. sel x \<noteq> None) (chain e)")
  case Nil
  then show ?thesis by (auto simp: errors_As_def filter_empty_conv)
next
  case (Cons x xs)
  then have "x \<in> set (filter (\<lambda>x. sel x \<noteq> None) (chain e))"
    by simp
  then have "x \<in> set (chain e)" and "sel x \<noteq> None"
    by simp_all
  then show ?thesis
    unfolding errors_As_def Cons by auto
qed

lemma errors_As_self: "sel e = Some v \<Longrightarrow> errors_As sel e = Some v"
  by (simp add: errors_As_def chain.simps [of e])

lemma errors_As_leaf: "children e = [] \<Longrightarrow> errors_As sel e = sel e"
  by (cases "sel e") (auto simp: errors_As_def)

lemma errors_As_single:
  "sel e = None \<Longrightarrow> children e = [c] \<Longrightarrow> errors_As sel e = errors_As sel c"
  by (simp add: errors_As_def chain.simps [of e])

lemma errors_As_Wrap [simp]: "sel (WrapError m e) = None \<Longrightarrow> errors_As sel (WrapError m e) = errors_As sel e"
  by (rule errors_As_single) simp_all

lemma errors_As_Sentinel [simp]: "errors_As sel (Sentinel s) = sel (Sentinel s)"
  by (simp add: errors_As_leaf)

lemma errors_Join_None: "errors_Join es = None \<longleftrightarrow> (\<forall>e \<in> set es. e = None)"
  by (auto simp: errors_Join_def Let_def split: option.splits)

end
