(* ===== verification/JobRepo.thy ===== *)
theory JobRepo
  imports GoErrors
begin

text \<open>
  The job storage interface (\<open>internal/service/jobRepository.go\<close>) and its in-memory implementation
  (\<open>internal/store/jobrepo/memory_job_repo.go\<close>).  The Go interface is a record of operations on a
  state; the contract its comments promise is the locale \<open>job_repository\<close>, over an abstract store
  from job identifiers to jobs.  A method that returns only an \<open>error\<close> returns an
  \<open>go_error option\<close>; \<open>Save\<close> also returns the job, whose identifier it may assign.
\<close>

section \<open>The interface\<close>

record 's JobRepository =
  repo_GetAll :: "'s \<Rightarrow> (go_error + Job list) \<times> 's"
  repo_GetByID :: "int64 \<Rightarrow> 's \<Rightarrow> (go_error + Job) \<times> 's"
  repo_Save :: "Job \<Rightarrow> 's \<Rightarrow> (go_error option \<times> Job) \<times> 's"
  repo_Delete :: "int64 \<Rightarrow> 's \<Rightarrow> go_error option \<times> 's"
  repo_SetRunning :: "int64 \<Rightarrow> 's \<Rightarrow> go_error option \<times> 's"
  repo_SetSucceeded :: "int64 \<Rightarrow> JobResult \<Rightarrow> 's \<Rightarrow> go_error option \<times> 's"
  repo_SetFailed :: "int64 \<Rightarrow> JobProblem \<Rightarrow> 's \<Rightarrow> go_error option \<times> 's"
  repo_FailActive :: "JobProblem \<Rightarrow> 's \<Rightarrow> (int \<times> go_error option) \<times> 's"

text \<open>What the three transitions write into a job.\<close>

definition mark_running :: "Job \<Rightarrow> Job" where
  "mark_running job = job\<lparr>job_Status := JobRunning, job_Result := None, job_Error := None\<rparr>"

definition mark_succeeded :: "JobResult \<Rightarrow> Job \<Rightarrow> Job" where
  "mark_succeeded res job = job\<lparr>job_Status := JobSucceeded, job_Result := Some res, job_Error := None\<rparr>"

definition mark_failed :: "JobProblem \<Rightarrow> Job \<Rightarrow> Job" where
  "mark_failed p job = job\<lparr>job_Status := JobFailed, job_Error := Some p, job_Result := None\<rparr>"

definition active :: "Job \<Rightarrow> bool" where
  "active job \<longleftrightarrow> job_Status job = JobQueued \<or> job_Status job = JobRunning"

lemmas mark_defs = mark_running_def mark_succeeded_def mark_failed_def

lemma mark_Status [simp]:
  "job_Status (mark_running j) = JobRunning"
  "job_Status (mark_succeeded r j) = JobSucceeded"
  "job_Status (mark_failed p j) = JobFailed"
  by (simp_all add: mark_defs)

lemma mark_frame [simp]:
  "job_ID (mark_running j) = job_ID j"
  "job_ID (mark_succeeded r j) = job_ID j"
  "job_ID (mark_failed p j) = job_ID j"
  "job_OwnerUserID (mark_running j) = job_OwnerUserID j"
  "job_OwnerUserID (mark_succeeded r j) = job_OwnerUserID j"
  "job_OwnerUserID (mark_failed p j) = job_OwnerUserID j"
  by (simp_all add: mark_defs)

section \<open>The abstract store\<close>

text \<open>
  The contract of a transition method is a compare-and-set: a missing job is \<open>ErrJobNotFound\<close>, a
  job whose status does not allow the transition is a typed conflict that names the transition,
  and in both cases nothing is stored; otherwise exactly that job is rewritten.
\<close>

type_synonym job_store = "int64 \<Rightarrow> Job option"

definition conflict :: "int64 \<Rightarrow> JobStatus \<Rightarrow> JobTransition \<Rightarrow> go_error" where
  "conflict jid st intent =
     JobTransitionConflictError jid st
       (case JobTransitionFor intent of None \<Rightarrow> JobStatusOther '''' | Some spec \<Rightarrow> spec_To spec) intent"

definition cas :: "JobTransition \<Rightarrow> (Job \<Rightarrow> Job) \<Rightarrow> int64 \<Rightarrow> job_store \<Rightarrow> go_error option \<times> job_store" where
  "cas intent f jid m =
     (case m jid of
        None \<Rightarrow> (Some (Sentinel ErrJobNotFound), m)
      | Some job \<Rightarrow>
          if CanTransitionJob (job_Status job) intent then (None, m(jid \<mapsto> f job))
          else (Some (conflict jid (job_Status job) intent), m))"

definition fail_active :: "JobProblem \<Rightarrow> Job \<Rightarrow> Job" where
  "fail_active p job = (if active job then mark_failed p job else job)"

locale job_repository =
  fixes repo :: "'s JobRepository"
    and abs :: "'s \<Rightarrow> job_store"
    and invar :: "'s \<Rightarrow> bool"
  assumes get: "invar s \<Longrightarrow> repo_GetByID repo jid s =
      ((case abs s jid of None \<Rightarrow> Inl (Sentinel ErrJobNotFound) | Some j \<Rightarrow> Inr j), s)"
    and set_running: "invar s \<Longrightarrow> repo_SetRunning repo jid s = (e, s') \<Longrightarrow>
      (e, abs s') = cas JobTransitionStart mark_running jid (abs s)"
    and set_succeeded: "invar s \<Longrightarrow> repo_SetSucceeded repo jid r s = (e, s') \<Longrightarrow>
      (e, abs s') = cas JobTransitionSucceed (mark_succeeded r) jid (abs s)"
    and set_failed: "invar s \<Longrightarrow> repo_SetFailed repo jid p s = (e, s') \<Longrightarrow>
      (e, abs s') = cas JobTransitionFail (mark_failed p) jid (abs s)"
    and fail_active: "invar s \<Longrightarrow> repo_FailActive repo p s = ((n, e), s') \<Longrightarrow>
      e = None \<and> abs s' = (\<lambda>jid. map_option (fail_active p) (abs s jid)) \<and>
      n = int (card {i. \<exists>j. abs s i = Some j \<and> active j})"
    and delete: "invar s \<Longrightarrow> repo_Delete repo jid s = (e, s') \<Longrightarrow>
      e = (if abs s jid = None then Some (Sentinel ErrJobNotFound) else None) \<and>
      abs s' = (abs s)(jid := None)"
    and save_new: "invar s \<Longrightarrow> job_ID job = 0 \<Longrightarrow> job_Status job = JobQueued \<Longrightarrow>
      repo_Save repo job s = ((None, job'), s') \<Longrightarrow>
      job' = job\<lparr>job_ID := job_ID job'\<rparr> \<and> abs s (job_ID job') = None \<and>
      abs s' = (abs s)(job_ID job' \<mapsto> job')"
    and invar_ops: "invar s \<Longrightarrow> invar (snd (repo_SetRunning repo jid s))"
      "invar s \<Longrightarrow> invar (snd (repo_SetSucceeded repo jid r s))"
      "invar s \<Longrightarrow> invar (snd (repo_SetFailed repo jid p s))"
      "invar s \<Longrightarrow> invar (snd (repo_FailActive repo p s))"
      "invar s \<Longrightarrow> invar (snd (repo_Delete repo jid s))"

text \<open>A transition changes no other job and follows the state machine.\<close>

lemma cas_step:
  assumes "(e, m') = cas intent f jid m" and "m k = Some j"
    and "JobTransitionFor intent = Some spec" and "\<And>j. job_Status (f j) = spec_To spec"
  shows "\<exists>j'. m' k = Some j' \<and> (j' = j \<or> k = jid \<and> job_step (job_Status j) (job_Status j') \<and> j' = f j)"
  using assms
  by (auto simp: cas_def split: option.splits if_splits intro!: job_step.transition)

text \<open>
  A job is consistent when exactly a succeeded job carries a result and exactly a failed one
  carries a problem.
\<close>

definition job_ok :: "Job \<Rightarrow> bool" where
  "job_ok j \<longleftrightarrow> (job_Status j = JobSucceeded \<longleftrightarrow> job_Result j \<noteq> None) \<and>
     (job_Status j = JobFailed \<longleftrightarrow> job_Error j \<noteq> None)"

lemma job_ok_mark [simp]:
  "job_ok (mark_running j)" "job_ok (mark_succeeded r j)" "job_ok (mark_failed p j)"
  by (simp_all add: job_ok_def mark_defs)

text \<open>What one lifecycle operation may do to a stored job.\<close>

definition job_evolves :: "Job \<Rightarrow> Job \<Rightarrow> bool" where
  "job_evolves j j' \<longleftrightarrow> job_step\<^sup>*\<^sup>* (job_Status j) (job_Status j') \<and> job_ID j' = job_ID j \<and>
     job_OwnerUserID j' = job_OwnerUserID j \<and> (IsTerminal (job_Status j) \<longrightarrow> j' = j) \<and>
     (job_ok j \<longrightarrow> job_ok j')"

lemma job_evolves_refl [simp]: "job_evolves j j"
  by (simp add: job_evolves_def)

lemma job_evolves_trans: "job_evolves a b \<Longrightarrow> job_evolves b c \<Longrightarrow> job_evolves a c"
  by (auto simp: job_evolves_def intro: rtranclp_trans)

lemma job_evolves_mark:
  "job_step (job_Status j) JobRunning \<Longrightarrow> job_evolves j (mark_running j)"
  "job_step (job_Status j) JobSucceeded \<Longrightarrow> job_evolves j (mark_succeeded r j)"
  "job_step (job_Status j) JobFailed \<Longrightarrow> job_evolves j (mark_failed p j)"
  using IsTerminal_no_step by (auto simp: job_evolves_def)

lemma fail_active_inactive [simp]: "\<not> active (fail_active p j)"
  by (simp add: fail_active_def active_def)

lemma job_evolves_fail_active: "job_evolves j (fail_active p j)"
  by (auto simp: fail_active_def active_def job_step_iff intro!: job_evolves_mark)

text \<open>The lifecycle operations of a repository, and a history of them.\<close>

datatype transition_op = OpSetRunning int64 | OpSetSucceeded int64 JobResult
  | OpSetFailed int64 JobProblem | OpFailActive JobProblem

fun repo_apply :: "'s JobRepository \<Rightarrow> transition_op \<Rightarrow> 's \<Rightarrow> 's" where
  "repo_apply repo (OpSetRunning jid) s = snd (repo_SetRunning repo jid s)"
| "repo_apply repo (OpSetSucceeded jid r) s = snd (repo_SetSucceeded repo jid r s)"
| "repo_apply repo (OpSetFailed jid p) s = snd (repo_SetFailed repo jid p s)"
| "repo_apply repo (OpFailActive p) s = snd (repo_FailActive repo p s)"

fun repo_run :: "'s JobRepository \<Rightarrow> transition_op list \<Rightarrow> 's \<Rightarrow> 's" where
  "repo_run repo [] s = s"
| "repo_run repo (op # ops) s = repo_run repo ops (repo_apply repo op s)"

text \<open>The calls whose outcome the contract fixes, what a caller sees of them, and their abstract effect.\<close>

datatype client_op = Lifecycle transition_op | OpGetByID int64 | OpDelete int64

datatype repo_result = ResErr "go_error option" | ResCount int "go_error option" | ResJob "go_error + Job"

fun repo_call :: "'s JobRepository \<Rightarrow> client_op \<Rightarrow> 's \<Rightarrow> repo_result \<times> 's" where
  "repo_call repo (Lifecycle (OpSetRunning jid)) s = map_prod ResErr (\<lambda>s. s) (repo_SetRunning repo jid s)"
| "repo_call repo (Lifecycle (OpSetSucceeded jid r)) s =
     map_prod ResErr (\<lambda>s. s) (repo_SetSucceeded repo jid r s)"
| "repo_call repo (Lifecycle (OpSetFailed jid p)) s = map_prod ResErr (\<lambda>s. s) (repo_SetFailed repo jid p s)"
| "repo_call repo (Lifecycle (OpFailActive p)) s =
     map_prod (\<lambda>(n, e). ResCount n e) (\<lambda>s. s) (repo_FailActive repo p s)"
| "repo_call repo (OpGetByID jid) s = map_prod ResJob (\<lambda>s. s) (repo_GetByID repo jid s)"
| "repo_call repo (OpDelete jid) s = map_prod ResErr (\<lambda>s. s) (repo_Delete repo jid s)"

fun repo_trace :: "'s JobRepository \<Rightarrow> client_op list \<Rightarrow> 's \<Rightarrow> repo_result list" where
  "repo_trace repo [] s = []"
| "repo_trace repo (op # ops) s =
     (case repo_call repo op s of (r, s') \<Rightarrow> r # repo_trace repo ops s')"

fun store_call :: "client_op \<Rightarrow> job_store \<Rightarrow> repo_result \<times> job_store" where
  "store_call (Lifecycle (OpSetRunning jid)) m =
     map_prod ResErr (\<lambda>s. s) (cas JobTransitionStart mark_running jid m)"
| "store_call (Lifecycle (OpSetSucceeded jid r)) m =
     map_prod ResErr (\<lambda>s. s) (cas JobTransitionSucceed (mark_succeeded r) jid m)"
| "store_call (Lifecycle (OpSetFailed jid p)) m =
     map_prod ResErr (\<lambda>s. s) (cas JobTransitionFail (mark_failed p) jid m)"
| "store_call (Lifecycle (OpFailActive p)) m =
     (ResCount (int (card {i. \<exists>j. m i = Some j \<and> active j})) None, \<lambda>i. map_option (fail_active p) (m i))"
| "store_call (OpGetByID jid) m =
     (ResJob (case m jid of None \<Rightarrow> Inl (Sentinel ErrJobNotFound) | Some j \<Rightarrow> Inr j), m)"
| "store_call (OpDelete jid) m =
     (ResErr (if m jid = None then Some (Sentinel ErrJobNotFound) else None), m(jid := None))"

fun store_trace :: "client_op list \<Rightarrow> job_store \<Rightarrow> repo_result list" where
  "store_trace [] m = []"
| "store_trace (op # ops) m = (case store_call op m of (r, m') \<Rightarrow> r # store_trace ops m')"

context job_repository begin

lemma call_refines:
  assumes "invar s" and "repo_call repo op s = (res, s')"
  shows "store_call op (abs s) = (res, abs s') \<and> invar s'"
proof (cases op)
  case (Lifecycle top)
  show ?thesis
  proof (cases top)
    case (OpSetRunning i)
    with Lifecycle assms set_running [OF assms(1), of i] invar_ops(1) [OF assms(1), of i] show ?thesis
      by (cases "repo_SetRunning repo i s") (simp add: eq_commute, metis map_prod_simp)
  next
    case (OpSetSucceeded i r)
    with Lifecycle assms set_succeeded [OF assms(1), of i r] invar_ops(2) [OF assms(1), of i r] show ?thesis
      by (cases "repo_SetSucceeded repo i r s") (simp add: eq_commute, metis map_prod_simp)
  next
    case (OpSetFailed i p)
    with Lifecycle assms set_failed [OF assms(1), of i p] invar_ops(3) [OF assms(1), of i p] show ?thesis
      by (cases "repo_SetFailed repo i p s") (simp add: eq_commute, metis map_prod_simp)
  next
    case (OpFailActive p)
    with Lifecycle assms fail_active [OF assms(1), of p] invar_ops(4) [OF assms(1), of p] show ?thesis
      by (cases "repo_FailActive repo p s") auto
  qed
next
  case (OpGetByID i)
  with assms get [OF assms(1), of i] show ?thesis by auto
next
  case (OpDelete i)
  with assms delete [OF assms(1), of i] invar_ops(5) [OF assms(1), of i] show ?thesis
    by (cases "repo_Delete repo i s") auto
qed

lemma trace_refines: "invar s \<Longrightarrow> repo_trace repo ops s = store_trace ops (abs s)"
  by (induction ops arbitrary: s) (auto dest: call_refines split: prod.splits)

lemma apply_invar: "invar s \<Longrightarrow> invar (repo_apply repo op s)"
  by (cases op) (simp_all add: invar_ops)

lemma apply_evolves:
  assumes "invar s" and "abs s k = Some j"
  shows "\<exists>j'. abs (repo_apply repo op s) k = Some j' \<and> job_evolves j j'"
proof (cases op)
  case (OpSetRunning i)
  with assms show ?thesis
    using cas_step [OF set_running [where jid = i, OF assms(1) surjective_pairing] assms(2)]
    by (auto intro: job_evolves_mark)
next
  case (OpSetSucceeded i r)
  with assms show ?thesis
    using cas_step [OF set_succeeded [where jid = i and r = r, OF assms(1) surjective_pairing] assms(2)]
    by (auto intro: job_evolves_mark)
next
  case (OpSetFailed i p)
  with assms show ?thesis
    using cas_step [OF set_failed [where jid = i and p = p, OF assms(1) surjective_pairing] assms(2)]
    by (auto intro: job_evolves_mark)
next
  case (OpFailActive p)
  obtain n e s' where "repo_FailActive repo p s = ((n, e), s')"
    by (metis surj_pair)
  with OpFailActive assms fail_active [OF assms(1) this] show ?thesis
    by (auto intro: job_evolves_fail_active)
qed

lemma run_evolves:
  "invar s \<Longrightarrow> abs s k = Some j \<Longrightarrow> \<exists>j'. abs (repo_run repo ops s) k = Some j' \<and> job_evolves j j'"
proof (induction ops arbitrary: s j)
  case (Cons op ops)
  then obtain j1 where "abs (repo_apply repo op s) k = Some j1" and 1: "job_evolves j j1"
    using apply_evolves by blast
  with Cons.IH [OF apply_invar [OF Cons.prems(1)]]
  obtain j2 where "abs (repo_run repo ops (repo_apply repo op s)) k = Some j2" "job_evolves j1 j2"
    by blast
  with 1 show ?case by (auto intro: job_evolves_trans)
qed simp

lemma run_invar: "invar s \<Longrightarrow> invar (repo_run repo ops s)"
  by (induction ops arbitrary: s) (simp_all add: apply_invar)

text \<open>After \<open>FailActive\<close> no job is active any more, whatever happened before.\<close>

lemma fail_active_clears:
  assumes "invar s" and "repo_FailActive repo p s = ((n, e), s')" and "abs s' k = Some j"
  shows "\<not> active j"
  using fail_active [OF assms(1,2)] assms(3)
  by auto

end

section \<open>The in-memory repository\<close>

record MemoryJobRepository =
  mj_jobs :: "(int64, Job) gomap"
  mj_nextID :: int64

definition NewMemoryJobRepository :: MemoryJobRepository where
  "NewMemoryJobRepository = \<lparr>mj_jobs = [], mj_nextID = 1\<rparr>"

text \<open>The deep copies: over values a copy is the value.\<close>

definition cloneJobProblem :: "JobProblem \<Rightarrow> JobProblem" where
  "cloneJobProblem p = p\<lparr>jp_InvalidParams := [] @ jp_InvalidParams p\<rparr>"

definition cloneJob :: "Job \<Rightarrow> Job" where
  "cloneJob j = j\<lparr>job_Result := (case job_Result j of None \<Rightarrow> None | Some r \<Rightarrow> Some r),
     job_Error := (case job_Error j of None \<Rightarrow> None
       | Some p \<Rightarrow> Some (p\<lparr>jp_InvalidParams := [] @ jp_InvalidParams p\<rparr>))\<rparr>"

definition MemoryJobRepository_Save ::
  "Job \<Rightarrow> MemoryJobRepository \<Rightarrow> (go_error option \<times> Job) \<times> MemoryJobRepository" where
  "MemoryJobRepository_Save job r =
     (let (job', next') = (if job_ID job = 0 then (job\<lparr>job_ID := mj_nextID r\<rparr>, wrap64 (mj_nextID r + 1))
                           else (job, mj_nextID r));
          j = cloneJob job'
      in ((None, job'), r\<lparr>mj_jobs := gm_update (job_ID j) j (mj_jobs r), mj_nextID := next'\<rparr>))"

definition MemoryJobRepository_GetAll ::
  "MemoryJobRepository \<Rightarrow> (go_error + Job list) \<times> MemoryJobRepository" where
  "MemoryJobRepository_GetAll r = (Inr (map cloneJob (gm_values (mj_jobs r))), r)"

definition MemoryJobRepository_GetByID ::
  "int64 \<Rightarrow> MemoryJobRepository \<Rightarrow> (go_error + Job) \<times> MemoryJobRepository" where
  "MemoryJobRepository_GetByID jid r =
     (case gm_lookup (mj_jobs r) jid of
        None \<Rightarrow> (Inl (Sentinel ErrJobNotFound), r)
      | Some j \<Rightarrow> (Inr (cloneJob j), r))"

definition MemoryJobRepository_Delete ::
  "int64 \<Rightarrow> MemoryJobRepository \<Rightarrow> go_error option \<times> MemoryJobRepository" where
  "MemoryJobRepository_Delete jid r =
     (case gm_lookup (mj_jobs r) jid of
        None \<Rightarrow> (Some (Sentinel ErrJobNotFound), r)
      | Some _ \<Rightarrow> (None, r\<lparr>mj_jobs := gm_delete jid (mj_jobs r)\<rparr>))"

definition MemoryJobRepository_transition ::
  "int64 \<Rightarrow> JobTransition \<Rightarrow> (Job \<Rightarrow> Job) \<Rightarrow> MemoryJobRepository \<Rightarrow> go_error option \<times> MemoryJobRepository" where
  "MemoryJobRepository_transition jid intent apply_fn r =
     (case gm_lookup (mj_jobs r) jid of
        None \<Rightarrow> (Some (Sentinel ErrJobNotFound), r)
      | Some job \<Rightarrow>
          (case JobTransitionFor intent of
             None \<Rightarrow> (Some (NewJobTransitionConflict jid (job_Status job)
                        \<lparr>spec_Intent = intent, spec_From = [], spec_To = JobStatusOther ''''\<rparr>), r)
           | Some spec \<Rightarrow>
               if \<not> CanTransitionJob (job_Status job) intent
               then (Some (NewJobTransitionConflict jid (job_Status job) spec), r)
               else (None, r\<lparr>mj_jobs := gm_update jid (apply_fn job) (mj_jobs r)\<rparr>)))"

definition MemoryJobRepository_SetRunning ::
  "int64 \<Rightarrow> MemoryJobRepository \<Rightarrow> go_error option \<times> MemoryJobRepository" where
  "MemoryJobRepository_SetRunning jid =
     MemoryJobRepository_transition jid JobTransitionStart
       (\<lambda>job. job\<lparr>job_Status := JobRunning, job_Result := None, job_Error := None\<rparr>)"

definition MemoryJobRepository_SetSucceeded ::
  "int64 \<Rightarrow> JobResult \<Rightarrow> MemoryJobRepository \<Rightarrow> go_error option \<times> MemoryJobRepository" where
  "MemoryJobRepository_SetSucceeded jid res =
     MemoryJobRepository_transition jid JobTransitionSucceed
       (\<lambda>job. job\<lparr>job_Status := JobSucceeded, job_Result := Some res, job_Error := None\<rparr>)"

definition MemoryJobRepository_SetFailed ::
  "int64 \<Rightarrow> JobProblem \<Rightarrow> MemoryJobRepository \<Rightarrow> go_error option \<times> MemoryJobRepository" where
  "MemoryJobRepository_SetFailed jid p =
     MemoryJobRepository_transition jid JobTransitionFail
       (\<lambda>job. job\<lparr>job_Status := JobFailed, job_Error := Some (cloneJobProblem p), job_Result := None\<rparr>)"

text \<open>The loop of \<open>FailActive\<close> over the stored jobs, with its counter.\<close>

fun fail_active_loop :: "JobProblem \<Rightarrow> (int64, Job) gomap \<Rightarrow> int \<Rightarrow> int \<times> (int64, Job) gomap" where
  "fail_active_loop p [] failed = (failed, [])"
| "fail_active_loop p ((k, job) # rest) failed =
     (if job_Status job \<noteq> JobQueued \<and> job_Status job \<noteq> JobRunning
      then (let (n, rest') = fail_active_loop p rest failed in (n, (k, job) # rest'))
      else (let (n, rest') = fail_active_loop p rest (failed + 1)
            in (n, (k, job\<lparr>job_Status := JobFailed, job_Error := Some (cloneJobProblem p),
                          job_Result := None\<rparr>) # rest')))"

definition MemoryJobRepository_FailActive ::
  "JobProblem \<Rightarrow> MemoryJobRepository \<Rightarrow> (int \<times> go_error option) \<times> MemoryJobRepository" where
  "MemoryJobRepository_FailActive p r =
     (let (failed, jobs') = fail_active_loop p (mj_jobs r) 0
      in ((failed, None), r\<lparr>mj_jobs := jobs'\<rparr>))"

definition memory_jobs :: "MemoryJobRepository JobRepository" where
  "memory_jobs = \<lparr>repo_GetAll = MemoryJobRepository_GetAll,
     repo_GetByID = MemoryJobRepository_GetByID, repo_Save = MemoryJobRepository_Save,
     repo_Delete = MemoryJobRepository_Delete, repo_SetRunning = MemoryJobRepository_SetRunning,
     repo_SetSucceeded = MemoryJobRepository_SetSucceeded,
     repo_SetFailed = MemoryJobRepository_SetFailed,
     repo_FailActive = MemoryJobRepository_FailActive\<rparr>"

section \<open>Its correctness\<close>

text \<open>
  The representation invariant: distinct keys, each job stored under its own identifier, and
  identifiers still to be handed out lie above every stored one, within the 64-bit range.
\<close>

definition mj_abs :: "MemoryJobRepository \<Rightarrow> job_store" where
  "mj_abs r = gm_lookup (mj_jobs r)"

definition mj_inv :: "MemoryJobRepository \<Rightarrow> bool" where
  "mj_inv r \<longleftrightarrow> gm_wf (mj_jobs r) \<and> 0 < mj_nextID r \<and> in_int64 (mj_nextID r) \<and>
     (\<forall>(k, j) \<in> set (mj_jobs r). k < mj_nextID r \<and> job_ID j = k)"

lemma cloneJobProblem_id [simp]: "cloneJobProblem p = p"
  by (simp add: cloneJobProblem_def)

lemma cloneJob_id [simp]: "cloneJob j = j"
  by (simp add: cloneJob_def split: option.splits)

lemma NewJobTransitionConflict_conflict:
  "JobTransitionFor intent = Some spec \<Longrightarrow> NewJobTransitionConflict jid st spec = conflict jid st intent"
  by (cases intent) (auto simp: NewJobTransitionConflict_def conflict_def)

lemma memory_transition_cas:
  "MemoryJobRepository_transition jid intent f r = (e, r') \<Longrightarrow>
     (e, mj_abs r') = cas intent f jid (mj_abs r) \<and> mj_nextID r' = mj_nextID r"
  by (cases "JobTransitionFor intent"; cases intent)
     (auto simp: MemoryJobRepository_transition_def cas_def mj_abs_def fun_eq_iff gomap_simps
        conflict_def NewJobTransitionConflict_def split: option.splits if_splits)

lemma memory_set_eqs:
  "MemoryJobRepository_SetRunning jid = MemoryJobRepository_transition jid JobTransitionStart mark_running"
  "MemoryJobRepository_SetSucceeded jid res =
     MemoryJobRepository_transition jid JobTransitionSucceed (mark_succeeded res)"
  "MemoryJobRepository_SetFailed jid p =
     MemoryJobRepository_transition jid JobTransitionFail (mark_failed p)"
  by (auto simp: MemoryJobRepository_SetRunning_def MemoryJobRepository_SetSucceeded_def
        MemoryJobRepository_SetFailed_def mark_running_def [abs_def] mark_succeeded_def [abs_def]
        mark_failed_def [abs_def])

lemma fail_active_loop_spec:
  "fail_active_loop p m n = (n + int (length (filter (\<lambda>(_, j). active j) m)), gm_map (fail_active p) m)"
  by (induction p m n rule: fail_active_loop.induct)
     (auto simp: gm_map_def fail_active_def active_def mark_defs)

lemma active_count:
  assumes "gm_wf m"
  shows "length (filter (\<lambda>(_, j). active j) m) = card {i. \<exists>j. gm_lookup m i = Some j \<and> active j}"
proof -
  let ?f = "filter (\<lambda>(_, j). active j) m"
  have d: "distinct (map fst ?f)"
    using assms by (simp add: gm_wf_def distinct_map_filter)
  have "{i. \<exists>j. gm_lookup m i = Some j \<and> active j} = fst ` set ?f"
    using assms by (force simp: gm_wf_def)
  then show ?thesis
    using distinct_card [OF d] by simp
qed

lemma mj_inv_lookup:
  "mj_inv r \<longleftrightarrow> gm_wf (mj_jobs r) \<and> 0 < mj_nextID r \<and> in_int64 (mj_nextID r) \<and>
     (\<forall>k j. gm_lookup (mj_jobs r) k = Some j \<longrightarrow> k < mj_nextID r \<and> job_ID j = k)"
  by (auto simp: mj_inv_def gm_wf_def dest: map_of_SomeD)

lemma mj_inv_New: "mj_inv NewMemoryJobRepository"
  by (simp add: mj_inv_def NewMemoryJobRepository_def in_int64_def int64_min_def int64_max_def)

lemma mj_inv_transition:
  "mj_inv r \<Longrightarrow> (\<And>j. job_ID (f j) = job_ID j) \<Longrightarrow>
     mj_inv (snd (MemoryJobRepository_transition jid intent f r))"
  by (auto simp: MemoryJobRepository_transition_def mj_inv_lookup gomap_simps split: option.splits)

lemma mj_inv_Delete: "mj_inv r \<Longrightarrow> mj_inv (snd (MemoryJobRepository_Delete jid r))"
  by (auto simp: MemoryJobRepository_Delete_def mj_inv_lookup gomap_simps split: option.splits)

lemma fail_active_ID [simp]: "job_ID (fail_active p j) = job_ID j"
  by (simp add: fail_active_def)

lemma mj_inv_FailActive: "mj_inv r \<Longrightarrow> mj_inv (snd (MemoryJobRepository_FailActive p r))"
  by (auto simp: MemoryJobRepository_FailActive_def fail_active_loop_spec mj_inv_lookup gomap_simps)

text \<open>\<open>Save\<close> keeps the invariant as long as the counter is not exhausted and an explicit
  identifier is one that was handed out before.\<close>

lemma mj_inv_Save:
  assumes "mj_inv r" and "job_ID job < mj_nextID r" and "mj_nextID r < int64_max"
  shows "mj_inv (snd (MemoryJobRepository_Save job r))"
proof -
  have "wrap64 (mj_nextID r + 1) = mj_nextID r + 1"
    using assms by (intro wrap64_in_range) (auto simp: mj_inv_def in_int64_def int64_min_def)
  moreover have "in_int64 (mj_nextID r + 1)"
    using assms by (auto simp: mj_inv_def in_int64_def)
  ultimately show ?thesis
    using assms
    by (fastforce simp: MemoryJobRepository_Save_def mj_inv_lookup gomap_simps)
qed

lemma memory_GetByID_spec:
  "MemoryJobRepository_GetByID jid r =
     ((case mj_abs r jid of None \<Rightarrow> Inl (Sentinel ErrJobNotFound) | Some j \<Rightarrow> Inr j), r)"
  by (simp add: MemoryJobRepository_GetByID_def mj_abs_def split: option.splits)

lemma mj_fresh: "mj_inv r \<Longrightarrow> mj_abs r (mj_nextID r) = None"
  unfolding mj_inv_lookup mj_abs_def by (metis less_irrefl not_Some_eq)

lemma memory_Save_new:
  assumes "mj_inv r" and "job_ID job = 0" and "MemoryJobRepository_Save job r = ((e, job'), r')"
  shows "e = None \<and> job' = job\<lparr>job_ID := mj_nextID r\<rparr> \<and> mj_abs r (mj_nextID r) = None \<and>
    mj_abs r' = (mj_abs r)(mj_nextID r \<mapsto> job')"
  using assms mj_fresh [of r]
  by (auto simp: MemoryJobRepository_Save_def mj_abs_def fun_eq_iff gomap_simps)

interpretation mem: job_repository memory_jobs mj_abs mj_inv
proof (unfold_locales, goal_cases)
  case (1 s i)
  then show ?case by (simp add: memory_jobs_def memory_GetByID_spec)
next
  case (2 s i e s')
  then show ?case
    by (simp add: memory_jobs_def memory_set_eqs memory_transition_cas)
next
  case (3 s i r e s')
  then show ?case by (simp add: memory_jobs_def memory_set_eqs memory_transition_cas)
next
  case (4 s i p e s')
  then show ?case by (simp add: memory_jobs_def memory_set_eqs memory_transition_cas)
next
  case (5 s p n e s')
  then show ?case
    by (auto simp: memory_jobs_def MemoryJobRepository_FailActive_def fail_active_loop_spec mj_abs_def
        gomap_simps active_count mj_inv_def)
next
  case (6 s i e s')
  then show ?case
    by (auto simp: memory_jobs_def MemoryJobRepository_Delete_def mj_abs_def fun_eq_iff gomap_simps
        split: option.splits)
next
  case (7 s job job' s')
  then show ?case using memory_Save_new [of s job None job' s'] by (auto simp: memory_jobs_def)
qed (simp_all add: memory_jobs_def memory_set_eqs mj_inv_transition mj_inv_FailActive mj_inv_Delete)

section \<open>Properties\<close>

text \<open>C4: whatever sequence of lifecycle operations (\<open>SetRunning\<close>, \<open>SetSucceeded\<close>, \<open>SetFailed\<close>,
  \<open>FailActive\<close>, with any arguments) runs on the in-memory repository, a stored job stays stored
  under its identifier and owner, its status only moves along the declared transitions, and a job
  that is terminal (with its result or problem) is never changed again.\<close>

theorem memory_job_lifecycle:
  assumes "mj_inv r" and "gm_lookup (mj_jobs r) k = Some j"
  shows "\<exists>j'. gm_lookup (mj_jobs (repo_run memory_jobs ops r)) k = Some j' \<and>
    job_step\<^sup>*\<^sup>* (job_Status j) (job_Status j') \<and> job_ID j' = job_ID j \<and>
    job_OwnerUserID j' = job_OwnerUserID j \<and> (IsTerminal (job_Status j) \<longrightarrow> j' = j) \<and>
    (job_ok j \<longrightarrow> job_ok j')"
  using mem.run_evolves [OF assms(1), of k j ops] assms(2) by (auto simp: mj_abs_def job_evolves_def)

text \<open>A transition of the in-memory repository is a compare-and-set.  A missing job is
  \<open>ErrJobNotFound\<close>, an illegal transition is a conflict error that names the job, both statuses and
  the transition, and neither changes the store; a legal one rewrites exactly that job.\<close>

lemma memory_transition_spec:
  assumes "JobTransitionFor intent = Some spec"
  shows "MemoryJobRepository_transition jid intent f r =
    (case gm_lookup (mj_jobs r) jid of
       None \<Rightarrow> (Some (Sentinel ErrJobNotFound), r)
     | Some job \<Rightarrow>
         if List.member (spec_From spec) (job_Status job)
         then (None, r\<lparr>mj_jobs := gm_update jid (f job) (mj_jobs r)\<rparr>)
         else (Some (JobTransitionConflictError jid (job_Status job) (spec_To spec) intent), r))"
  using assms
  by (cases intent)
     (auto simp: MemoryJobRepository_transition_def NewJobTransitionConflict_def split: option.splits)

text \<open>\<open>FailActive\<close> of the in-memory repository returns the number of queued and running jobs,
  leaves none of them active, and changes no other job.\<close>

lemma memory_FailActive_spec:
  assumes "mj_inv r" and "MemoryJobRepository_FailActive p r = ((n, e), r')"
  shows "e = None \<and> n = int (card {i. \<exists>j. gm_lookup (mj_jobs r) i = Some j \<and> active j}) \<and>
    (\<forall>i j. gm_lookup (mj_jobs r) i = Some j \<longrightarrow>
       gm_lookup (mj_jobs r') i = Some (if active j then mark_failed p j else j)) \<and>
    (\<forall>i j'. gm_lookup (mj_jobs r') i = Some j' \<longrightarrow> \<not> active j')"
proof -
  have run: "repo_FailActive memory_jobs p r = ((n, e), r')"
    using assms(2) by (simp add: memory_jobs_def)
  note spec = mem.fail_active [OF assms(1) run, unfolded mj_abs_def]
  show ?thesis
  proof (intro conjI allI impI)
    show "gm_lookup (mj_jobs r') i = Some (if active j then mark_failed p j else j)"
      if "gm_lookup (mj_jobs r) i = Some j" for i j
      using that spec by (simp add: fail_active_def)
    show "\<not> active j'" if "gm_lookup (mj_jobs r') i = Some j'" for i j'
      by (rule mem.fail_active_clears [OF assms(1) run, of i]) (simp add: mj_abs_def that)
  qed (use spec in blast)+
qed

text \<open>A repository with one queued and one succeeded job.\<close>

definition sample_job :: "int64 \<Rightarrow> JobStatus \<Rightarrow> JobResult option \<Rightarrow> Job" where
  "sample_job i st res = \<lparr>job_ID = i, job_Status = st, job_Result = res, job_Error = None,
     job_OwnerUserID = 7\<rparr>"

definition sample_repo :: MemoryJobRepository where
  "sample_repo = \<lparr>mj_jobs = [(1, sample_job 1 JobQueued None),
     (2, sample_job 2 JobSucceeded (Some \<lparr>jr_UserID = 5\<rparr>))], mj_nextID = 3\<rparr>"

lemma sample_repo_inv: "mj_inv sample_repo"
  by (simp add: mj_inv_def sample_repo_def sample_job_def gm_wf_def in_int64_def int64_min_def int64_max_def)

lemma sample_lookup [simp]:
  "gm_lookup (mj_jobs sample_repo) 1 = Some (sample_job 1 JobQueued None)"
  "gm_lookup (mj_jobs sample_repo) 2 = Some (sample_job 2 JobSucceeded (Some \<lparr>jr_UserID = 5\<rparr>))"
  by (simp_all add: sample_repo_def)

theorem memory_job_lifecycle_witness:
  "\<exists>j'. gm_lookup (mj_jobs (repo_run memory_jobs
       [OpSetRunning 2, OpSetRunning 1, OpFailActive zero_JobProblem] sample_repo)) 2 = Some j' \<and>
     j' = sample_job 2 JobSucceeded (Some \<lparr>jr_UserID = 5\<rparr>)"
  using memory_job_lifecycle [OF sample_repo_inv sample_lookup(2),
      of "[OpSetRunning 2, OpSetRunning 1, OpFailActive zero_JobProblem]"]
  by (auto simp: IsTerminal_def sample_job_def)

end
