(* ===== verification/JobSQL.thy ===== *)
theory JobSQL
  imports JobRepo
begin

text \<open>
  The PostgreSQL job repository (\<open>internal/store/jobrepo/sqlx.go\<close>) over the table of
  \<open>migrations/*_jobs.up.sql\<close>.  The statements of the source are functions on the table; what
  the driver and the server do beyond them is a parameter: a call can fail before or after the
  statement took effect (\<open>sql_env\<close>), and the JSON encoding of the error payload with the
  normalisation of a \<open>jsonb\<close> column is a codec whose round trip is a named hypothesis.
\<close>

section \<open>The table\<close>

text \<open>The columns the program reads; the time stamps are written by the statements and never read.\<close>

record db_job =
  d_status :: string
  d_owner_user_id :: int64
  d_result_user_id :: "int64 option"
  d_error_payload :: "string option"

record jobs_table =
  t_rows :: "(int64, db_job) gomap"
  t_serial :: int64

definition status_check :: "string \<Rightarrow> bool" where
  "status_check st \<longleftrightarrow> st \<in> {''queued'', ''running'', ''succeeded'', ''failed''}"

text \<open>The PostgreSQL error code of a violated \<open>CHECK\<close> constraint.\<close>

definition check_violation :: go_error where
  "check_violation = PgError ''23514''"

section \<open>The driver\<close>

datatype sql_fault = NoFault | FaultBefore go_error | FaultAfter go_error

record sql_env =
  env_exec :: sql_fault
  env_rows :: "go_error option"
  env_get :: "go_error option"

definition no_fault :: sql_env where
  "no_fault = \<lparr>env_exec = NoFault, env_rows = None, env_get = None\<rparr>"

text \<open>A statement either violates a constraint or yields a value and the new table.\<close>

type_synonym ('a, 't) table_statement = "'t \<Rightarrow> go_error + 'a \<times> 't"
type_synonym 'a statement = "('a, jobs_table) table_statement"

definition run_statement :: "sql_fault \<Rightarrow> ('a, 't) table_statement \<Rightarrow> 't \<Rightarrow> (go_error + 'a) \<times> 't" where
  "run_statement fault q t =
     (case fault of
        FaultBefore e \<Rightarrow> (Inl e, t)
      | FaultAfter e \<Rightarrow> (Inl e, (case q t of Inl _ \<Rightarrow> t | Inr (_, t') \<Rightarrow> t'))
      | NoFault \<Rightarrow> (case q t of Inl e \<Rightarrow> (Inl e, t) | Inr (v, t') \<Rightarrow> (Inr v, t')))"

text \<open>\<open>UPDATE jobs SET ... WHERE ...\<close>: the number of matching rows and the table with them rewritten.\<close>

definition update_where :: "(int64 \<Rightarrow> db_job \<Rightarrow> bool) \<Rightarrow> (db_job \<Rightarrow> db_job) \<Rightarrow> int statement" where
  "update_where p f t =
     (if list_all (\<lambda>(k, d). p k d \<longrightarrow> status_check (d_status (f d))) (t_rows t)
      then Inr (int (length (filter (\<lambda>(k, d). p k d) (t_rows t))),
                t\<lparr>t_rows := map (\<lambda>(k, d). (k, if p k d then f d else d)) (t_rows t)\<rparr>)
      else Inl check_violation)"

section \<open>The statements of the source\<close>

definition qInsertJob :: "string \<Rightarrow> int64 \<Rightarrow> int64 option \<Rightarrow> string option \<Rightarrow> int64 statement" where
  "qInsertJob st own res err t =
     (if status_check st
      then Inr (t_serial t,
        t\<lparr>t_rows := gm_update (t_serial t) \<lparr>d_status = st, d_owner_user_id = own,
                      d_result_user_id = res, d_error_payload = err\<rparr> (t_rows t),
          t_serial := t_serial t + 1\<rparr>)
      else Inl check_violation)"

definition qUpdateJob :: "string \<Rightarrow> int64 \<Rightarrow> int64 option \<Rightarrow> string option \<Rightarrow> int64 \<Rightarrow> int statement" where
  "qUpdateJob st own res err jid =
     update_where (\<lambda>k d. k = jid)
       (\<lambda>d. d\<lparr>d_status := st, d_owner_user_id := own, d_result_user_id := res, d_error_payload := err\<rparr>)"

definition qSetJobRunning :: "string \<Rightarrow> int64 \<Rightarrow> string \<Rightarrow> int statement" where
  "qSetJobRunning st jid from =
     update_where (\<lambda>k d. k = jid \<and> d_status d = from)
       (\<lambda>d. d\<lparr>d_status := st, d_result_user_id := None, d_error_payload := None\<rparr>)"

definition qSetJobSucceeded :: "string \<Rightarrow> int64 \<Rightarrow> int64 \<Rightarrow> string \<Rightarrow> int statement" where
  "qSetJobSucceeded st uid jid from =
     update_where (\<lambda>k d. k = jid \<and> d_status d = from)
       (\<lambda>d. d\<lparr>d_status := st, d_result_user_id := Some uid, d_error_payload := None\<rparr>)"

definition qSetJobFailed :: "string \<Rightarrow> string \<Rightarrow> int64 \<Rightarrow> string \<Rightarrow> string \<Rightarrow> int statement" where
  "qSetJobFailed st payload jid from1 from2 =
     update_where (\<lambda>k d. k = jid \<and> d_status d \<in> {from1, from2})
       (\<lambda>d. d\<lparr>d_status := st, d_result_user_id := None, d_error_payload := Some payload\<rparr>)"

definition qFailActiveJobs :: "string \<Rightarrow> string \<Rightarrow> string \<Rightarrow> string \<Rightarrow> int statement" where
  "qFailActiveJobs st payload from1 from2 =
     update_where (\<lambda>k d. d_status d \<in> {from1, from2})
       (\<lambda>d. d\<lparr>d_status := st, d_result_user_id := None, d_error_payload := Some payload\<rparr>)"

definition qDeleteJob :: "int64 \<Rightarrow> int statement" where
  "qDeleteJob jid t =
     Inr (if gm_lookup (t_rows t) jid = None then 0 else 1, t\<lparr>t_rows := gm_delete jid (t_rows t)\<rparr>)"

definition qGetAllJobs :: "jobs_table \<Rightarrow> (int64 \<times> db_job) list" where
  "qGetAllJobs t = sort_key fst (t_rows t)"

section \<open>Rows and entities\<close>

record jobRow =
  row_ID :: int64
  row_Status :: string
  row_OwnerUserID :: int64
  row_ResultUserID :: "int64 option"
  row_ErrorPayload :: string

text \<open>Scanning a row: a \<open>NULL\<close> payload is a nil byte slice.\<close>

definition scan_row :: "int64 \<Rightarrow> db_job \<Rightarrow> jobRow" where
  "scan_row k d = \<lparr>row_ID = k, row_Status = d_status d, row_OwnerUserID = d_owner_user_id d,
     row_ResultUserID = d_result_user_id d,
     row_ErrorPayload = (case d_error_payload d of None \<Rightarrow> [] | Some b \<Rightarrow> b)\<rparr>"

record json_codec =
  json_Marshal :: "JobProblem \<Rightarrow> go_error + string"
  jsonb_store :: "string \<Rightarrow> string"
  json_Unmarshal :: "string \<Rightarrow> go_error + JobProblem"

text \<open>The hypothesis on the codec: what is encoded and stored is decoded to the same problem.\<close>

definition codec_ok :: "json_codec \<Rightarrow> JobProblem \<Rightarrow> bool" where
  "codec_ok c p \<longleftrightarrow> (case json_Marshal c p of Inl _ \<Rightarrow> False
     | Inr b \<Rightarrow> jsonb_store c b \<noteq> [] \<and> json_Unmarshal c (jsonb_store c b) = Inr p)"

definition toEntityJob :: "json_codec \<Rightarrow> jobRow \<Rightarrow> go_error + Job" where
  "toEntityJob c row =
     (let job = \<lparr>job_ID = row_ID row, job_Status = JobStatus_of_string (row_Status row),
                 job_Result = map_option (\<lambda>u. \<lparr>jr_UserID = u\<rparr>) (row_ResultUserID row),
                 job_Error = None, job_OwnerUserID = row_OwnerUserID row\<rparr>
      in if row_ErrorPayload row \<noteq> []
         then (case json_Unmarshal c (row_ErrorPayload row) of
                 Inl e \<Rightarrow> Inl e
               | Inr p \<Rightarrow> Inr (job\<lparr>job_Error := Some p\<rparr>))
         else Inr job)"

definition toNullInt64 :: "JobResult option \<Rightarrow> int64 option" where
  "toNullInt64 result = (case result of None \<Rightarrow> None | Some r \<Rightarrow> Some (jr_UserID r))"

definition toJSONBytes :: "json_codec \<Rightarrow> JobProblem option \<Rightarrow> go_error + string option" where
  "toJSONBytes c problem =
     (case problem of
        None \<Rightarrow> Inr None
      | Some p \<Rightarrow> (case json_Marshal c p of Inl e \<Rightarrow> Inl e | Inr b \<Rightarrow> Inr (Some b)))"

definition mapJobRepoErr :: "go_error \<Rightarrow> go_error" where
  "mapJobRepoErr err =
     (if errors_Is err Sql_ErrNoRows then Sentinel ErrJobNotFound
      else if errors_Is err ContextCanceled \<or> errors_Is err ContextDeadlineExceeded then err
      else err)"

section \<open>The repository\<close>

fun toEntityJobs :: "json_codec \<Rightarrow> (int64 \<times> db_job) list \<Rightarrow> go_error + Job list" where
  "toEntityJobs c [] = Inr []"
| "toEntityJobs c ((k, d) # rows) =
     (case toEntityJob c (scan_row k d) of
        Inl e \<Rightarrow> Inl e
      | Inr job \<Rightarrow> (case toEntityJobs c rows of Inl e \<Rightarrow> Inl e | Inr js \<Rightarrow> Inr (job # js)))"

definition SQLXJobRepository_GetAll ::
  "json_codec \<Rightarrow> sql_env \<Rightarrow> jobs_table \<Rightarrow> (go_error + Job list) \<times> jobs_table" where
  "SQLXJobRepository_GetAll c env t =
     (case env_get env of
        Some e \<Rightarrow> (Inl (mapJobRepoErr e), t)
      | None \<Rightarrow>
          (case toEntityJobs c (qGetAllJobs t) of
             Inl e \<Rightarrow> (Inl e, t)
           | Inr js \<Rightarrow> (case env_rows env of Some e \<Rightarrow> (Inl (mapJobRepoErr e), t) | None \<Rightarrow> (Inr js, t))))"

text \<open>\<open>GetContext\<close>: the driver's error, or \<open>sql.ErrNoRows\<close> when no row matches.\<close>

definition get_row :: "sql_env \<Rightarrow> int64 \<Rightarrow> jobs_table \<Rightarrow> go_error + db_job" where
  "get_row env jid t =
     (case env_get env of
        Some e \<Rightarrow> Inl e
      | None \<Rightarrow> (case gm_lookup (t_rows t) jid of None \<Rightarrow> Inl (Sentinel Sql_ErrNoRows) | Some d \<Rightarrow> Inr d))"

definition SQLXJobRepository_GetByID ::
  "json_codec \<Rightarrow> sql_env \<Rightarrow> int64 \<Rightarrow> jobs_table \<Rightarrow> (go_error + Job) \<times> jobs_table" where
  "SQLXJobRepository_GetByID c env jid t =
     (case get_row env jid t of
        Inl e \<Rightarrow> (Inl (mapJobRepoErr e), t)
      | Inr d \<Rightarrow> (toEntityJob c (scan_row jid d), t))"

definition transitionConflictOrNotFound :: "sql_env \<Rightarrow> int64 \<Rightarrow> JobTransition \<Rightarrow> jobs_table \<Rightarrow> go_error" where
  "transitionConflictOrNotFound env jid intent t =
     (case get_row env jid t of
        Inl e \<Rightarrow> mapJobRepoErr e
      | Inr d \<Rightarrow>
          (case JobTransitionFor intent of
             None \<Rightarrow> NewJobTransitionConflict jid (JobStatus_of_string (d_status d))
                       \<lparr>spec_Intent = intent, spec_From = [], spec_To = JobStatusOther ''''\<rparr>
           | Some spec \<Rightarrow> NewJobTransitionConflict jid (JobStatus_of_string (d_status d)) spec))"

text \<open>The common tail of the methods that run an \<open>UPDATE\<close> or \<open>DELETE\<close> and look at the number of rows.\<close>

definition exec_rows ::
  "sql_env \<Rightarrow> int statement \<Rightarrow> (jobs_table \<Rightarrow> go_error) \<Rightarrow> jobs_table \<Rightarrow> go_error option \<times> jobs_table" where
  "exec_rows env q on_zero t =
     (case run_statement (env_exec env) q t of
        (Inl e, t') \<Rightarrow> (Some (mapJobRepoErr e), t')
      | (Inr n, t') \<Rightarrow>
          (case env_rows env of
             Some e \<Rightarrow> (Some e, t')
           | None \<Rightarrow> if n = 0 then (Some (on_zero t'), t') else (None, t')))"

definition SQLXJobRepository_Save ::
  "json_codec \<Rightarrow> sql_env \<Rightarrow> Job \<Rightarrow> jobs_table \<Rightarrow> (go_error option \<times> Job) \<times> jobs_table" where
  "SQLXJobRepository_Save c env job t =
     (case toJSONBytes c (job_Error job) of
        Inl e \<Rightarrow> ((Some e, job), t)
      | Inr payload \<Rightarrow>
          if job_ID job = 0 then
            (case run_statement (env_exec env)
                    (qInsertJob (JobStatus_string (job_Status job)) (job_OwnerUserID job)
                       (toNullInt64 (job_Result job)) (map_option (jsonb_store c) payload)) t of
               (Inl e, t') \<Rightarrow> ((Some (mapJobRepoErr e), job), t')
             | (Inr newid, t') \<Rightarrow> ((None, job\<lparr>job_ID := newid\<rparr>), t'))
          else
            (case exec_rows env
                    (qUpdateJob (JobStatus_string (job_Status job)) (job_OwnerUserID job)
                       (toNullInt64 (job_Result job)) (map_option (jsonb_store c) payload) (job_ID job))
                    (\<lambda>_. Sentinel ErrJobNotFound) t of
               (e, t') \<Rightarrow> ((e, job), t')))"

definition SQLXJobRepository_Delete ::
  "sql_env \<Rightarrow> int64 \<Rightarrow> jobs_table \<Rightarrow> go_error option \<times> jobs_table" where
  "SQLXJobRepository_Delete env jid = exec_rows env (qDeleteJob jid) (\<lambda>_. Sentinel ErrJobNotFound)"

definition SQLXJobRepository_SetRunning ::
  "sql_env \<Rightarrow> int64 \<Rightarrow> jobs_table \<Rightarrow> go_error option \<times> jobs_table" where
  "SQLXJobRepository_SetRunning env jid =
     exec_rows env (qSetJobRunning (JobStatus_string JobRunning) jid (JobStatus_string JobQueued))
       (transitionConflictOrNotFound env jid JobTransitionStart)"

definition SQLXJobRepository_SetSucceeded ::
  "sql_env \<Rightarrow> int64 \<Rightarrow> JobResult \<Rightarrow> jobs_table \<Rightarrow> go_error option \<times> jobs_table" where
  "SQLXJobRepository_SetSucceeded env jid res =
     exec_rows env
       (qSetJobSucceeded (JobStatus_string JobSucceeded) (jr_UserID res) jid (JobStatus_string JobRunning))
       (transitionConflictOrNotFound env jid JobTransitionSucceed)"

definition SQLXJobRepository_SetFailed ::
  "json_codec \<Rightarrow> sql_env \<Rightarrow> int64 \<Rightarrow> JobProblem \<Rightarrow> jobs_table \<Rightarrow> go_error option \<times> jobs_table" where
  "SQLXJobRepository_SetFailed c env jid p t =
     (case json_Marshal c p of
        Inl e \<Rightarrow> (Some e, t)
      | Inr payload \<Rightarrow>
          exec_rows env
            (qSetJobFailed (JobStatus_string JobFailed) (jsonb_store c payload) jid
               (JobStatus_string JobQueued) (JobStatus_string JobRunning))
            (transitionConflictOrNotFound env jid JobTransitionFail) t)"

definition SQLXJobRepository_FailActive ::
  "json_codec \<Rightarrow> sql_env \<Rightarrow> JobProblem \<Rightarrow> jobs_table \<Rightarrow> (int \<times> go_error option) \<times> jobs_table" where
  "SQLXJobRepository_FailActive c env p t =
     (case json_Marshal c p of
        Inl e \<Rightarrow> ((0, Some e), t)
      | Inr payload \<Rightarrow>
          (case run_statement (env_exec env)
                  (qFailActiveJobs (JobStatus_string JobFailed) (jsonb_store c payload)
                     (JobStatus_string JobQueued) (JobStatus_string JobRunning)) t of
             (Inl e, t') \<Rightarrow> ((0, Some (mapJobRepoErr e)), t')
           | (Inr n, t') \<Rightarrow> (case env_rows env of Some e \<Rightarrow> ((0, Some e), t') | None \<Rightarrow> ((n, None), t'))))"

definition sql_jobs :: "json_codec \<Rightarrow> jobs_table JobRepository" where
  "sql_jobs c = \<lparr>repo_GetAll = SQLXJobRepository_GetAll c no_fault,
     repo_GetByID = SQLXJobRepository_GetByID c no_fault,
     repo_Save = SQLXJobRepository_Save c no_fault,
     repo_Delete = SQLXJobRepository_Delete no_fault,
     repo_SetRunning = SQLXJobRepository_SetRunning no_fault,
     repo_SetSucceeded = SQLXJobRepository_SetSucceeded no_fault,
     repo_SetFailed = SQLXJobRepository_SetFailed c no_fault,
     repo_FailActive = SQLXJobRepository_FailActive c no_fault\<rparr>"

section \<open>Refinement\<close>

text \<open>The stored rows as an abstract store, and the invariant: distinct positive identifiers below
  the serial, checked statuses and payloads that decode.\<close>

definition decoded :: "json_codec \<Rightarrow> int64 \<Rightarrow> db_job \<Rightarrow> Job option" where
  "decoded c k d = (case toEntityJob c (scan_row k d) of Inl _ \<Rightarrow> None | Inr j \<Rightarrow> Some j)"

definition sq_abs :: "json_codec \<Rightarrow> jobs_table \<Rightarrow> job_store" where
  "sq_abs c t k = (case gm_lookup (t_rows t) k of None \<Rightarrow> None | Some d \<Rightarrow> decoded c k d)"

definition row_ok :: "json_codec \<Rightarrow> int64 \<Rightarrow> int64 \<Rightarrow> db_job \<Rightarrow> bool" where
  "row_ok c serial k d \<longleftrightarrow> 0 < k \<and> k < serial \<and> status_check (d_status d) \<and> decoded c k d \<noteq> None"

definition sq_inv :: "json_codec \<Rightarrow> jobs_table \<Rightarrow> bool" where
  "sq_inv c t \<longleftrightarrow> gm_wf (t_rows t) \<and> 0 < t_serial t \<and>
     list_all (\<lambda>(k, d). row_ok c (t_serial t) k d) (t_rows t)"

lemma gm_lookup_rewrite:
  "gm_lookup (map (\<lambda>(k, d). (k, g k d)) m) i = map_option (g i) (gm_lookup m i)"
  by (induction m) auto

lemma gm_wf_rewrite [simp]: "gm_wf (map (\<lambda>(k, d). (k, g k d)) m) \<longleftrightarrow> gm_wf m"
  by (simp add: gm_wf_def comp_def case_prod_beta)

lemma count_key:
  "gm_wf m \<Longrightarrow> length (filter (\<lambda>(k, d). k = i \<and> P d) m) =
     (case gm_lookup m i of None \<Rightarrow> 0 | Some d \<Rightarrow> if P d then 1 else 0)"
proof (induction m)
  case (Cons a m)
  obtain k d where a: "a = (k, d)" by force
  have wf: "gm_wf m" and k: "gm_lookup m k = None"
    using Cons.prems a by (auto simp: gm_wf_def gm_lookup_None)
  show ?case
    using Cons.IH [OF wf] k a by (auto split: option.splits)
qed simp

lemma gm_all_lookup:
  "gm_wf m \<Longrightarrow> list_all (\<lambda>(k, d). Q k d) m \<longleftrightarrow> (\<forall>k d. gm_lookup m k = Some d \<longrightarrow> Q k d)"
  by (auto simp: list_all_iff gm_wf_def dest: map_of_SomeD)

lemma sq_inv_lookup:
  "sq_inv c t \<longleftrightarrow> gm_wf (t_rows t) \<and> 0 < t_serial t \<and>
     (\<forall>k d. gm_lookup (t_rows t) k = Some d \<longrightarrow> row_ok c (t_serial t) k d)"
  using gm_all_lookup [of "t_rows t" "row_ok c (t_serial t)"] by (auto simp: sq_inv_def)

lemma sq_abs_Some:
  "sq_inv c t \<Longrightarrow> gm_lookup (t_rows t) k = Some d \<Longrightarrow>
     \<exists>j. decoded c k d = Some j \<and> sq_abs c t k = Some j \<and> status_check (d_status d)"
  by (auto simp: sq_inv_lookup row_ok_def sq_abs_def)

lemma sq_abs_None: "sq_inv c t \<Longrightarrow> sq_abs c t k = None \<longleftrightarrow> gm_lookup (t_rows t) k = None"
  using sq_abs_Some [of c t k] by (auto simp: sq_abs_def split: option.splits)

lemma decoded_fields:
  "decoded c k d = Some j \<Longrightarrow> job_ID j = k \<and> job_Status j = JobStatus_of_string (d_status d) \<and>
     job_OwnerUserID j = d_owner_user_id d"
  by (auto simp: decoded_def toEntityJob_def scan_row_def Let_def split: sum.splits if_splits option.splits)

text \<open>An \<open>UPDATE\<close> guarded by the identifier and the allowed source statuses is a compare-and-set.\<close>

lemma exec_update_cas:
  assumes inv: "sq_inv c t"
    and run: "exec_rows no_fault (update_where (\<lambda>k d. k = jid \<and> P d) f)
               (transitionConflictOrNotFound no_fault jid intent) t = (e, t')"
    and guard: "\<And>d. status_check (d_status d) \<Longrightarrow>
               P d \<longleftrightarrow> CanTransitionJob (JobStatus_of_string (d_status d)) intent"
    and writes: "\<And>d j. decoded c jid d = Some j \<Longrightarrow> decoded c jid (f d) = Some (g j)"
    and checked: "\<And>d. status_check (d_status (f d))"
    and spec: "JobTransitionFor intent = Some spec"
  shows "(e, sq_abs c t') = cas intent g jid (sq_abs c t) \<and> sq_inv c t'"
proof (cases "gm_lookup (t_rows t) jid")
  case None
  have none: "(jid, d) \<notin> set (t_rows t)" for d
    using None by (force simp: gm_lookup_None)
  have count: "filter (\<lambda>(k, d). k = jid \<and> P d) (t_rows t) = []"
    using none by (auto simp: filter_empty_conv)
  have rows: "map (\<lambda>(k, d). (k, if k = jid \<and> P d then f d else d)) (t_rows t) = t_rows t"
    using none by (auto intro!: map_idI)
  from run count rows None show ?thesis
    using inv sq_abs_None [OF inv, of jid] checked
    by (auto simp: exec_rows_def run_statement_def update_where_def no_fault_def list_all_iff
        transitionConflictOrNotFound_def get_row_def mapJobRepoErr_def cas_def split: if_splits)
next
  case (Some d)
  obtain j where j: "decoded c jid d = Some j" "sq_abs c t jid = Some j" "status_check (d_status d)"
    using sq_abs_Some [OF inv Some] by blast
  have st: "job_Status j = JobStatus_of_string (d_status d)"
    using decoded_fields [OF j(1)] by simp
  have wf: "gm_wf (t_rows t)"
    using inv by (simp add: sq_inv_def)
  define t2 where "t2 = t\<lparr>t_rows := map (\<lambda>(k, d). (k, if k = jid \<and> P d then f d else d)) (t_rows t)\<rparr>"
  have abs2: "sq_abs c t2 = (if P d then (sq_abs c t)(jid \<mapsto> g j) else sq_abs c t)"
    using Some j(1,2) writes [OF j(1)]
    by (auto simp: fun_eq_iff t2_def sq_abs_def gm_lookup_rewrite split: option.splits)
  have inv2: "sq_inv c t2"
    using inv Some writes checked j(1)
    by (auto simp: sq_inv_lookup t2_def gm_lookup_rewrite row_ok_def)
  have "exec_rows no_fault (update_where (\<lambda>k d. k = jid \<and> P d) f)
          (transitionConflictOrNotFound no_fault jid intent) t =
        (if P d then None else Some (transitionConflictOrNotFound no_fault jid intent t2), t2)"
    using count_key [OF wf, of jid P] Some checked
    by (auto simp: exec_rows_def run_statement_def update_where_def no_fault_def list_all_iff t2_def)
  moreover have "transitionConflictOrNotFound no_fault jid intent t2 = conflict jid (job_Status j) intent"
    if "\<not> P d"
    using that Some spec st
    by (simp add: transitionConflictOrNotFound_def get_row_def no_fault_def t2_def gm_lookup_rewrite
        NewJobTransitionConflict_conflict)
  ultimately show ?thesis
    using run abs2 inv2 j(2) guard [OF j(3)] st by (auto simp: cas_def split: if_splits)
qed

lemma status_guard:
  "status_check st \<Longrightarrow> (st = ''queued'') = (JobStatus_of_string st = JobQueued)"
  "status_check st \<Longrightarrow> (st = ''running'') = (JobStatus_of_string st = JobRunning)"
  by (auto simp: status_check_def JobStatus_of_string_def)

lemma decoded_update:
  assumes "decoded c k d = Some j"
  shows "decoded c k (d\<lparr>d_status := st, d_result_user_id := res, d_error_payload := None\<rparr>) =
      Some (j\<lparr>job_Status := JobStatus_of_string st,
              job_Result := map_option (\<lambda>u. \<lparr>jr_UserID = u\<rparr>) res, job_Error := None\<rparr>)"
    and "b \<noteq> [] \<Longrightarrow> json_Unmarshal c b = Inr p \<Longrightarrow>
      decoded c k (d\<lparr>d_status := st, d_result_user_id := res, d_error_payload := Some b\<rparr>) =
      Some (j\<lparr>job_Status := JobStatus_of_string st,
              job_Result := map_option (\<lambda>u. \<lparr>jr_UserID = u\<rparr>) res, job_Error := Some p\<rparr>)"
  using assms
  by (auto simp: decoded_def toEntityJob_def scan_row_def Let_def
      split: sum.splits if_splits option.splits)

lemmas status_strings = JobStatus_string_def JobStatus_of_string_def

lemma sql_SetRunning_cas:
  assumes "sq_inv c t" and "SQLXJobRepository_SetRunning no_fault jid t = (e, t')"
  shows "(e, sq_abs c t') = cas JobTransitionStart mark_running jid (sq_abs c t) \<and> sq_inv c t'"
  using assms(2) unfolding SQLXJobRepository_SetRunning_def qSetJobRunning_def
  by (rule exec_update_cas [OF assms(1)])
     (auto simp: status_strings status_check_def decoded_update mark_defs)

lemma sql_SetSucceeded_cas:
  assumes "sq_inv c t" and "SQLXJobRepository_SetSucceeded no_fault jid r t = (e, t')"
  shows "(e, sq_abs c t') = cas JobTransitionSucceed (mark_succeeded r) jid (sq_abs c t) \<and> sq_inv c t'"
  using assms(2) unfolding SQLXJobRepository_SetSucceeded_def qSetJobSucceeded_def
  by (rule exec_update_cas [OF assms(1)])
     (auto simp: status_strings status_check_def decoded_update mark_defs)

lemma codec_okE:
  assumes "codec_ok c p"
  obtains b where "json_Marshal c p = Inr b" "jsonb_store c b \<noteq> []"
    "json_Unmarshal c (jsonb_store c b) = Inr p"
  using assms by (auto simp: codec_ok_def split: sum.splits)

lemma sql_SetFailed_cas:
  assumes "sq_inv c t" and "codec_ok c p" and "SQLXJobRepository_SetFailed c no_fault jid p t = (e, t')"
  shows "(e, sq_abs c t') = cas JobTransitionFail (mark_failed p) jid (sq_abs c t) \<and> sq_inv c t'"
proof -
  obtain b where b: "json_Marshal c p = Inr b" "jsonb_store c b \<noteq> []"
      "json_Unmarshal c (jsonb_store c b) = Inr p"
    using codec_okE [OF assms(2)] .
  from assms(3) have "exec_rows no_fault
      (qSetJobFailed (JobStatus_string JobFailed) (jsonb_store c b) jid
         (JobStatus_string JobQueued) (JobStatus_string JobRunning))
      (transitionConflictOrNotFound no_fault jid JobTransitionFail) t = (e, t')"
    by (simp add: SQLXJobRepository_SetFailed_def b(1))
  then show ?thesis
    unfolding qSetJobFailed_def
    by (rule exec_update_cas [OF assms(1)])
       (auto simp: status_strings status_check_def decoded_update b mark_defs)
qed

text \<open>\<open>FailActive\<close> is one statement over all active rows.\<close>

lemma update_all_abs:
  assumes "sq_inv c t" and t': "t' = t\<lparr>t_rows := map (\<lambda>(k, d). (k, if P d then f d else d)) (t_rows t)\<rparr>"
    and guard: "\<And>d j k. status_check (d_status d) \<Longrightarrow> decoded c k d = Some j \<Longrightarrow> P d \<longleftrightarrow> A j"
    and writes: "\<And>d j k. decoded c k d = Some j \<Longrightarrow> decoded c k (f d) = Some (g j)"
    and checked: "\<And>d. status_check (d_status (f d))"
  shows "sq_inv c t'" and "sq_abs c t' = (\<lambda>k. map_option (\<lambda>j. if A j then g j else j) (sq_abs c t k))"
    and "length (filter (\<lambda>(k, d). P d) (t_rows t)) = card {k. \<exists>j. sq_abs c t k = Some j \<and> A j}"
proof -
  show "sq_inv c t'"
    using assms(1) writes checked
    by (fastforce simp: sq_inv_lookup t' gm_lookup_rewrite row_ok_def)
  show "sq_abs c t' = (\<lambda>k. map_option (\<lambda>j. if A j then g j else j) (sq_abs c t k))"
  proof
    fix k
    show "sq_abs c t' k = map_option (\<lambda>j. if A j then g j else j) (sq_abs c t k)"
    proof (cases "gm_lookup (t_rows t) k")
      case (Some d)
      then obtain j where "decoded c k d = Some j" "sq_abs c t k = Some j" "status_check (d_status d)"
        using sq_abs_Some [OF assms(1) Some] by blast
      with Some guard writes show ?thesis
        by (simp add: t' sq_abs_def gm_lookup_rewrite)
    qed (simp add: t' sq_abs_def gm_lookup_rewrite)
  qed
  let ?f = "filter (\<lambda>(k, d). P d) (t_rows t)"
  have wf: "gm_wf (t_rows t)" using assms(1) by (simp add: sq_inv_def)
  have "{k. \<exists>j. sq_abs c t k = Some j \<and> A j} = {k. \<exists>d. gm_lookup (t_rows t) k = Some d \<and> P d}"
    using sq_abs_Some [OF assms(1)] guard by (fastforce simp: sq_abs_def split: option.splits)
  also have "\<dots> = fst ` set ?f"
    using wf by (force simp: gm_wf_def)
  finally show "length ?f = card {k. \<exists>j. sq_abs c t k = Some j \<and> A j}"
    using distinct_card [of "map fst ?f"] wf by (simp add: gm_wf_def distinct_map_filter)
qed

lemma sql_FailActive_spec:
  assumes "sq_inv c t" and "codec_ok c p"
    and "SQLXJobRepository_FailActive c no_fault p t = ((n, e), t')"
  shows "e = None \<and> sq_abs c t' = (\<lambda>k. map_option (fail_active p) (sq_abs c t k)) \<and>
    n = int (card {k. \<exists>j. sq_abs c t k = Some j \<and> active j}) \<and> sq_inv c t'"
proof -
  obtain b where b: "json_Marshal c p = Inr b" "jsonb_store c b \<noteq> []"
      "json_Unmarshal c (jsonb_store c b) = Inr p"
    using codec_okE [OF assms(2)] .
  let ?P = "\<lambda>d. d_status d \<in> {''queued'', ''running''}"
  let ?f = "\<lambda>d. d\<lparr>d_status := ''failed'', d_result_user_id := None, d_error_payload := Some (jsonb_store c b)\<rparr>"
  let ?t = "t\<lparr>t_rows := map (\<lambda>(k, d). (k, if ?P d then ?f d else d)) (t_rows t)\<rparr>"
  have run: "SQLXJobRepository_FailActive c no_fault p t =
      ((int (length (filter (\<lambda>(k, d). ?P d) (t_rows t))), None), ?t)"
    by (simp add: SQLXJobRepository_FailActive_def b(1) qFailActiveJobs_def update_where_def
        run_statement_def no_fault_def status_strings status_check_def list_all_iff case_prod_beta)
  have guard: "?P d \<longleftrightarrow> active j" if "status_check (d_status d)" "decoded c k d = Some j" for d j k
    using that decoded_fields [OF that(2)] by (auto simp: active_def status_check_def status_strings)
  have writes: "decoded c k (?f d) = Some (mark_failed p j)" if "decoded c k d = Some j" for d j k
    using decoded_update(2) [OF that b(2,3)] by (simp add: mark_failed_def status_strings)
  note all = update_all_abs [OF assms(1) refl, of ?P active ?f "mark_failed p", OF guard writes]
  show ?thesis
    using run assms(3) all by (auto simp: status_check_def fail_active_def [abs_def])
qed

lemma sql_Delete_spec:
  assumes "sq_inv c t" and "SQLXJobRepository_Delete no_fault jid t = (e, t')"
  shows "e = (if sq_abs c t jid = None then Some (Sentinel ErrJobNotFound) else None) \<and>
    sq_abs c t' = (sq_abs c t)(jid := None) \<and> sq_inv c t'"
  using assms sq_abs_None [OF assms(1), of jid]
  by (auto simp: SQLXJobRepository_Delete_def exec_rows_def run_statement_def no_fault_def qDeleteJob_def
      fun_eq_iff sq_abs_def gomap_simps sq_inv_lookup split: if_splits)

lemma sql_GetByID_spec:
  assumes "sq_inv c t"
  shows "SQLXJobRepository_GetByID c no_fault jid t =
    ((case sq_abs c t jid of None \<Rightarrow> Inl (Sentinel ErrJobNotFound) | Some j \<Rightarrow> Inr j), t)"
proof (cases "gm_lookup (t_rows t) jid")
  case None
  then show ?thesis
    by (simp add: SQLXJobRepository_GetByID_def get_row_def no_fault_def mapJobRepoErr_def sq_abs_def)
next
  case (Some d)
  then obtain j where "decoded c jid d = Some j" "sq_abs c t jid = Some j"
    using sq_abs_Some [OF assms Some] by blast
  with Some show ?thesis
    by (auto simp: SQLXJobRepository_GetByID_def get_row_def no_fault_def decoded_def split: sum.splits)
qed

text \<open>A new queued job is stored under a fresh identifier and read back as it was.\<close>

lemma sql_Save_new:
  assumes inv: "sq_inv c t" and codec: "\<And>p. codec_ok c p"
    and new: "job_ID job = 0" and queued: "job_Status job = JobQueued"
    and run: "SQLXJobRepository_Save c no_fault job t = ((e, job'), t')"
  shows "e = None \<and> job' = job\<lparr>job_ID := t_serial t\<rparr> \<and> sq_abs c t (t_serial t) = None \<and>
    sq_abs c t' = (sq_abs c t)(t_serial t \<mapsto> job') \<and> sq_inv c t'"
proof -
  obtain payload where payload: "toJSONBytes c (job_Error job) = Inr payload"
      "(case payload of None \<Rightarrow> job_Error job = None
        | Some b \<Rightarrow> jsonb_store c b \<noteq> [] \<and>
            (\<exists>p. job_Error job = Some p \<and> json_Unmarshal c (jsonb_store c b) = Inr p))"
  proof (cases "job_Error job")
    case (Some p)
    obtain b where "json_Marshal c p = Inr b" "jsonb_store c b \<noteq> []"
        "json_Unmarshal c (jsonb_store c b) = Inr p"
      using codec_okE [OF codec] .
    with Some that [of "Some b"] show ?thesis by (simp add: toJSONBytes_def)
  qed (use that [of None] in \<open>simp add: toJSONBytes_def\<close>)
  let ?d = "\<lparr>d_status = ''queued'', d_owner_user_id = job_OwnerUserID job,
      d_result_user_id = toNullInt64 (job_Result job), d_error_payload = map_option (jsonb_store c) payload\<rparr>"
  let ?job = "job\<lparr>job_ID := t_serial t\<rparr>"
  let ?t = "t\<lparr>t_rows := gm_update (t_serial t) ?d (t_rows t), t_serial := t_serial t + 1\<rparr>"
  have save: "SQLXJobRepository_Save c no_fault job t = ((None, ?job), ?t)"
    using payload(1) new queued
    by (simp add: SQLXJobRepository_Save_def run_statement_def no_fault_def qInsertJob_def
        status_strings status_check_def)
  have fresh: "gm_lookup (t_rows t) (t_serial t) = None"
    using inv unfolding sq_inv_lookup row_ok_def by (metis less_irrefl not_Some_eq)
  have dec: "decoded c (t_serial t) ?d = Some ?job"
    using payload(2) queued
    by (cases "job_Result job"; cases "job_Error job"; cases payload)
       (auto simp: decoded_def toEntityJob_def scan_row_def Let_def status_strings toNullInt64_def
          intro!: Job.equality JobResult.equality)
  have "sq_inv c ?t"
    using inv dec by (fastforce simp: sq_inv_lookup gomap_simps row_ok_def status_check_def)
  then show ?thesis
    using save run fresh dec by (auto simp: fun_eq_iff sq_abs_def gomap_simps)
qed

text \<open>So the PostgreSQL repository keeps the contract of the in-memory one.\<close>

lemma sql_job_repository:
  assumes codec: "\<And>p. codec_ok c p"
  shows "job_repository (sql_jobs c) (sq_abs c) (sq_inv c)"
proof (unfold_locales, goal_cases)
  case (1 s i)
  then show ?case by (simp add: sql_jobs_def sql_GetByID_spec)
next
  case (2 s i e s')
  then show ?case by (simp add: sql_jobs_def sql_SetRunning_cas)
next
  case (3 s i r e s')
  then show ?case by (simp add: sql_jobs_def sql_SetSucceeded_cas)
next
  case (4 s i p e s')
  then show ?case by (simp add: sql_jobs_def sql_SetFailed_cas codec)
next
  case (5 s p n e s')
  then show ?case using sql_FailActive_spec [OF 5(1) codec] by (simp add: sql_jobs_def)
next
  case (6 s i e s')
  then show ?case using sql_Delete_spec [OF 6(1)] by (simp add: sql_jobs_def)
next
  case (7 s job job' s')
  then show ?case using sql_Save_new [OF 7(1) codec 7(2,3)] by (auto simp: sql_jobs_def)
next
  case (8 s i)
  then show ?case using sql_SetRunning_cas [OF 8 surjective_pairing] by (simp add: sql_jobs_def)
next
  case (9 s i r)
  then show ?case using sql_SetSucceeded_cas [OF 9 surjective_pairing] by (simp add: sql_jobs_def)
next
  case (10 s i p)
  then show ?case using sql_SetFailed_cas [OF 10 codec surjective_pairing] by (simp add: sql_jobs_def)
next
  case (11 s p)
  obtain n e s' where "SQLXJobRepository_FailActive c no_fault p s = ((n, e), s')"
    by (metis surj_pair)
  with sql_FailActive_spec [OF 11 codec this] show ?case by (simp add: sql_jobs_def)
next
  case (12 s i)
  then show ?case using sql_Delete_spec [OF 12 surjective_pairing] by (simp add: sql_jobs_def)
qed

section \<open>A concrete codec\<close>

text \<open>
  An encoding that satisfies the hypothesis.  A problem is a list of strings (the status is a sign
  and a unary run), and a list of strings is a run of marked characters with a semicolon after
  each string.
\<close>

fun enc_strs :: "string list \<Rightarrow> string" where
  "enc_strs [] = []"
| "enc_strs (s # ss) = concat (map (\<lambda>ch. [CHR ''.'', ch]) s) @ CHR '';'' # enc_strs ss"

fun dec_strs :: "string \<Rightarrow> string \<Rightarrow> string list" where
  "dec_strs acc [] = []"
| "dec_strs acc [m] = (if m = CHR '';'' then [rev acc] else [])"
| "dec_strs acc (m # ch # s) =
     (if m = CHR '';'' then rev acc # dec_strs [] (ch # s) else dec_strs (ch # acc) s)"

definition enc_int :: "int \<Rightarrow> string" where
  "enc_int x = (if x < 0 then CHR ''-'' else CHR ''+'') # replicate (nat \<bar>x\<bar>) CHR ''1''"

definition dec_int :: "string \<Rightarrow> int" where
  "dec_int s = (if hd s = CHR ''-'' then - int (length (tl s)) else int (length (tl s)))"

fun dec_params :: "string list \<Rightarrow> JobInvalidParam list" where
  "dec_params (n # r # ss) = \<lparr>jip_Name = n, jip_Reason = r\<rparr> # dec_params ss"
| "dec_params _ = []"

definition problem_strs :: "JobProblem \<Rightarrow> string list" where
  "problem_strs p = [jp_Type p, jp_Title p, enc_int (jp_Status p), jp_Detail p, jp_Instance p,
     jp_RequestID p] @ concat (map (\<lambda>q. [jip_Name q, jip_Reason q]) (jp_InvalidParams p))"

fun strs_problem :: "string list \<Rightarrow> go_error + JobProblem" where
  "strs_problem (ty # ti # st # de # inst # rid # ps) =
     Inr \<lparr>jp_Type = ty, jp_Title = ti, jp_Status = dec_int st, jp_Detail = de, jp_Instance = inst,
          jp_RequestID = rid, jp_InvalidParams = dec_params ps\<rparr>"
| "strs_problem _ = Inl (JsonSyntaxError 0)"

definition text_codec :: json_codec where
  "text_codec = \<lparr>json_Marshal = \<lambda>p. Inr (enc_strs (problem_strs p)), jsonb_store = \<lambda>b. b,
     json_Unmarshal = \<lambda>b. strs_problem (dec_strs [] b)\<rparr>"

lemma dec_enc_str: "dec_strs acc (concat (map (\<lambda>ch. [CHR ''.'', ch]) s) @ CHR '';'' # r) =
   (rev acc @ s) # dec_strs [] r"
  by (induction s arbitrary: acc) (simp, cases r, simp_all)

lemma dec_enc_strs [simp]: "dec_strs [] (enc_strs ss) = ss"
  by (induction ss) (simp_all add: dec_enc_str)

lemma dec_params_pairs [simp]: "dec_params (concat (map (\<lambda>q. [jip_Name q, jip_Reason q]) ps)) = ps"
  by (induction ps) simp_all

lemma dec_enc_int [simp]: "dec_int (enc_int x) = x"
  by (simp add: dec_int_def enc_int_def)

lemma strs_problem_strs [simp]: "strs_problem (problem_strs p) = Inr p"
  by (simp add: problem_strs_def)

lemma enc_problem_nonempty [simp]: "enc_strs (problem_strs p) \<noteq> []"
  by (simp add: problem_strs_def)

lemma text_codec_ok: "codec_ok text_codec p"
  by (simp add: codec_ok_def text_codec_def)

interpretation sql: job_repository "sql_jobs text_codec" "sq_abs text_codec" "sq_inv text_codec"
  by (rule sql_job_repository) (rule text_codec_ok)

section \<open>Properties\<close>



definition sample_table :: jobs_table where
  "sample_table = \<lparr>t_rows = [(1, \<lparr>d_status = ''queued'', d_owner_user_id = 7, d_result_user_id = None,
       d_error_payload = None\<rparr>),
     (2, \<lparr>d_status = ''succeeded'', d_owner_user_id = 7, d_result_user_id = Some 5,
       d_error_payload = None\<rparr>)], t_serial = 9\<rparr>"

lemma sample_table_ok: "sq_inv text_codec sample_table" "sq_abs text_codec sample_table = mj_abs sample_repo"
  by (auto simp: sq_inv_def sample_table_def gm_wf_def row_ok_def status_check_def decoded_def
      toEntityJob_def scan_row_def sq_abs_def mj_abs_def sample_repo_def sample_job_def fun_eq_iff
      status_strings)



text \<open>C34: a database failure never changes more than the statement itself would: whatever the driver
  reports, \<open>SetRunning\<close> leaves the table as it was or exactly as the successful call leaves it, and
  it reports success only when the row was queued and is now running.\<close>

theorem sql_SetRunning_faults:
  assumes "sq_inv c t" and "SQLXJobRepository_SetRunning env jid t = (e, t')"
  shows "(t' = t \<or> t' = snd (SQLXJobRepository_SetRunning no_fault jid t)) \<and>
    (e = None \<longrightarrow> (\<exists>j. sq_abs c t jid = Some j \<and> job_Status j = JobQueued \<and>
       sq_abs c t' = (sq_abs c t)(jid \<mapsto> mark_running j)))"
proof -
  obtain e0 t0 where run: "SQLXJobRepository_SetRunning no_fault jid t = (e0, t0)"
    by force
  have t: "t' = t \<or> t' = t0"
    using assms(2) run
    by (auto simp: SQLXJobRepository_SetRunning_def exec_rows_def run_statement_def no_fault_def
        split: sql_fault.splits sum.splits option.splits if_splits)
  have "e = None \<Longrightarrow> e0 = None \<and> t' = t0"
    using assms(2) run
    by (auto simp: SQLXJobRepository_SetRunning_def exec_rows_def run_statement_def no_fault_def
        split: sql_fault.splits sum.splits option.splits if_splits)
  with t run sql_SetRunning_cas [OF assms(1) run] show ?thesis
    by (auto simp: cas_def split: option.splits if_splits)
qed

theorem sql_SetRunning_faults_witness:
  "snd (SQLXJobRepository_SetRunning \<lparr>env_exec = FaultBefore (Sentinel ContextCanceled), env_rows = None,
      env_get = None\<rparr> 1 sample_table) \<in> {sample_table,
      snd (SQLXJobRepository_SetRunning no_fault 1 sample_table)}"
  using sql_SetRunning_faults [OF sample_table_ok(1) surjective_pairing, of _ 1] by blast

end
