(* ===== verification/UserRepo.thy ===== *)
theory UserRepo
  imports JobSQL
begin

text \<open>
  The user storage interface (\<open>internal/service/repository.go\<close>), its in-memory implementation
  (\<open>internal/store/userrepo/memory_user_repo.go\<close>) and the PostgreSQL one
  (\<open>internal/store/userrepo/sqlx.go\<close> over \<open>migrations/000001_create_users.up.sql\<close>).  What both
  promise to the user service is the locale \<open>user_repository\<close>; the two differ in when they take
  two e-mail addresses for the same one, which is a parameter of the locale.
\<close>

section \<open>The interface\<close>

record 's UserRepository =
  ur_GetAll :: "'s \<Rightarrow> (go_error + User list) \<times> 's"
  ur_GetByID :: "int64 \<Rightarrow> 's \<Rightarrow> (go_error + User) \<times> 's"
  ur_Save :: "User \<Rightarrow> 's \<Rightarrow> (go_error option \<times> User) \<times> 's"
  ur_Delete :: "int64 \<Rightarrow> 's \<Rightarrow> go_error option \<times> 's"
  ur_ExistsByEmail :: "string \<Rightarrow> 's \<Rightarrow> (go_error + bool) \<times> 's"

type_synonym user_store = "int64 \<Rightarrow> User option"

definition email_taken :: "(string \<Rightarrow> string \<Rightarrow> bool) \<Rightarrow> user_store \<Rightarrow> string \<Rightarrow> bool" where
  "email_taken same m email \<longleftrightarrow> (\<exists>i u. m i = Some u \<and> same (user_Email u) email)"

definition unique_emails :: "(string \<Rightarrow> string \<Rightarrow> bool) \<Rightarrow> user_store \<Rightarrow> bool" where
  "unique_emails same m \<longleftrightarrow>
     (\<forall>i j u v. m i = Some u \<longrightarrow> m j = Some v \<longrightarrow> same (user_Email u) (user_Email v) \<longrightarrow> i = j)"

definition same_user_data :: "User \<Rightarrow> User \<Rightarrow> bool" where
  "same_user_data u v \<longleftrightarrow> user_Name u = user_Name v \<and> user_Age u = user_Age v \<and> user_Email u = user_Email v"

locale user_repository =
  fixes repo :: "'s UserRepository"
    and abs :: "'s \<Rightarrow> user_store"
    and invar :: "'s \<Rightarrow> bool"
    and room :: "'s \<Rightarrow> bool"
    and same :: "string \<Rightarrow> string \<Rightarrow> bool"
  assumes same_sym: "same a b \<Longrightarrow> same b a"
    and get: "invar s \<Longrightarrow> ur_GetByID repo i s =
      ((case abs s i of None \<Rightarrow> Inl (Sentinel ErrUserNotFound) | Some u \<Rightarrow> Inr u), s)"
    and exists: "invar s \<Longrightarrow> ur_ExistsByEmail repo email s = (Inr (email_taken same (abs s) email), s)"
    and save_taken: "invar s \<Longrightarrow> email_taken same (abs s) (user_Email u) \<Longrightarrow>
      ur_Save repo u s = ((e, u'), s') \<Longrightarrow> e \<noteq> None \<and> abs s' = abs s"
    and save_new: "invar s \<Longrightarrow> user_ID u = 0 \<Longrightarrow> ur_Save repo u s = ((None, u'), s') \<Longrightarrow>
      same_user_data u' u \<and> user_ID u' \<noteq> 0 \<and> abs s (user_ID u') = None \<and>
      (\<exists>v. abs s' = (abs s)(user_ID u' \<mapsto> u'\<lparr>user_Version := v\<rparr>))"
    and save_error: "invar s \<Longrightarrow> ur_Save repo u s = ((Some er, u'), s') \<Longrightarrow> abs s' = abs s"
    and save_invar: "invar s \<Longrightarrow> room s \<Longrightarrow> user_ID u = 0 \<Longrightarrow> invar (snd (ur_Save repo u s))"
    and delete: "invar s \<Longrightarrow> ur_Delete repo i s = (e, s') \<Longrightarrow>
      e = (if abs s i = None then Some (Sentinel ErrUserNotFound) else None) \<and> abs s' = (abs s)(i := None)"
    and delete_invar: "invar s \<Longrightarrow> invar (snd (ur_Delete repo i s))"

section \<open>The in-memory repository\<close>

record MemoryUserRepository =
  mu_users :: "(int64, User) gomap"
  mu_nextID :: int64

definition NewMemoryUserRepository :: MemoryUserRepository where
  "NewMemoryUserRepository = \<lparr>mu_users = [], mu_nextID = 1\<rparr>"

definition MemoryUserRepository_Ping :: "go_error option \<Rightarrow> go_error option" where
  "MemoryUserRepository_Ping ctx_Err = ctx_Err"

definition MemoryUserRepository_GetAll ::
  "MemoryUserRepository \<Rightarrow> (go_error + User list) \<times> MemoryUserRepository" where
  "MemoryUserRepository_GetAll r = (Inr (gm_values (mu_users r)), r)"

definition MemoryUserRepository_GetByID ::
  "int64 \<Rightarrow> MemoryUserRepository \<Rightarrow> (go_error + User) \<times> MemoryUserRepository" where
  "MemoryUserRepository_GetByID i r =
     (case gm_lookup (mu_users r) i of
        None \<Rightarrow> (Inl (Sentinel ErrUserNotFound), r)
      | Some u \<Rightarrow> (Inr u, r))"

definition MemoryUserRepository_Save ::
  "User \<Rightarrow> MemoryUserRepository \<Rightarrow> (go_error option \<times> User) \<times> MemoryUserRepository" where
  "MemoryUserRepository_Save user r =
     (if list_ex (\<lambda>u. EqualFold (user_Email u) (user_Email user)) (gm_values (mu_users r))
      then ((Some (Sentinel ErrConflict), user), r)
      else if user_ID user \<noteq> 0 \<and> gm_lookup (mu_users r) (user_ID user) \<noteq> None
      then ((Some (Sentinel ErrUserAlreadyExists), user), r)
      else
        (let (user1, r1) = (if user_ID user = 0
                            then (user\<lparr>user_ID := mu_nextID r\<rparr>, r\<lparr>mu_nextID := wrap64 (mu_nextID r + 1)\<rparr>)
                            else (user, r));
             user2 = (if user_Version user1 = 0 then user1\<lparr>user_Version := 1\<rparr> else user1)
         in ((None, user2), r1\<lparr>mu_users := gm_update (user_ID user2) user2 (mu_users r1)\<rparr>)))"

definition MemoryUserRepository_Delete ::
  "int64 \<Rightarrow> MemoryUserRepository \<Rightarrow> go_error option \<times> MemoryUserRepository" where
  "MemoryUserRepository_Delete i r =
     (case gm_lookup (mu_users r) i of
        None \<Rightarrow> (Some (Sentinel ErrUserNotFound), r)
      | Some _ \<Rightarrow> (None, r\<lparr>mu_users := gm_delete i (mu_users r)\<rparr>))"

definition MemoryUserRepository_ExistsByEmail ::
  "string \<Rightarrow> MemoryUserRepository \<Rightarrow> (go_error + bool) \<times> MemoryUserRepository" where
  "MemoryUserRepository_ExistsByEmail email r =
     (Inr (list_ex (\<lambda>u. EqualFold (user_Email u) email) (gm_values (mu_users r))), r)"

definition MemoryUserRepository_Update ::
  "int64 \<Rightarrow> User \<Rightarrow> MemoryUserRepository \<Rightarrow> (go_error + User) \<times> MemoryUserRepository" where
  "MemoryUserRepository_Update i u r =
     (case gm_lookup (mu_users r) i of
        None \<Rightarrow> (Inl (Sentinel ErrUserNotFound), r)
      | Some prev \<Rightarrow>
          (let next' = \<lparr>user_ID = i, user_Name = user_Name u, user_Age = user_Age u,
                        user_Email = user_Email u, user_Version = wrap64 (user_Version prev + 1)\<rparr>
           in (Inr next', r\<lparr>mu_users := gm_update i next' (mu_users r)\<rparr>)))"

definition memory_users :: "MemoryUserRepository UserRepository" where
  "memory_users = \<lparr>ur_GetAll = MemoryUserRepository_GetAll, ur_GetByID = MemoryUserRepository_GetByID,
     ur_Save = MemoryUserRepository_Save, ur_Delete = MemoryUserRepository_Delete,
     ur_ExistsByEmail = MemoryUserRepository_ExistsByEmail\<rparr>"

section \<open>The PostgreSQL repository\<close>

record db_user =
  du_name :: string
  du_email :: string
  du_age :: int64

record users_table =
  ut_rows :: "(int64, db_user) gomap"
  ut_serial :: int64

definition qGetAllUsers :: "users_table \<Rightarrow> (int64 \<times> db_user) list" where
  "qGetAllUsers t = sort_key fst (ut_rows t)"

text \<open>The table checks the age before the unique index on the exact e-mail address; the serial is
  consumed by a rejected insert too.\<close>

definition qInsertUser :: "string \<Rightarrow> string \<Rightarrow> int64 \<Rightarrow> (go_error + int64, users_table) table_statement" where
  "qInsertUser name email age t =
     (let t1 = t\<lparr>ut_serial := ut_serial t + 1\<rparr>
      in if age < 0 then Inr (Inl check_violation, t1)
         else if list_ex (\<lambda>d. du_email d = email) (gm_values (ut_rows t)) then Inr (Inl (PgError ''23505''), t1)
         else Inr (Inr (ut_serial t),
                t1\<lparr>ut_rows := gm_update (ut_serial t) \<lparr>du_name = name, du_email = email, du_age = age\<rparr> (ut_rows t)\<rparr>))"

definition qDeleteUser :: "int64 \<Rightarrow> (int, users_table) table_statement" where
  "qDeleteUser i t =
     Inr (if gm_lookup (ut_rows t) i = None then 0 else 1, t\<lparr>ut_rows := gm_delete i (ut_rows t)\<rparr>)"

definition qExistsByEmail :: "string \<Rightarrow> users_table \<Rightarrow> bool" where
  "qExistsByEmail email t = list_ex (\<lambda>d. du_email d = email) (gm_values (ut_rows t))"

definition mapUserRepoErr :: "go_error \<Rightarrow> go_error" where
  "mapUserRepoErr err =
     (if errors_Is err Sql_ErrNoRows then Sentinel ErrUserNotFound
      else if errors_Is err ContextCanceled \<or> errors_Is err ContextDeadlineExceeded then err
      else if errors_As as_Pg err = Some ''23505'' then Sentinel ErrConflict
      else err)"

text \<open>Scanning fills the four selected columns; \<open>Version\<close> keeps its zero value.\<close>

definition scan_user :: "int64 \<Rightarrow> db_user \<Rightarrow> User" where
  "scan_user i d = \<lparr>user_ID = i, user_Name = du_name d, user_Age = du_age d, user_Email = du_email d,
     user_Version = 0\<rparr>"

definition SQLXUserRepository_GetAll :: "sql_env \<Rightarrow> users_table \<Rightarrow> (go_error + User list) \<times> users_table" where
  "SQLXUserRepository_GetAll env t =
     (case env_get env of
        Some e \<Rightarrow> (Inl (mapUserRepoErr e), t)
      | None \<Rightarrow>
          (case env_rows env of
             Some e \<Rightarrow> (Inl (mapUserRepoErr e), t)
           | None \<Rightarrow> (Inr (map (\<lambda>(i, d). scan_user i d) (qGetAllUsers t)), t)))"

definition SQLXUserRepository_GetByID ::
  "sql_env \<Rightarrow> int64 \<Rightarrow> users_table \<Rightarrow> (go_error + User) \<times> users_table" where
  "SQLXUserRepository_GetByID env i t =
     (case env_get env of
        Some e \<Rightarrow> (Inl (mapUserRepoErr e), t)
      | None \<Rightarrow>
          (case gm_lookup (ut_rows t) i of
             None \<Rightarrow> (Inl (mapUserRepoErr (Sentinel Sql_ErrNoRows)), t)
           | Some d \<Rightarrow> (Inr (scan_user i d), t)))"

definition SQLXUserRepository_Save ::
  "sql_env \<Rightarrow> User \<Rightarrow> users_table \<Rightarrow> (go_error option \<times> User) \<times> users_table" where
  "SQLXUserRepository_Save env user t =
     (case run_statement (env_exec env) (qInsertUser (user_Name user) (user_Email user) (user_Age user)) t of
        (Inl e, t') \<Rightarrow> ((Some (mapUserRepoErr e), user), t')
      | (Inr (Inl e), t') \<Rightarrow> ((Some (mapUserRepoErr e), user), t')
      | (Inr (Inr newid), t') \<Rightarrow> ((None, user\<lparr>user_ID := newid\<rparr>), t'))"

definition SQLXUserRepository_Delete :: "sql_env \<Rightarrow> int64 \<Rightarrow> users_table \<Rightarrow> go_error option \<times> users_table" where
  "SQLXUserRepository_Delete env i t =
     (case run_statement (env_exec env) (qDeleteUser i) t of
        (Inl e, t') \<Rightarrow> (Some (mapUserRepoErr e), t')
      | (Inr n, t') \<Rightarrow>
          (case env_rows env of
             Some e \<Rightarrow> (Some e, t')
           | None \<Rightarrow> if n = 0 then (Some (Sentinel ErrUserNotFound), t') else (None, t')))"

definition SQLXUserRepository_ExistsByEmail ::
  "sql_env \<Rightarrow> string \<Rightarrow> users_table \<Rightarrow> (go_error + bool) \<times> users_table" where
  "SQLXUserRepository_ExistsByEmail env email t =
     (case env_get env of
        Some e \<Rightarrow> (Inl (mapUserRepoErr e), t)
      | None \<Rightarrow> (Inr (qExistsByEmail email t), t))"

definition sql_users :: "users_table UserRepository" where
  "sql_users = \<lparr>ur_GetAll = SQLXUserRepository_GetAll no_fault,
     ur_GetByID = SQLXUserRepository_GetByID no_fault, ur_Save = SQLXUserRepository_Save no_fault,
     ur_Delete = SQLXUserRepository_Delete no_fault,
     ur_ExistsByEmail = SQLXUserRepository_ExistsByEmail no_fault\<rparr>"

section \<open>Correctness\<close>

definition mu_abs :: "MemoryUserRepository \<Rightarrow> user_store" where
  "mu_abs r = gm_lookup (mu_users r)"

definition mu_inv :: "MemoryUserRepository \<Rightarrow> bool" where
  "mu_inv r \<longleftrightarrow> gm_wf (mu_users r) \<and> 0 < mu_nextID r \<and> in_int64 (mu_nextID r) \<and>
     (\<forall>k u. gm_lookup (mu_users r) k = Some u \<longrightarrow> k < mu_nextID r \<and> user_ID u = k)"

definition mu_room :: "MemoryUserRepository \<Rightarrow> bool" where
  "mu_room r \<longleftrightarrow> mu_nextID r < int64_max"

lemma mu_fresh: "mu_inv r \<Longrightarrow> gm_lookup (mu_users r) (mu_nextID r) = None"
  unfolding mu_inv_def by (metis less_irrefl not_Some_eq)

lemma mu_taken:
  "mu_inv r \<Longrightarrow> list_ex (\<lambda>u. EqualFold (user_Email u) email) (gm_values (mu_users r)) \<longleftrightarrow>
     email_taken EqualFold (mu_abs r) email"
  by (auto simp: mu_inv_def email_taken_def mu_abs_def list_ex_iff gm_values_ran ran_def
      simp del: list.set_map set_map)

lemma mu_wrap: "mu_inv r \<Longrightarrow> mu_room r \<Longrightarrow> wrap64 (mu_nextID r + 1) = mu_nextID r + 1"
  by (rule wrap64_in_range) (auto simp: mu_inv_def mu_room_def in_int64_def int64_min_def)

lemma mu_inv_insert:
  assumes "mu_inv r" and "mu_room r" and "user_ID u = mu_nextID r"
  shows "mu_inv \<lparr>mu_users = gm_update (mu_nextID r) u (mu_users r), mu_nextID = mu_nextID r + 1\<rparr>"
  using assms by (fastforce simp: mu_inv_def mu_room_def gomap_simps in_int64_def)

lemma mu_inv_Save_new:
  assumes "mu_inv r" and "mu_room r" and "user_ID u = 0"
  shows "mu_inv (snd (MemoryUserRepository_Save u r))"
  using assms mu_wrap [OF assms(1,2)] mu_inv_insert [OF assms(1,2)]
  by (cases r) (auto simp: MemoryUserRepository_Save_def Let_def)

lemma mu_Save_new:
  assumes "mu_inv r" and "user_ID u = 0" and "MemoryUserRepository_Save u r = ((e, u'), r')"
  shows "if email_taken EqualFold (mu_abs r) (user_Email u)
    then e = Some (Sentinel ErrConflict) \<and> r' = r
    else e = None \<and> user_ID u' = mu_nextID r \<and> same_user_data u' u \<and>
      mu_abs r' = (mu_abs r)(mu_nextID r \<mapsto> u')"
  using assms mu_taken [OF assms(1), of "user_Email u"]
  by (auto simp: MemoryUserRepository_Save_def mu_abs_def fun_eq_iff gomap_simps same_user_data_def Let_def
      split: if_splits)

lemma mu_Save_error:
  assumes "MemoryUserRepository_Save u r = ((Some e, u'), r')"
  shows "r' = r"
  using assms by (auto simp: MemoryUserRepository_Save_def Let_def split: if_splits)

lemma mu_Save_taken:
  assumes "mu_inv r" and "email_taken EqualFold (mu_abs r) (user_Email u)"
  shows "MemoryUserRepository_Save u r = ((Some (Sentinel ErrConflict), u), r)"
  using assms mu_taken [OF assms(1), of "user_Email u"] by (simp add: MemoryUserRepository_Save_def)

interpretation memu: user_repository memory_users mu_abs mu_inv mu_room EqualFold
proof (unfold_locales, goal_cases)
  case (1 a b)
  then show ?case by (simp add: EqualFold_sym)
next
  case (2 s i)
  then show ?case
    by (simp add: memory_users_def MemoryUserRepository_GetByID_def mu_abs_def split: option.splits)
next
  case (3 s email)
  then show ?case
    by (simp add: memory_users_def MemoryUserRepository_ExistsByEmail_def mu_taken)
next
  case (4 s u e u' s')
  then show ?case by (auto simp: memory_users_def mu_Save_taken)
next
  case (5 s u u' s')
  then show ?case
    using mu_Save_new [of s u None u' s'] mu_fresh [of s]
    by (auto simp: memory_users_def mu_abs_def mu_inv_def split: if_splits intro!: exI [of _ "user_Version u'"])
next
  case (6 s u er u' s')
  then show ?case using mu_Save_error [of u s er u' s'] by (simp add: memory_users_def)
next
  case (7 s u)
  then show ?case by (simp add: memory_users_def mu_inv_Save_new)
next
  case (8 s i e s')
  then show ?case
    by (auto simp: memory_users_def MemoryUserRepository_Delete_def mu_abs_def fun_eq_iff gomap_simps
        split: option.splits)
next
  case (9 s i)
  then show ?case
    by (auto simp: memory_users_def MemoryUserRepository_Delete_def mu_inv_def gomap_simps
        split: option.splits)
qed

definition su_abs :: "users_table \<Rightarrow> user_store" where
  "su_abs t i = map_option (scan_user i) (gm_lookup (ut_rows t) i)"

definition su_inv :: "users_table \<Rightarrow> bool" where
  "su_inv t \<longleftrightarrow> gm_wf (ut_rows t) \<and> 0 < ut_serial t \<and>
     (\<forall>k d. gm_lookup (ut_rows t) k = Some d \<longrightarrow> 0 < k \<and> k < ut_serial t)"

lemma su_fresh: "su_inv t \<Longrightarrow> gm_lookup (ut_rows t) (ut_serial t) = None"
  unfolding su_inv_def by (metis less_irrefl not_Some_eq)

lemma su_taken:
  "su_inv t \<Longrightarrow> list_ex (\<lambda>d. du_email d = email) (gm_values (ut_rows t)) \<longleftrightarrow>
     email_taken (=) (su_abs t) email"
  by (fastforce simp: su_inv_def email_taken_def su_abs_def list_ex_iff gm_values_ran ran_def scan_user_def
      simp del: list.set_map set_map)

lemma su_Save:
  assumes "su_inv t" and "SQLXUserRepository_Save no_fault u t = ((e, u'), t')"
  shows "su_inv t'"
    and "email_taken (=) (su_abs t) (user_Email u) \<Longrightarrow> e \<noteq> None"
    and "e \<noteq> None \<Longrightarrow> su_abs t' = su_abs t"
    and "e = None \<Longrightarrow> u' = u\<lparr>user_ID := ut_serial t\<rparr> \<and>
      su_abs t' = (su_abs t)(ut_serial t \<mapsto> u'\<lparr>user_Version := 0\<rparr>)"
proof -
  note defs = SQLXUserRepository_Save_def run_statement_def no_fault_def qInsertUser_def Let_def
  show "su_inv t'"
    using assms by (fastforce simp: defs su_inv_def gomap_simps split: if_splits)
  show "e \<noteq> None" if "email_taken (=) (su_abs t) (user_Email u)"
    using assms that su_taken [OF assms(1), of "user_Email u"] by (auto simp: defs split: if_splits)
  show "su_abs t' = su_abs t" if "e \<noteq> None"
    using assms that by (auto simp: defs su_abs_def fun_eq_iff split: if_splits)
  show "u' = u\<lparr>user_ID := ut_serial t\<rparr> \<and> su_abs t' = (su_abs t)(ut_serial t \<mapsto> u'\<lparr>user_Version := 0\<rparr>)"
    if "e = None"
    using assms that by (auto simp: defs su_abs_def fun_eq_iff gomap_simps scan_user_def split: if_splits)
qed

interpretation sqlu: user_repository sql_users su_abs su_inv "\<lambda>_. True" "(=)"
proof (unfold_locales, goal_cases)
  case (2 s i)
  then show ?case
    by (simp add: sql_users_def SQLXUserRepository_GetByID_def no_fault_def su_abs_def mapUserRepoErr_def
        split: option.splits)
next
  case (3 s email)
  then show ?case
    by (simp add: sql_users_def SQLXUserRepository_ExistsByEmail_def qExistsByEmail_def no_fault_def su_taken)
next
  case (4 s u e u' s')
  then show ?case using su_Save(2,3) [of s u e u' s'] by (simp add: sql_users_def)
next
  case (5 s u u' s')
  then show ?case
    using su_Save(4) [of s u None u' s'] su_fresh [of s]
    by (auto simp: sql_users_def su_abs_def su_inv_def same_user_data_def)
next
  case (6 s u er u' s')
  then show ?case using su_Save(3) [of s u "Some er" u' s'] by (simp add: sql_users_def)
next
  case (7 s u)
  then show ?case
    by (cases "SQLXUserRepository_Save no_fault u s"; cases "fst (SQLXUserRepository_Save no_fault u s)")
       (auto simp: sql_users_def intro: su_Save(1))
next
  case (8 s i e s')
  then show ?case
    by (auto simp: sql_users_def SQLXUserRepository_Delete_def run_statement_def no_fault_def qDeleteUser_def
        su_abs_def fun_eq_iff gomap_simps split: if_splits)
next
  case (9 s i)
  then show ?case
    by (auto simp: sql_users_def SQLXUserRepository_Delete_def run_statement_def no_fault_def qDeleteUser_def
        su_inv_def gomap_simps split: if_splits)
qed auto

text \<open>
  The invariant needs every explicit identifier to lie below the counter, and \<open>Save\<close> does not
  check that: a user saved under identifier 1 into an empty repository is overwritten by the next
  user that asks for a fresh identifier.
\<close>

definition alice :: User where
  "alice = \<lparr>user_ID = 1, user_Name = ''alice'', user_Age = 30, user_Email = ''a@x'', user_Version = 0\<rparr>"

definition bob :: User where
  "bob = \<lparr>user_ID = 0, user_Name = ''bob'', user_Age = 31, user_Email = ''b@x'', user_Version = 0\<rparr>"

lemma memory_user_explicit_id_overwritten:
  "let r1 = snd (MemoryUserRepository_Save alice NewMemoryUserRepository);
       ((e, u), r2) = MemoryUserRepository_Save bob r1
   in e = None \<and> user_ID u = 1 \<and> gm_lookup (mu_users r1) 1 = Some (alice\<lparr>user_Version := 1\<rparr>) \<and>
      gm_lookup (mu_users r2) 1 = Some (bob\<lparr>user_ID := 1, user_Version := 1\<rparr>)"
  by code_simp

text \<open>\<open>Update\<close> does not look at the other users: it can give two of them the same address.\<close>

lemma memory_user_update_duplicates:
  "let r1 = snd (MemoryUserRepository_Save (alice\<lparr>user_ID := 0\<rparr>) NewMemoryUserRepository);
       r2 = snd (MemoryUserRepository_Save bob r1);
       r3 = snd (MemoryUserRepository_Update 2 (bob\<lparr>user_Email := ''A@x''\<rparr>) r2)
   in map user_Email (gm_values (mu_users r3)) = [''a@x'', ''A@x'']"
  by code_simp

end
