(* ===== verification/Services.thy ===== *)
theory Services
  imports UserRepo
begin

text \<open>
  The services (\<open>internal/service\<close>): \<open>JobService\<close>, which checks a transition before it asks the
  repository for it, \<open>UserService\<close> and \<open>UserProfileService\<close>.  Each is parametrised by the
  repository it holds, so its lemmas are proved once, in the contexts of the repository locales,
  and hold for the in-memory and the PostgreSQL repository.
\<close>

section \<open>JobService\<close>

definition JobService_Save :: "'s JobRepository \<Rightarrow> Job \<Rightarrow> 's \<Rightarrow> (go_error option \<times> Job) \<times> 's" where
  "JobService_Save repo job = repo_Save repo job"

definition JobService_Delete :: "'s JobRepository \<Rightarrow> int64 \<Rightarrow> 's \<Rightarrow> go_error option \<times> 's" where
  "JobService_Delete repo jid = repo_Delete repo jid"

definition JobService_GetAll :: "'s JobRepository \<Rightarrow> 's \<Rightarrow> (go_error + Job list) \<times> 's" where
  "JobService_GetAll repo = repo_GetAll repo"

definition JobService_GetByID :: "'s JobRepository \<Rightarrow> int64 \<Rightarrow> 's \<Rightarrow> (go_error + Job) \<times> 's" where
  "JobService_GetByID repo jid = repo_GetByID repo jid"

definition JobService_transition ::
  "'s JobRepository \<Rightarrow> int64 \<Rightarrow> JobTransition \<Rightarrow> ('s \<Rightarrow> go_error option \<times> 's) \<Rightarrow> 's \<Rightarrow> go_error option \<times> 's" where
  "JobService_transition repo jid intent apply_fn s =
     (case repo_GetByID repo jid s of
        (Inl e, s1) \<Rightarrow> (Some e, s1)
      | (Inr job, s1) \<Rightarrow>
          (case JobTransitionFor intent of
             None \<Rightarrow> (Some (NewJobTransitionConflict jid (job_Status job)
                        \<lparr>spec_Intent = intent, spec_From = [], spec_To = JobStatusOther ''''\<rparr>), s1)
           | Some spec \<Rightarrow>
               if \<not> CanTransitionJob (job_Status job) intent
               then (Some (NewJobTransitionConflict jid (job_Status job) spec), s1)
               else apply_fn s1))"

definition JobService_SetRunning :: "'s JobRepository \<Rightarrow> int64 \<Rightarrow> 's \<Rightarrow> go_error option \<times> 's" where
  "JobService_SetRunning repo jid = JobService_transition repo jid JobTransitionStart (repo_SetRunning repo jid)"

definition JobService_SetSucceeded ::
  "'s JobRepository \<Rightarrow> int64 \<Rightarrow> JobResult \<Rightarrow> 's \<Rightarrow> go_error option \<times> 's" where
  "JobService_SetSucceeded repo jid res =
     JobService_transition repo jid JobTransitionSucceed (repo_SetSucceeded repo jid res)"

definition JobService_SetFailed ::
  "'s JobRepository \<Rightarrow> int64 \<Rightarrow> JobProblem \<Rightarrow> 's \<Rightarrow> go_error option \<times> 's" where
  "JobService_SetFailed repo jid p =
     JobService_transition repo jid JobTransitionFail (repo_SetFailed repo jid p)"

definition ShutdownJobProblem :: JobProblem where
  "ShutdownJobProblem = zero_JobProblem\<lparr>jp_Title := ''service unavailable'',
     jp_Detail := ''job canceled: server shutting down'', jp_Status := 503\<rparr>"

definition JobService_FailActiveOnShutdown ::
  "'s JobRepository \<Rightarrow> 's \<Rightarrow> (int \<times> go_error option) \<times> 's" where
  "JobService_FailActiveOnShutdown repo = repo_FailActive repo ShutdownJobProblem"

text \<open>
  The check and the call are two steps: other requests and workers can change the job in between.
  \<open>JobService_transition_between\<close> runs \<open>between\<close> at that point; with nothing in between it is the
  method itself (\<open>JobService_transition_between_none\<close>).
\<close>

definition JobService_transition_between ::
  "'s JobRepository \<Rightarrow> int64 \<Rightarrow> JobTransition \<Rightarrow> ('s \<Rightarrow> 's) \<Rightarrow> ('s \<Rightarrow> go_error option \<times> 's) \<Rightarrow> 's \<Rightarrow>
     go_error option \<times> 's" where
  "JobService_transition_between repo jid intent between apply_fn =
     JobService_transition repo jid intent (\<lambda>s. apply_fn (between s))"

lemma JobService_transition_between_none:
  "JobService_transition_between repo jid intent (\<lambda>s. s) = JobService_transition repo jid intent"
  by (rule ext)+ (simp add: JobService_transition_between_def)

section \<open>UserService\<close>

definition UserService_GetAllUsers :: "'s UserRepository \<Rightarrow> 's \<Rightarrow> (go_error + User list) \<times> 's" where
  "UserService_GetAllUsers repo = ur_GetAll repo"

definition UserService_GetByID :: "'s UserRepository \<Rightarrow> int64 \<Rightarrow> 's \<Rightarrow> (go_error + User) \<times> 's" where
  "UserService_GetByID repo i = ur_GetByID repo i"

definition UserService_Save :: "'s UserRepository \<Rightarrow> User \<Rightarrow> 's \<Rightarrow> (go_error option \<times> User) \<times> 's" where
  "UserService_Save repo u = ur_Save repo u"

definition UserService_Delete :: "'s UserRepository \<Rightarrow> int64 \<Rightarrow> 's \<Rightarrow> go_error option \<times> 's" where
  "UserService_Delete repo i = ur_Delete repo i"

definition UserService_CreateUser ::
  "'s UserRepository \<Rightarrow> CreateUserInput \<Rightarrow> 's \<Rightarrow> (go_error + UserDTO) \<times> 's" where
  "UserService_CreateUser repo inp s =
     (case ur_ExistsByEmail repo (cui_Email inp) s of
        (Inl e, s1) \<Rightarrow> (Inl (WrapError ''check email'' e), s1)
      | (Inr exists, s1) \<Rightarrow>
          if exists then (Inl (WrapError ''email already exists'' (Sentinel ErrConflict)), s1)
          else
            (case ur_Save repo \<lparr>user_ID = 0, user_Name = cui_Name inp, user_Age = cui_Age inp,
                                user_Email = cui_Email inp, user_Version = 0\<rparr> s1 of
               ((Some e, _), s2) \<Rightarrow> (Inl (WrapError ''save user'' e), s2)
             | ((None, u), s2) \<Rightarrow>
                 (Inr \<lparr>dto_ID = user_ID u, dto_Name = user_Name u, dto_Email = user_Email u\<rparr>, s2)))"

section \<open>UserProfileService\<close>

record Profile =
  prof_UserID :: int64
  prof_Bio :: string
  prof_City :: string

text \<open>The profile client and the context deadline are parameters: \<open>fetch\<close> is the client's answer
  within the configured timeout.\<close>

definition UserProfileService_GetUserWithProfile ::
  "'s UserRepository \<Rightarrow> (int64 \<Rightarrow> string \<Rightarrow> go_error + Profile) \<Rightarrow> int64 \<Rightarrow> string \<Rightarrow> 's \<Rightarrow>
     (go_error + User \<times> Profile) \<times> 's" where
  "UserProfileService_GetUserWithProfile repo fetch userID requestID s =
     (case UserService_GetByID repo userID s of
        (Inl e, s1) \<Rightarrow> (Inl e, s1)
      | (Inr user, s1) \<Rightarrow>
          (case fetch userID requestID of
             Inl e \<Rightarrow> (Inl e, s1)
           | Inr prof \<Rightarrow> (Inr (user, prof), s1)))"

section \<open>Lemmas over every repository\<close>

context job_repository begin

text \<open>The check before the call changes nothing: the service is the repository's compare-and-set.\<close>

lemma service_transition:
  assumes "invar s" and "JobTransitionFor intent = Some spec"
    and "\<And>e s'. apply_fn s = (e, s') \<Longrightarrow> (e, abs s') = cas intent f jid (abs s)"
    and "JobService_transition repo jid intent apply_fn s = (e, s')"
  shows "(e, abs s') = cas intent f jid (abs s)"
  using assms get [OF assms(1), of jid]
  by (auto simp: JobService_transition_def cas_def NewJobTransitionConflict_conflict
      split: option.splits if_splits)

lemma service_SetRunning:
  "invar s \<Longrightarrow> JobService_SetRunning repo jid s = (e, s') \<Longrightarrow>
     (e, abs s') = cas JobTransitionStart mark_running jid (abs s)"
  unfolding JobService_SetRunning_def
  by (rule service_transition [OF _ JobTransitionFor_simps(1)]) (auto dest: set_running)

lemma service_SetSucceeded:
  "invar s \<Longrightarrow> JobService_SetSucceeded repo jid r s = (e, s') \<Longrightarrow>
     (e, abs s') = cas JobTransitionSucceed (mark_succeeded r) jid (abs s)"
  unfolding JobService_SetSucceeded_def
  by (rule service_transition [OF _ JobTransitionFor_simps(2)]) (auto dest: set_succeeded)

lemma service_SetFailed:
  "invar s \<Longrightarrow> JobService_SetFailed repo jid p s = (e, s') \<Longrightarrow>
     (e, abs s') = cas JobTransitionFail (mark_failed p) jid (abs s)"
  unfolding JobService_SetFailed_def
  by (rule service_transition [OF _ JobTransitionFor_simps(3)]) (auto dest: set_failed)

text \<open>With arbitrary lifecycle calls between check and call, every job still evolves legally.\<close>

lemma repo_run_snoc: "repo_run repo (ops @ [op]) s = repo_apply repo op (repo_run repo ops s)"
  by (induction ops arbitrary: s) auto

lemma between_is_run:
  assumes "invar s" and "\<And>s. snd (apply_fn s) = repo_apply repo op s"
    and "JobService_transition_between repo jid intent (repo_run repo ops) apply_fn s = (e, s')"
  shows "s' = s \<or> s' = repo_run repo (ops @ [op]) s"
  using assms(3) get [OF assms(1), of jid] assms(2) [of "repo_run repo ops s"]
  by (auto simp: JobService_transition_between_def JobService_transition_def repo_run_snoc
      split: option.splits if_splits)

lemma between_evolves:
  assumes "invar s" and "\<And>s. snd (apply_fn s) = repo_apply repo op s" and "abs s k = Some j"
    and "JobService_transition_between repo jid intent (repo_run repo ops) apply_fn s = (e, s')"
  shows "\<exists>j'. abs s' k = Some j' \<and> job_evolves j j'"
  using between_is_run [OF assms(1,2,4)] run_evolves [OF assms(1,3), of "ops @ [op]"] assms(3) by auto

lemma service_invar:
  assumes "invar s"
  shows "invar (snd (JobService_SetRunning repo jid s))" "invar (snd (JobService_SetSucceeded repo jid r s))"
    "invar (snd (JobService_SetFailed repo jid p s))" "invar (snd (JobService_FailActiveOnShutdown repo s))"
  using assms invar_ops get [OF assms, of jid]
  by (auto simp: JobService_SetRunning_def JobService_SetSucceeded_def JobService_SetFailed_def
      JobService_FailActiveOnShutdown_def JobService_transition_def split: option.splits)

end

context user_repository begin

lemma create_taken:
  assumes "invar s" and "email_taken same (abs s) (cui_Email inp)"
  shows "UserService_CreateUser repo inp s =
    (Inl (WrapError ''email already exists'' (Sentinel ErrConflict)), s)"
  using assms by (simp add: UserService_CreateUser_def exists)

lemma create_user:
  assumes "invar s" and "\<not> email_taken same (abs s) (cui_Email inp)"
    and "UserService_CreateUser repo inp s = (res, s')"
  shows "case res of
      Inl e \<Rightarrow> abs s' = abs s
    | Inr dto \<Rightarrow> dto_Name dto = cui_Name inp \<and> dto_Email dto = cui_Email inp \<and> dto_ID dto \<noteq> 0 \<and>
        abs s (dto_ID dto) = None \<and>
        (\<exists>v. abs s' = (abs s)(dto_ID dto \<mapsto> \<lparr>user_ID = dto_ID dto, user_Name = cui_Name inp,
           user_Age = cui_Age inp, user_Email = cui_Email inp, user_Version = v\<rparr>))"
proof -
  let ?u = "\<lparr>user_ID = 0, user_Name = cui_Name inp, user_Age = cui_Age inp,
             user_Email = cui_Email inp, user_Version = 0\<rparr>"
  obtain e u s2 where save: "ur_Save repo ?u s = ((e, u), s2)"
    by (metis surj_pair)
  show ?thesis
  proof (cases e)
    case None
    with save save_new [OF assms(1), of ?u u s2] assms(2,3) show ?thesis
      by (cases u) (auto simp: UserService_CreateUser_def exists [OF assms(1)] same_user_data_def)
  next
    case (Some er)
    with save save_error [OF assms(1), of ?u er u s2] assms(2,3) show ?thesis
      by (auto simp: UserService_CreateUser_def exists [OF assms(1)])
  qed
qed

lemma create_unique:
  assumes "invar s" and "unique_emails same (abs s)" and "UserService_CreateUser repo inp s = (res, s')"
  shows "unique_emails same (abs s')"
proof (cases "email_taken same (abs s) (cui_Email inp)")
  case True
  with assms create_taken [OF assms(1)] show ?thesis by simp
next
  case False
  have "unique_emails same ((abs s)(i \<mapsto> u))" if "user_Email u = cui_Email inp" for i u
    using assms(2) False that by (auto simp: unique_emails_def email_taken_def dest: same_sym)
  then show ?thesis
    using create_user [OF assms(1) False assms(3)] assms(2) by (cases res) auto
qed

end

section \<open>Properties\<close>



text \<open>Over the in-memory repository, \<open>CreateUser\<close> refuses an address that is taken up to letter
  case with an error that wraps \<open>ErrConflict\<close> and stores nothing; otherwise it succeeds, returns the
  name and address it was given with an unused identifier, stores exactly that user at version 1,
  and keeps addresses unique up to letter case.\<close>

lemma create_user_memory:
  assumes "mu_inv r" and "unique_emails EqualFold (gm_lookup (mu_users r))"
    and "UserService_CreateUser memory_users inp r = (res, r')"
  shows "unique_emails EqualFold (gm_lookup (mu_users r')) \<and>
    (if list_ex (\<lambda>u. EqualFold (user_Email u) (cui_Email inp)) (gm_values (mu_users r))
     then r' = r \<and> (\<exists>e. res = Inl e \<and> errors_Is e ErrConflict)
     else res = Inr \<lparr>dto_ID = mu_nextID r, dto_Name = cui_Name inp, dto_Email = cui_Email inp\<rparr> \<and>
       gm_lookup (mu_users r) (mu_nextID r) = None \<and>
       gm_lookup (mu_users r') = (gm_lookup (mu_users r))(mu_nextID r \<mapsto>
         \<lparr>user_ID = mu_nextID r, user_Name = cui_Name inp, user_Age = cui_Age inp,
          user_Email = cui_Email inp, user_Version = 1\<rparr>))"
proof -
  have unique: "unique_emails EqualFold (gm_lookup (mu_users r'))"
    using memu.create_unique [OF assms(1) _ assms(3)] assms(2) by (simp add: mu_abs_def)
  show ?thesis
    using unique assms(3) mu_fresh [OF assms(1)]
    by (auto simp: UserService_CreateUser_def memory_users_def MemoryUserRepository_ExistsByEmail_def
        MemoryUserRepository_Save_def Let_def fun_eq_iff gomap_simps)
qed



end
