(* ===== verification/Queue.thy ===== *)
theory Queue
  imports GoErrors
begin

text \<open>
  The bounded work queue between the HTTP handlers and the workers (\<open>internal/queue\<close>).  The Go
  channel is the list of buffered items with its capacity; the read-write mutex makes everything
  after the first context check of \<open>Enqueue\<close> one step with respect to \<open>StopAccepting\<close>.  What a
  client may rely on (bounded first-in first-out order, and no admission after the barrier) is the
  locale \<open>admission_queue\<close>.
\<close>

record WorkItem =
  wi_JobID :: int64
  wi_Payload :: CreateUserInput

record Queue =
  q_ch :: "WorkItem list"
  q_cap :: nat
  q_stopped :: bool
  q_rejections :: int

text \<open>\<open>make(chan WorkItem, capacity)\<close> panics on a negative capacity (\<open>None\<close>).\<close>

definition New :: "int \<Rightarrow> Queue option" where
  "New capacity =
     (if capacity < 0 then None
      else Some \<lparr>q_ch = [], q_cap = nat capacity, q_stopped = False, q_rejections = 0\<rparr>)"

definition StopAccepting :: "Queue \<Rightarrow> Queue" where
  "StopAccepting q = q\<lparr>q_stopped := True\<rparr>"

text \<open>
  What one call of \<open>Enqueue\<close> observes of its context at the three places where it looks, and which
  ready case the runtime picks when both are.
\<close>

record ctx_obs =
  co_entry :: "go_error option"
  co_locked :: "go_error option"
  co_select :: "go_error option"
  co_choose_send :: bool

definition Enqueue :: "ctx_obs \<Rightarrow> WorkItem \<Rightarrow> Queue \<Rightarrow> go_error option \<times> Queue" where
  "Enqueue c item q =
     (case co_entry c of
        Some e \<Rightarrow> (Some e, q)
      | None \<Rightarrow>
          if q_stopped q then (Some (Sentinel ErrQueueStopped), q)
          else
            (case co_locked c of
               Some e \<Rightarrow> (Some e, q)
             | None \<Rightarrow>
                 if length (q_ch q) < q_cap q \<and> (co_select c = None \<or> co_choose_send c)
                 then (None, q\<lparr>q_ch := q_ch q @ [item]\<rparr>)
                 else
                   (case co_select c of
                      Some e \<Rightarrow> (Some e, q)
                    | None \<Rightarrow> (Some (Sentinel ErrQueueFull), q\<lparr>q_rejections := q_rejections q + 1\<rparr>))))"

text \<open>A worker's receive from \<open>Chan()\<close>, when an item is buffered.\<close>

definition Chan_receive :: "Queue \<Rightarrow> WorkItem option \<times> Queue" where
  "Chan_receive q = (case q_ch q of [] \<Rightarrow> (None, q) | x # xs \<Rightarrow> (Some x, q\<lparr>q_ch := xs\<rparr>))"

section \<open>The contract\<close>

record 'q queue_ops =
  op_enqueue :: "ctx_obs \<Rightarrow> WorkItem \<Rightarrow> 'q \<Rightarrow> go_error option \<times> 'q"
  op_stop :: "'q \<Rightarrow> 'q"
  op_receive :: "'q \<Rightarrow> WorkItem option \<times> 'q"

datatype queue_event = EvEnqueue ctx_obs WorkItem | EvStop | EvReceive

text \<open>
  One event with the items it accepts and delivers, and a history of a queue: all items it
  accepted, all items it delivered, and its final state.
\<close>

fun queue_event_step :: "'q queue_ops \<Rightarrow> queue_event \<Rightarrow> 'q \<Rightarrow> WorkItem list \<times> WorkItem list \<times> 'q" where
  "queue_event_step ops (EvEnqueue c x) q =
     (case op_enqueue ops c x q of (e, q1) \<Rightarrow> (if e = None then [x] else [], [], q1))"
| "queue_event_step ops EvStop q = ([], [], op_stop ops q)"
| "queue_event_step ops EvReceive q =
     (case op_receive ops q of (r, q1) \<Rightarrow> ([], (case r of None \<Rightarrow> [] | Some x \<Rightarrow> [x]), q1))"

fun queue_run :: "'q queue_ops \<Rightarrow> queue_event list \<Rightarrow> 'q \<Rightarrow> WorkItem list \<times> WorkItem list \<times> 'q" where
  "queue_run ops [] q = ([], [], q)"
| "queue_run ops (ev # evs) q =
     (case queue_event_step ops ev q of
        (a, d, q1) \<Rightarrow> (case queue_run ops evs q1 of (acc, del, q2) \<Rightarrow> (a @ acc, d @ del, q2)))"

locale admission_queue =
  fixes ops :: "'q queue_ops"
    and items :: "'q \<Rightarrow> WorkItem list"
    and capacity :: "'q \<Rightarrow> nat"
    and stopped :: "'q \<Rightarrow> bool"
  assumes enqueue_ok: "op_enqueue ops c x q = (None, q') \<Longrightarrow>
      \<not> stopped q \<and> length (items q) < capacity q \<and> items q' = items q @ [x]"
    and enqueue_err: "op_enqueue ops c x q = (Some e, q') \<Longrightarrow> items q' = items q"
    and enqueue_frame: "op_enqueue ops c x q = (er, q') \<Longrightarrow> stopped q' = stopped q \<and> capacity q' = capacity q"
    and stop: "items (op_stop ops q) = items q \<and> stopped (op_stop ops q) \<and>
      capacity (op_stop ops q) = capacity q"
    and receive: "op_receive ops q = (r, q') \<Longrightarrow>
      items q = (case r of None \<Rightarrow> [] | Some x \<Rightarrow> [x]) @ items q' \<and> (r = None \<longleftrightarrow> items q = []) \<and>
      stopped q' = stopped q \<and> capacity q' = capacity q"

context admission_queue begin

text \<open>Items are delivered in the order of their admission, none is lost and none invented.\<close>

lemma step_spec:
  assumes "queue_event_step ops ev q = (a, d, q1)"
  shows "items q @ a = d @ items q1" and "stopped q \<Longrightarrow> a = [] \<and> stopped q1"
    and "capacity q1 = capacity q"
    and "length (items q) \<le> capacity q \<Longrightarrow> length (items q1) \<le> capacity q1"
proof -
  have "items q @ a = d @ items q1 \<and> (stopped q \<longrightarrow> a = [] \<and> stopped q1) \<and> capacity q1 = capacity q \<and>
      (length (items q) \<le> capacity q \<longrightarrow> length (items q1) \<le> capacity q1)"
  proof (cases ev)
    case (EvEnqueue c x)
    obtain e q2 where e: "op_enqueue ops c x q = (e, q2)" by force
    show ?thesis
    proof (cases e)
      case None
      then show ?thesis using assms EvEnqueue e enqueue_ok [of c x q q2] enqueue_frame [OF e] by auto
    next
      case (Some er)
      then show ?thesis using assms EvEnqueue e enqueue_err [of c x q er q2] enqueue_frame [OF e] by auto
    qed
  next
    case EvStop
    then show ?thesis using assms stop [of q] by auto
  next
    case EvReceive
    obtain x q2 where e: "op_receive ops q = (x, q2)" by force
    then show ?thesis using assms EvReceive receive [OF e] by (cases x) auto
  qed
  then show "items q @ a = d @ items q1" and "stopped q \<Longrightarrow> a = [] \<and> stopped q1"
    and "capacity q1 = capacity q"
    and "length (items q) \<le> capacity q \<Longrightarrow> length (items q1) \<le> capacity q1"
    by auto
qed

lemma run_fifo: "queue_run ops evs q = (acc, del, q') \<Longrightarrow> items q @ acc = del @ items q'"
proof (induction evs arbitrary: q acc del)
  case (Cons ev evs)
  obtain a d q1 where s: "queue_event_step ops ev q = (a, d, q1)" by (metis surj_pair)
  with Cons.prems obtain acc1 del1 where r: "queue_run ops evs q1 = (acc1, del1, q')"
      "acc = a @ acc1" "del = d @ del1"
    by (auto split: prod.splits)
  show ?case
    using step_spec(1) [OF s] Cons.IH [OF r(1)] r(2,3) by (metis append.assoc)
qed simp

lemma run_stopped: "stopped q \<Longrightarrow> queue_run ops evs q = (acc, del, q') \<Longrightarrow> acc = [] \<and> stopped q'"
  by (induction evs arbitrary: q acc del) (fastforce split: prod.splits dest: step_spec(2))+

lemma run_bound:
  "length (items q) \<le> capacity q \<Longrightarrow> queue_run ops evs q = (acc, del, q') \<Longrightarrow>
     length (items q') \<le> capacity q' \<and> capacity q' = capacity q"
proof (induction evs arbitrary: q acc del)
  case (Cons ev evs)
  obtain a d q1 where s: "queue_event_step ops ev q = (a, d, q1)" by (metis surj_pair)
  with Cons.prems obtain acc1 del1 where r: "queue_run ops evs q1 = (acc1, del1, q')"
    by (auto split: prod.splits)
  show ?case
    using Cons.IH [OF step_spec(4) [OF s Cons.prems(1)] r] step_spec(3) [OF s] by simp
qed simp

end

definition channel_queue :: "Queue queue_ops" where
  "channel_queue = \<lparr>op_enqueue = Enqueue, op_stop = StopAccepting, op_receive = Chan_receive\<rparr>"

interpretation chanq: admission_queue channel_queue q_ch q_cap q_stopped
  by unfold_locales
     (auto simp: channel_queue_def Enqueue_def StopAccepting_def Chan_receive_def
      split: option.splits if_splits list.splits)

section \<open>Properties\<close>

text \<open>C31: over any history of concurrent \<open>Enqueue\<close>, \<open>StopAccepting\<close> and receive calls on a queue
  created by \<open>New\<close>, the buffer never exceeds the configured capacity, and the items delivered to
  the workers followed by the buffered ones are exactly the accepted items in the order of their
  admission.\<close>

theorem queue_bounded_fifo:
  assumes "New n = Some q" and "queue_run channel_queue evs q = (acc, del, q')"
  shows "acc = del @ q_ch q' \<and> int (length (q_ch q')) \<le> n"
proof -
  have q: "q_ch q = []" "q_cap q = nat n" "0 \<le> n"
    using assms(1) by (auto simp: New_def split: if_splits)
  have "length (q_ch q') \<le> nat n"
    using chanq.run_bound [OF _ assms(2)] q by simp
  then show ?thesis
    using chanq.run_fifo [OF assms(2)] q by simp
qed

definition sample_item :: "int64 \<Rightarrow> WorkItem" where
  "sample_item i = \<lparr>wi_JobID = i, wi_Payload = \<lparr>cui_Name = ''n'', cui_Age = 1, cui_Email = ''e''\<rparr>\<rparr>"

definition live_ctx :: ctx_obs where
  "live_ctx = \<lparr>co_entry = None, co_locked = None, co_select = None, co_choose_send = True\<rparr>"

definition sample_queue :: Queue where
  "sample_queue = \<lparr>q_ch = [], q_cap = 2, q_stopped = False, q_rejections = 0\<rparr>"

theorem queue_bounded_fifo_witness:
  "fst (queue_run channel_queue [EvEnqueue live_ctx (sample_item 1), EvEnqueue live_ctx (sample_item 2),
      EvReceive, EvStop, EvEnqueue live_ctx (sample_item 3)] sample_queue) =
    [sample_item 1, sample_item 2]"
  using queue_bounded_fifo [of 2 sample_queue "[EvEnqueue live_ctx (sample_item 1),
      EvEnqueue live_ctx (sample_item 2), EvReceive, EvStop, EvEnqueue live_ctx (sample_item 3)]"]
  by (simp add: New_def sample_queue_def channel_queue_def Enqueue_def live_ctx_def Chan_receive_def
      StopAccepting_def)

text \<open>C13: \<open>StopAccepting\<close> is a strict barrier: in every history after it returned, no \<open>Enqueue\<close>
  succeeds, whatever its context does, and a live call is told \<open>ErrQueueStopped\<close>; the items
  accepted before can still be received.\<close>

theorem queue_stop_barrier:
  assumes "queue_run channel_queue evs (StopAccepting q) = (acc, del, q')"
  shows "acc = [] \<and> q_ch q = del @ q_ch q' \<and>
    (\<forall>c x. co_entry c = None \<longrightarrow> Enqueue c x q' = (Some (Sentinel ErrQueueStopped), q'))"
proof -
  have "q_stopped (StopAccepting q)" "q_ch (StopAccepting q) = q_ch q"
    by (simp_all add: StopAccepting_def)
  with chanq.run_stopped [OF _ assms] chanq.run_fifo [OF assms] show ?thesis
    by (simp add: Enqueue_def)
qed

theorem queue_stop_barrier_witness:
  "Enqueue live_ctx (sample_item 3) (StopAccepting sample_queue) =
     (Some (Sentinel ErrQueueStopped), StopAccepting sample_queue)"
  using queue_stop_barrier [of "[]" sample_queue "[]" "[]" "StopAccepting sample_queue"]
  by (simp add: live_ctx_def)

end
