(* ===== verification/Stream.thy ===== *)
theory Stream
  imports GoErrors "HOL-Library.Word"
begin

text \<open>
  The event hub behind the server-sent events (\<open>internal/stream/stream.go\<close>).  Subscriber channels
  are objects that outlive their entry in the hub (a handler keeps reading a closed channel), so
  they live in a store of their own, and a subscriber refers to its channel by its identifier.
  The expvar maps are counters of the state.
\<close>

section \<open>State\<close>

datatype event_data = NoData | ResultData JobResult | ProblemData JobProblem

record Event =
  ev_Type :: string
  ev_JobID :: int64
  ev_At :: int64
  ev_Data :: event_data

type_synonym uint64 = "64 word"

record channel =
  ch_buf :: "Event list"
  ch_closed :: bool

record subscriber =
  sub_id :: uint64
  sub_jobID :: int64
  sub_ch :: uint64

record Hub =
  hub_subs :: "(int64, (uint64, subscriber) gomap) gomap"
  hub_history :: "(int64, Event list) gomap"
  hub_nextID :: uint64
  hub_subscriberBuffer :: nat
  hub_subscribers :: int64
  hub_eventsTotal :: int64
  hub_dropsTotal :: int64
  hub_closed :: bool
  hub_channels :: "(uint64, channel) gomap"
  sseSubscribers :: int64
  sseEventsTotal :: int64
  sseDropsTotal :: int64

text \<open>\<open>NewHub\<close> panics on a buffer that is not positive (\<open>None\<close>).\<close>

definition NewHub :: "int \<Rightarrow> Hub option" where
  "NewHub subscriberBuffer =
     (if subscriberBuffer \<le> 0 then None
      else Some \<lparr>hub_subs = [], hub_history = [], hub_nextID = 0, hub_subscriberBuffer = nat subscriberBuffer,
        hub_subscribers = 0, hub_eventsTotal = 0, hub_dropsTotal = 0, hub_closed = False,
        hub_channels = [], sseSubscribers = 0, sseEventsTotal = 0, sseDropsTotal = 0\<rparr>)"

section \<open>Channels\<close>

text \<open>A send that would block, a send that succeeds, or the panic of a send on a closed channel.\<close>

datatype send_result = Sent channel | Blocks | Panics

definition chan_send :: "nat \<Rightarrow> Event \<Rightarrow> channel \<Rightarrow> send_result" where
  "chan_send cap ev c =
     (if ch_closed c then Panics
      else if length (ch_buf c) < cap then Sent (c\<lparr>ch_buf := ch_buf c @ [ev]\<rparr>)
      else Blocks)"

text \<open>The blocking sends that replay the history into a new channel: \<open>None\<close> when one of them never
  returns.\<close>

fun replay :: "nat \<Rightarrow> Event list \<Rightarrow> channel \<Rightarrow> channel option" where
  "replay cap [] c = Some c"
| "replay cap (ev # evs) c =
     (case chan_send cap ev c of Sent c' \<Rightarrow> replay cap evs c' | Blocks \<Rightarrow> None | Panics \<Rightarrow> None)"

section \<open>Operations\<close>

definition history_of :: "Hub \<Rightarrow> int64 \<Rightarrow> Event list" where
  "history_of h jobID = (case gm_lookup (hub_history h) jobID of None \<Rightarrow> [] | Some es \<Rightarrow> es)"

definition subs_of :: "Hub \<Rightarrow> int64 \<Rightarrow> (uint64, subscriber) gomap" where
  "subs_of h jobID = (case gm_lookup (hub_subs h) jobID of None \<Rightarrow> [] | Some m \<Rightarrow> m)"

text \<open>\<open>Subscribe\<close> returns the channel and the identifier its unsubscribe function closes over; the
  outer \<open>None\<close> is a call that never returns.\<close>

definition Hub_Subscribe :: "int64 \<Rightarrow> Hub \<Rightarrow> ((go_error + uint64) \<times> Hub) option" where
  "Hub_Subscribe jobID h =
     (if \<not> hub_closed h then
        (let sid = hub_nextID h + 1
         in case replay (hub_subscriberBuffer h) (history_of h jobID) \<lparr>ch_buf = [], ch_closed = False\<rparr> of
              None \<Rightarrow> None
            | Some c \<Rightarrow>
                Some (Inr sid,
                  h\<lparr>hub_nextID := sid,
                    hub_subs := gm_update jobID
                      (gm_update sid \<lparr>sub_id = sid, sub_jobID = jobID, sub_ch = sid\<rparr> (subs_of h jobID))
                      (hub_subs h),
                    hub_channels := gm_update sid c (hub_channels h),
                    hub_subscribers := wrap64 (hub_subscribers h + 1),
                    sseSubscribers := wrap64 (sseSubscribers h + 1)\<rparr>))
      else Some (Inl (Sentinel ErrHubClosed), h))"

text \<open>The function \<open>Subscribe\<close> returns, with the state of its \<open>sync.Once\<close>.\<close>

definition Hub_unsubscribe :: "int64 \<Rightarrow> uint64 \<Rightarrow> bool \<Rightarrow> Hub \<Rightarrow> bool \<times> Hub" where
  "Hub_unsubscribe jobID sid done_before h =
     (if done_before then (True, h)
      else
        (case gm_lookup (hub_subs h) jobID of
           None \<Rightarrow> (True, h)
         | Some jobSubs \<Rightarrow>
             (case gm_lookup jobSubs sid of
                None \<Rightarrow> (True, h)
              | Some _ \<Rightarrow>
                  (let jobSubs' = gm_delete sid jobSubs
                   in (True, h\<lparr>hub_subs := (if jobSubs' = [] then gm_delete jobID (hub_subs h)
                                            else gm_update jobID jobSubs' (hub_subs h)),
                              hub_subscribers := wrap64 (hub_subscribers h - 1),
                              sseSubscribers := wrap64 (sseSubscribers h - 1)\<rparr>)))))"

definition recordHistoryLocked :: "int64 \<Rightarrow> Event \<Rightarrow> Hub \<Rightarrow> Hub" where
  "recordHistoryLocked jobID ev h =
     (let history = history_of h jobID @ [ev];
          history' = (if length history > hub_subscriberBuffer h
                      then drop (length history - hub_subscriberBuffer h) history else history)
      in h\<lparr>hub_history := gm_update jobID history' (hub_history h)\<rparr>)"

text \<open>The loop of \<open>Publish\<close> over the job's subscribers; \<open>None\<close> is a panic.\<close>

fun publish_loop :: "Event \<Rightarrow> (uint64, subscriber) gomap \<Rightarrow> Hub \<Rightarrow> Hub option" where
  "publish_loop ev [] h = Some h"
| "publish_loop ev ((sid, sub) # subs) h =
     (case gm_lookup (hub_channels h) (sub_ch sub) of
        None \<Rightarrow> None
      | Some c \<Rightarrow>
          (case chan_send (hub_subscriberBuffer h) ev c of
             Sent c' \<Rightarrow> publish_loop ev subs (h\<lparr>hub_channels := gm_update (sub_ch sub) c' (hub_channels h)\<rparr>)
           | Blocks \<Rightarrow> publish_loop ev subs (h\<lparr>hub_dropsTotal := wrap64 (hub_dropsTotal h + 1),
                                               sseDropsTotal := wrap64 (sseDropsTotal h + 1)\<rparr>)
           | Panics \<Rightarrow> None))"

definition Hub_Publish :: "int64 \<Rightarrow> Event \<Rightarrow> Hub \<Rightarrow> Hub option" where
  "Hub_Publish jobID ev h =
     (if \<not> hub_closed h then
        (let h1 = recordHistoryLocked jobID ev
                    (h\<lparr>hub_eventsTotal := wrap64 (hub_eventsTotal h + 1),
                       sseEventsTotal := wrap64 (sseEventsTotal h + 1)\<rparr>)
         in publish_loop ev (subs_of h1 jobID) h1)
      else Some h)"

definition Hub_Ready :: "Hub \<Rightarrow> go_error option" where
  "Hub_Ready h = (if hub_closed h then Some (Sentinel ErrHubClosed) else None)"

text \<open>
  \<open>Close\<close> sets the flag before it takes the lock: the two parts are separate steps.  Closing a
  channel twice panics (\<open>None\<close>).
\<close>

definition Hub_Close_flag :: "Hub \<Rightarrow> bool \<times> Hub" where
  "Hub_Close_flag h = (if hub_closed h then (False, h) else (True, h\<lparr>hub_closed := True\<rparr>))"

fun close_channels :: "subscriber list \<Rightarrow> (uint64, channel) gomap \<Rightarrow> (uint64, channel) gomap option" where
  "close_channels [] cs = Some cs"
| "close_channels (sub # subs) cs =
     (case gm_lookup cs (sub_ch sub) of
        None \<Rightarrow> None
      | Some c \<Rightarrow> if ch_closed c then None
                  else close_channels subs (gm_update (sub_ch sub) (c\<lparr>ch_closed := True\<rparr>) cs))"

definition Hub_Close_locked :: "Hub \<Rightarrow> Hub option" where
  "Hub_Close_locked h =
     (case close_channels (concat (map (\<lambda>(_, m). gm_values m) (hub_subs h))) (hub_channels h) of
        None \<Rightarrow> None
      | Some cs \<Rightarrow>
          Some (h\<lparr>hub_channels := cs, hub_subs := [],
                  sseSubscribers := (if hub_subscribers h \<noteq> 0 then wrap64 (sseSubscribers h - hub_subscribers h)
                                     else sseSubscribers h),
                  hub_subscribers := 0\<rparr>))"

definition Hub_Close :: "Hub \<Rightarrow> Hub option" where
  "Hub_Close h = (case Hub_Close_flag h of (first, h1) \<Rightarrow> if first then Hub_Close_locked h1 else Some h1)"

text \<open>What a reader of a subscription sees: an event, the end of a closed channel, or nothing yet.\<close>

datatype chan_read = Received Event | Closed | Empty

definition chan_receive :: "uint64 \<Rightarrow> Hub \<Rightarrow> chan_read \<times> Hub" where
  "chan_receive sid h =
     (case gm_lookup (hub_channels h) sid of
        None \<Rightarrow> (Empty, h)
      | Some c \<Rightarrow>
          (case ch_buf c of
             [] \<Rightarrow> (if ch_closed c then Closed else Empty, h)
           | ev # evs \<Rightarrow> (Received ev, h\<lparr>hub_channels := gm_update sid (c\<lparr>ch_buf := evs\<rparr>) (hub_channels h)\<rparr>)))"

text \<open>One event on the wire: the error and the bytes written so far.  The JSON encoding of the data and
  the outcome of the two writes are parameters.\<close>

definition WriteSSE ::
  "(event_data \<Rightarrow> go_error + string) \<Rightarrow> go_error option \<Rightarrow> go_error option \<Rightarrow> Event \<Rightarrow>
     go_error option \<times> string" where
  "WriteSSE json_Marshal write1 write2 event =
     (case (if ev_Type event \<noteq> ''''
            then (case write1 of
                    Some e \<Rightarrow> (Some e, '''')
                  | None \<Rightarrow> (None, ''event: '' @ ev_Type event @ ''\<newline>''))
            else (None, '''')) of
        (Some e, out) \<Rightarrow> (Some e, out)
      | (None, out) \<Rightarrow>
          (case json_Marshal (ev_Data event) of
             Inl e \<Rightarrow> (Some e, out)
           | Inr d \<Rightarrow>
               (case write2 of
                  Some e \<Rightarrow> (Some e, out)
                | None \<Rightarrow> (None, out @ ''data: '' @ d @ ''\<newline>\<newline>''))))"

section \<open>Steps and invariant\<close>

text \<open>
  The steps of concurrent handlers and workers: each operation is one step because it runs under
  the hub's mutex, except that the flag of \<open>Close\<close> is set before.  The identifiers do not wrap: the
  relation describes the first \<open>2 ^ 64 - 1\<close> subscriptions.
\<close>

inductive hub_step :: "Hub \<Rightarrow> Hub \<Rightarrow> bool" where
  subscribe: "1 + hub_nextID h \<noteq> 0 \<Longrightarrow> Hub_Subscribe jobID h = Some (r, h') \<Longrightarrow> hub_step h h'"
| unsubscribe: "Hub_unsubscribe jobID sid d h = (d', h') \<Longrightarrow> hub_step h h'"
| publish: "Hub_Publish jobID ev h = Some h' \<Longrightarrow> hub_step h h'"
| close_flag: "Hub_Close_flag h = (b, h') \<Longrightarrow> hub_step h h'"
| close_locked: "hub_closed h \<Longrightarrow> Hub_Close_locked h = Some h' \<Longrightarrow> hub_step h h'"
| receive: "chan_receive sid h = (x, h') \<Longrightarrow> hub_step h h'"

definition subs_count :: "(int64, (uint64, subscriber) gomap) gomap \<Rightarrow> nat" where
  "subs_count m = sum_list (map (\<lambda>(_, x). length x) m)"

definition sub_ok :: "Hub \<Rightarrow> int64 \<Rightarrow> uint64 \<Rightarrow> subscriber \<Rightarrow> bool" where
  "sub_ok h j i s \<longleftrightarrow> sub_id s = i \<and> sub_jobID s = j \<and> sub_ch s = i \<and>
     (\<exists>c. gm_lookup (hub_channels h) i = Some c \<and> \<not> ch_closed c)"

definition subs_ok :: "Hub \<Rightarrow> bool" where
  "subs_ok h \<longleftrightarrow> gm_wf (hub_subs h) \<and>
     (\<forall>j m. gm_lookup (hub_subs h) j = Some m \<longrightarrow> gm_wf m \<and> m \<noteq> [] \<and>
        (\<forall>i s. gm_lookup m i = Some s \<longrightarrow> sub_ok h j i s)) \<and>
     (\<forall>j j' m m' i. gm_lookup (hub_subs h) j = Some m \<longrightarrow> gm_lookup (hub_subs h) j' = Some m' \<longrightarrow>
        gm_lookup m i \<noteq> None \<longrightarrow> gm_lookup m' i \<noteq> None \<longrightarrow> j = j')"

definition bufs_ok :: "Hub \<Rightarrow> bool" where
  "bufs_ok h \<longleftrightarrow> (\<forall>i c. gm_lookup (hub_channels h) i = Some c \<longrightarrow>
        length (ch_buf c) \<le> hub_subscriberBuffer h \<and> unat i \<le> unat (hub_nextID h)) \<and>
     (\<forall>j. length (history_of h j) \<le> hub_subscriberBuffer h)"

definition count_ok :: "Hub \<Rightarrow> bool" where
  "count_ok h \<longleftrightarrow> hub_subscribers h = wrap64 (int (subs_count (hub_subs h))) \<and>
     sseSubscribers h = hub_subscribers h \<and> in_int64 (hub_dropsTotal h) \<and> in_int64 (sseDropsTotal h)"

definition hub_inv :: "Hub \<Rightarrow> bool" where
  "hub_inv h \<longleftrightarrow> 0 < hub_subscriberBuffer h \<and> subs_ok h \<and> bufs_ok h \<and> count_ok h"

lemma wrap64_wrap64_add [simp]:
  "wrap64 (wrap64 x + y) = wrap64 (x + y)" "wrap64 (wrap64 x - y) = wrap64 (x - y)"
proof -
  have "((x + 2 ^ 63) mod 2 ^ 64 - 2 ^ 63 + y + 2 ^ 63) mod 2 ^ 64 = (x + y + 2 ^ 63) mod (2 ^ 64 :: int)" for y
    using mod_add_left_eq [of "x + 2 ^ 63" "2 ^ 64" y] by (simp add: algebra_simps)
  from this [of y] this [of "- y"]
  show "wrap64 (wrap64 x + y) = wrap64 (x + y)" "wrap64 (wrap64 x - y) = wrap64 (x - y)"
    by (simp_all add: wrap64_def algebra_simps)
qed

lemma subs_count_update:
  "gm_wf m \<Longrightarrow> subs_count (gm_update k v m) + (case gm_lookup m k of None \<Rightarrow> 0 | Some w \<Rightarrow> length w) =
     subs_count m + length v"
  by (induction m) (auto simp: subs_count_def gm_wf_def split: option.splits)

lemma subs_count_delete:
  "gm_wf m \<Longrightarrow> subs_count (gm_delete k m) + (case gm_lookup m k of None \<Rightarrow> 0 | Some w \<Rightarrow> length w) =
     subs_count m"
  by (induction m) (auto simp: subs_count_def gm_wf_def map_of_eq_None_iff split: option.splits)

lemma length_gm_update: "length (gm_update k v m) = (if gm_lookup m k = None then Suc (length m) else length m)"
  by (induction m) auto

lemma length_gm_delete:
  "gm_wf m \<Longrightarrow> gm_lookup m k = Some v \<Longrightarrow> Suc (length (gm_delete k m)) = length m"
  by (induction m) (auto simp: gm_wf_def map_of_eq_None_iff)

lemma replay_room:
  "\<not> ch_closed c \<Longrightarrow> length (ch_buf c) + length evs \<le> cap \<Longrightarrow>
     replay cap evs c = Some (c\<lparr>ch_buf := ch_buf c @ evs\<rparr>)"
  by (induction evs arbitrary: c) (auto simp: chan_send_def)

text \<open>The state \<open>Subscribe\<close> leaves: its replay never blocks, because the history fits the buffer.\<close>

definition subscribed :: "int64 \<Rightarrow> Hub \<Rightarrow> Hub" where
  "subscribed j h = h\<lparr>hub_nextID := hub_nextID h + 1,
     hub_subs := gm_update j
       (gm_update (hub_nextID h + 1)
          \<lparr>sub_id = hub_nextID h + 1, sub_jobID = j, sub_ch = hub_nextID h + 1\<rparr> (subs_of h j))
       (hub_subs h),
     hub_channels := gm_update (hub_nextID h + 1) \<lparr>ch_buf = history_of h j, ch_closed = False\<rparr> (hub_channels h),
     hub_subscribers := wrap64 (hub_subscribers h + 1),
     sseSubscribers := wrap64 (sseSubscribers h + 1)\<rparr>"

lemma Subscribe_eq:
  "hub_inv h \<Longrightarrow> Hub_Subscribe j h =
     Some (if hub_closed h then (Inl (Sentinel ErrHubClosed), h) else (Inr (hub_nextID h + 1), subscribed j h))"
  by (simp add: Hub_Subscribe_def Let_def replay_room hub_inv_def bufs_ok_def subscribed_def)

lemma subs_of_wf: "subs_ok h \<Longrightarrow> gm_wf (subs_of h j)"
  by (auto simp: subs_ok_def subs_of_def split: option.splits)

lemma subs_of_ok: "subs_ok h \<Longrightarrow> gm_lookup (subs_of h j) i = Some s \<Longrightarrow> sub_ok h j i s"
  by (auto simp: subs_ok_def subs_of_def split: option.splits)

lemma fresh_channel:
  assumes "bufs_ok h" and "1 + hub_nextID h \<noteq> 0"
  shows "gm_lookup (hub_channels h) (hub_nextID h + 1) = None" and
    "unat (hub_nextID h + 1) = Suc (unat (hub_nextID h))"
proof -
  show u: "unat (hub_nextID h + 1) = Suc (unat (hub_nextID h))"
    using unatSuc [OF assms(2)] by (simp add: add.commute)
  show "gm_lookup (hub_channels h) (hub_nextID h + 1) = None"
    using assms(1) u by (cases "gm_lookup (hub_channels h) (hub_nextID h + 1)") (fastforce simp: bufs_ok_def)+
qed

lemma subs_ok_subscribed:
  assumes "subs_ok h" and fresh: "gm_lookup (hub_channels h) (hub_nextID h + 1) = None"
  shows "subs_ok (subscribed j h)"
proof -
  let ?n = "hub_nextID h + 1"
  have no: "gm_lookup m ?n = None" if "gm_lookup (hub_subs h) k = Some m" for k m
    using assms that by (cases "gm_lookup m ?n") (fastforce simp: subs_ok_def sub_ok_def)+
  have new: "gm_lookup (subs_of h j) ?n = None"
    using no by (simp add: subs_of_def split: option.splits)
  have ok: "sub_ok (subscribed j h) k i s" if "sub_ok h k i s" for k i s
    using that fresh by (auto simp: sub_ok_def subscribed_def gomap_simps)
  have old: "gm_lookup (hub_subs h) j = Some (subs_of h j)" if "gm_lookup (subs_of h j) i \<noteq> None" for i
    using that by (auto simp: subs_of_def split: option.splits)
  have part1: "gm_wf m \<and> m \<noteq> [] \<and> (\<forall>i s. gm_lookup m i = Some s \<longrightarrow> sub_ok (subscribed j h) k i s)"
    if "gm_lookup (hub_subs (subscribed j h)) k = Some m" for k m
  proof (cases "k = j")
    case True
    then have m: "m = gm_update ?n \<lparr>sub_id = ?n, sub_jobID = j, sub_ch = ?n\<rparr> (subs_of h j)"
      using that by (simp add: subscribed_def gomap_simps)
    have "sub_ok (subscribed j h) j ?n \<lparr>sub_id = ?n, sub_jobID = j, sub_ch = ?n\<rparr>"
      by (simp add: sub_ok_def subscribed_def gomap_simps)
    with m True show ?thesis
      using ok subs_of_ok [OF assms(1)] subs_of_wf [OF assms(1)]
      by (auto simp: gomap_simps split: if_splits)
  next
    case False
    then show ?thesis
      using that assms(1) ok by (simp add: subscribed_def gomap_simps subs_ok_def)
  qed
  have part2: "k = k'" if "gm_lookup (hub_subs (subscribed j h)) k = Some m"
      "gm_lookup (hub_subs (subscribed j h)) k' = Some m'" "gm_lookup m i \<noteq> None" "gm_lookup m' i \<noteq> None"
    for k k' m m' i
    using that assms(1) no old
    by (auto simp: subscribed_def gomap_simps subs_ok_def split: if_splits) blast+
  show ?thesis
    using part1 part2 assms(1) unfolding subs_ok_def by (auto simp: subscribed_def)
qed

lemma hub_inv_subscribed:
  assumes "hub_inv h" and "1 + hub_nextID h \<noteq> 0"
  shows "hub_inv (subscribed j h)"
proof -
  have s: "subs_ok h" and b: "bufs_ok h" and c: "count_ok h" and p: "0 < hub_subscriberBuffer h"
    using assms(1) by (simp_all add: hub_inv_def)
  note fresh = fresh_channel [OF b assms(2)]
  have "gm_lookup (subs_of h j) (hub_nextID h + 1) = None"
    using s fresh(1) by (cases "gm_lookup (subs_of h j) (hub_nextID h + 1)")
      (auto dest: subs_of_ok simp: sub_ok_def)
  then have n: "subs_count (hub_subs (subscribed j h)) = Suc (subs_count (hub_subs h))"
    using subs_count_update [of "hub_subs h" j "gm_update (hub_nextID h + 1)
          \<lparr>sub_id = hub_nextID h + 1, sub_jobID = j, sub_ch = hub_nextID h + 1\<rparr> (subs_of h j)"] s
    by (auto simp: subscribed_def subs_ok_def length_gm_update subs_of_def split: option.splits)
  have "hub_subscribers (subscribed j h) = wrap64 (int (subs_count (hub_subs h)) + 1)"
      "sseSubscribers (subscribed j h) = hub_subscribers (subscribed j h)"
      "in_int64 (hub_dropsTotal (subscribed j h))" "in_int64 (sseDropsTotal (subscribed j h))"
    using c by (simp_all add: count_ok_def subscribed_def)
  then have "count_ok (subscribed j h)"
    using n by (simp add: count_ok_def add.commute)
  moreover have "bufs_ok (subscribed j h)"
    using b fresh(2) by (fastforce simp: bufs_ok_def subscribed_def gomap_simps history_of_def)
  ultimately show ?thesis
    using p subs_ok_subscribed [OF s fresh(1)] by (simp add: hub_inv_def) (simp add: subscribed_def)
qed

text \<open>Removing subscribers keeps the others well-formed.\<close>

lemma subs_ok_shrink:
  assumes "subs_ok h" and "gm_wf (hub_subs h')" and "hub_channels h' = hub_channels h"
    and "\<And>k m. gm_lookup (hub_subs h') k = Some m \<Longrightarrow> m \<noteq> [] \<and> gm_wf m \<and>
      (\<exists>m0. gm_lookup (hub_subs h) k = Some m0 \<and> (\<forall>i s. gm_lookup m i = Some s \<longrightarrow> gm_lookup m0 i = Some s))"
  shows "subs_ok h'"
proof -
  have ok: "sub_ok h' k i s \<longleftrightarrow> sub_ok h k i s" for k i s
    using assms(3) by (simp add: sub_ok_def)
  have dup: "j = j'" if "gm_lookup (hub_subs h') j = Some m" "gm_lookup (hub_subs h') j' = Some m'"
      "gm_lookup m i \<noteq> None" "gm_lookup m' i \<noteq> None" for j j' m m' i
  proof -
    note 1 = that(1) and 2 = that(2) and 3 = that(3,4)
    obtain n n' where "gm_lookup (hub_subs h) j = Some n" "gm_lookup n i \<noteq> None"
        "gm_lookup (hub_subs h) j' = Some n'" "gm_lookup n' i \<noteq> None"
      using assms(4) [OF 1] assms(4) [OF 2] 3 by auto
    then show ?thesis
      using assms(1) unfolding subs_ok_def by blast
  qed
  have each: "gm_wf m \<and> m \<noteq> [] \<and> (\<forall>i s. gm_lookup m i = Some s \<longrightarrow> sub_ok h' k i s)"
    if "gm_lookup (hub_subs h') k = Some m" for k m
    using assms(1) assms(4) [OF that] unfolding subs_ok_def ok by blast
  show ?thesis
    using assms(2) each dup unfolding subs_ok_def by blast
qed

lemma hub_inv_unsubscribe:
  assumes "hub_inv h" and "Hub_unsubscribe j sid d h = (d', h')"
  shows "hub_inv h'"
proof (cases "\<exists>m s. \<not> d \<and> gm_lookup (hub_subs h) j = Some m \<and> gm_lookup m sid = Some s")
  case False
  with assms have "h' = h"
    by (auto simp: Hub_unsubscribe_def split: option.splits if_splits)
  with assms show ?thesis by simp
next
  case True
  then obtain m s where m: "\<not> d" "gm_lookup (hub_subs h) j = Some m" "gm_lookup m sid = Some s"
    by blast
  let ?S = "if gm_delete sid m = [] then gm_delete j (hub_subs h) else gm_update j (gm_delete sid m) (hub_subs h)"
  have h': "h' = h\<lparr>hub_subs := ?S, hub_subscribers := wrap64 (hub_subscribers h - 1),
      sseSubscribers := wrap64 (sseSubscribers h - 1)\<rparr>"
    using assms(2) m by (auto simp: Hub_unsubscribe_def Let_def)
  have s: "subs_ok h" and wf: "gm_wf (hub_subs h)" "gm_wf m"
    using assms(1) m by (auto simp: hub_inv_def subs_ok_def)
  have "subs_ok h'"
    by (rule subs_ok_shrink [OF s])
       (use s wf m in \<open>auto simp: h' gomap_simps subs_ok_def split: if_splits\<close>)
  moreover have "int (subs_count ?S) = int (subs_count (hub_subs h)) - 1"
    using subs_count_update [OF wf(1), of j "gm_delete sid m"] subs_count_delete [OF wf(1), of j]
      length_gm_delete [OF wf(2) m(3)] m(2) by auto
  then have "count_ok h'"
    using assms(1) by (simp add: h' hub_inv_def count_ok_def)
  moreover have "bufs_ok h'"
    using assms(1) by (auto simp: h' hub_inv_def bufs_ok_def history_of_def)
  ultimately show ?thesis
    using assms(1) by (simp add: hub_inv_def) (simp add: h')
qed

definition deliver :: "nat \<Rightarrow> Event \<Rightarrow> channel \<Rightarrow> channel" where
  "deliver cap ev c = (if length (ch_buf c) < cap then c\<lparr>ch_buf := ch_buf c @ [ev]\<rparr> else c)"

definition chan_full :: "nat \<Rightarrow> channel option \<Rightarrow> bool" where
  "chan_full cap oc = (case oc of None \<Rightarrow> False | Some c \<Rightarrow> cap \<le> length (ch_buf c))"

definition full_count :: "Hub \<Rightarrow> (uint64, subscriber) gomap \<Rightarrow> nat" where
  "full_count h subs =
     length (filter (\<lambda>(i, _). chan_full (hub_subscriberBuffer h) (gm_lookup (hub_channels h) i)) subs)"

lemma deliver_closed [simp]: "ch_closed (deliver cap ev c) = ch_closed c"
  by (simp add: deliver_def)

lemma publish_loop_spec:
  assumes "gm_wf subs" and "\<forall>i s. gm_lookup subs i = Some s \<longrightarrow> sub_ok h j i s"
    and "in_int64 (hub_dropsTotal h)" and "in_int64 (sseDropsTotal h)"
  shows "\<exists>cs. publish_loop ev subs h = Some (h\<lparr>hub_channels := cs,
      hub_dropsTotal := wrap64 (hub_dropsTotal h + int (full_count h subs)) ,
      sseDropsTotal := wrap64 (sseDropsTotal h + int (full_count h subs))\<rparr>) \<and>
    (\<forall>i. gm_lookup cs i = (if gm_lookup subs i = None then gm_lookup (hub_channels h) i
       else map_option (deliver (hub_subscriberBuffer h) ev) (gm_lookup (hub_channels h) i)))"
  using assms
proof (induction subs arbitrary: h)
  case Nil
  then show ?case
    by (intro exI [of _ "hub_channels h"]) (simp add: full_count_def wrap64_in_range)
next
  case (Cons a subs)
  obtain i s where a: "a = (i, s)" by force
  have wf: "gm_wf subs" and i: "gm_lookup subs i = None"
    using Cons.prems(1) a by (auto simp: gm_wf_def map_of_eq_None_iff)
  have s: "sub_ok h j i s" using Cons.prems(2) a by simp
  then obtain c where c: "gm_lookup (hub_channels h) i = Some c" "\<not> ch_closed c" "sub_ch s = i"
    by (auto simp: sub_ok_def)
  have rest: "sub_ok h j k x" if "gm_lookup subs k = Some x" for k x
    using Cons.prems(2) a that i by (metis map_of_Cons_code(2) option.simps(3))
  show ?case
  proof (cases "length (ch_buf c) < hub_subscriberBuffer h")
    case True
    define h1 where "h1 = h\<lparr>hub_channels := gm_update i (c\<lparr>ch_buf := ch_buf c @ [ev]\<rparr>) (hub_channels h)\<rparr>"
    have ok: "\<forall>k x. gm_lookup subs k = Some x \<longrightarrow> sub_ok h1 j k x"
      using rest i c by (auto simp: sub_ok_def h1_def gomap_simps)
    have "k \<noteq> i" if "(k, x) \<in> set subs" for k x
      using i that by (auto simp: map_of_eq_None_iff rev_image_eqI)
    then have "filter (\<lambda>(k, _). chan_full (hub_subscriberBuffer h1) (gm_lookup (hub_channels h1) k)) subs =
        filter (\<lambda>(k, _). chan_full (hub_subscriberBuffer h) (gm_lookup (hub_channels h) k)) subs"
      by (intro filter_cong) (auto simp: h1_def gomap_simps)
    then have cnt: "full_count h1 subs = full_count h (a # subs)"
      using True a c by (simp add: full_count_def chan_full_def)
    have run: "publish_loop ev (a # subs) h = publish_loop ev subs h1"
      using a c True by (simp add: chan_send_def h1_def)
    have "in_int64 (hub_dropsTotal h1)" "in_int64 (sseDropsTotal h1)"
      using Cons.prems(3,4) by (simp_all add: h1_def)
    from Cons.IH [OF wf ok this] obtain cs where cs: "publish_loop ev subs h1 = Some (h1\<lparr>hub_channels := cs,
      hub_dropsTotal := wrap64 (hub_dropsTotal h1 + int (full_count h1 subs)) ,
      sseDropsTotal := wrap64 (sseDropsTotal h1 + int (full_count h1 subs))\<rparr>)"
      "\<forall>i. gm_lookup cs i = (if gm_lookup subs i = None then gm_lookup (hub_channels h1) i
       else map_option (deliver (hub_subscriberBuffer h1) ev) (gm_lookup (hub_channels h1) i))"
      by blast
    have "publish_loop ev (a # subs) h = Some (h\<lparr>hub_channels := cs,
        hub_dropsTotal := wrap64 (hub_dropsTotal h + int (full_count h (a # subs))) ,
        sseDropsTotal := wrap64 (sseDropsTotal h + int (full_count h (a # subs)))\<rparr>)"
      unfolding run cs(1) cnt by (simp add: h1_def)
    moreover have "gm_lookup cs k = (if gm_lookup (a # subs) k = None then gm_lookup (hub_channels h) k
       else map_option (deliver (hub_subscriberBuffer h) ev) (gm_lookup (hub_channels h) k))" for k
      using cs(2) [rule_format, of k] i a c True by (auto simp: h1_def gomap_simps deliver_def)
    ultimately show ?thesis by blast
  next
    case False
    define h1 where "h1 = h\<lparr>hub_dropsTotal := wrap64 (hub_dropsTotal h + 1),
        sseDropsTotal := wrap64 (sseDropsTotal h + 1)\<rparr>"
    have ok: "\<forall>k x. gm_lookup subs k = Some x \<longrightarrow> sub_ok h1 j k x"
      using rest by (auto simp: sub_ok_def h1_def)
    have cnt: "full_count h (a # subs) = Suc (full_count h1 subs)"
      using False a c by (simp add: full_count_def h1_def chan_full_def)
    have run: "publish_loop ev (a # subs) h = publish_loop ev subs h1"
      using a c False by (simp add: chan_send_def h1_def)
    have "in_int64 (hub_dropsTotal h1)" "in_int64 (sseDropsTotal h1)"
      by (simp_all add: h1_def)
    from Cons.IH [OF wf ok this] obtain cs where cs: "publish_loop ev subs h1 = Some (h1\<lparr>hub_channels := cs,
      hub_dropsTotal := wrap64 (hub_dropsTotal h1 + int (full_count h1 subs)) ,
      sseDropsTotal := wrap64 (sseDropsTotal h1 + int (full_count h1 subs))\<rparr>)"
      "\<forall>i. gm_lookup cs i = (if gm_lookup subs i = None then gm_lookup (hub_channels h1) i
       else map_option (deliver (hub_subscriberBuffer h1) ev) (gm_lookup (hub_channels h1) i))"
      by blast
    have "publish_loop ev (a # subs) h = Some (h\<lparr>hub_channels := cs,
        hub_dropsTotal := wrap64 (hub_dropsTotal h + int (full_count h (a # subs))) ,
        sseDropsTotal := wrap64 (sseDropsTotal h + int (full_count h (a # subs)))\<rparr>)"
      unfolding run cs(1) cnt by (simp add: h1_def algebra_simps)
    moreover have "gm_lookup cs k = (if gm_lookup (a # subs) k = None then gm_lookup (hub_channels h) k
       else map_option (deliver (hub_subscriberBuffer h) ev) (gm_lookup (hub_channels h) k))" for k
      using cs(2) [rule_format, of k] i a c False by (auto simp: h1_def gomap_simps deliver_def)
    ultimately show ?thesis by blast
  qed
qed

text \<open>The state \<open>Publish\<close> leaves: no panic, and every subscriber of the job with room gets the event.\<close>

lemma history_of_record [simp]:
  "history_of (recordHistoryLocked j ev h) k =
     (if k = j then drop (Suc (length (history_of h j)) - hub_subscriberBuffer h) (history_of h j @ [ev])
      else history_of h k)"
  by (auto simp: recordHistoryLocked_def history_of_def gomap_simps Let_def)

lemma record_frame [simp]:
  "hub_subs (recordHistoryLocked j ev h) = hub_subs h"
  "hub_channels (recordHistoryLocked j ev h) = hub_channels h"
  "hub_nextID (recordHistoryLocked j ev h) = hub_nextID h"
  "hub_subscriberBuffer (recordHistoryLocked j ev h) = hub_subscriberBuffer h"
  "hub_subscribers (recordHistoryLocked j ev h) = hub_subscribers h"
  "sseSubscribers (recordHistoryLocked j ev h) = sseSubscribers h"
  "hub_dropsTotal (recordHistoryLocked j ev h) = hub_dropsTotal h"
  "sseDropsTotal (recordHistoryLocked j ev h) = sseDropsTotal h"
  "hub_closed (recordHistoryLocked j ev h) = hub_closed h"
  by (simp_all add: recordHistoryLocked_def Let_def)

lemma Publish_spec:
  assumes "hub_inv h" and "\<not> hub_closed h"
  shows "\<exists>h'. Hub_Publish j ev h = Some h' \<and> hub_subs h' = hub_subs h \<and> hub_nextID h' = hub_nextID h \<and>
    hub_subscriberBuffer h' = hub_subscriberBuffer h \<and> hub_subscribers h' = hub_subscribers h \<and>
    sseSubscribers h' = sseSubscribers h \<and> hub_closed h' = hub_closed h \<and>
    hub_dropsTotal h' = wrap64 (hub_dropsTotal h + int (full_count h (subs_of h j))) \<and>
    in_int64 (sseDropsTotal h') \<and>
    (\<forall>k. history_of h' k = (if k = j then drop (Suc (length (history_of h j)) - hub_subscriberBuffer h)
        (history_of h j @ [ev]) else history_of h k)) \<and>
    (\<forall>i. gm_lookup (hub_channels h') i = (if gm_lookup (subs_of h j) i = None then gm_lookup (hub_channels h) i
       else map_option (deliver (hub_subscriberBuffer h) ev) (gm_lookup (hub_channels h) i)))"
proof -
  define h0 where "h0 = h\<lparr>hub_eventsTotal := wrap64 (hub_eventsTotal h + 1),
                       sseEventsTotal := wrap64 (sseEventsTotal h + 1)\<rparr>"
  define h1 where "h1 = recordHistoryLocked j ev h0"
  have f: "hub_subs h1 = hub_subs h" "hub_channels h1 = hub_channels h" "hub_nextID h1 = hub_nextID h"
    "hub_subscriberBuffer h1 = hub_subscriberBuffer h" "hub_subscribers h1 = hub_subscribers h"
    "sseSubscribers h1 = sseSubscribers h" "hub_dropsTotal h1 = hub_dropsTotal h"
    "sseDropsTotal h1 = sseDropsTotal h" "hub_closed h1 = hub_closed h"
    "subs_of h1 j = subs_of h j" "full_count h1 x = full_count h x" for x
    by (simp_all add: h1_def h0_def subs_of_def full_count_def)
  have ok: "\<forall>i s. gm_lookup (subs_of h j) i = Some s \<longrightarrow> sub_ok h1 j i s"
    using assms(1) subs_of_ok by (fastforce simp: hub_inv_def sub_ok_def f)
  have wf: "gm_wf (subs_of h j)"
    using assms(1) by (simp add: hub_inv_def subs_of_wf)
  obtain cs where cs: "publish_loop ev (subs_of h j) h1 = Some (h1\<lparr>hub_channels := cs,
      hub_dropsTotal := wrap64 (hub_dropsTotal h + int (full_count h (subs_of h j))) ,
      sseDropsTotal := wrap64 (sseDropsTotal h + int (full_count h (subs_of h j)))\<rparr>)"
    "\<forall>i. gm_lookup cs i = (if gm_lookup (subs_of h j) i = None then gm_lookup (hub_channels h) i
       else map_option (deliver (hub_subscriberBuffer h) ev) (gm_lookup (hub_channels h) i))"
    using publish_loop_spec [OF wf ok, of ev, unfolded f] assms(1) by (auto simp: hub_inv_def count_ok_def)
  have hist: "history_of (h1\<lparr>hub_channels := cs, hub_dropsTotal := a, sseDropsTotal := b\<rparr>) k = history_of h1 k"
    "history_of h0 k = history_of h k" "hub_subscriberBuffer h0 = hub_subscriberBuffer h" for k a b
    by (simp_all add: history_of_def h0_def)
  have "Hub_Publish j ev h = publish_loop ev (subs_of h j) h1"
    using assms(2) by (simp add: Hub_Publish_def Let_def h1_def h0_def [symmetric] subs_of_def)
      (simp add: h0_def)
  with cs show ?thesis
    by (simp add: hist f) (simp add: h1_def hist)
qed

lemma hub_inv_Publish:
  assumes "hub_inv h" and "Hub_Publish j ev h = Some h'"
  shows "hub_inv h'"
proof (cases "hub_closed h")
  case True
  with assms show ?thesis by (simp add: Hub_Publish_def)
next
  case False
  note p = Publish_spec [OF assms(1) False, of j ev]
  have h': "hub_subs h' = hub_subs h" "hub_nextID h' = hub_nextID h"
    "hub_subscriberBuffer h' = hub_subscriberBuffer h" "hub_subscribers h' = hub_subscribers h"
    "sseSubscribers h' = sseSubscribers h" "in_int64 (hub_dropsTotal h')" "in_int64 (sseDropsTotal h')"
    and hist: "\<forall>k. history_of h' k = (if k = j then drop (Suc (length (history_of h j)) -
        hub_subscriberBuffer h) (history_of h j @ [ev]) else history_of h k)"
    and ch: "\<forall>i. gm_lookup (hub_channels h') i = (if gm_lookup (subs_of h j) i = None
       then gm_lookup (hub_channels h) i
       else map_option (deliver (hub_subscriberBuffer h) ev) (gm_lookup (hub_channels h) i))"
    using p assms(2) by auto
  have ok: "sub_ok h' k i s" if "sub_ok h k i s" for k i s
    using that ch by (auto simp: sub_ok_def)
  have "subs_ok h'"
    using assms(1) ok unfolding hub_inv_def subs_ok_def h'(1) by blast
  moreover have "bufs_ok h'"
    using assms(1) ch hist
    by (auto simp: hub_inv_def bufs_ok_def h' deliver_def split: if_splits)
  ultimately show ?thesis
    using assms(1) h' by (simp add: hub_inv_def count_ok_def)
qed

lemma hub_inv_receive:
  assumes "hub_inv h" and "chan_receive sid h = (x, h')"
  shows "hub_inv h'"
proof (cases "h' = h")
  case False
  then obtain c ev evs where c: "gm_lookup (hub_channels h) sid = Some c" "ch_buf c = ev # evs"
      "h' = h\<lparr>hub_channels := gm_update sid (c\<lparr>ch_buf := evs\<rparr>) (hub_channels h)\<rparr>"
    using assms(2) by (auto simp: chan_receive_def split: option.splits list.splits)
  have ok: "sub_ok h' k i s" if "sub_ok h k i s" for k i s
    using that c by (auto simp: sub_ok_def gomap_simps)
  have "subs_ok h'"
    using assms(1) ok unfolding hub_inv_def subs_ok_def by (simp add: c(3))
  moreover have "bufs_ok h'"
    using assms(1) c by (fastforce simp: hub_inv_def bufs_ok_def gomap_simps history_of_def split: if_splits)
  ultimately show ?thesis
    using assms(1) by (simp add: hub_inv_def count_ok_def c(3))
qed (use assms in simp)

lemma close_channels_spec:
  "distinct (map sub_ch subs) \<Longrightarrow>
   (\<forall>s \<in> set subs. \<exists>c. gm_lookup cs (sub_ch s) = Some c \<and> \<not> ch_closed c) \<Longrightarrow>
   \<exists>cs'. close_channels subs cs = Some cs' \<and>
     (\<forall>i. gm_lookup cs' i = (if i \<in> sub_ch ` set subs
        then map_option (\<lambda>c. c\<lparr>ch_closed := True\<rparr>) (gm_lookup cs i) else gm_lookup cs i))"
proof (induction subs arbitrary: cs)
  case (Cons s subs)
  obtain c where c: "gm_lookup cs (sub_ch s) = Some c" "\<not> ch_closed c"
    using Cons.prems(2) by auto
  let ?cs = "gm_update (sub_ch s) (c\<lparr>ch_closed := True\<rparr>) cs"
  have "\<forall>x \<in> set subs. \<exists>c. gm_lookup ?cs (sub_ch x) = Some c \<and> \<not> ch_closed c"
    using Cons.prems by (auto simp: gomap_simps image_iff)
  with Cons.IH [of ?cs] Cons.prems(1) obtain cs' where "close_channels subs ?cs = Some cs'"
    "\<forall>i. gm_lookup cs' i = (if i \<in> sub_ch ` set subs
        then map_option (\<lambda>c. c\<lparr>ch_closed := True\<rparr>) (gm_lookup ?cs i) else gm_lookup ?cs i)"
    by auto
  with c Cons.prems(1) show ?case
    by (auto simp: gomap_simps)
qed simp

lemma distinct_all_ids:
  "gm_wf S \<Longrightarrow> (\<And>j m. gm_lookup S j = Some m \<Longrightarrow> gm_wf m) \<Longrightarrow>
   (\<And>j j' m m' i. gm_lookup S j = Some m \<Longrightarrow> gm_lookup S j' = Some m' \<Longrightarrow>
      gm_lookup m i \<noteq> None \<Longrightarrow> gm_lookup m' i \<noteq> None \<Longrightarrow> j = j') \<Longrightarrow>
   distinct (concat (map (\<lambda>(_, m). map fst m) S))"
proof (induction S)
  case (Cons a S)
  obtain j m where a: "a = (j, m)" by force
  have wf: "gm_wf S" and j: "gm_lookup S j = None"
    using Cons.prems(1) a by (auto simp: gm_wf_def map_of_eq_None_iff)
  have up: "gm_lookup (a # S) k = Some n" if "gm_lookup S k = Some n" for k n
    using that j a by auto
  have "distinct (concat (map (\<lambda>(_, m). map fst m) S))"
    using Cons.IH [OF wf] Cons.prems(2,3) up by blast
  moreover have "distinct (map fst m)"
    using Cons.prems(2) [of j m] a by (simp add: gm_wf_def)
  moreover have "gm_keys m \<inter> gm_keys n = {}" if "(k, n) \<in> set S" for k n
  proof -
    have k: "gm_lookup S k = Some n" using that wf by (simp add: gm_wf_def)
    then have "k \<noteq> j" using j by auto
    then show ?thesis
      using Cons.prems(3) [of j m k n] up [OF k] a by (force simp: map_of_eq_None_iff)
  qed
  ultimately show ?case
    using a by fastforce
qed simp

definition all_subs :: "Hub \<Rightarrow> subscriber list" where
  "all_subs h = concat (map (\<lambda>(_, m). gm_values m) (hub_subs h))"

lemma all_subs_ok:
  assumes "subs_ok h" and "s \<in> set (all_subs h)"
  shows "\<exists>c. gm_lookup (hub_channels h) (sub_ch s) = Some c \<and> \<not> ch_closed c"
proof -
  obtain j m i where "(j, m) \<in> set (hub_subs h)" "(i, s) \<in> set m"
    using assms(2) by (auto simp: all_subs_def)
  moreover have "gm_wf (hub_subs h)" using assms(1) by (simp add: subs_ok_def)
  ultimately have j: "gm_lookup (hub_subs h) j = Some m" by (simp add: gm_wf_def)
  then have "gm_wf m" using assms(1) by (simp add: subs_ok_def)
  with \<open>(i, s) \<in> set m\<close> have "gm_lookup m i = Some s" by (simp add: gm_wf_def)
  with j assms(1) show ?thesis by (auto simp: subs_ok_def sub_ok_def)
qed

lemma all_subs_distinct:
  assumes "subs_ok h"
  shows "distinct (map sub_ch (all_subs h))"
proof -
  have keys: "map sub_ch (gm_values m) = map fst m" if "(j, m) \<in> set (hub_subs h)" for j m
  proof -
    have "gm_lookup (hub_subs h) j = Some m"
      using that assms by (simp add: subs_ok_def gm_wf_def)
    then have "gm_wf m" "\<forall>i s. gm_lookup m i = Some s \<longrightarrow> sub_ch s = i"
      using assms by (auto simp: subs_ok_def sub_ok_def)
    then show ?thesis by (auto simp: gm_wf_def)
  qed
  have "map sub_ch (all_subs h) = concat (map (\<lambda>(_, m). map sub_ch (gm_values m)) (hub_subs h))"
    by (simp add: all_subs_def map_concat comp_def case_prod_unfold)
  also have "\<dots> = concat (map (\<lambda>(_, m). map fst m) (hub_subs h))"
    using keys by (intro arg_cong [of _ _ concat] map_cong) auto
  finally show ?thesis
    using distinct_all_ids [of "hub_subs h"] assms unfolding subs_ok_def by presburger
qed

text \<open>The locked part of \<open>Close\<close> never panics, closes exactly the subscribed channels and empties the hub.\<close>

lemma Close_locked_spec:
  assumes "hub_inv h"
  shows "\<exists>cs. Hub_Close_locked h = Some (h\<lparr>hub_channels := cs, hub_subs := [], sseSubscribers := 0,
      hub_subscribers := 0\<rparr>) \<and>
    (\<forall>i. gm_lookup cs i = (if i \<in> sub_ch ` set (all_subs h)
        then map_option (\<lambda>c. c\<lparr>ch_closed := True\<rparr>) (gm_lookup (hub_channels h) i)
        else gm_lookup (hub_channels h) i))"
proof -
  have s: "subs_ok h" and c: "sseSubscribers h = hub_subscribers h"
    using assms by (simp_all add: hub_inv_def count_ok_def)
  obtain cs where "close_channels (all_subs h) (hub_channels h) = Some cs"
    "\<forall>i. gm_lookup cs i = (if i \<in> sub_ch ` set (all_subs h)
        then map_option (\<lambda>c. c\<lparr>ch_closed := True\<rparr>) (gm_lookup (hub_channels h) i)
        else gm_lookup (hub_channels h) i)"
    using close_channels_spec [OF all_subs_distinct [OF s]] all_subs_ok [OF s] by blast
  moreover have "wrap64 0 = 0"
    by (simp add: wrap64_def)
  ultimately show ?thesis
    using c by (auto simp: Hub_Close_locked_def all_subs_def [symmetric])
qed

lemma hub_inv_Close_locked:
  assumes "hub_inv h" and "Hub_Close_locked h = Some h'"
  shows "hub_inv h'"
proof -
  obtain cs where h': "h' = h\<lparr>hub_channels := cs, hub_subs := [], sseSubscribers := 0, hub_subscribers := 0\<rparr>"
    and cs: "\<And>i. gm_lookup cs i = (if i \<in> sub_ch ` set (all_subs h)
        then map_option (\<lambda>c. c\<lparr>ch_closed := True\<rparr>) (gm_lookup (hub_channels h) i)
        else gm_lookup (hub_channels h) i)"
    using Close_locked_spec [OF assms(1)] assms(2) by auto
  have hist: "history_of h' j = history_of h j" for j
    by (simp add: h' history_of_def)
  have b: "bufs_ok h" using assms(1) by (simp add: hub_inv_def)
  have "bufs_ok h'"
    unfolding bufs_ok_def hist
  proof (intro conjI allI impI)
    fix i c
    assume "gm_lookup (hub_channels h') i = Some c"
    then obtain c0 where "gm_lookup (hub_channels h) i = Some c0" "ch_buf c = ch_buf c0"
      using cs [of i] by (auto simp: h' split: if_splits)
    with b show "length (ch_buf c) \<le> hub_subscriberBuffer h'" "unat i \<le> unat (hub_nextID h')"
      by (auto simp: bufs_ok_def h')
  next
    show "length (history_of h j) \<le> hub_subscriberBuffer h'" for j
      using b by (simp add: bufs_ok_def h')
  qed
  moreover have "subs_ok h'" "count_ok h'" "0 < hub_subscriberBuffer h'"
    using assms(1) by (simp_all add: h' subs_ok_def count_ok_def subs_count_def wrap64_def hub_inv_def)
  ultimately show ?thesis by (simp add: hub_inv_def)
qed

lemma hub_inv_closed [simp]: "hub_inv (h\<lparr>hub_closed := b\<rparr>) \<longleftrightarrow> hub_inv h"
  by (simp add: hub_inv_def subs_ok_def sub_ok_def bufs_ok_def count_ok_def history_of_def)

lemma hub_inv_Close_flag: "hub_inv h \<Longrightarrow> Hub_Close_flag h = (b, h') \<Longrightarrow> hub_inv h'"
  by (auto simp: Hub_Close_flag_def split: if_splits)

lemma hub_inv_step: "hub_step h h' \<Longrightarrow> hub_inv h \<Longrightarrow> hub_inv h'"
  by (cases rule: hub_step.cases)
     (auto simp: Subscribe_eq intro: hub_inv_subscribed hub_inv_unsubscribe hub_inv_Publish
       hub_inv_Close_flag hub_inv_Close_locked hub_inv_receive split: if_splits)

lemma hub_inv_New: "NewHub n = Some h \<Longrightarrow> hub_inv h"
  by (auto simp: NewHub_def hub_inv_def subs_ok_def bufs_ok_def count_ok_def subs_count_def
      history_of_def wrap64_def in_int64_def int64_min_def int64_max_def split: if_splits)

lemma hub_inv_reachable: "hub_step\<^sup>*\<^sup>* h h' \<Longrightarrow> hub_inv h \<Longrightarrow> hub_inv h'"
  by (induction rule: rtranclp_induct) (auto intro: hub_inv_step)

section \<open>Properties\<close>

text \<open>C17: in every state the hub can reach under concurrent subscriptions, unsubscriptions,
  publications, reads and \<open>Close\<close>, no operation can hang or panic while it holds the lock: the
  replay of \<open>Subscribe\<close> always fits the channel, \<open>Publish\<close> never sends on a closed channel, and
  \<open>Close\<close> never closes a channel twice; the subscriber gauge is the number of subscribers.\<close>

theorem hub_never_stuck:
  assumes "NewHub n = Some h0" and "hub_step\<^sup>*\<^sup>* h0 h"
  shows "(\<exists>r h'. Hub_Subscribe jobID h = Some (r, h')) \<and> (\<exists>h'. Hub_Publish jobID ev h = Some h') \<and>
    (\<exists>h'. Hub_Close h = Some h') \<and> hub_subscribers h = wrap64 (int (subs_count (hub_subs h))) \<and>
    (\<forall>i c. gm_lookup (hub_channels h) i = Some c \<longrightarrow> int (length (ch_buf c)) \<le> int (hub_subscriberBuffer h))"
proof -
  have inv: "hub_inv h"
    using assms hub_inv_New hub_inv_reachable by blast
  have "\<exists>h'. Hub_Publish jobID ev h = Some h'"
  proof (cases "hub_closed h")
    case False
    from Publish_spec [OF inv this] show ?thesis by blast
  qed (simp add: Hub_Publish_def)
  moreover have "\<exists>h'. Hub_Close h = Some h'"
    using Close_locked_spec [of "h\<lparr>hub_closed := True\<rparr>"] inv by (auto simp: Hub_Close_def Hub_Close_flag_def)
  ultimately show ?thesis
    using inv Subscribe_eq [OF inv] by (auto simp: hub_inv_def count_ok_def bufs_ok_def)
qed

definition sample_event :: "string \<Rightarrow> Event" where
  "sample_event ty = \<lparr>ev_Type = ty, ev_JobID = 1, ev_At = 0, ev_Data = NoData\<rparr>"

definition sample_hub :: Hub where
  "sample_hub = \<lparr>hub_subs = [], hub_history = [], hub_nextID = 0, hub_subscriberBuffer = 2,
        hub_subscribers = 0, hub_eventsTotal = 0, hub_dropsTotal = 0, hub_closed = False,
        hub_channels = [], sseSubscribers = 0, sseEventsTotal = 0, sseDropsTotal = 0\<rparr>"

lemma sample_hub_New: "NewHub 2 = Some sample_hub"
  by (simp add: NewHub_def sample_hub_def)

theorem hub_never_stuck_witness:
  "\<exists>h'. Hub_Publish 1 (sample_event ''running'') (snd (Hub_Close_flag sample_hub)) = Some h'"
proof -
  have "hub_step\<^sup>*\<^sup>* sample_hub (snd (Hub_Close_flag sample_hub))"
    by (intro r_into_rtranclp hub_step.close_flag [OF surjective_pairing])
  from hub_never_stuck [OF sample_hub_New this] show ?thesis by blast
qed

fun publish_all :: "int64 \<Rightarrow> Event list \<Rightarrow> Hub \<Rightarrow> Hub option" where
  "publish_all j [] h = Some h"
| "publish_all j (ev # evs) h = (case Hub_Publish j ev h of None \<Rightarrow> None | Some h1 \<Rightarrow> publish_all j evs h1)"

lemma publish_all_history:
  "hub_inv h \<Longrightarrow> \<not> hub_closed h \<Longrightarrow> history_of h j = drop (length past - hub_subscriberBuffer h) past \<Longrightarrow>
   \<exists>h'. publish_all j evs h = Some h' \<and> hub_inv h' \<and> \<not> hub_closed h' \<and>
     hub_subscriberBuffer h' = hub_subscriberBuffer h \<and>
     history_of h' j = drop (length (past @ evs) - hub_subscriberBuffer h) (past @ evs)"
proof (induction evs arbitrary: h past)
  case (Cons ev evs)
  obtain h1 where p: "Hub_Publish j ev h = Some h1" "hub_subscriberBuffer h1 = hub_subscriberBuffer h"
      "\<not> hub_closed h1"
      "history_of h1 j = drop (Suc (length (history_of h j)) - hub_subscriberBuffer h) (history_of h j @ [ev])"
    using Publish_spec [OF Cons.prems(1,2), of j ev] Cons.prems(2) by auto
  let ?b = "hub_subscriberBuffer h"
  have "drop (Suc (length past - (length past - ?b)) - ?b) (drop (length past - ?b) past @ [ev]) =
      drop (length (past @ [ev]) - ?b) (past @ [ev])"
  proof (cases "length past < ?b")
    case False
    then show ?thesis by (simp add: Suc_diff_le)
  qed simp
  with p(2,4) Cons.prems(3) have "history_of h1 j =
      drop (length (past @ [ev]) - hub_subscriberBuffer h1) (past @ [ev])"
    by simp
  from Cons.IH [OF hub_inv_Publish [OF Cons.prems(1) p(1)] p(3) this] p(1,2) show ?case
    by auto
qed auto



text \<open>\<open>Publish\<close> delivers the event to every subscriber of the job whose channel has room, drops
  and counts it for the others, and touches no other channel.\<close>

lemma hub_publish_delivers:
  assumes "NewHub n = Some h0" and "hub_step\<^sup>*\<^sup>* h0 h" and "\<not> hub_closed h"
    and "Hub_Publish j ev h = Some h'" and "gm_lookup (hub_channels h) i = Some c"
  shows "gm_lookup (hub_channels h') i =
      Some (if gm_lookup (subs_of h j) i \<noteq> None \<and> length (ch_buf c) < hub_subscriberBuffer h
            then c\<lparr>ch_buf := ch_buf c @ [ev]\<rparr> else c) \<and>
    hub_dropsTotal h' = wrap64 (hub_dropsTotal h + int (full_count h (subs_of h j)))"
  using Publish_spec [OF hub_inv_reachable [OF assms(2) hub_inv_New [OF assms(1)]] assms(3), of j ev] assms(4,5)
  by (auto simp: deliver_def)

lemma sample_subscribed: "hub_step\<^sup>*\<^sup>* sample_hub (subscribed 1 sample_hub)"
  using hub_inv_New [OF sample_hub_New]
  by (intro r_into_rtranclp hub_step.subscribe [of _ 1 "Inr 1"])
     (simp_all add: Subscribe_eq, simp_all add: sample_hub_def)

text \<open>After \<open>Close\<close> every channel a subscriber was reading is closed with its buffered events
  still readable, no subscriber is left, \<open>Subscribe\<close> answers \<open>ErrHubClosed\<close>, and further calls of
  \<open>Publish\<close> and \<open>Close\<close> change nothing.\<close>

lemma hub_close:
  assumes "NewHub n = Some h0" and "hub_step\<^sup>*\<^sup>* h0 h" and "\<not> hub_closed h" and "Hub_Close h = Some h'"
  shows "(\<forall>j i s. gm_lookup (subs_of h j) i = Some s \<longrightarrow>
      (\<exists>c. gm_lookup (hub_channels h) i = Some c \<and>
           gm_lookup (hub_channels h') i = Some (c\<lparr>ch_closed := True\<rparr>))) \<and>
    hub_subs h' = [] \<and> hub_subscribers h' = 0 \<and>
    Hub_Subscribe jobID h' = Some (Inl (Sentinel ErrHubClosed), h') \<and>
    Hub_Publish jobID ev h' = Some h' \<and> Hub_Close h' = Some h' \<and> Hub_Ready h' = Some (Sentinel ErrHubClosed)"
proof -
  let ?h = "h\<lparr>hub_closed := True\<rparr>"
  have inv: "hub_inv h"
    using assms hub_inv_New hub_inv_reachable by blast
  then obtain cs where h': "h' = ?h\<lparr>hub_channels := cs, hub_subs := [], sseSubscribers := 0, hub_subscribers := 0\<rparr>"
    and cs: "\<And>i. gm_lookup cs i = (if i \<in> sub_ch ` set (all_subs h)
        then map_option (\<lambda>c. c\<lparr>ch_closed := True\<rparr>) (gm_lookup (hub_channels h) i)
        else gm_lookup (hub_channels h) i)"
    using Close_locked_spec [of ?h] assms(3,4)
    by (auto simp: Hub_Close_def Hub_Close_flag_def all_subs_def)
  have "\<exists>c. gm_lookup (hub_channels h) i = Some c \<and> gm_lookup cs i = Some (c\<lparr>ch_closed := True\<rparr>)"
    if "gm_lookup (subs_of h j) i = Some s" for i j s
  proof -
    note sub = that
    have ok: "sub_ok h j i s"
      using inv sub by (auto simp: hub_inv_def intro: subs_of_ok)
    obtain m where "(j, m) \<in> set (hub_subs h)" "(i, s) \<in> set m"
      using sub by (auto simp: subs_of_def dest: map_of_SomeD split: option.splits)
    then have "s \<in> set (all_subs h)"
      by (force simp: all_subs_def)
    moreover have "sub_ch s = i"
      using ok by (simp add: sub_ok_def)
    ultimately have "i \<in> sub_ch ` set (all_subs h)"
      by blast
    with ok cs [of i] show ?thesis by (auto simp: sub_ok_def)
  qed
  then have "\<forall>j i s. gm_lookup (subs_of h j) i = Some s \<longrightarrow>
      (\<exists>c. gm_lookup (hub_channels h) i = Some c \<and>
           gm_lookup (hub_channels h') i = Some (c\<lparr>ch_closed := True\<rparr>))"
    unfolding h' by simp
  moreover have "hub_closed h'" "hub_subs h' = []" "hub_subscribers h' = 0"
    by (simp_all add: h')
  ultimately show ?thesis
    by (simp add: Hub_Subscribe_def Hub_Publish_def Hub_Close_def Hub_Close_flag_def Hub_Ready_def)
qed

end
