(* ===== verification/WorkerPool.thy ===== *)
theory WorkerPool
  imports Services Queue Stream
begin

text \<open>
  The worker pool (\<open>internal/workerpool/workerpool.go\<close>).  The first part is what one worker does
  with one item: the job and user services over any repositories, the event hub and the job
  metrics.  The second part is the life cycle of a generation of workers: \<open>Start\<close>, \<open>Stop\<close>, the
  exit of workers, and the repair of abandoned jobs that \<open>Stop\<close> runs once per generation.
\<close>

section \<open>Errors to job problems\<close>

definition toJobInvalidParams :: "InvalidParam list \<Rightarrow> JobInvalidParam list" where
  "toJobInvalidParams ps = map (\<lambda>v. \<lparr>jip_Name = ip_Name v, jip_Reason = ip_Reason v\<rparr>) ps"

definition ToJobProblem :: "go_error \<Rightarrow> JobProblem" where
  "ToJobProblem err =
     (if errors_Is err ContextCanceled \<or> errors_Is err ContextDeadlineExceeded then ShutdownJobProblem
      else
        (case errors_As as_Validation err of
           Some ps \<Rightarrow> zero_JobProblem\<lparr>jp_Title := ''validation failed'', jp_Detail := ''validation failed'',
                        jp_Status := 422, jp_InvalidParams := toJobInvalidParams ps\<rparr>
         | None \<Rightarrow>
             if errors_Is err ErrConflict
             then zero_JobProblem\<lparr>jp_Title := ''conflict'', jp_Detail := ''conflict'', jp_Status := 409\<rparr>
             else if errors_Is err ErrForbidden
             then zero_JobProblem\<lparr>jp_Title := ''forbidden'', jp_Detail := ''forbidden'', jp_Status := 403\<rparr>
             else zero_JobProblem\<lparr>jp_Title := ''internal server error'',
                    jp_Detail := ''internal server error'', jp_Status := 500\<rparr>))"

section \<open>One item\<close>

text \<open>The calls of the \<open>JobsObserver\<close> interface, counted.\<close>

record JobsObserver =
  obs_queued :: nat
  obs_running :: nat
  obs_succeeded :: nat
  obs_failed :: nat
  obs_processed :: nat

record ('j, 'u) world =
  w_jobs :: 'j
  w_users :: 'u
  w_hub :: Hub
  w_observer :: JobsObserver

abbreviation count_running :: "JobsObserver \<Rightarrow> JobsObserver" where
  "count_running ob \<equiv> ob\<lparr>obs_running := Suc (obs_running ob)\<rparr>"

abbreviation count_succeeded :: "JobsObserver \<Rightarrow> JobsObserver" where
  "count_succeeded ob \<equiv> ob\<lparr>obs_succeeded := Suc (obs_succeeded ob)\<rparr>"

abbreviation count_failed :: "JobsObserver \<Rightarrow> JobsObserver" where
  "count_failed ob \<equiv> ob\<lparr>obs_failed := Suc (obs_failed ob)\<rparr>"

abbreviation count_processed :: "JobsObserver \<Rightarrow> JobsObserver" where
  "count_processed ob \<equiv> ob\<lparr>obs_processed := Suc (obs_processed ob)\<rparr>"

text \<open>Publishing an event of a job; \<open>None\<close> is a panic of the hub.\<close>

definition publish_event :: "int64 \<Rightarrow> JobStatus \<Rightarrow> event_data \<Rightarrow> int64 \<Rightarrow> ('j, 'u) world \<Rightarrow> ('j, 'u) world option" where
  "publish_event jid st d now w =
     map_option (\<lambda>h. w\<lparr>w_hub := h\<rparr>)
       (Hub_Publish jid \<lparr>ev_Type = JobStatus_string st, ev_JobID = jid, ev_At = now, ev_Data = d\<rparr> (w_hub w))"

definition markJobFailed ::
  "'j JobRepository \<Rightarrow> int64 \<Rightarrow> JobProblem \<Rightarrow> int64 \<Rightarrow> ('j, 'u) world \<Rightarrow> (go_error option \<times> ('j, 'u) world) option" where
  "markJobFailed jr jid problem now w =
     (case JobService_SetFailed jr jid problem (w_jobs w) of
        (Some e, js) \<Rightarrow> Some (Some e, w\<lparr>w_jobs := js\<rparr>)
      | (None, js) \<Rightarrow>
          (case publish_event jid JobFailed (ProblemData problem) now (w\<lparr>w_jobs := js\<rparr>) of
             None \<Rightarrow> None
           | Some w1 \<Rightarrow> Some (None, w1)))"

datatype loop_control = LoopContinue | LoopReturn

text \<open>
  The body of \<open>workerLoop\<close> for one received item.  \<open>cancelled\<close> is what \<open>ctx.Err()\<close> says right after
  the item was received; \<open>now\<close> is the clock of the events.
\<close>

definition worker_item ::
  "'j JobRepository \<Rightarrow> 'u UserRepository \<Rightarrow> bool \<Rightarrow> WorkItem \<Rightarrow> int64 \<Rightarrow> ('j, 'u) world \<Rightarrow>
     (loop_control \<times> ('j, 'u) world) option" where
  "worker_item jr ur cancelled item now w =
     (let jid = wi_JobID item in
      if cancelled then
        (case markJobFailed jr jid ShutdownJobProblem now w of
           None \<Rightarrow> None
         | Some (_, w1) \<Rightarrow> Some (LoopReturn, w1))
      else
        (case JobService_SetRunning jr jid (w_jobs w) of
           (Some _, js) \<Rightarrow> Some (LoopContinue, w\<lparr>w_jobs := js\<rparr>)
         | (None, js) \<Rightarrow>
             (case publish_event jid JobRunning NoData now
                     (w\<lparr>w_jobs := js, w_observer := count_running (w_observer w)\<rparr>) of
                None \<Rightarrow> None
              | Some w1 \<Rightarrow>
                  (case UserService_CreateUser ur (wi_Payload item) (w_users w1) of
                     (Inl userErr, us) \<Rightarrow>
                       (case markJobFailed jr jid (ToJobProblem userErr) now (w1\<lparr>w_users := us\<rparr>) of
                          None \<Rightarrow> None
                        | Some (Some _, w2) \<Rightarrow> Some (LoopContinue, w2)
                        | Some (None, w2) \<Rightarrow>
                            Some (LoopContinue, w2\<lparr>w_observer := count_processed (count_failed (w_observer w2))\<rparr>))
                   | (Inr user, us) \<Rightarrow>
                       (let res = \<lparr>jr_UserID = dto_ID user\<rparr> in
                        case JobService_SetSucceeded jr jid res (w_jobs w1) of
                          (Some _, js2) \<Rightarrow> Some (LoopContinue, w1\<lparr>w_users := us, w_jobs := js2\<rparr>)
                        | (None, js2) \<Rightarrow>
                            (case publish_event jid JobSucceeded (ResultData res) now
                                    (w1\<lparr>w_users := us, w_jobs := js2,
                                        w_observer := count_succeeded (w_observer w1)\<rparr>) of
                               None \<Rightarrow> None
                             | Some w2 \<Rightarrow>
                                 Some (LoopContinue, w2\<lparr>w_observer := count_processed (w_observer w2)\<rparr>)))))))"

text \<open>
  One turn of the loop: the runtime chooses between a finished context and a buffered item (\<open>None\<close>
  in the loop control: nothing is ready and the worker waits).
\<close>

definition worker_turn ::
  "'j JobRepository \<Rightarrow> 'u UserRepository \<Rightarrow> bool \<Rightarrow> bool \<Rightarrow> int64 \<Rightarrow> Queue \<times> ('j, 'u) world \<Rightarrow>
     (loop_control option \<times> Queue \<times> ('j, 'u) world) option" where
  "worker_turn jr ur ctx_done choose_item now qw =
     (case qw of (q, w) \<Rightarrow>
       (case Chan_receive q of
          (None, _) \<Rightarrow> if ctx_done then Some (Some LoopReturn, q, w) else Some (None, q, w)
        | (Some item, q1) \<Rightarrow>
            if ctx_done \<and> \<not> choose_item then Some (Some LoopReturn, q, w)
            else
              (case worker_item jr ur ctx_done item now w of
                 None \<Rightarrow> None
               | Some (lc, w1) \<Rightarrow> Some (Some lc, q1, w1))))"

text \<open>The deadline of the context used for repairs; it is detached from the parent's cancellation.\<close>

definition defaultStopRepairTimeout :: int64 where
  "defaultStopRepairTimeout = 2 * 1000000000"

definition newRepairContext :: "int64 \<Rightarrow> int64 \<Rightarrow> int64 option \<Rightarrow> int64" where
  "newRepairContext repairTimeout now parentDeadline =
     (let timeout = (if repairTimeout \<le> 0 then defaultStopRepairTimeout else repairTimeout);
          deadline = now + timeout
      in case parentDeadline of
           None \<Rightarrow> deadline
         | Some pd \<Rightarrow> if pd < deadline then pd else deadline)"

section \<open>Correctness of one item\<close>

lemma Publish_total: "hub_inv h \<Longrightarrow> \<exists>h'. Hub_Publish j ev h = Some h' \<and> hub_inv h'"
proof (cases "hub_closed h")
  case False
  assume "hub_inv h"
  with Publish_spec [OF this False, of j ev] hub_inv_Publish show ?thesis by blast
qed (simp add: Hub_Publish_def)

lemma publish_event_ok:
  assumes "hub_inv (w_hub w)"
  obtains h' where "publish_event jid st d now w = Some (w\<lparr>w_hub := h'\<rparr>)" "hub_inv h'"
  using Publish_total [OF assms] that by (fastforce simp: publish_event_def)

text \<open>What the pool relies on: a job and a user repository that keep their contracts.\<close>

locale worker_env =
  jobs: job_repository jr jabs jinv + users: user_repository ur uabs uinv uroom same
  for jr :: "'j JobRepository" and jabs jinv and ur :: "'u UserRepository" and uabs uinv uroom same
begin

lemma mark_failed_spec:
  assumes "jinv (w_jobs w)" and "hub_inv (w_hub w)" and "jabs (w_jobs w) jid = Some j" and "active j"
  shows "\<exists>js h. markJobFailed jr jid p now w = Some (None, w\<lparr>w_jobs := js, w_hub := h\<rparr>) \<and>
    jabs js = (jabs (w_jobs w))(jid \<mapsto> mark_failed p j) \<and> jinv js \<and> hub_inv h"
proof -
  obtain e js where run: "JobService_SetFailed jr jid p (w_jobs w) = (e, js)" by force
  have e: "e = None" "jabs js = (jabs (w_jobs w))(jid \<mapsto> mark_failed p j)"
    using jobs.service_SetFailed [OF assms(1) run] assms(3,4) by (auto simp: cas_def active_def)
  have inv: "jinv js"
    using jobs.service_invar(3) [OF assms(1), of jid p] run by simp
  obtain h where "publish_event jid JobFailed (ProblemData p) now (w\<lparr>w_jobs := js\<rparr>) = Some (w\<lparr>w_jobs := js, w_hub := h\<rparr>)"
      "hub_inv h"
    using publish_event_ok [of "w\<lparr>w_jobs := js\<rparr>" jid JobFailed "ProblemData p" now] assms(2) by auto
  with run e inv show ?thesis by (auto simp: markJobFailed_def)
qed

text \<open>A queued job ends succeeded with the new user, or failed with the problem of the error.\<close>

lemma item_processed:
  assumes inv: "jinv (w_jobs w)" "hub_inv (w_hub w)"
    and job: "jabs (w_jobs w) (wi_JobID item) = Some j" "job_Status j = JobQueued"
    and create: "UserService_CreateUser ur (wi_Payload item) (w_users w) = (res, us)"
  shows "\<exists>js h ob. worker_item jr ur False item now w =
      Some (LoopContinue, w\<lparr>w_jobs := js, w_users := us, w_hub := h, w_observer := ob\<rparr>) \<and>
    jinv js \<and> hub_inv h \<and>
    jabs js = (jabs (w_jobs w))(wi_JobID item \<mapsto> (case res of
        Inl e \<Rightarrow> mark_failed (ToJobProblem e) (mark_running j)
      | Inr u \<Rightarrow> mark_succeeded \<lparr>jr_UserID = dto_ID u\<rparr> (mark_running j))) \<and>
    ob = count_processed ((case res of Inl _ \<Rightarrow> count_failed | Inr _ \<Rightarrow> count_succeeded)
           (count_running (w_observer w)))"
proof -
  let ?id = "wi_JobID item"
  obtain e js where run: "JobService_SetRunning jr ?id (w_jobs w) = (e, js)" by force
  have r: "e = None" "jabs js = (jabs (w_jobs w))(?id \<mapsto> mark_running j)"
    using jobs.service_SetRunning [OF inv(1) run] job by (auto simp: cas_def)
  have js: "jinv js"
    using jobs.service_invar(1) [OF inv(1), of ?id] run by simp
  let ?w0 = "w\<lparr>w_jobs := js, w_observer := count_running (w_observer w)\<rparr>"
  obtain h where p: "publish_event ?id JobRunning NoData now ?w0 = Some (?w0\<lparr>w_hub := h\<rparr>)" "hub_inv h"
    using publish_event_ok [of ?w0 ?id JobRunning NoData now] inv(2) by auto
  show ?thesis
  proof (cases res)
    case (Inl ue)
    let ?w1 = "?w0\<lparr>w_hub := h, w_users := us\<rparr>"
    from mark_failed_spec [of ?w1 ?id "mark_running j" "ToJobProblem ue" now] js p(2) r
    obtain js2 h2 where m: "markJobFailed jr ?id (ToJobProblem ue) now ?w1 = Some (None, ?w1\<lparr>w_jobs := js2, w_hub := h2\<rparr>)"
        "jabs js2 = (jabs js)(?id \<mapsto> mark_failed (ToJobProblem ue) (mark_running j))" "jinv js2" "hub_inv h2"
      by (auto simp: active_def)
    with Inl run r p create show ?thesis
      by (intro exI [of _ js2] exI [of _ h2]) (simp add: worker_item_def)
  next
    case (Inr u)
    let ?res = "\<lparr>jr_UserID = dto_ID u\<rparr>"
    obtain e2 js2 where run2: "JobService_SetSucceeded jr ?id ?res js = (e2, js2)" by force
    have s: "e2 = None" "jabs js2 = (jabs js)(?id \<mapsto> mark_succeeded ?res (mark_running j))"
      using jobs.service_SetSucceeded [OF js run2] r by (auto simp: cas_def)
    have js2: "jinv js2"
      using jobs.service_invar(2) [OF js, of ?id ?res] run2 by simp
    let ?w1 = "?w0\<lparr>w_hub := h, w_users := us, w_jobs := js2,
        w_observer := count_succeeded (count_running (w_observer w))\<rparr>"
    obtain h2 where p2: "publish_event ?id JobSucceeded (ResultData ?res) now ?w1 = Some (?w1\<lparr>w_hub := h2\<rparr>)"
        "hub_inv h2"
      using publish_event_ok [of ?w1 ?id JobSucceeded "ResultData ?res" now] p(2) by auto
    with Inr run r p create run2 s js2 show ?thesis
      by (intro exI [of _ js2] exI [of _ h2]) (simp add: worker_item_def)
  qed
qed

lemma item_skipped:
  assumes "jinv (w_jobs w)" and "\<forall>j. jabs (w_jobs w) (wi_JobID item) = Some j \<longrightarrow> job_Status j \<noteq> JobQueued"
  shows "\<exists>js. worker_item jr ur False item now w = Some (LoopContinue, w\<lparr>w_jobs := js\<rparr>) \<and>
    jabs js = jabs (w_jobs w)"
proof -
  obtain e js where run: "JobService_SetRunning jr (wi_JobID item) (w_jobs w) = (e, js)" by force
  have "e \<noteq> None \<and> jabs js = jabs (w_jobs w)"
    using jobs.service_SetRunning [OF assms(1) run] assms(2) by (auto simp: cas_def split: option.splits if_splits)
  with run show ?thesis by (auto simp: worker_item_def)
qed

text \<open>A worker that sees its context cancelled fails the item it took and leaves.\<close>

lemma item_cancelled:
  assumes "jinv (w_jobs w)" and "hub_inv (w_hub w)"
    and "jabs (w_jobs w) (wi_JobID item) = Some j" and "active j"
  shows "\<exists>js h. worker_item jr ur True item now w = Some (LoopReturn, w\<lparr>w_jobs := js, w_hub := h\<rparr>) \<and>
    jabs js = (jabs (w_jobs w))(wi_JobID item \<mapsto> mark_failed ShutdownJobProblem j)"
proof -
  obtain js h where "markJobFailed jr (wi_JobID item) ShutdownJobProblem now w =
      Some (None, w\<lparr>w_jobs := js, w_hub := h\<rparr>)"
      "jabs js = (jabs (w_jobs w))(wi_JobID item \<mapsto> mark_failed ShutdownJobProblem j)"
    using mark_failed_spec [OF assms] by blast
  then show ?thesis
    by (intro exI [of _ js] exI [of _ h]) (simp add: worker_item_def)
qed

end

interpretation memw: worker_env memory_jobs mj_abs mj_inv memory_users mu_abs mu_inv mu_room EqualFold
  by unfold_locales

interpretation sqlw: worker_env "sql_jobs text_codec" "sq_abs text_codec" "sq_inv text_codec"
  sql_users su_abs su_inv "\<lambda>_. True" "(=)"
  by unfold_locales

section \<open>The life cycle\<close>

record StopOutcome =
  so_WorkersStopped :: bool
  so_RepairAttempted :: bool
  so_RepairedActiveJobs :: int
  so_RepairErr :: "go_error option"

definition zero_StopOutcome :: StopOutcome where
  "zero_StopOutcome = \<lparr>so_WorkersStopped = False, so_RepairAttempted = False, so_RepairedActiveJobs = 0,
     so_RepairErr = None\<rparr>"

definition StopOutcome_Err :: "StopOutcome \<Rightarrow> go_error option" where
  "StopOutcome_Err o' = so_RepairErr o'"

text \<open>
  A generation of workers: its context, the closed flag of \<open>done\<close>, the counter \<open>remaining\<close>, and the
  outcome once \<open>stopOnce\<close> has run.  Generations are objects that a concurrent \<open>Stop\<close> still holds after
  the pool has forgotten them, so the pool refers to them by index.
\<close>

record workerGeneration =
  gen_cancelled :: bool
  gen_done :: bool
  gen_remaining :: int64
  gen_outcome :: "StopOutcome option"

record WorkerPool =
  wp_gens :: "workerGeneration list"
  wp_generation :: "nat option"
  wp_stopping :: bool
  wp_lastOutcome :: StopOutcome
  wp_hasOutcome :: bool

definition NewWorkerPool :: WorkerPool where
  "NewWorkerPool = \<lparr>wp_gens = [], wp_generation = None, wp_stopping = False,
     wp_lastOutcome = zero_StopOutcome, wp_hasOutcome = False\<rparr>"

definition WorkerPool_IsRunning :: "WorkerPool \<Rightarrow> bool" where
  "WorkerPool_IsRunning p =
     (case wp_generation p of
        None \<Rightarrow> False
      | Some g \<Rightarrow> if wp_stopping p then False else \<not> gen_done (wp_gens p ! g))"

definition WorkerPool_CheckRunning :: "WorkerPool \<Rightarrow> go_error option" where
  "WorkerPool_CheckRunning p = (if \<not> WorkerPool_IsRunning p then Some (Sentinel ErrPoolNotRunning) else None)"

definition settleStoppedLocked :: "WorkerPool \<Rightarrow> WorkerPool" where
  "settleStoppedLocked p =
     (case wp_generation p of
        None \<Rightarrow> p
      | Some g \<Rightarrow>
          if gen_done (wp_gens p ! g)
          then (if wp_stopping p then p else p\<lparr>wp_generation := None, wp_stopping := False\<rparr>)
          else p)"

text \<open>\<open>Start\<close>; \<open>parent_done\<close> says whether the context it is given is already cancelled.\<close>

definition WorkerPool_Start :: "bool \<Rightarrow> int64 \<Rightarrow> WorkerPool \<Rightarrow> go_error option \<times> WorkerPool" where
  "WorkerPool_Start parent_done workers p =
     (let p1 = settleStoppedLocked p in
      case wp_generation p1 of
        Some _ \<Rightarrow> if wp_stopping p1 then (Some (Sentinel ErrPoolStopping), p1) else (None, p1)
      | None \<Rightarrow>
          (let gen = \<lparr>gen_cancelled = parent_done, gen_done = (workers \<le> 0), gen_remaining = workers,
                      gen_outcome = None\<rparr>
           in (None, p1\<lparr>wp_gens := wp_gens p1 @ [gen], wp_generation := Some (length (wp_gens p1)),
                       wp_stopping := False, wp_lastOutcome := zero_StopOutcome, wp_hasOutcome := False\<rparr>)))"

text \<open>A worker's deferred call.\<close>

definition workerDone :: "workerGeneration \<Rightarrow> workerGeneration" where
  "workerDone gen =
     (let r = gen_remaining gen - 1
      in gen\<lparr>gen_remaining := r, gen_done := (if r = 0 then True else gen_done gen)\<rparr>)"

text \<open>The first part of \<open>Stop\<close>, under the lock and the cancellation: either the call returns
  (\<open>Inl\<close>), or it goes on to wait for a generation (\<open>Inr\<close>).\<close>

definition WorkerPool_Stop_enter :: "WorkerPool \<Rightarrow> (go_error option + nat) \<times> WorkerPool" where
  "WorkerPool_Stop_enter p =
     (case wp_generation p of
        None \<Rightarrow> (Inl (if wp_hasOutcome p then StopOutcome_Err (wp_lastOutcome p) else None), p)
      | Some g \<Rightarrow>
          (let firstStop = \<not> wp_stopping p;
               p1 = p\<lparr>wp_stopping := True\<rparr>
           in (Inr g, if firstStop
                      then p1\<lparr>wp_gens := (wp_gens p1)[g := (wp_gens p1 ! g)\<lparr>gen_cancelled := True\<rparr>]\<rparr>
                      else p1)))"

definition repairActiveOnShutdown :: "'j JobRepository \<Rightarrow> 'j \<Rightarrow> StopOutcome \<times> 'j" where
  "repairActiveOnShutdown jr js =
     (case JobService_FailActiveOnShutdown jr js of
        ((count, Some e), js1) \<Rightarrow>
          (\<lparr>so_WorkersStopped = True, so_RepairAttempted = True, so_RepairedActiveJobs = 0,
            so_RepairErr = Some e\<rparr>, js1)
      | ((count, None), js1) \<Rightarrow>
          (\<lparr>so_WorkersStopped = True, so_RepairAttempted = True, so_RepairedActiveJobs = count,
            so_RepairErr = None\<rparr>, js1))"

definition completeStop ::
  "'j JobRepository \<Rightarrow> nat \<Rightarrow> WorkerPool \<times> 'j \<Rightarrow> go_error option \<times> WorkerPool \<times> 'j" where
  "completeStop jr g pj =
     (case pj of (p, js) \<Rightarrow>
       (let (outc, js1) = (case gen_outcome (wp_gens p ! g) of
              Some out0 \<Rightarrow> (out0, js)
            | None \<Rightarrow> repairActiveOnShutdown jr js);
            p1 = p\<lparr>wp_gens := (wp_gens p)[g := (wp_gens p ! g)\<lparr>gen_outcome := Some outc\<rparr>]\<rparr>;
            p2 = (if wp_generation p1 = Some g
                  then p1\<lparr>wp_generation := None, wp_stopping := False, wp_lastOutcome := outc,
                          wp_hasOutcome := True\<rparr>
                  else p1)
        in (StopOutcome_Err outc, p2, js1)))"

text \<open>The wait of \<open>Stop\<close>: a finished generation wins over an expired context only if it is seen in the
  first select; afterwards the runtime chooses.  \<open>None\<close>: the call keeps waiting.\<close>

definition WorkerPool_Stop_wait ::
  "'j JobRepository \<Rightarrow> nat \<Rightarrow> bool \<Rightarrow> go_error option \<Rightarrow> bool \<Rightarrow> WorkerPool \<times> 'j \<Rightarrow>
     (go_error option \<times> WorkerPool \<times> 'j) option" where
  "WorkerPool_Stop_wait jr g first_select ctx_Err choose_done pj =
     (if gen_done (wp_gens (fst pj) ! g) \<and> (first_select \<or> ctx_Err = None \<or> choose_done)
      then Some (completeStop jr g pj)
      else case ctx_Err of Some e \<Rightarrow> Some (Some e, pj) | None \<Rightarrow> None)"

definition WorkerPool_LastStopOutcome :: "WorkerPool \<Rightarrow> StopOutcome \<times> bool" where
  "WorkerPool_LastStopOutcome p = (wp_lastOutcome p, wp_hasOutcome p)"

text \<open>
  The steps of the pool next to the job store: calls of \<open>Start\<close> and \<open>Stop\<close> (the middle component
  is the list of generations some \<open>Stop\<close> call is waiting for), the cancellation of a context, exits
  of workers, and anything the workers do to the jobs while one of them is alive.
\<close>

definition workers_alive :: "WorkerPool \<Rightarrow> bool" where
  "workers_alive p \<longleftrightarrow> list_ex (\<lambda>gen. 0 < gen_remaining gen) (wp_gens p)"

type_synonym 'j pool_state = "WorkerPool \<times> nat list \<times> 'j"

inductive pool_step :: "'j JobRepository \<Rightarrow> 'j pool_state \<Rightarrow> 'j pool_state \<Rightarrow> bool" for jr where
  start: "WorkerPool_Start pd n p = (e, p') \<Longrightarrow> pool_step jr (p, ws, js) (p', ws, js)"
| stop_enter: "WorkerPool_Stop_enter p = (r, p') \<Longrightarrow>
    pool_step jr (p, ws, js) (p', (case r of Inl _ \<Rightarrow> ws | Inr g \<Rightarrow> g # ws), js)"
| stop_wait: "g \<in> set ws \<Longrightarrow> WorkerPool_Stop_wait jr g fs ce cd (p, js) = Some (e, p', js') \<Longrightarrow>
    pool_step jr (p, ws, js) (p', ws, js')"
| worker_exit: "g < length (wp_gens p) \<Longrightarrow> 0 < gen_remaining (wp_gens p ! g) \<Longrightarrow>
    gen_cancelled (wp_gens p ! g) \<Longrightarrow>
    pool_step jr (p, ws, js) (p\<lparr>wp_gens := (wp_gens p)[g := workerDone (wp_gens p ! g)]\<rparr>, ws, js)"
| cancel: "g < length (wp_gens p) \<Longrightarrow>
    pool_step jr (p, ws, js) (p\<lparr>wp_gens := (wp_gens p)[g := (wp_gens p ! g)\<lparr>gen_cancelled := True\<rparr>]\<rparr>, ws, js)"
| worker_jobs: "workers_alive p \<Longrightarrow> pool_step jr (p, ws, js) (p, ws, repo_run jr ops js)"

text \<open>The invariant of the life cycle.\<close>

definition gen_ok :: "workerGeneration \<Rightarrow> bool" where
  "gen_ok gen \<longleftrightarrow> (gen_done gen \<longleftrightarrow> gen_remaining gen \<le> 0) \<and> (gen_outcome gen \<noteq> None \<longrightarrow> gen_done gen)"

definition current_ok :: "WorkerPool \<Rightarrow> bool" where
  "current_ok p \<longleftrightarrow> (case wp_generation p of
       None \<Rightarrow> \<not> wp_stopping p
     | Some g \<Rightarrow> g < length (wp_gens p) \<and> gen_outcome (wp_gens p ! g) = None)"

definition others_done :: "WorkerPool \<Rightarrow> bool" where
  "others_done p \<longleftrightarrow> (\<forall>g < length (wp_gens p). wp_generation p \<noteq> Some g \<longrightarrow> gen_done (wp_gens p ! g))"

definition waiting_ok :: "WorkerPool \<Rightarrow> nat \<Rightarrow> bool" where
  "waiting_ok p g \<longleftrightarrow> g < length (wp_gens p) \<and>
     (wp_generation p = Some g \<and> wp_stopping p \<or> gen_outcome (wp_gens p ! g) \<noteq> None)"

definition pool_inv :: "WorkerPool \<Rightarrow> nat list \<Rightarrow> bool" where
  "pool_inv p ws \<longleftrightarrow> (\<forall>g < length (wp_gens p). gen_ok (wp_gens p ! g)) \<and> current_ok p \<and> others_done p \<and>
     (\<forall>g \<in> set ws. waiting_ok p g)"

lemmas pool_inv_defs = pool_inv_def current_ok_def others_done_def waiting_ok_def

text \<open>Changing one generation in a way that keeps its outcome and does not reopen \<open>done\<close>.\<close>

lemma pool_inv_gen_update:
  assumes "pool_inv p ws" and "g < length (wp_gens p)" and "gen_ok (f (wp_gens p ! g))"
    and "gen_outcome (f (wp_gens p ! g)) = gen_outcome (wp_gens p ! g)"
    and "gen_done (wp_gens p ! g) \<Longrightarrow> gen_done (f (wp_gens p ! g))"
  shows "pool_inv (p\<lparr>wp_gens := (wp_gens p)[g := f (wp_gens p ! g)]\<rparr>) ws"
  using assms by (auto simp: pool_inv_defs nth_list_update split: option.splits)

lemma pool_inv_settle:
  assumes "pool_inv p ws"
  shows "pool_inv (settleStoppedLocked p) ws \<and> wp_gens (settleStoppedLocked p) = wp_gens p"
  using assms by (auto simp: settleStoppedLocked_def pool_inv_defs split: option.splits)

lemma pool_inv_Start:
  assumes "pool_inv p ws" and "WorkerPool_Start pd n p = (e, p')"
  shows "pool_inv p' ws"
proof -
  let ?p = "settleStoppedLocked p"
  have inv: "pool_inv ?p ws" using pool_inv_settle [OF assms(1)] by simp
  show ?thesis
  proof (cases "wp_generation ?p")
    case (Some g)
    with assms(2) have "p' = ?p" by (auto simp: WorkerPool_Start_def Let_def split: if_splits)
    with inv show ?thesis by simp
  next
    case None
    with inv have old: "\<forall>g < length (wp_gens ?p). gen_done (wp_gens ?p ! g)"
      "\<forall>g \<in> set ws. g < length (wp_gens ?p) \<and> gen_outcome (wp_gens ?p ! g) \<noteq> None"
      by (auto simp: pool_inv_defs)
    from None assms(2) have p': "wp_gens p' = wp_gens ?p @ [\<lparr>gen_cancelled = pd, gen_done = (n \<le> 0),
          gen_remaining = n, gen_outcome = None\<rparr>]" "wp_generation p' = Some (length (wp_gens ?p))"
      by (auto simp: WorkerPool_Start_def Let_def)
    show ?thesis
      using inv old by (auto simp: pool_inv_defs p' nth_append gen_ok_def less_Suc_eq)
  qed
qed

lemma pool_inv_enter:
  assumes "pool_inv p ws" and "WorkerPool_Stop_enter p = (r, p')"
  shows "pool_inv p' (case r of Inl _ \<Rightarrow> ws | Inr g \<Rightarrow> g # ws)"
proof (cases "wp_generation p")
  case None
  with assms show ?thesis by (auto simp: WorkerPool_Stop_enter_def)
next
  case (Some g)
  have g: "g < length (wp_gens p)" using assms(1) Some by (simp add: pool_inv_defs)
  have "pool_inv (p\<lparr>wp_stopping := True\<rparr>) (g # ws)"
    using assms(1) Some by (auto simp: pool_inv_defs)
  moreover have "gen_ok ((wp_gens p ! g)\<lparr>gen_cancelled := True\<rparr>)"
    using assms(1) g by (auto simp: pool_inv_def gen_ok_def)
  ultimately show ?thesis
    using assms(2) Some g
      pool_inv_gen_update [of "p\<lparr>wp_stopping := True\<rparr>" "g # ws" g "\<lambda>x. x\<lparr>gen_cancelled := True\<rparr>"]
    by (auto simp: WorkerPool_Stop_enter_def Let_def)
qed

lemma pool_inv_completeStop:
  assumes "pool_inv p ws" and "g \<in> set ws" and "gen_done (wp_gens p ! g)"
    and "completeStop jr g (p, js) = (e, p', js')"
  shows "pool_inv p' ws"
proof -
  have g: "waiting_ok p g" "gen_ok (wp_gens p ! g)"
    using assms(1,2) by (auto simp: pool_inv_def waiting_ok_def)
  obtain outc where p': "p' = (let p1 = p\<lparr>wp_gens := (wp_gens p)[g := (wp_gens p ! g)\<lparr>gen_outcome := Some outc\<rparr>]\<rparr>
      in if wp_generation p = Some g then p1\<lparr>wp_generation := None, wp_stopping := False,
           wp_lastOutcome := outc, wp_hasOutcome := True\<rparr> else p1)"
    using assms(4) by (auto simp: completeStop_def Let_def split: prod.splits)
  show ?thesis
    using assms(1,3) g by (auto simp: p' Let_def pool_inv_defs nth_list_update gen_ok_def split: option.splits)
qed

lemma gen_ok_workerDone: "gen_ok gen \<Longrightarrow> 0 < gen_remaining gen \<Longrightarrow> gen_ok (workerDone gen)"
  by (auto simp: gen_ok_def workerDone_def Let_def)

lemma workerDone_frame [simp]:
  "gen_outcome (workerDone gen) = gen_outcome gen" "gen_done gen \<Longrightarrow> gen_done (workerDone gen)"
  by (simp_all add: workerDone_def Let_def)

lemma pool_inv_gen: "pool_inv p ws \<Longrightarrow> g < length (wp_gens p) \<Longrightarrow> gen_ok (wp_gens p ! g)"
  by (simp add: pool_inv_def)

lemma gen_ok_cancelled [simp]: "gen_ok (gen\<lparr>gen_cancelled := b\<rparr>) \<longleftrightarrow> gen_ok gen"
  by (simp add: gen_ok_def)

lemma pool_inv_step:
  "pool_step jr s s' \<Longrightarrow> pool_inv (fst s) (fst (snd s)) \<Longrightarrow> pool_inv (fst s') (fst (snd s'))"
proof (induction rule: pool_step.induct)
  case (worker_exit g p ws js)
  then show ?case
    using pool_inv_gen_update [of p ws g workerDone] by (simp add: pool_inv_gen gen_ok_workerDone)
next
  case (cancel g p ws js)
  then show ?case
    using pool_inv_gen_update [of p ws g "\<lambda>x. x\<lparr>gen_cancelled := True\<rparr>"] by (simp add: pool_inv_gen)
qed (auto simp: WorkerPool_Stop_wait_def intro: pool_inv_Start pool_inv_enter pool_inv_completeStop
      split: if_splits option.splits)

lemma pool_inv_reachable:
  "(pool_step jr)\<^sup>*\<^sup>* s s' \<Longrightarrow> pool_inv (fst s) (fst (snd s)) \<Longrightarrow> pool_inv (fst s') (fst (snd s'))"
  by (induction rule: rtranclp_induct) (auto dest: pool_inv_step)

lemma pool_inv_New: "pool_inv NewWorkerPool []"
  by (simp add: NewWorkerPool_def pool_inv_defs)

section \<open>Properties\<close>

context job_repository begin

lemma pool_step_invar: "pool_step repo s s' \<Longrightarrow> invar (snd (snd s)) \<Longrightarrow> invar (snd (snd s'))"
proof (induction rule: pool_step.induct)
  case (stop_wait g ws fs ce cd p js e p' js')
  have "js' = js \<or> js' = snd (JobService_FailActiveOnShutdown repo js)"
    using stop_wait.hyps(2)
    by (auto simp: WorkerPool_Stop_wait_def completeStop_def repairActiveOnShutdown_def Let_def
        split: if_splits option.splits prod.splits)
  with stop_wait.prems service_invar(4) show ?case by auto
next
  case (worker_jobs p ws js ops)
  then show ?case by (simp add: run_invar)
qed auto

lemma pool_reachable_invar: "(pool_step repo)\<^sup>*\<^sup>* s s' \<Longrightarrow> invar (snd (snd s)) \<Longrightarrow> invar (snd (snd s'))"
  by (induction rule: rtranclp_induct) (auto dest: pool_step_invar)

lemma repair_clears:
  assumes "invar js" and "repairActiveOnShutdown repo js = (outc, js')"
  shows "so_RepairErr outc = None \<and> (\<forall>i j. abs js' i = Some j \<longrightarrow> \<not> active j) \<and>
    so_RepairedActiveJobs outc = int (card {i. \<exists>j. abs js i = Some j \<and> active j})"
proof -
  obtain n e js1 where run: "repo_FailActive repo ShutdownJobProblem js = ((n, e), js1)"
    by (metis surj_pair)
  note spec = fail_active [OF assms(1) run] and clears = fail_active_clears [OF assms(1) run]
  have "e = None" using spec by blast
  then have "so_RepairErr outc = None" "so_RepairedActiveJobs outc = n" "js' = js1"
    using run assms(2)
    by (auto simp: repairActiveOnShutdown_def JobService_FailActiveOnShutdown_def)
  with spec clears show ?thesis by blast
qed

end

lemma create_user_memory_free:
  assumes "mu_inv r" and "\<not> email_taken EqualFold (mu_abs r) (cui_Email inp)"
    and "UserService_CreateUser memory_users inp r = (res, r')"
  shows "\<exists>u. res = Inr u"
  using assms mu_taken [OF assms(1), of "cui_Email inp"]
  by (auto simp: UserService_CreateUser_def memory_users_def MemoryUserRepository_ExistsByEmail_def
      MemoryUserRepository_Save_def Let_def)


definition sample_world :: "(MemoryJobRepository, MemoryUserRepository) world" where
  "sample_world = \<lparr>w_jobs = sample_repo, w_users = NewMemoryUserRepository, w_hub = sample_hub,
     w_observer = \<lparr>obs_queued = 1, obs_running = 0, obs_succeeded = 0, obs_failed = 0, obs_processed = 0\<rparr>\<rparr>"



text \<open>C32: at every moment at most one generation of workers is alive, and \<open>Start\<close> never launches
  workers while one is: it does nothing for a running pool and answers \<open>ErrPoolStopping\<close> while a
  \<open>Stop\<close> is in progress.\<close>

theorem pool_single_generation:
  assumes "(pool_step jr)\<^sup>*\<^sup>* (NewWorkerPool, [], js0) (p, ws, js)"
    and "g < length (wp_gens p)" and "0 < gen_remaining (wp_gens p ! g)"
  shows "wp_generation p = Some g \<and>
    WorkerPool_Start pd n p = (if wp_stopping p then Some (Sentinel ErrPoolStopping) else None, p) \<and>
    (\<forall>k < length (wp_gens p). 0 < gen_remaining (wp_gens p ! k) \<longrightarrow> k = g)"
proof -
  have inv: "pool_inv p ws"
    using pool_inv_reachable [OF assms(1)] pool_inv_New by simp
  have alive: "wp_generation p = Some k" if "k < length (wp_gens p)" "0 < gen_remaining (wp_gens p ! k)" for k
    using inv that by (auto simp: pool_inv_def others_done_def gen_ok_def)
  have "\<not> gen_done (wp_gens p ! g)"
    using inv assms(2,3) by (auto simp: pool_inv_def gen_ok_def)
  moreover have "k = g" if "k < length (wp_gens p)" "0 < gen_remaining (wp_gens p ! k)" for k
    using alive [OF that] alive [OF assms(2,3)] by simp
  ultimately show ?thesis
    using alive [OF assms(2,3)] by (auto simp: WorkerPool_Start_def settleStoppedLocked_def Let_def)
qed

text \<open>A pool with two workers that a \<open>Stop\<close> call waits for.\<close>

definition started :: WorkerPool where
  "started = snd (WorkerPool_Start False 1 NewWorkerPool)"

definition stopping :: WorkerPool where
  "stopping = snd (WorkerPool_Stop_enter started)"

definition drained :: WorkerPool where
  "drained = stopping\<lparr>wp_gens := (wp_gens stopping)[0 := workerDone (wp_gens stopping ! 0)]\<rparr>"

lemma started_reachable: "pool_step jr (NewWorkerPool, [], js) (started, [], js)"
  unfolding started_def by (rule pool_step.start [of False 1 _ None]) (simp add: WorkerPool_Start_def
      settleStoppedLocked_def NewWorkerPool_def Let_def)

lemma drained_reachable: "(pool_step jr)\<^sup>*\<^sup>* (NewWorkerPool, [], js) (drained, [0], js)"
proof -
  have "WorkerPool_Stop_enter started = (Inr 0, stopping)"
    by (simp add: stopping_def started_def WorkerPool_Start_def WorkerPool_Stop_enter_def
        settleStoppedLocked_def NewWorkerPool_def Let_def)
  from pool_step.stop_enter [OF this, of jr "[]" js]
  have "pool_step jr (started, [], js) (stopping, [0], js)" by simp
  moreover have "pool_step jr (stopping, [0], js) (drained, [0], js)"
    unfolding drained_def
    by (rule pool_step.worker_exit)
       (simp_all add: stopping_def started_def WorkerPool_Start_def WorkerPool_Stop_enter_def
        settleStoppedLocked_def NewWorkerPool_def Let_def)
  ultimately show ?thesis
    using started_reachable [of jr js] by (auto intro: converse_rtranclp_into_rtranclp)
qed


theorem pool_single_generation_witness:
  "WorkerPool_Start False 3 started = (None, started)"
  using pool_single_generation [OF r_into_rtranclp [of "pool_step memory_jobs", OF started_reachable [of _ sample_repo]],
      of 0 False 3]
  by (simp add: started_def WorkerPool_Start_def settleStoppedLocked_def NewWorkerPool_def Let_def)

end
