(* ===== verification/Security.thy ===== *)
theory Security
  imports GoErrors
begin

text \<open>
  The security core (\<open>internal/security\<close>): principals and roles, the declarative access policy, and
  the verifier of HS256 tokens with its key selection.  The JWT library is a parameter: a function
  that parses a token with given options and a key function.
\<close>

section \<open>Principals and policy\<close>

type_synonym Role = string

definition RoleAdmin :: Role where "RoleAdmin = ''admin''"
definition RoleUser :: Role where "RoleUser = ''user''"

record Principal =
  pr_UserID :: int64
  pr_Role :: Role

record RequestInfo =
  ri_ClientIP :: string
  ri_Scheme :: string

datatype AccessLevel = AccessPublic | AccessAuthenticated | AccessAdminOnly | AccessOther nat

datatype ResourceConstraint = ResourceNone | ResourceSelfOnly | ResourceOther nat

text \<open>A rule of the policy; its informational notes are left out.\<close>

record RouteRule =
  rr_Pattern :: string
  rr_Methods :: "string list"
  rr_Access :: AccessLevel
  rr_ResourceConstraint :: ResourceConstraint

definition rule :: "string \<Rightarrow> string \<Rightarrow> AccessLevel \<Rightarrow> ResourceConstraint \<Rightarrow> RouteRule" where
  "rule pat m acc rc = \<lparr>rr_Pattern = pat, rr_Methods = [m], rr_Access = acc, rr_ResourceConstraint = rc\<rparr>"

definition DefaultPolicy :: "RouteRule list" where
  "DefaultPolicy =
    [rule ''/livez'' ''GET'' AccessPublic ResourceNone,
     rule ''/readyz'' ''GET'' AccessPublic ResourceNone,
     rule ''/debug/'' ''GET'' AccessAdminOnly ResourceNone,
     rule ''GET /api/v1/users'' ''GET'' AccessAdminOnly ResourceNone,
     rule ''POST /api/v1/users'' ''POST'' AccessAdminOnly ResourceNone,
     rule ''/api/v1/users'' ''*'' AccessAdminOnly ResourceNone,
     rule ''/api/v1/users/{id}'' ''GET'' AccessAuthenticated ResourceSelfOnly,
     rule ''/api/v1/users/{id}/export'' ''GET'' AccessAuthenticated ResourceSelfOnly,
     rule ''/api/v1/users/{id}/profile'' ''GET'' AccessAuthenticated ResourceSelfOnly,
     rule ''/api/v1/jobs/{id}/events'' ''GET'' AccessAuthenticated ResourceNone,
     rule ''/api/v1/jobs/{id}'' ''GET'' AccessAdminOnly ResourceNone,
     rule ''/api/v1/jobs/{id}/grpc'' ''GET'' AccessAdminOnly ResourceNone,
     rule ''GET /api/v2/users'' ''GET'' AccessAdminOnly ResourceNone,
     rule ''POST /api/v2/users'' ''POST'' AccessAdminOnly ResourceNone,
     rule ''/api/v2/users'' ''*'' AccessAdminOnly ResourceNone]"

definition CanReadUser :: "Principal \<Rightarrow> int64 \<Rightarrow> bool" where
  "CanReadUser p targetID \<longleftrightarrow> pr_Role p = RoleAdmin \<or> pr_UserID p = targetID"

definition CanReadJob :: "Principal \<Rightarrow> int64 \<Rightarrow> bool" where
  "CanReadJob p ownerID \<longleftrightarrow> pr_Role p = RoleAdmin \<or> pr_UserID p = ownerID"

section \<open>Authentication errors\<close>

definition IsAuthNError :: "go_error \<Rightarrow> bool" where
  "IsAuthNError err \<longleftrightarrow> errors_As as_AuthN err \<noteq> None"

definition AuthNKind :: "go_error \<Rightarrow> AuthNErrorKind option" where
  "AuthNKind err = errors_As as_AuthN err"

definition AuthZKind :: "go_error \<Rightarrow> AuthZErrorKind option" where
  "AuthZKind err = errors_As as_Forbidden err"

definition WWWAuthenticateValue :: string where
  "WWWAuthenticateValue = ''Bearer''"

definition UnauthorizedFromVerifyErr :: "go_error option \<Rightarrow> go_error" where
  "UnauthorizedFromVerifyErr err =
     (case err of
        None \<Rightarrow> NewUnauthorized AuthNInvalid None
      | Some e \<Rightarrow>
          (case AuthNKind e of
             Some kind \<Rightarrow> NewUnauthorized kind (Some e)
           | None \<Rightarrow> NewUnauthorized AuthNInvalid (Some e)))"

section \<open>The token verifier\<close>

text \<open>What the key function sees of a token, and the claims the program reads.\<close>

datatype kid_header = NoKid | KidString string | KidOther

record jwt_token =
  tok_Alg :: "string option"
  tok_kid :: kid_header

record jwtClaims =
  cl_Subject :: string
  cl_Role :: string

record parser_opts =
  po_ValidMethods :: "string list"
  po_Leeway :: int64
  po_ExpirationRequired :: bool
  po_Issuer :: "string option"
  po_Audience :: "string option"

text \<open>\<open>ParseWithClaims\<close> of the JWT library: an error, or the claims with the token's \<open>Valid\<close> flag.\<close>

type_synonym jwt_parse =
  "parser_opts \<Rightarrow> string \<Rightarrow> (jwt_token \<Rightarrow> go_error + string) \<Rightarrow> go_error + bool \<times> jwtClaims"

record HMACKey =
  hk_KID :: string
  hk_Secret :: string

record JWTVerifierHS256 =
  jv_parser :: parser_opts
  jv_allowedAlg :: string
  jv_keys :: "HMACKey list"
  jv_keysByKID :: "(string, string) gomap"

fun index_keys :: "HMACKey list \<Rightarrow> (string, string) gomap \<Rightarrow> go_error + (string, string) gomap" where
  "index_keys [] m = Inr m"
| "index_keys (k # ks) m =
     (if hk_KID k = '''' then Inl (OpaqueError ''jwt verifier: kid is empty'')
      else if hk_Secret k = '''' then
        Inl (OpaqueError (''jwt verifier: secret is empty for kid='' @ Quote (hk_KID k)))
      else if gm_lookup m (hk_KID k) \<noteq> None then
        Inl (OpaqueError (''jwt verifier: duplicate kid='' @ Quote (hk_KID k)))
      else index_keys ks (gm_update (hk_KID k) (hk_Secret k) m))"

definition NewJWTVerifierHS256 ::
  "string \<Rightarrow> string \<Rightarrow> string \<Rightarrow> int64 \<Rightarrow> HMACKey list \<Rightarrow> go_error + JWTVerifierHS256" where
  "NewJWTVerifierHS256 allowedAlg issuer audience clockSkew keys =
     (if allowedAlg \<noteq> ''HS256'' then
        Inl (OpaqueError (''jwt verifier: unsupported alg='' @ Quote allowedAlg @ '' (expected HS256)''))
      else if clockSkew < 0 then Inl (OpaqueError ''jwt verifier: clockSkew must be >= 0'')
      else if keys = [] then Inl (OpaqueError ''jwt verifier: at least 1 key is required'')
      else
        (case index_keys keys [] of
           Inl e \<Rightarrow> Inl e
         | Inr keysByKID \<Rightarrow>
             Inr \<lparr>jv_parser = \<lparr>po_ValidMethods = [allowedAlg], po_Leeway = clockSkew,
                    po_ExpirationRequired = True,
                    po_Issuer = (if issuer \<noteq> '''' then Some issuer else None),
                    po_Audience = (if audience \<noteq> '''' then Some audience else None)\<rparr>,
                  jv_allowedAlg = allowedAlg, jv_keys = keys, jv_keysByKID = keysByKID\<rparr>))"

definition safeAlg :: "jwt_token \<Rightarrow> string" where
  "safeAlg t = (case tok_Alg t of None \<Rightarrow> '''' | Some a \<Rightarrow> a)"

definition principalFromClaims :: "jwtClaims \<Rightarrow> go_error + Principal" where
  "principalFromClaims claims =
     (let sub = cl_Subject claims in
      if sub = '''' then Inl (AuthNError AuthNInvalid (Some (OpaqueError ''missing sub'')))
      else
        (case Atoi sub of
           None \<Rightarrow> Inl (AuthNError AuthNInvalid (Some (OpaqueError (''invalid sub='' @ Quote sub))))
         | Some uid \<Rightarrow>
             if uid \<le> 0 then Inl (AuthNError AuthNInvalid (Some (OpaqueError (''invalid sub='' @ Quote sub))))
             else if cl_Role claims = '''' then Inr \<lparr>pr_UserID = uid, pr_Role = RoleUser\<rparr>
             else if cl_Role claims = RoleUser \<or> cl_Role claims = RoleAdmin
             then Inr \<lparr>pr_UserID = uid, pr_Role = cl_Role claims\<rparr>
             else Inl (AuthNError AuthNInvalid
                    (Some (OpaqueError (''invalid role='' @ Quote (cl_Role claims)))))))"

definition mapJWTParseError :: "go_error \<Rightarrow> go_error" where
  "mapJWTParseError err =
     (if errors_Is err Jwt_ErrTokenSignatureInvalid then AuthNError AuthNInvalid (Some err)
      else if errors_Is err Jwt_ErrTokenExpired then AuthNError AuthNExpired (Some err)
      else if errors_Is err Jwt_ErrTokenNotValidYet then AuthNError AuthNNotYetValid (Some err)
      else AuthNError AuthNInvalid (Some err))"

text \<open>The key functions of the two attempts.\<close>

definition key_by_kid :: "JWTVerifierHS256 \<Rightarrow> jwt_token \<Rightarrow> go_error + string" where
  "key_by_kid v t =
     (if tok_Alg t \<noteq> Some (jv_allowedAlg v)
      then Inl (OpaqueError (''unexpected alg='' @ Quote (safeAlg t)))
      else
        (case tok_kid t of
           NoKid \<Rightarrow> Inl (Sentinel ErrNoKID)
         | KidOther \<Rightarrow> Inl (OpaqueError ''invalid kid header'')
         | KidString kid \<Rightarrow>
             if kid = '''' then Inl (OpaqueError ''invalid kid header'')
             else
               (case gm_lookup (jv_keysByKID v) kid of
                  None \<Rightarrow> Inl (OpaqueError (''unknown kid='' @ Quote kid))
                | Some sec \<Rightarrow> Inr sec)))"

definition key_fixed :: "JWTVerifierHS256 \<Rightarrow> string \<Rightarrow> jwt_token \<Rightarrow> go_error + string" where
  "key_fixed v secret t =
     (if tok_Alg t \<noteq> Some (jv_allowedAlg v)
      then Inl (OpaqueError (''unexpected alg='' @ Quote (safeAlg t)))
      else Inr secret)"

definition parse_principal ::
  "jwt_parse \<Rightarrow> JWTVerifierHS256 \<Rightarrow> (jwt_token \<Rightarrow> go_error + string) \<Rightarrow> string \<Rightarrow> go_error + Principal" where
  "parse_principal parse v keyFunc tokenString =
     (case parse (jv_parser v) tokenString keyFunc of
        Inl e \<Rightarrow> Inl e
      | Inr (valid, claims) \<Rightarrow>
          if \<not> valid then Inl (OpaqueError ''token is not valid'') else principalFromClaims claims)"

definition tryVerifyByKID :: "jwt_parse \<Rightarrow> JWTVerifierHS256 \<Rightarrow> string \<Rightarrow> go_error + Principal" where
  "tryVerifyByKID parse v tokenString = parse_principal parse v (key_by_kid v) tokenString"

definition tryVerifyWithKey :: "jwt_parse \<Rightarrow> JWTVerifierHS256 \<Rightarrow> string \<Rightarrow> string \<Rightarrow> go_error + Principal" where
  "tryVerifyWithKey parse v tokenString secret = parse_principal parse v (key_fixed v secret) tokenString"

fun verify_loop ::
  "jwt_parse \<Rightarrow> JWTVerifierHS256 \<Rightarrow> string \<Rightarrow> HMACKey list \<Rightarrow> go_error option \<Rightarrow> go_error + Principal" where
  "verify_loop parse v tokenString [] lastErr =
     Inl (AuthNError AuthNInvalid
       (Some (case lastErr of None \<Rightarrow> Sentinel Jwt_ErrTokenSignatureInvalid | Some e \<Rightarrow> e)))"
| "verify_loop parse v tokenString (k # ks) lastErr =
     (case tryVerifyWithKey parse v tokenString (hk_Secret k) of
        Inr p \<Rightarrow> Inr p
      | Inl e \<Rightarrow>
          if errors_Is e Jwt_ErrTokenSignatureInvalid
          then verify_loop parse v tokenString ks (Some e)
          else Inl (mapJWTParseError e))"

definition JWTVerifierHS256_Verify :: "jwt_parse \<Rightarrow> JWTVerifierHS256 \<Rightarrow> string \<Rightarrow> go_error + Principal" where
  "JWTVerifierHS256_Verify parse v tokenString =
     (case tryVerifyByKID parse v tokenString of
        Inr p \<Rightarrow> Inr p
      | Inl e \<Rightarrow>
          if \<not> errors_Is e ErrNoKID then Inl (mapJWTParseError e)
          else verify_loop parse v tokenString (jv_keys v) None)"

section \<open>Properties\<close>

text \<open>
  The hypotheses on the JWT library, for the header it reads from a token and the signature check
  it performs: a token comes back valid only if the key function accepted its header with a secret
  under which the signature is right, and the library never reports the program's own \<open>errNoKID\<close>
  unless the key function returned it.
\<close>

definition parser_sound :: "jwt_parse \<Rightarrow> (string \<Rightarrow> jwt_token) \<Rightarrow> (string \<Rightarrow> string \<Rightarrow> bool) \<Rightarrow> bool" where
  "parser_sound parse header signed \<longleftrightarrow>
     (\<forall>opts s kf claims. parse opts s kf = Inr (True, claims) \<longrightarrow>
        (\<exists>sec. kf (header s) = Inr sec \<and> signed s sec)) \<and>
     (\<forall>opts s kf e. parse opts s kf = Inl e \<longrightarrow> errors_Is e ErrNoKID \<longrightarrow>
        (\<exists>e'. kf (header s) = Inl e' \<and> errors_Is e' ErrNoKID))"

lemma index_keys_lookup:
  "index_keys ks m = Inr m' \<Longrightarrow> gm_lookup m' kid = Some sec \<Longrightarrow>
     gm_lookup m kid = Some sec \<or> (\<exists>k \<in> set ks. hk_KID k = kid \<and> hk_Secret k = sec)"
  by (induction ks m rule: index_keys.induct) (fastforce simp: gomap_simps split: if_splits)+

lemma principalFromClaims_ok:
  "principalFromClaims claims = Inr p \<Longrightarrow> 0 < pr_UserID p \<and> pr_Role p \<in> {RoleUser, RoleAdmin}"
  by (auto simp: principalFromClaims_def Let_def split: if_splits option.splits)

lemma principalFromClaims_err:
  "principalFromClaims claims = Inl e \<Longrightarrow> \<not> errors_Is e ErrNoKID"
  by (auto simp: principalFromClaims_def Let_def split: if_splits option.splits)

lemma parse_principal_ok:
  assumes "parser_sound parse header signed" and "parse_principal parse v kf s = Inr p"
  shows "(\<exists>sec. kf (header s) = Inr sec \<and> signed s sec) \<and> 0 < pr_UserID p \<and> pr_Role p \<in> {RoleUser, RoleAdmin}"
  using assms principalFromClaims_ok
  by (fastforce simp: parse_principal_def parser_sound_def split: sum.splits prod.splits if_splits)

lemma parse_principal_nokid:
  assumes "parser_sound parse header signed" and "parse_principal parse v kf s = Inl e" and "errors_Is e ErrNoKID"
  shows "\<exists>e'. kf (header s) = Inl e' \<and> errors_Is e' ErrNoKID"
  using assms principalFromClaims_err
  by (fastforce simp: parse_principal_def parser_sound_def split: sum.splits prod.splits if_splits)

lemma verify_loop_ok:
  "verify_loop parse v s ks le = Inr p \<Longrightarrow> \<exists>k \<in> set ks. tryVerifyWithKey parse v s (hk_Secret k) = Inr p"
  by (induction parse v s ks le rule: verify_loop.induct) (auto split: sum.splits if_splits)

lemma verify_loop_err: "verify_loop parse v s ks le = Inl e \<Longrightarrow> \<exists>kind c. e = AuthNError kind (Some c)"
  by (induction parse v s ks le rule: verify_loop.induct)
     (auto simp: mapJWTParseError_def split: sum.splits if_splits)

text \<open>C11: a verifier built from the configuration accepts a token only when it is declared HS256 and
  correctly signed with the secret of a configured key; when the token names a key by \<open>kid\<close>, it is
  that key and no other.  The principal it returns has a positive user identifier and the role
  \<open>user\<close> or \<open>admin\<close>.\<close>

theorem jwt_verify_sound:
  assumes "NewJWTVerifierHS256 alg issuer audience skew keys = Inr v"
    and sound: "parser_sound parse header signed" and "JWTVerifierHS256_Verify parse v s = Inr p"
  shows "tok_Alg (header s) = Some ''HS256'' \<and>
    (\<exists>k \<in> set keys. signed s (hk_Secret k) \<and> (\<forall>kid. tok_kid (header s) = KidString kid \<longrightarrow> hk_KID k = kid)) \<and>
    0 < pr_UserID p \<and> pr_Role p \<in> {RoleUser, RoleAdmin}"
proof -
  have v: "jv_allowedAlg v = ''HS256''" "jv_keys v = keys" "index_keys keys [] = Inr (jv_keysByKID v)"
    using assms(1) by (auto simp: NewJWTVerifierHS256_def split: if_splits sum.splits)
  show ?thesis
  proof (cases "tryVerifyByKID parse v s")
    case (Inr q)
    with assms(3) have "parse_principal parse v (key_by_kid v) s = Inr p"
      by (simp add: JWTVerifierHS256_Verify_def tryVerifyByKID_def)
    note p = parse_principal_ok [OF sound this]
    then obtain sec where sec: "key_by_kid v (header s) = Inr sec" "signed s sec" by blast
    then obtain kid where kid: "tok_kid (header s) = KidString kid" "gm_lookup (jv_keysByKID v) kid = Some sec"
        "tok_Alg (header s) = Some ''HS256''"
      using v(1) by (auto simp: key_by_kid_def split: if_splits kid_header.splits option.splits)
    with index_keys_lookup [OF v(3) kid(2)] sec p show ?thesis by auto
  next
    case (Inl e)
    with assms(3) have nokid: "errors_Is e ErrNoKID" and loop: "verify_loop parse v s keys None = Inr p"
      using v(2) by (auto simp: JWTVerifierHS256_Verify_def split: if_splits)
    have "tok_kid (header s) = NoKid"
      using parse_principal_nokid [OF sound _ nokid, of v "key_by_kid v" s] Inl
      by (auto simp: tryVerifyByKID_def key_by_kid_def split: if_splits kid_header.splits option.splits)
    moreover obtain k where "k \<in> set keys" "tryVerifyWithKey parse v s (hk_Secret k) = Inr p"
      using verify_loop_ok [OF loop] by blast
    ultimately show ?thesis
      using parse_principal_ok [OF sound, of v "key_fixed v (hk_Secret k)" s p] v(1)
      by (auto simp: tryVerifyWithKey_def key_fixed_def split: if_splits)
  qed
qed

text \<open>A concrete library: one token, whose signature is right under the secret \<open>s1\<close>.\<close>

definition sample_header :: "string \<Rightarrow> jwt_token" where
  "sample_header s = \<lparr>tok_Alg = Some (if s = ''tok'' then ''HS256'' else ''none''), tok_kid = KidString ''k1''\<rparr>"

definition sample_signed :: "string \<Rightarrow> string \<Rightarrow> bool" where
  "sample_signed s sec \<longleftrightarrow> s = ''tok'' \<and> sec = ''s1''"

definition sample_parse :: jwt_parse where
  "sample_parse opts s kf = (case kf (sample_header s) of
     Inl e \<Rightarrow> Inl (WrapError ''token is unverifiable'' e)
   | Inr sec \<Rightarrow> if sample_signed s sec then Inr (True, \<lparr>cl_Subject = ''7'', cl_Role = ''admin''\<rparr>)
                else Inl (Sentinel Jwt_ErrTokenSignatureInvalid))"

definition sample_keys :: "HMACKey list" where
  "sample_keys = [\<lparr>hk_KID = ''k0'', hk_Secret = ''s0''\<rparr>, \<lparr>hk_KID = ''k1'', hk_Secret = ''s1''\<rparr>]"

lemma sample_parser_sound: "parser_sound sample_parse sample_header sample_signed"
  by (auto simp: parser_sound_def sample_parse_def split: sum.splits if_splits)

theorem jwt_verify_sound_witness:
  "\<exists>v p. NewJWTVerifierHS256 ''HS256'' '''' '''' 0 sample_keys = Inr v \<and>
     JWTVerifierHS256_Verify sample_parse v ''tok'' = Inr p \<and> 0 < pr_UserID p \<and>
     (\<exists>k \<in> set sample_keys. sample_signed ''tok'' (hk_Secret k))"
proof -
  obtain v where v: "NewJWTVerifierHS256 ''HS256'' '''' '''' 0 sample_keys = Inr v"
    by (auto simp: NewJWTVerifierHS256_def sample_keys_def)
  have "Atoi ''7'' = Some 7" by code_simp
  then have "JWTVerifierHS256_Verify sample_parse v ''tok'' = Inr \<lparr>pr_UserID = 7, pr_Role = ''admin''\<rparr>"
    using v by (auto simp: NewJWTVerifierHS256_def sample_keys_def JWTVerifierHS256_Verify_def
        tryVerifyByKID_def parse_principal_def sample_parse_def key_by_kid_def sample_header_def
        sample_signed_def principalFromClaims_def RoleAdmin_def RoleUser_def)
  with jwt_verify_sound [OF v sample_parser_sound this] v show ?thesis by blast
qed

text \<open>C35: whatever the library does, a rejected token is an authentication error: \<open>Verify\<close> never
  returns any other error, so a bad token can never surface as an internal error.\<close>

theorem jwt_verify_errors:
  assumes "JWTVerifierHS256_Verify parse v s = Inl e"
  shows "\<exists>kind c. e = AuthNError kind (Some c) \<and> AuthNKind e = Some kind \<and>
    as_Unauthorized (UnauthorizedFromVerifyErr (Some e)) = Some kind"
proof -
  obtain kind c where e: "e = AuthNError kind (Some c)"
    using assms verify_loop_err [of parse v s "jv_keys v" None e]
    by (auto simp: JWTVerifierHS256_Verify_def mapJWTParseError_def split: sum.splits if_splits)
  then have "AuthNKind e = Some kind"
    by (simp add: AuthNKind_def errors_As_self)
  with e show ?thesis
    by (simp add: UnauthorizedFromVerifyErr_def NewUnauthorized_def)
qed

theorem jwt_verify_errors_witness:
  "\<exists>e v. JWTVerifierHS256_Verify sample_parse v ''bad'' = Inl e \<and> (\<exists>kind. AuthNKind e = Some kind)"
proof -
  obtain v where v: "NewJWTVerifierHS256 ''HS256'' '''' '''' 0 sample_keys = Inr v"
    by (auto simp: NewJWTVerifierHS256_def sample_keys_def)
  then have "\<exists>e. JWTVerifierHS256_Verify sample_parse v ''bad'' = Inl e"
    by (auto simp: NewJWTVerifierHS256_def sample_keys_def JWTVerifierHS256_Verify_def
        tryVerifyByKID_def parse_principal_def sample_parse_def key_by_kid_def sample_header_def)
  with jwt_verify_errors show ?thesis by blast
qed

end
