(* ===== verification/Http.thy ===== *)
theory Http
  imports Security
begin

text \<open>
  HTTP as the program uses it: headers, requests with the values the middleware puts into their
  context, responses, the request identifier (\<open>internal/requestid\<close>) and the helpers of
  \<open>internal/httputils\<close>: content negotiation, entity tags, input validation and JSON requests.
  From the standard library it models canonical header keys and \<open>mime.ParseMediaType\<close>.
\<close>

section \<open>Headers\<close>

type_synonym header = "(string, string list) gomap"

definition token_char :: "char \<Rightarrow> bool" where
  "token_char c \<longleftrightarrow>
     (let n = of_char c :: nat in
      48 \<le> n \<and> n \<le> 57 \<or> 65 \<le> n \<and> n \<le> 90 \<or> 97 \<le> n \<and> n \<le> 122 \<or>
      List.member ''!#$%&*+-.^_|~'' c \<or> n = 39 \<or> n = 96)"

fun canonical_from :: "bool \<Rightarrow> string \<Rightarrow> string" where
  "canonical_from up [] = []"
| "canonical_from up (c # s) = (if up then upper_char c else lower_char c) # canonical_from (c = CHR ''-'') s"

definition CanonicalHeaderKey :: "string \<Rightarrow> string" where
  "CanonicalHeaderKey k = (if list_all token_char k then canonical_from True k else k)"

definition Header_Values :: "header \<Rightarrow> string \<Rightarrow> string list" where
  "Header_Values h k = (case gm_lookup h (CanonicalHeaderKey k) of None \<Rightarrow> [] | Some vs \<Rightarrow> vs)"

definition Header_Get :: "header \<Rightarrow> string \<Rightarrow> string" where
  "Header_Get h k = (case Header_Values h k of [] \<Rightarrow> '''' | v # _ \<Rightarrow> v)"

definition Header_Set :: "string \<Rightarrow> string \<Rightarrow> header \<Rightarrow> header" where
  "Header_Set k v h = gm_update (CanonicalHeaderKey k) [v] h"

definition Header_Add :: "string \<Rightarrow> string \<Rightarrow> header \<Rightarrow> header" where
  "Header_Add k v h = gm_update (CanonicalHeaderKey k) (Header_Values h k @ [v]) h"

definition Header_Del :: "string \<Rightarrow> header \<Rightarrow> header" where
  "Header_Del k h = gm_delete (CanonicalHeaderKey k) h"

lemma Header_Values_simps [simp]:
  "Header_Values (Header_Set k v h) k' =
     (if CanonicalHeaderKey k' = CanonicalHeaderKey k then [v] else Header_Values h k')"
  "Header_Values (Header_Add k v h) k' =
     (if CanonicalHeaderKey k' = CanonicalHeaderKey k then Header_Values h k @ [v] else Header_Values h k')"
  "Header_Values (Header_Del k h) k' =
     (if CanonicalHeaderKey k' = CanonicalHeaderKey k then [] else Header_Values h k')"
  by (simp_all add: Header_Values_def Header_Set_def Header_Add_def Header_Del_def gomap_simps)

lemma Header_Get_simps [simp]:
  "Header_Get (Header_Set k v h) k' =
     (if CanonicalHeaderKey k' = CanonicalHeaderKey k then v else Header_Get h k')"
  "Header_Get (Header_Del k h) k' =
     (if CanonicalHeaderKey k' = CanonicalHeaderKey k then '''' else Header_Get h k')"
  "Header_Get [] k' = ''''"
  by (simp_all add: Header_Get_def) (simp_all add: Header_Values_def)

section \<open>Requests and responses\<close>

record Request =
  req_Method :: string
  req_Path :: string
  req_Pattern :: string
  req_PathValues :: "(string, string) gomap"
  req_RawQuery :: string
  req_Header :: header
  req_Body :: string
  req_BodyLimit :: "int64 option"
  req_RemoteAddr :: string
  req_TLS :: bool
  req_RequestID :: "string option"
  req_Principal :: "Principal option"
  req_Info :: "RequestInfo option"

record Problem =
  p_Type :: string
  p_Title :: string
  p_Status :: int
  p_Detail :: string
  p_Instance :: string
  p_RequestID :: string
  p_InvalidParams :: "InvalidParam list"

definition problem :: "int \<Rightarrow> string \<Rightarrow> Problem" where
  "problem st detail = \<lparr>p_Type = '''', p_Title = '''', p_Status = st, p_Detail = detail, p_Instance = '''',
     p_RequestID = '''', p_InvalidParams = []\<rparr>"

datatype response_body = BodyProblem Problem | BodyBytes string

record ResponseWriter =
  rw_Header :: header
  rw_Status :: "int option"
  rw_Body :: "response_body list"

definition fresh_writer :: ResponseWriter where
  "fresh_writer = \<lparr>rw_Header = [], rw_Status = None, rw_Body = []\<rparr>"

text \<open>The first status counts; a body without one sends 200.\<close>

definition WriteHeader :: "int \<Rightarrow> ResponseWriter \<Rightarrow> ResponseWriter" where
  "WriteHeader st w = (case rw_Status w of None \<Rightarrow> w\<lparr>rw_Status := Some st\<rparr> | Some _ \<Rightarrow> w)"

definition Write :: "response_body \<Rightarrow> ResponseWriter \<Rightarrow> ResponseWriter" where
  "Write b w = (let w1 = WriteHeader 200 w in w1\<lparr>rw_Body := rw_Body w1 @ [b]\<rparr>)"

abbreviation set_header :: "string \<Rightarrow> string \<Rightarrow> ResponseWriter \<Rightarrow> ResponseWriter" where
  "set_header k v w \<equiv> w\<lparr>rw_Header := Header_Set k v (rw_Header w)\<rparr>"

text \<open>\<open>http.StatusText\<close>.\<close>

definition status_texts :: "(int, string) gomap" where
  "status_texts =
    [(100, ''Continue''), (101, ''Switching Protocols''), (102, ''Processing''), (103, ''Early Hints''),
     (200, ''OK''), (201, ''Created''), (202, ''Accepted''), (203, ''Non-Authoritative Information''),
     (204, ''No Content''), (205, ''Reset Content''), (206, ''Partial Content''), (207, ''Multi-Status''),
     (208, ''Already Reported''), (226, ''IM Used''),
     (300, ''Multiple Choices''), (301, ''Moved Permanently''), (302, ''Found''), (303, ''See Other''),
     (304, ''Not Modified''), (305, ''Use Proxy''), (307, ''Temporary Redirect''), (308, ''Permanent Redirect''),
     (400, ''Bad Request''), (401, ''Unauthorized''), (402, ''Payment Required''), (403, ''Forbidden''),
     (404, ''Not Found''), (405, ''Method Not Allowed''), (406, ''Not Acceptable''),
     (407, ''Proxy Authentication Required''), (408, ''Request Timeout''), (409, ''Conflict''), (410, ''Gone''),
     (411, ''Length Required''), (412, ''Precondition Failed''), (413, ''Request Entity Too Large''),
     (414, ''Request URI Too Long''), (415, ''Unsupported Media Type''),
     (416, ''Requested Range Not Satisfiable''), (417, ''Expectation Failed''), (418, ''I'' @ CHR 0x27 # ''m a teapot''),
     (421, ''Misdirected Request''), (422, ''Unprocessable Entity''), (423, ''Locked''),
     (424, ''Failed Dependency''), (425, ''Too Early''), (426, ''Upgrade Required''),
     (428, ''Precondition Required''), (429, ''Too Many Requests''),
     (431, ''Request Header Fields Too Large''), (451, ''Unavailable For Legal Reasons''),
     (500, ''Internal Server Error''), (501, ''Not Implemented''), (502, ''Bad Gateway''),
     (503, ''Service Unavailable''), (504, ''Gateway Timeout''), (505, ''HTTP Version Not Supported''),
     (506, ''Variant Also Negotiates''), (507, ''Insufficient Storage''), (508, ''Loop Detected''),
     (510, ''Not Extended''), (511, ''Network Authentication Required'')]"

definition StatusText :: "int \<Rightarrow> string" where
  "StatusText st = (case gm_lookup status_texts st of None \<Rightarrow> '''' | Some t \<Rightarrow> t)"

section \<open>Request identifiers\<close>

definition HeaderName :: string where
  "HeaderName = ''X-Request-Id''"

definition RequestID :: "Request \<Rightarrow> string option" where
  "RequestID r = (case req_RequestID r of Some s \<Rightarrow> if s \<noteq> '''' then Some s else None | None \<Rightarrow> None)"

definition sanitizeRequestID :: "string \<Rightarrow> string option" where
  "sanitizeRequestID s0 =
     (let s = TrimSpace s0 in
      if s = '''' \<or> 128 < length s then None
      else if list_ex (\<lambda>b. of_char b < (0x21 :: nat) \<or> of_char b > (0x7e :: nat)) s then None
      else Some s)"

text \<open>
  A handler runs on a request, a response writer and the rest of the program's state.  It returns a
  value or panics, and gives back what it left of each: the request too, because a handler may write
  to the structure its caller passed (a multiplexer stores the matched pattern there).  A middleware
  that calls \<open>r.WithContext\<close> passes a copy and gives back the request it was given.
\<close>

datatype 'a outcome = Returned 'a | Panicked

type_synonym ('a, 's) handler = "Request \<Rightarrow> ResponseWriter \<Rightarrow> 's \<Rightarrow> 'a outcome \<times> Request \<times> ResponseWriter \<times> 's"

type_synonym 's http_handler = "(unit, 's) handler"
type_synonym 's app_handler = "(go_error option, 's) handler"

definition with_copy :: "Request \<Rightarrow> 'a outcome \<times> Request \<times> 'b \<Rightarrow> 'a outcome \<times> Request \<times> 'b" where
  "with_copy r res = (fst res, r, snd (snd res))"

text \<open>The middleware; \<open>fresh\<close> is the identifier \<open>NewRequestID\<close> returns.\<close>

definition RequestIDMiddleware :: "string \<Rightarrow> 's http_handler \<Rightarrow> 's http_handler" where
  "RequestIDMiddleware fresh next r w s =
     (let rid = (case sanitizeRequestID (Header_Get (req_Header r) HeaderName) of
                   Some x \<Rightarrow> x | None \<Rightarrow> fresh)
      in with_copy r (next (r\<lparr>req_RequestID := Some rid\<rparr>) (set_header HeaderName rid w) s))"

section \<open>Problem responses\<close>

text \<open>The fields of a problem are completed one after the other.\<close>

definition default_type :: "Problem \<Rightarrow> Problem" where
  "default_type p = (if p_Type p = '''' then p\<lparr>p_Type := ''about:blank''\<rparr> else p)"

definition default_status :: "Problem \<Rightarrow> Problem" where
  "default_status p = (if p_Status p = 0 then p\<lparr>p_Status := 500\<rparr> else p)"

definition default_title :: "Problem \<Rightarrow> Problem" where
  "default_title p = (if p_Title p = '''' then p\<lparr>p_Title := StatusText (p_Status p)\<rparr> else p)"

definition default_instance :: "Request option \<Rightarrow> Problem \<Rightarrow> Problem" where
  "default_instance r p =
     (case r of None \<Rightarrow> p | Some rq \<Rightarrow> if p_Instance p = '''' then p\<lparr>p_Instance := req_Path rq\<rparr> else p)"

definition default_request_id :: "Request option \<Rightarrow> Problem \<Rightarrow> Problem" where
  "default_request_id r p =
     (case r of None \<Rightarrow> p
      | Some rq \<Rightarrow>
          if p_RequestID p = '''' then (case RequestID rq of None \<Rightarrow> p | Some rid \<Rightarrow> p\<lparr>p_RequestID := rid\<rparr>) else p)"

definition complete_problem :: "Request option \<Rightarrow> Problem \<Rightarrow> Problem" where
  "complete_problem r p =
     default_request_id r (default_instance r (default_title (default_status (default_type p))))"

definition WriteProblem :: "ResponseWriter \<Rightarrow> Request option \<Rightarrow> Problem \<Rightarrow> ResponseWriter" where
  "WriteProblem w r p0 =
     (let p = complete_problem r p0;
          w1 = (if p_RequestID p \<noteq> '''' \<and> Header_Get (rw_Header w) HeaderName = ''''
                then set_header HeaderName (p_RequestID p) w else w);
          w2 = set_header ''Content-Type'' ''application/problem+json; charset=utf-8'' w1
      in Write (BodyProblem p) (WriteHeader (p_Status p) w2))"

lemma complete_problem_status: "p_Status (complete_problem r p) = (if p_Status p = 0 then 500 else p_Status p)"
proof -
  have "p_Status (default_request_id r q) = p_Status q" "p_Status (default_instance r q) = p_Status q"
    "p_Status (default_title q) = p_Status q" "p_Status (default_type q) = p_Status q" for q
    by (auto simp: default_request_id_def default_instance_def default_title_def default_type_def split: option.splits)
  then show ?thesis by (simp add: complete_problem_def default_status_def)
qed

record ErrorDetail =
  ed_Field :: string
  ed_Rule :: string

definition ToInvalidParams :: "ErrorDetail list \<Rightarrow> InvalidParam list" where
  "ToInvalidParams details = map (\<lambda>d. \<lparr>ip_Name = ed_Field d, ip_Reason = ed_Rule d\<rparr>) details"

section \<open>Media types\<close>

definition consumeToken :: "string \<Rightarrow> string \<times> string" where
  "consumeToken v = (takeWhile token_char v, dropWhile token_char v)"

abbreviation TrimLeft :: "string \<Rightarrow> string" where
  "TrimLeft \<equiv> trim_with space_len"

definition tspecial :: "char \<Rightarrow> bool" where
  "tspecial c \<longleftrightarrow> List.member ''()<>@,;:/[]?='' c \<or> c = CHR 0x5C \<or> c = CHR 0x22"

fun consumeQuoted :: "string \<Rightarrow> string \<Rightarrow> (string \<times> string) option" where
  "consumeQuoted acc [] = None"
| "consumeQuoted acc [c] = (if c = CHR 0x22 then Some (rev acc, []) else None)"
| "consumeQuoted acc (c # d # s) =
     (if c = CHR 0x22 then Some (rev acc, d # s)
      else if c = CHR 0x5C \<and> tspecial d then consumeQuoted (d # acc) s
      else if c = CHR 0x0D \<or> c = CHR 0x0A then None
      else consumeQuoted (c # acc) (d # s))"

definition consumeValue :: "string \<Rightarrow> string \<times> string" where
  "consumeValue v =
     (case v of
        [] \<Rightarrow> ([], [])
      | c # s \<Rightarrow>
          if c \<noteq> CHR 0x22 then consumeToken v
          else (case consumeQuoted [] s of None \<Rightarrow> ([], v) | Some r \<Rightarrow> r))"

text \<open>A parameter \<open>; name=value\<close> at the front, or \<open>None\<close> where the library returns an empty name.\<close>

definition consumeMediaParam :: "string \<Rightarrow> (string \<times> string \<times> string) option" where
  "consumeMediaParam v =
     (case TrimLeft v of
        [] \<Rightarrow> None
      | c # r1 \<Rightarrow>
          if c \<noteq> CHR '';'' then None
          else
            (let (param, r2) = consumeToken (TrimLeft r1) in
             if param = [] then None
             else
               (case TrimLeft r2 of
                  [] \<Rightarrow> None
                | e # r3 \<Rightarrow>
                    if e \<noteq> CHR ''='' then None
                    else
                      (let r4 = TrimLeft r3;
                           (value, r5) = consumeValue r4
                       in if value = [] \<and> r5 = r4 then None
                          else Some (ToLower param, value, r5)))))"

text \<open>The parameters must be well-formed and not contradict each other; the fuel is the length of the
  rest, of which every round consumes the semicolon.\<close>

fun media_params_ok :: "nat \<Rightarrow> (string, string) gomap \<Rightarrow> string \<Rightarrow> bool" where
  "media_params_ok fuel params v =
     (let v1 = TrimLeft v in
      if v1 = [] then True
      else
        (case (consumeMediaParam v1, fuel) of
           (None, _) \<Rightarrow> TrimSpace v1 = '';''
         | (Some _, 0) \<Rightarrow> False
         | (Some (key, value, rest), Suc n) \<Rightarrow>
             (case gm_lookup params key of
                Some value' \<Rightarrow> value' = value \<and> media_params_ok n params rest
              | None \<Rightarrow> media_params_ok n (gm_update key value params) rest)))"

declare media_params_ok.simps [simp del]

definition media_type_ok :: "string \<Rightarrow> bool" where
  "media_type_ok s =
     (let (typ, rest) = consumeToken s in
      typ \<noteq> [] \<and>
      (case rest of
         [] \<Rightarrow> True
       | c # r1 \<Rightarrow> c = CHR ''/'' \<and> (let (subtyp, r2) = consumeToken r1 in subtyp \<noteq> [] \<and> r2 = [])))"

definition ParseMediaType :: "string \<Rightarrow> string option" where
  "ParseMediaType v =
     (let base = takeWhile (\<lambda>c. c \<noteq> CHR '';'') v;
          mediatype = TrimSpace (ToLower base);
          rest = dropWhile (\<lambda>c. c \<noteq> CHR '';'') v
      in if media_type_ok mediatype \<and> media_params_ok (length rest) [] rest then Some mediatype else None)"

section \<open>Content negotiation\<close>

definition MediaTypeJSON :: string where "MediaTypeJSON = ''application/json''"
definition MediaTypeProtobuf :: string where "MediaTypeProtobuf = ''application/protobuf''"
definition MediaTypeXProtobuf :: string where "MediaTypeXProtobuf = ''application/x-protobuf''"

fun accept_loop :: "string list \<Rightarrow> bool \<Rightarrow> bool \<Rightarrow> (bool \<times> bool) option" where
  "accept_loop [] jsonOK parsedAny = Some (jsonOK, parsedAny)"
| "accept_loop (part0 # parts) jsonOK parsedAny =
     (let part = TrimSpace part0 in
      if part = '''' then accept_loop parts jsonOK parsedAny
      else
        (case ParseMediaType part of
           None \<Rightarrow> accept_loop parts jsonOK parsedAny
         | Some mt0 \<Rightarrow>
             (let mt = ToLower mt0 in
              if mt = MediaTypeProtobuf \<or> mt = MediaTypeXProtobuf then None
              else if mt = MediaTypeJSON \<or> mt = ''*/*'' \<or> mt = ''application/*''
              then accept_loop parts True True
              else accept_loop parts jsonOK True)))"

definition AcceptHeader :: "string \<Rightarrow> go_error + string" where
  "AcceptHeader accept0 =
     (let accept = TrimSpace accept0 in
      if accept = '''' then Inr MediaTypeJSON
      else
        (case accept_loop (Split accept (CHR '','')) False False of
           None \<Rightarrow> Inr MediaTypeProtobuf
         | Some (jsonOK, parsedAny) \<Rightarrow>
             if jsonOK then Inr MediaTypeJSON
             else if \<not> parsedAny then Inl (WrapError (''invalid Accept '' @ Quote accept) (Sentinel ErrNotAcceptable))
             else Inl (WrapError (Quote accept) (Sentinel ErrNotAcceptable))))"

text \<open>\<open>LimitBody\<close> replaces the body by a reader that fails after \<open>limit\<close> bytes.\<close>

definition LimitBody :: "Request \<Rightarrow> int64 \<Rightarrow> Request" where
  "LimitBody r limit = r\<lparr>req_BodyLimit := Some limit\<rparr>"

definition RequireJSONContentType :: "Request \<Rightarrow> go_error option" where
  "RequireJSONContentType r =
     (let ct = Header_Get (req_Header r) ''Content-Type'' in
      if ct = '''' then Some (WrapError ''missing Content-Type'' (Sentinel ErrUnsupportedMediaType))
      else
        (case ParseMediaType ct of
           None \<Rightarrow> Some (WrapError ''invalid Content-Type'' (Sentinel ErrUnsupportedMediaType))
         | Some mediaType \<Rightarrow>
             if \<not> EqualFold mediaType ''application/json''
             then Some (WrapError mediaType (Sentinel ErrUnsupportedMediaType)) else None))"

definition AddVary :: "string \<Rightarrow> ResponseWriter \<Rightarrow> ResponseWriter" where
  "AddVary token w =
     (if list_ex (\<lambda>v. list_ex (\<lambda>part. EqualFold (TrimSpace part) token) (Split v (CHR '','')))
           (Header_Values (rw_Header w) ''Vary'')
      then w else w\<lparr>rw_Header := Header_Add ''Vary'' token (rw_Header w)\<rparr>)"

text \<open>The writers of a response.  An encoding and the final write can fail; both are parameters.\<close>

definition WriteJSON :: "ResponseWriter \<Rightarrow> int \<Rightarrow> go_error + string \<Rightarrow> go_error option \<Rightarrow> go_error option \<times> ResponseWriter" where
  "WriteJSON w status encoded write_err =
     (case encoded of
        Inl e \<Rightarrow> (Some (WrapError ''encode json'' e), w)
      | Inr b \<Rightarrow>
          (let w1 = WriteHeader status (set_header ''Content-Type'' ''application/json; charset=utf-8'' w)
           in case write_err of
                Some e \<Rightarrow> (Some (WrapError ''write response'' e), w1)
              | None \<Rightarrow> (None, Write (BodyBytes b) w1)))"

definition WriteProtobuf ::
  "ResponseWriter \<Rightarrow> int \<Rightarrow> (go_error + string) option \<Rightarrow> go_error option \<Rightarrow> go_error option \<times> ResponseWriter" where
  "WriteProtobuf w status msg write_err =
     (case msg of
        None \<Rightarrow> (Some (Sentinel ErrProtobufUnavailable), w)
      | Some (Inl e) \<Rightarrow> (Some (WrapError ''marshal protobuf'' e), w)
      | Some (Inr b) \<Rightarrow>
          (let w1 = WriteHeader status (set_header ''Content-Type'' MediaTypeProtobuf w)
           in case write_err of
                Some e \<Rightarrow> (Some (WrapError ''write protobuf response body'' e), w1)
              | None \<Rightarrow> (None, Write (BodyBytes b) w1)))"

definition WriteNegotiated ::
  "ResponseWriter \<Rightarrow> Request \<Rightarrow> int \<Rightarrow> go_error + string \<Rightarrow> (go_error + string) option \<Rightarrow> go_error option \<Rightarrow>
     go_error option \<times> ResponseWriter" where
  "WriteNegotiated w r status v msg write_err =
     (case AcceptHeader (Header_Get (req_Header r) ''Accept'') of
        Inl e \<Rightarrow> (Some e, w)
      | Inr ct \<Rightarrow>
          (let w1 = AddVary ''Accept'' w in
           if ct = MediaTypeProtobuf then WriteProtobuf w1 status msg write_err
           else if ct = MediaTypeJSON then WriteJSON w1 status v write_err
           else (Some (Sentinel ErrNotAcceptable), w1)))"

section \<open>Entity tags\<close>

definition UserETag :: "int64 \<Rightarrow> int64 \<Rightarrow> string" where
  "UserETag userID version =
     ''W/'' @ [CHR 0x22] @ ''u:'' @ Itoa userID @ '':v:'' @ Itoa version @ [CHR 0x22]"

definition normalizeETag :: "string \<Rightarrow> string option" where
  "normalizeETag v0 =
     (let v = TrimSpace v0 in
      if v = '''' then None
      else
        (let v1 = (if 2 \<le> length v \<and> (v ! 0 = CHR ''W'' \<or> v ! 0 = CHR ''w'') \<and> v ! 1 = CHR ''/''
                   then TrimSpace (drop 2 v) else v)
         in if length v1 < 2 \<or> v1 ! 0 \<noteq> CHR 0x22 \<or> v1 ! (length v1 - 1) \<noteq> CHR 0x22 then None else Some v1))"

text \<open>The scan of \<open>splitHeaderList\<close>: the characters since \<open>start\<close> in reverse, and the quoting state.\<close>

fun split_scan :: "string \<Rightarrow> bool \<Rightarrow> bool \<Rightarrow> string \<Rightarrow> string list" where
  "split_scan cur inQuote escape [] =
     (let last' = TrimSpace (rev cur) in if last' \<noteq> '''' then [last'] else [])"
| "split_scan cur inQuote escape (c # s) =
     (if escape then split_scan (c # cur) inQuote False s
      else if c = CHR 0x5C \<and> inQuote then split_scan (c # cur) inQuote True s
      else if c = CHR 0x22 then split_scan (c # cur) (\<not> inQuote) False s
      else if c = CHR '','' \<and> \<not> inQuote then
        (let part = TrimSpace (rev cur)
         in (if part \<noteq> '''' then [part] else []) @ split_scan [] inQuote False s)
      else split_scan (c # cur) inQuote False s)"

definition splitHeaderList :: "string \<Rightarrow> string list" where
  "splitHeaderList s = split_scan [] False False s"

definition IfNoneMatchMatches :: "string \<Rightarrow> string \<Rightarrow> bool" where
  "IfNoneMatchMatches ifNoneMatch0 currentETag =
     (let ifNoneMatch = TrimSpace ifNoneMatch0 in
      if ifNoneMatch = '''' then False
      else if ifNoneMatch = ''*'' then True
      else
        (case normalizeETag currentETag of
           None \<Rightarrow> False
         | Some cur \<Rightarrow> list_ex (\<lambda>cand. normalizeETag cand = Some cur) (splitHeaderList ifNoneMatch)))"

section \<open>Input\<close>

definition ParsePositiveInt :: "string \<Rightarrow> int option" where
  "ParsePositiveInt s = (case Atoi s of None \<Rightarrow> None | Some n \<Rightarrow> if n \<le> 0 then None else Some n)"

definition isLikelyEmail :: "string \<Rightarrow> bool" where
  "isLikelyEmail s =
     (if s = '''' then False
      else
        (case IndexByte s (CHR ''@'') of
           None \<Rightarrow> False
         | Some at \<Rightarrow>
             if at = 0 \<or> at = length s - 1 then False
             else if IndexByte (drop (at + 1) s) (CHR ''@'') \<noteq> None then False
             else
               (let local = take at s; domain = drop (at + 1) s in
                if local = '''' \<or> domain = '''' then False
                else
                  (case LastIndexByte domain (CHR ''.'') of
                     None \<Rightarrow> False
                   | Some dot \<Rightarrow> \<not> (dot = 0 \<or> dot = length domain - 1)))))"

definition validate_fields :: "string \<Rightarrow> string \<Rightarrow> int64 \<Rightarrow> string \<Rightarrow> ErrorDetail list" where
  "validate_fields name_field name age email0 =
     (if age < 0 then [\<lparr>ed_Field = ''age'', ed_Rule = ''must be >= 0''\<rparr>] else []) @
     (if TrimSpace name = '''' then [\<lparr>ed_Field = name_field, ed_Rule = ''must not be empty''\<rparr>] else []) @
     (let email = ToLower (TrimSpace email0) in
      if email = '''' then [\<lparr>ed_Field = ''email'', ed_Rule = ''must not be empty''\<rparr>]
      else if \<not> isLikelyEmail email then [\<lparr>ed_Field = ''email'', ed_Rule = ''email must be valid''\<rparr>]
      else [])"

definition ValidateCreateUserInput :: "CreateUserInput \<Rightarrow> ErrorDetail list" where
  "ValidateCreateUserInput inp = validate_fields ''name'' (cui_Name inp) (cui_Age inp) (cui_Email inp)"

definition ValidateCreateUserInputV2 :: "CreateUserInputV2 \<Rightarrow> ErrorDetail list" where
  "ValidateCreateUserInputV2 inp = validate_fields ''full_name'' (cui2_FullName inp) (cui2_Age inp) (cui2_Email inp)"

text \<open>
  \<open>ParseJSON\<close>: what the two calls of the decoder return (the first with its error text), classified.
  The regular expression for unknown fields matches a quoted name without quotes in it.
\<close>

definition unknown_field :: "string \<Rightarrow> string option" where
  "unknown_field txt =
     (let pre = ''json: unknown field '' @ [CHR 0x22];
          rest = drop (length pre) txt
      in if HasPrefix txt pre \<and> rest \<noteq> [] \<and> last rest = CHR 0x22 \<and> butlast rest \<noteq> [] \<and>
            \<not> List.member (butlast rest) (CHR 0x22)
         then Some (butlast rest) else None)"

definition ParseJSON :: "(go_error \<times> string) option \<Rightarrow> go_error option \<Rightarrow> go_error option" where
  "ParseJSON decode1 decode2 =
     (case decode1 of
        Some (err, txt) \<Rightarrow>
          Some
            (if errors_Is err Io_EOF then JSONRequestError ErrJSONEmptyBody '''' 0 (Some err)
             else
               (case errors_As as_JsonSyntax err of
                  Some off \<Rightarrow> JSONRequestError ErrJSONBadSyntax '''' off (Some err)
                | None \<Rightarrow>
                    if errors_Is err Io_ErrUnexpectedEOF then JSONRequestError ErrJSONBadSyntax '''' 0 (Some err)
                    else
                      (case errors_As as_JsonUnmarshalType err of
                         Some field \<Rightarrow> JSONRequestError ErrJSONTypeMismatch field 0 (Some err)
                       | None \<Rightarrow>
                           (case unknown_field txt of
                              Some field \<Rightarrow> JSONRequestError ErrJSONUnknownField field 0 (Some err)
                            | None \<Rightarrow> JSONRequestError ErrJSONDecodeFailure '''' 0 (Some err)))))
      | None \<Rightarrow>
          if decode2 \<noteq> Some (Sentinel Io_EOF)
          then Some (JSONRequestError ErrJSONTrailingData '''' 0 decode2) else None)"

section \<open>Properties\<close>

text \<open>The media type one element of an \<open>Accept\<close> header names, if it is well-formed.\<close>

definition accept_type :: "string \<Rightarrow> string option" where
  "accept_type part = (let p = TrimSpace part in if p = '''' then None else map_option ToLower (ParseMediaType p))"

definition wants_protobuf :: "string \<Rightarrow> bool" where
  "wants_protobuf part \<longleftrightarrow> accept_type part = Some MediaTypeProtobuf \<or> accept_type part = Some MediaTypeXProtobuf"

definition accepts_json :: "string \<Rightarrow> bool" where
  "accepts_json part \<longleftrightarrow> accept_type part = Some MediaTypeJSON \<or> accept_type part = Some ''*/*'' \<or>
     accept_type part = Some ''application/*''"

lemma accept_loop_spec:
  "(accept_loop parts j p = None \<longleftrightarrow> (\<exists>x \<in> set parts. wants_protobuf x)) \<and>
   (\<forall>j' p'. accept_loop parts j p = Some (j', p') \<longrightarrow> (j' \<longleftrightarrow> j \<or> (\<exists>x \<in> set parts. accepts_json x)))"
proof (induction parts arbitrary: j p)
  case (Cons x parts)
  let ?mt = "accept_type x"
  have t: "MediaTypeJSON \<noteq> MediaTypeProtobuf" "MediaTypeJSON \<noteq> MediaTypeXProtobuf"
    "''*/*'' \<noteq> MediaTypeProtobuf" "''*/*'' \<noteq> MediaTypeXProtobuf"
    "''application/*'' \<noteq> MediaTypeProtobuf" "''application/*'' \<noteq> MediaTypeXProtobuf"
    by (simp_all add: MediaTypeJSON_def MediaTypeProtobuf_def MediaTypeXProtobuf_def)
  have step: "accept_loop (x # parts) j p =
      (case ?mt of None \<Rightarrow> accept_loop parts j p
       | Some mt \<Rightarrow> if wants_protobuf x then None
           else if accepts_json x then accept_loop parts True True else accept_loop parts j True)"
    by (auto simp: accept_type_def wants_protobuf_def accepts_json_def Let_def split: option.splits)
  show ?case
    using Cons.IH [of j p] Cons.IH [of True True] Cons.IH [of j True] t
    unfolding step by (auto simp: wants_protobuf_def accepts_json_def split: option.splits)
qed simp

text \<open>Content negotiation answers protobuf exactly when some element of a non-blank \<open>Accept\<close>
  header names a protobuf type, JSON exactly when the header is blank or no element does but one
  accepts JSON, and otherwise an error that wraps \<open>ErrNotAcceptable\<close>.\<close>

lemma accept_header_spec:
  "(AcceptHeader a = Inr MediaTypeProtobuf \<longleftrightarrow>
      TrimSpace a \<noteq> '''' \<and> (\<exists>x \<in> set (Split (TrimSpace a) (CHR '','')). wants_protobuf x)) \<and>
   (AcceptHeader a = Inr MediaTypeJSON \<longleftrightarrow> TrimSpace a = '''' \<or>
      \<not> (\<exists>x \<in> set (Split (TrimSpace a) (CHR '','')). wants_protobuf x) \<and>
      (\<exists>x \<in> set (Split (TrimSpace a) (CHR '','')). accepts_json x)) \<and>
   (\<forall>e. AcceptHeader a = Inl e \<longrightarrow> errors_Is e ErrNotAcceptable)"
proof -
  have t: "MediaTypeJSON \<noteq> MediaTypeProtobuf"
    by (simp add: MediaTypeJSON_def MediaTypeProtobuf_def)
  let ?parts = "Split (TrimSpace a) (CHR '','')"
  show ?thesis
  proof (cases "TrimSpace a = ''''")
    case True
    then show ?thesis using t by (simp add: AcceptHeader_def)
  next
    case False
    note spec = accept_loop_spec [of ?parts False False]
    show ?thesis
    proof (cases "accept_loop ?parts False False")
      case None
      then show ?thesis using False spec t by (auto simp: AcceptHeader_def Let_def)
    next
      case (Some r)
      then show ?thesis using False spec t by (cases r) (auto simp: AcceptHeader_def Let_def)
    qed
  qed
qed

lemma byte_split:
  assumes "i < length s" and "s ! i = c"
  obtains u w where "s = u @ c # w" "u = take i s" "w = drop (i + 1) s" "length u = i"
  using assms id_take_nth_drop [of i s] by force

text \<open>The e-mail check accepts exactly the strings of the form \<open>local@domain.tld\<close> with one at
  sign, none of the three parts empty, and no dot in the last one.\<close>

lemma is_likely_email_spec:
  "isLikelyEmail s \<longleftrightarrow>
     (\<exists>loc dom tld. s = loc @ ''@'' @ dom @ ''.'' @ tld \<and> loc \<noteq> [] \<and> dom \<noteq> [] \<and> tld \<noteq> [] \<and>
        CHR ''@'' \<notin> set loc \<and> CHR ''@'' \<notin> set dom \<and> CHR ''@'' \<notin> set tld \<and> CHR ''.'' \<notin> set tld)"
proof
  assume l: "isLikelyEmail s"
  then obtain at where at: "IndexByte s (CHR ''@'') = Some at" "at \<noteq> 0" "at \<noteq> length s - 1"
      "CHR ''@'' \<notin> set (drop (at + 1) s)"
    by (auto simp: isLikelyEmail_def IndexByte_None split: if_splits option.splits)
  then obtain dot where dot: "LastIndexByte (drop (at + 1) s) (CHR ''.'') = Some dot" "dot \<noteq> 0"
      "dot \<noteq> length (drop (at + 1) s) - 1"
    using l by (auto simp: isLikelyEmail_def Let_def split: if_splits option.splits)
  note a = IndexByte_Some [OF at(1)] and d = LastIndexByte_Some [OF dot(1)]
  obtain loc w where s: "s = loc @ CHR ''@'' # w" "loc = take at s" "w = drop (at + 1) s" "length loc = at"
    using a byte_split [of at s "CHR ''@''"] by blast
  obtain dom tld where w: "w = dom @ CHR ''.'' # tld" "length dom = dot" "CHR ''.'' \<notin> set tld"
    using d s(3) by auto
  have "loc \<noteq> []" "dom \<noteq> []" using s(4) at(2) w(2) dot(2) by auto
  moreover have "tld \<noteq> []"
    using dot(3) w(1,2) unfolding s(3) [symmetric] by auto
  moreover have "CHR ''@'' \<notin> set loc" using a s(2) by blast
  moreover have "CHR ''@'' \<notin> set w" using at(4) s(3) by simp
  ultimately show "\<exists>loc dom tld. s = loc @ ''@'' @ dom @ ''.'' @ tld \<and> loc \<noteq> [] \<and> dom \<noteq> [] \<and> tld \<noteq> [] \<and>
        CHR ''@'' \<notin> set loc \<and> CHR ''@'' \<notin> set dom \<and> CHR ''@'' \<notin> set tld \<and> CHR ''.'' \<notin> set tld"
    by (intro exI [of _ loc] exI [of _ dom] exI [of _ tld]) (use s(1) w in simp)
next
  assume "\<exists>loc dom tld. s = loc @ ''@'' @ dom @ ''.'' @ tld \<and> loc \<noteq> [] \<and> dom \<noteq> [] \<and> tld \<noteq> [] \<and>
        CHR ''@'' \<notin> set loc \<and> CHR ''@'' \<notin> set dom \<and> CHR ''@'' \<notin> set tld \<and> CHR ''.'' \<notin> set tld"
  then obtain loc dom tld where s: "s = loc @ CHR ''@'' # (dom @ CHR ''.'' # tld)" "loc \<noteq> []" "dom \<noteq> []" "tld \<noteq> []"
      "CHR ''@'' \<notin> set loc" "CHR ''@'' \<notin> set dom" "CHR ''@'' \<notin> set tld" "CHR ''.'' \<notin> set tld"
    by auto
  have "IndexByte s (CHR ''@'') = Some (length loc)"
    using s(1,5) by (simp add: IndexByte_append)
  moreover have "drop (length loc + 1) s = dom @ CHR ''.'' # tld" "take (length loc) s = loc"
    using s(1) by simp_all
  moreover have "LastIndexByte (dom @ CHR ''.'' # tld) (CHR ''.'') = Some (length dom)"
    using s(8) by (simp add: LastIndexByte_append)
  moreover have "IndexByte (dom @ CHR ''.'' # tld) (CHR ''@'') = None"
    using s(6,7) by (simp add: IndexByte_None)
  ultimately show "isLikelyEmail s"
    using s(1-4) by (simp add: isLikelyEmail_def)
qed

text \<open>Scanning an entity tag of the program keeps the scanner outside quotes at its end.\<close>

lemma scan_quoted:
  "CHR 0x22 \<notin> set q \<Longrightarrow> CHR 0x5C \<notin> set q \<Longrightarrow>
     split_scan cur True False (q @ s) = split_scan (rev q @ cur) True False s"
  by (induction q arbitrary: cur) auto

lemma Itoa_no [simp]:
  "CHR 0x22 \<notin> set (Itoa n)" "CHR 0x5C \<notin> set (Itoa n)" "CHR '':'' \<notin> set (Itoa n)"
  using Itoa_chars [of "CHR 0x22" n] Itoa_chars [of "CHR 0x5C" n] Itoa_chars [of "CHR '':''" n] by auto

lemma scan_etag:
  "split_scan cur False False (UserETag u v @ s) = split_scan (rev (UserETag u v) @ cur) False False s"
proof -
  let ?q = "''u:'' @ Itoa u @ '':v:'' @ Itoa v"
  have "split_scan cur False False (UserETag u v @ s) =
      split_scan ([CHR 0x22, CHR ''/'', CHR ''W''] @ cur) True False (?q @ CHR 0x22 # s)"
    by (simp add: UserETag_def)
  also have "\<dots> = split_scan (rev ?q @ [CHR 0x22, CHR ''/'', CHR ''W''] @ cur) True False (CHR 0x22 # s)"
    by (rule scan_quoted) auto
  also have "\<dots> = split_scan (rev (UserETag u v) @ cur) False False s"
    by (simp add: UserETag_def)
  finally show ?thesis .
qed

lemma TrimSpace_space [simp]: "TrimSpace (CHR '' '' # s) = TrimSpace s"
proof -
  have "space_len (CHR '' '' # s) = 1"
    by (cases "CHR '' '' # s" rule: space_len.cases) (auto simp: ascii_space_def)
  then have "trim_with space_len (CHR '' '' # s) = trim_with space_len s"
    by (subst trim_with.simps) simp
  then show ?thesis by (simp add: TrimSpace_def)
qed

lemma UserETag_trim [simp]: "TrimSpace (UserETag u v) = UserETag u v"
  by (rule TrimSpace_graphic) (simp add: UserETag_def graphic_def)

lemma UserETag_nonempty [simp]: "UserETag u v \<noteq> []"
  by (simp add: UserETag_def)

definition etag_list :: "(int64 \<times> int64) list \<Rightarrow> string" where
  "etag_list tags = Join (map (\<lambda>(u, v). UserETag u v) tags) '', ''"

lemma split_etags:
  assumes "cur = [] \<or> cur = '' ''"
  shows "split_scan cur False False (etag_list tags) = map (\<lambda>(u, v). UserETag u v) tags"
  using assms
proof (induction tags arbitrary: cur)
  case Nil
  then show ?case by (auto simp: etag_list_def)
next
  case (Cons t tags)
  obtain u v where t: "t = (u, v)" by force
  have trim: "TrimSpace (rev (rev (UserETag u v) @ cur)) = UserETag u v"
    using Cons.prems by auto
  show ?case
  proof (cases tags)
    case Nil
    then show ?thesis
      using scan_etag [of cur u v "[]"] trim t by (simp add: etag_list_def)
  next
    case (Cons t2 tags2)
    then have "etag_list (t # tags) = UserETag u v @ CHR '','' # CHR '' '' # etag_list tags"
      using t by (simp add: etag_list_def)
    moreover have "split_scan [] False False (CHR '' '' # etag_list tags) = split_scan '' '' False False (etag_list tags)"
      by simp
    ultimately show ?thesis
      using scan_etag [of cur u v "CHR '','' # CHR '' '' # etag_list tags"] trim t Cons.IH [of "'' ''"]
      by (simp del: split_scan.simps(1))
  qed
qed

lemma normalize_UserETag: "normalizeETag (UserETag u v) = Some (drop 2 (UserETag u v))"
proof -
  let ?q = "CHR 0x22 # ''u:'' @ Itoa u @ '':v:'' @ Itoa v @ [CHR 0x22]"
  have e: "UserETag u v = CHR ''W'' # CHR ''/'' # ?q" by (simp add: UserETag_def)
  have "TrimSpace ?q = ?q" by (rule TrimSpace_graphic) (simp add: graphic_def)
  moreover have "?q ! (length ?q - 1) = CHR 0x22"
    by (metis (no_types, lifting) append_Cons append_assoc last_conv_nth last_snoc list.distinct(1))
  ultimately show ?thesis
    unfolding normalizeETag_def UserETag_trim Let_def by (simp add: e)
qed

lemma Itoa_colon_inj:
  assumes "Itoa a @ CHR '':'' # x = Itoa b @ CHR '':'' # y"
  shows "a = b \<and> x = y"
proof -
  have "takeWhile (\<lambda>c. c \<noteq> CHR '':'') (Itoa n @ CHR '':'' # z) = Itoa n" for n z
    using Itoa_no(3) [of n] by (induction "Itoa n") (auto simp: takeWhile_append)
  with assms have "Itoa a = Itoa b" by metis
  with assms show ?thesis using Itoa_inj by auto
qed

lemma UserETag_inj: "drop 2 (UserETag u v) = drop 2 (UserETag u' v') \<longleftrightarrow> u = u' \<and> v = v'"
  using Itoa_colon_inj [of u _ u'] Itoa_inj [of v v'] by (auto simp: UserETag_def)

lemma etag_list_last: "tags \<noteq> [] \<Longrightarrow> etag_list tags \<noteq> [] \<and> last (etag_list tags) = CHR 0x22"
proof (induction tags)
  case (Cons t tags)
  obtain u v where t: "t = (u, v)" by force
  have "last (UserETag u v) = CHR 0x22" by (simp add: UserETag_def)
  with Cons.IH t show ?case
    by (cases tags) (auto simp: etag_list_def)
qed simp

text \<open>C39: an \<open>If-None-Match\<close> header that lists entity tags of users matches the tag of the current
  user and version exactly when that tag is in the list: tags of different users or versions never
  collide, and commas between quoted tags are found.\<close>

theorem if_none_match_users:
  assumes "tags \<noteq> []"
  shows "IfNoneMatchMatches (etag_list tags) (UserETag u v) \<longleftrightarrow> (u, v) \<in> set tags"
proof -
  obtain u0 v0 ts where tags: "tags = (u0, v0) # ts" using assms by (cases tags) auto
  then obtain r where r: "etag_list tags = CHR ''W'' # r"
    by (cases ts) (auto simp: etag_list_def UserETag_def)
  have split: "splitHeaderList (etag_list tags) = map (\<lambda>(u, v). UserETag u v) tags"
    by (simp add: splitHeaderList_def split_etags)
  have "etag_list tags \<noteq> [] \<and> last (etag_list tags) = CHR 0x22"
    using assms by (rule etag_list_last)
  then have "TrimSpace (etag_list tags) = etag_list tags"
    using assms r by (intro TrimSpace_graphic) (simp add: graphic_def)
  moreover have "etag_list tags \<noteq> ''''" "etag_list tags \<noteq> ''*''"
    by (simp_all add: r)
  ultimately show ?thesis
    by (auto simp: IfNoneMatchMatches_def split normalize_UserETag list_ex_iff UserETag_inj
        intro!: bexI [of _ "(u, v)"])
qed

theorem if_none_match_users_witness:
  "IfNoneMatchMatches (etag_list [(1, 1), (1, 2)]) (UserETag 1 2) \<and>
   \<not> IfNoneMatchMatches (etag_list [(1, 1), (1, 2)]) (UserETag 12 1)"
  using if_none_match_users [of "[(1, 1), (1, 2)]"] by simp

end
