(* ===== verification/ErrMap.thy ===== *)
theory ErrMap
  imports Http
begin

text \<open>
  The central error mapping (\<open>internal/httputils/errmap.go\<close>, \<open>grpc_bridge_error.go\<close>,
  \<open>apphandler.go\<close>): every error a handler returns becomes a problem response.
\<close>

record MappedProblem =
  mp_Problem :: Problem
  mp_Headers :: header
  mp_Log :: bool

definition mapped :: "int \<Rightarrow> string \<Rightarrow> MappedProblem" where
  "mapped st detail = \<lparr>mp_Problem = problem st detail, mp_Headers = [], mp_Log = False\<rparr>"

text \<open>The branch for a rate limit error: \<open>Retry-After\<close> from the delay.\<close>

definition retry_after_secs :: "int64 \<Rightarrow> int64" where
  "retry_after_secs d =
     (let secsDur = go_div (wrap64 (wrap64 (d + time_Second) - 1)) time_Second;
          secs = go_div secsDur time_Second
      in if secs < 1 then 1 else secs)"

text \<open>The errors of JSON requests.\<close>

definition map_json_error :: "go_error \<Rightarrow> MappedProblem option" where
  "map_json_error err =
     (let field = (case errors_As as_JSONRequest err of None \<Rightarrow> '''' | Some f \<Rightarrow> f) in
      if errors_Is err ErrJSONEmptyBody then Some (mapped 400 ''request body must not be empty'')
      else if errors_Is err ErrJSONBadSyntax then Some (mapped 400 ''malformed JSON'')
      else if errors_Is err ErrJSONUnknownField then
        Some (mapped 400 (if field \<noteq> '''' then ''unknown field '' @ Quote field else ''unknown field''))
      else if errors_Is err ErrJSONTypeMismatch then
        Some (mapped 400 (if field \<noteq> '''' then ''invalid JSON type for field '' @ Quote field
                          else ''invalid JSON type''))
      else if errors_Is err ErrJSONTrailingData then
        Some (mapped 400 ''request body must contain a single JSON value'')
      else if errors_Is err ErrJSONDecodeFailure then Some (mapped 400 ''invalid request body'')
      else None)"

text \<open>The sentinel errors of the domain, the queue, the profile client and negotiation, in the order of
  the source, before the rate limit.\<close>

definition domain_table :: "(sentinel \<times> int \<times> string) list" where
  "domain_table =
    [(ErrNotFound, 404, ''not found''),
     (ErrConflict, 409, ''conflict''),
     (ErrForbidden, 403, ''forbidden''),
     (ErrQueueFull, 503, ''queue is full''),
     (ErrQueueStopped, 503, ''queue is stopped''),
     (ErrJobNotFound, 404, ''not found''),
     (Profile_ErrTimeout, 503, ''profile service timeout''),
     (Profile_ErrCanceled, 408, ''request canceled''),
     (Profile_ErrUpstream5xx, 502, ''profile service error''),
     (Profile_ErrUpstream4xx, 502, ''profile service returned 4xx''),
     (Profile_ErrBadResponse, 502, ''profile service bad response''),
     (ErrNotAcceptable, 406, ''unsupported Accept header; supported: application/json, application/protobuf''),
     (ErrProtobufUnavailable, 500, ''protobuf response is not available''),
     (Profile_ErrNetwork, 503, ''profile service unavailable''),
     (Profile_ErrParse, 502, ''profile service parse error'')]"

fun map_sentinels :: "(sentinel \<times> int \<times> string) list \<Rightarrow> go_error \<Rightarrow> MappedProblem option" where
  "map_sentinels [] err = None"
| "map_sentinels ((s, st, detail) # rest) err =
     (if errors_Is err s then Some (mapped st detail) else map_sentinels rest err)"

definition internal_error :: MappedProblem where
  "internal_error = \<lparr>mp_Problem = problem 500 ''internal server error'', mp_Headers = [], mp_Log = True\<rparr>"

definition map_typed :: "go_error \<Rightarrow> MappedProblem option" where
  "map_typed err =
     (case errors_As as_BadRequest err of
        Some detail \<Rightarrow> Some (mapped 400 detail)
      | None \<Rightarrow>
     (case errors_As as_MethodNotAllowed err of
        Some allow \<Rightarrow>
          Some ((mapped 405 ''method not allowed'')\<lparr>mp_Headers := if allow \<noteq> '''' then Header_Set ''Allow'' allow [] else []\<rparr>)
      | None \<Rightarrow>
     (case errors_As as_Unauthorized err of
        Some _ \<Rightarrow>
          Some ((mapped 401 ''unauthorized'')\<lparr>mp_Headers := Header_Set ''WWW-Authenticate'' WWWAuthenticateValue []\<rparr>)
      | None \<Rightarrow>
     (case errors_As as_Forbidden err of
        Some _ \<Rightarrow> Some (mapped 403 ''forbidden'')
      | None \<Rightarrow>
     (case errors_As as_Validation err of
        Some params \<Rightarrow>
          Some ((mapped 422 ''validation failed'')\<lparr>mp_Problem := (problem 422 ''validation failed'')\<lparr>p_InvalidParams := params\<rparr>\<rparr>)
      | None \<Rightarrow> None)))))"

definition bridge_table :: "(sentinel \<times> int \<times> string) list" where
  "bridge_table =
    [(ErrGRPCBridgeUnavailable, 503, ''grpc bridge unavailable''),
     (ErrGRPCBridgeTimeout, 504, ''grpc bridge timeout''),
     (ErrGRPCBridgeCanceled, 408, ''request canceled'')]"

definition media_table :: "(sentinel \<times> int \<times> string) list" where
  "media_table =
    [(ErrUnsupportedMediaType, 415, ''Content-Type must be application/json''),
     (ErrStreamingUnsupported, 500, ''streaming is not supported''),
     (ErrHubClosed, 503, ''stream hub is closed'')]"

abbreviation or_else :: "'a option \<Rightarrow> 'a option \<Rightarrow> 'a option" where
  "or_else a b \<equiv> (case a of Some x \<Rightarrow> Some x | None \<Rightarrow> b)"

definition map_known :: "go_error \<Rightarrow> MappedProblem option" where
  "map_known err =
     or_else (map_typed err)
     (or_else (map_sentinels bridge_table err)
     (or_else (case errors_As as_MaxBytes err of Some _ \<Rightarrow> Some (mapped 413 ''request body too large'') | None \<Rightarrow> None)
     (or_else (map_sentinels media_table err)
     (or_else (map_json_error err)
     (or_else (map_sentinels domain_table err)
     (or_else (case errors_As as_RateLimit err of
                 Some d \<Rightarrow> Some ((mapped 429 ''too many requests'')\<lparr>mp_Headers :=
                             Header_Set ''Retry-After'' (Itoa (retry_after_secs d)) []\<rparr>)
               | None \<Rightarrow> None)
     (if errors_Is err ErrBulkheadRejected then Some (mapped 503 ''bulkhead rejected'') else None)))))))"

definition MapError :: "go_error option \<Rightarrow> MappedProblem" where
  "MapError err =
     (case err of
        None \<Rightarrow> internal_error
      | Some e \<Rightarrow> (case map_known e of Some mp \<Rightarrow> mp | None \<Rightarrow> internal_error))"

text \<open>Errors of the call through the gRPC bridge; \<open>FromError\<close> is the library's \<open>status.FromError\<close>.\<close>

definition MapGRPCBridgeError ::
  "(go_error \<Rightarrow> (grpc_code \<times> string) option) \<Rightarrow> go_error option \<Rightarrow> go_error option" where
  "MapGRPCBridgeError FromError err =
     (case err of
        None \<Rightarrow> None
      | Some e \<Rightarrow>
          if errors_Is e ContextCanceled then Some (Sentinel ErrGRPCBridgeCanceled)
          else if errors_Is e ContextDeadlineExceeded then Some (Sentinel ErrGRPCBridgeTimeout)
          else
            (case FromError e of
               None \<Rightarrow> Some e
             | Some (code, msg) \<Rightarrow>
                 Some (case code of
                     Codes_InvalidArgument \<Rightarrow> BadRequestError msg
                   | Codes_NotFound \<Rightarrow> Sentinel ErrJobNotFound
                   | Codes_PermissionDenied \<Rightarrow> NewForbidden AuthZForbidden None
                   | Codes_Unauthenticated \<Rightarrow> NewUnauthorized AuthNInvalid None
                   | Codes_Canceled \<Rightarrow> Sentinel ErrGRPCBridgeCanceled
                   | Codes_DeadlineExceeded \<Rightarrow> Sentinel ErrGRPCBridgeTimeout
                   | Codes_Unavailable \<Rightarrow> Sentinel ErrGRPCBridgeUnavailable
                   | _ \<Rightarrow> e)))"

section \<open>Handlers that return errors\<close>


definition copy_headers :: "header \<Rightarrow> header \<Rightarrow> header" where
  "copy_headers from h =
     fold (\<lambda>(k, vv) h. fold (\<lambda>v h. Header_Add k v h) vv (Header_Del k h)) from h"

definition AppHandler_ServeHTTP :: "'s app_handler \<Rightarrow> 's http_handler" where
  "AppHandler_ServeHTTP h r w s =
     (case h r w s of
        (Panicked, r1, w1, s1) \<Rightarrow> (Panicked, r1, w1, s1)
      | (Returned None, r1, w1, s1) \<Rightarrow> (Returned (), r1, w1, s1)
      | (Returned (Some err), r1, w1, s1) \<Rightarrow>
          (let mp = MapError (Some err) in
           (Returned (), r1,
            WriteProblem (w1\<lparr>rw_Header := copy_headers (mp_Headers mp) (rw_Header w1)\<rparr>) (Some r1) (mp_Problem mp), s1)))"

definition HandlerToApp :: "'s http_handler \<Rightarrow> 's app_handler" where
  "HandlerToApp h r w s =
     (case h r w s of
        (Panicked, r1, w1, s1) \<Rightarrow> (Panicked, r1, w1, s1)
      | (Returned (), r1, w1, s1) \<Rightarrow> (Returned None, r1, w1, s1))"

section \<open>Properties\<close>

lemma map_sentinels_Some:
  "map_sentinels tab err = Some mp \<Longrightarrow> \<exists>s st d. (s, st, d) \<in> set tab \<and> mp = mapped st d \<and> errors_Is err s"
  by (induction tab err rule: map_sentinels.induct) (auto split: if_splits)

lemma map_sentinels_Wrap: "map_sentinels tab (WrapError m e) = map_sentinels tab e"
  by (induction tab e rule: map_sentinels.induct) auto

lemma mapped_simps [simp]: "p_Status (mp_Problem (mapped st d)) = st" "mp_Log (mapped st d) = False"
  by (simp_all add: mapped_def problem_def)

definition known_statuses :: "int set" where
  "known_statuses = {400, 401, 403, 404, 405, 406, 408, 409, 413, 415, 422, 429, 500, 502, 503, 504}"

lemma map_known_status:
  assumes "map_known e = Some mp"
  shows "p_Status (mp_Problem mp) \<in> known_statuses \<and> \<not> mp_Log mp"
proof -
  have tables: "p_Status (mp_Problem mp) \<in> known_statuses \<and> \<not> mp_Log mp"
    if "map_sentinels tab e = Some mp" "tab \<in> {bridge_table, media_table, domain_table}" for tab
    using map_sentinels_Some [OF that(1)] that(2)
    by (auto simp: bridge_table_def media_table_def domain_table_def known_statuses_def)
  have typed: "p_Status (mp_Problem mp) \<in> known_statuses \<and> \<not> mp_Log mp" if "map_typed e = Some mp"
    using that by (auto simp: map_typed_def known_statuses_def mapped_def problem_def split: option.splits)
  have json: "p_Status (mp_Problem mp) \<in> known_statuses \<and> \<not> mp_Log mp" if "map_json_error e = Some mp"
    using that by (auto simp: map_json_error_def Let_def known_statuses_def split: if_splits)
  show ?thesis
    using assms tables typed json
    by (auto simp: map_known_def known_statuses_def split: option.splits if_splits)
qed

text \<open>Every error becomes one of the documented client or server statuses; it is logged exactly
  when no rule of the mapping knows it, and then the response says only "internal server error".\<close>

lemma map_error_status:
  "p_Status (mp_Problem (MapError err)) \<in> known_statuses \<and>
   (mp_Log (MapError err) \<longleftrightarrow> MapError err = internal_error) \<and>
   (MapError err = internal_error \<longleftrightarrow> err = None \<or> (\<exists>e. err = Some e \<and> map_known e = None))"
proof (cases err)
  case None
  then show ?thesis
    by (simp add: MapError_def internal_error_def known_statuses_def problem_def)
next
  case (Some e)
  show ?thesis
  proof (cases "map_known e")
    case None
    then show ?thesis
      by (simp add: MapError_def internal_error_def known_statuses_def problem_def Some)
  next
    case (Some mp)
    with map_known_status [OF this] \<open>err = Some e\<close> show ?thesis
      by (auto simp: MapError_def internal_error_def)
  qed
qed

lemma errors_As_wrapped:
  "errors_As as_BadRequest (WrapError m e) = errors_As as_BadRequest e"
  "errors_As as_MethodNotAllowed (WrapError m e) = errors_As as_MethodNotAllowed e"
  "errors_As as_Unauthorized (WrapError m e) = errors_As as_Unauthorized e"
  "errors_As as_Forbidden (WrapError m e) = errors_As as_Forbidden e"
  "errors_As as_Validation (WrapError m e) = errors_As as_Validation e"
  "errors_As as_MaxBytes (WrapError m e) = errors_As as_MaxBytes e"
  "errors_As as_JSONRequest (WrapError m e) = errors_As as_JSONRequest e"
  "errors_As as_RateLimit (WrapError m e) = errors_As as_RateLimit e"
  by simp_all

lemma map_known_Wrap: "map_known (WrapError m e) = map_known e"
  unfolding map_known_def map_typed_def map_json_error_def map_sentinels_Wrap errors_As_wrapped
    errors_Is_simps(1) by (rule refl)

fun wrap_all :: "string list \<Rightarrow> go_error \<Rightarrow> go_error" where
  "wrap_all [] e = e"
| "wrap_all (m # ms) e = WrapError m (wrap_all ms e)"

text \<open>Wrapping an error with \<open>fmt.Errorf("...: %w", err)\<close> any number of times does not change
  the response it is mapped to.\<close>

lemma map_error_wrapping: "MapError (Some (wrap_all ms e)) = MapError (Some e)"
  by (induction ms) (simp_all add: MapError_def map_known_Wrap)

text \<open>The \<open>Retry-After\<close> header of a rate limited request is always one second for every delay up
  to thirty years: the delay is divided by the length of a second twice.\<close>

lemma retry_after_always_one:
  assumes "0 \<le> d" and "d < 1000000000 * time_Second - time_Second"
  shows "Header_Values (mp_Headers (MapError (Some (RateLimitError d)))) ''Retry-After'' = [''1'']"
proof -
  have r: "wrap64 (wrap64 (d + time_Second) - 1) = d + time_Second - 1"
    using assms by (simp add: wrap64_in_range in_int64_def int64_min_def int64_max_def time_Second_def)
  have T: "0 < time_Second" by (simp add: time_Second_def)
  have nonneg: "0 \<le> d + time_Second - 1" using assms(1) T by simp
  have "(d + time_Second - 1) div time_Second < time_Second"
    using assms by (simp add: time_Second_def)
  moreover have "0 \<le> (d + time_Second - 1) div time_Second"
    using nonneg T by (simp add: pos_imp_zdiv_nonneg_iff)
  ultimately have "go_div (go_div (d + time_Second - 1) time_Second) time_Second = 0"
    using T nonneg by (simp add: go_div_nonneg)
  then have one: "retry_after_secs d = 1"
    by (simp add: retry_after_secs_def r)
  have "Itoa 1 = ''1''" by code_simp
  with one have "MapError (Some (RateLimitError d)) = (mapped 429 ''too many requests'')\<lparr>mp_Headers := Header_Set ''Retry-After'' ''1'' []\<rparr>"
    by (simp add: MapError_def map_known_def map_typed_def map_json_error_def errors_As_leaf bridge_table_def
        media_table_def domain_table_def)
  then show ?thesis by simp
qed

end
