(* ===== verification/GoNet.thy ===== *)
theory GoNet
  imports GoStrings
begin

text \<open>
  The parsers of Go's standard library (1.25) that the configuration and the proxy middleware
  call: \<open>strconv.ParseBool\<close>, \<open>time.ParseDuration\<close>, \<open>net.SplitHostPort\<close>, the addresses and
  prefixes of \<open>net/netip\<close>, \<open>net.ParseIP\<close> and \<open>net.ParseCIDR\<close>, and \<open>url.Parse\<close>.  Only
  whether a parse fails is kept, not the library's message.  A fraction of a duration is computed
  exactly; the library uses binary floating point, which may differ by a nanosecond when the
  fraction has more digits than its unit.
\<close>

section \<open>Booleans and durations\<close>

definition ParseBool :: "string \<Rightarrow> bool option" where
  "ParseBool s =
     (if List.member [''1'', ''t'', ''T'', ''true'', ''TRUE'', ''True''] s then Some True
      else if List.member [''0'', ''f'', ''F'', ''false'', ''FALSE'', ''False''] s then Some False
      else None)"

definition is_digit :: "char \<Rightarrow> bool" where
  "is_digit c \<longleftrightarrow> digit_val c \<noteq> None"

text \<open>\<open>leadingInt\<close>: the digits' value, or None when it exceeds \<open>2 ^ 63\<close>.\<close>

fun leadingInt :: "int \<Rightarrow> string \<Rightarrow> (int \<times> string) option" where
  "leadingInt x [] = Some (x, [])"
| "leadingInt x (c # s) =
     (case digit_val c of
        None \<Rightarrow> Some (x, c # s)
      | Some d \<Rightarrow>
          if x > 2 ^ 63 div 10 then None
          else let y = x * 10 + int d in if y > 2 ^ 63 then None else leadingInt y s)"

fun leadingFraction :: "int \<Rightarrow> int \<Rightarrow> bool \<Rightarrow> string \<Rightarrow> int \<times> int \<times> string" where
  "leadingFraction x scale overflow [] = (x, scale, [])"
| "leadingFraction x scale overflow (c # s) =
     (case digit_val c of
        None \<Rightarrow> (x, scale, c # s)
      | Some d \<Rightarrow>
          if overflow then leadingFraction x scale True s
          else if x > (2 ^ 63 - 1) div 10 then leadingFraction x scale True s
          else let y = x * 10 + int d in
               if y > 2 ^ 63 then leadingFraction x scale True s
               else leadingFraction y (scale * 10) False s)"

definition unitMap :: "(string, int) gomap" where
  "unitMap =
    [(''ns'', 1), (''us'', 10 ^ 3), ([CHR 0xC2, CHR 0xB5, CHR ''s''], 10 ^ 3),
     ([CHR 0xCE, CHR 0xBC, CHR ''s''], 10 ^ 3), (''ms'', 10 ^ 6), (''s'', 10 ^ 9),
     (''m'', 60 * 10 ^ 9), (''h'', 3600 * 10 ^ 9)]"

text \<open>One number with its unit: its nanoseconds and the rest of the text.\<close>

definition duration_part :: "string \<Rightarrow> (int \<times> string) option" where
  "duration_part s =
     (if s = [] \<or> \<not> (hd s = CHR ''.'' \<or> is_digit (hd s)) then None
      else
        (case leadingInt 0 s of
           None \<Rightarrow> None
         | Some (v, s1) \<Rightarrow>
             let pre = length s1 \<noteq> length s;
                 dot = s1 \<noteq> [] \<and> hd s1 = CHR ''.'';
                 (f, scale, s2) = (if dot then leadingFraction 0 1 False (tl s1) else (0, 1, s1));
                 post = (dot \<and> length s2 \<noteq> length (tl s1));
                 u = takeWhile (\<lambda>c. c \<noteq> CHR ''.'' \<and> \<not> is_digit c) s2;
                 s3 = drop (length u) s2
             in if \<not> pre \<and> \<not> post then None
                else if u = [] then None
                else (case gm_lookup unitMap u of
                        None \<Rightarrow> None
                      | Some unit \<Rightarrow>
                          if v > 2 ^ 63 div unit then None
                          else let v' = v * unit + (if f > 0 then f * unit div scale else 0) in
                               if v' > 2 ^ 63 then None else Some (v', s3))))"

text \<open>Every part takes at least one byte, so as many parts as bytes are enough.\<close>

fun duration_parts :: "nat \<Rightarrow> int \<Rightarrow> string \<Rightarrow> int option" where
  "duration_parts fuel d [] = Some d"
| "duration_parts 0 d (c # s) = None"
| "duration_parts (Suc n) d (c # s) =
     (case duration_part (c # s) of
        None \<Rightarrow> None
      | Some (v, rest) \<Rightarrow> if d + v > 2 ^ 63 then None else duration_parts n (d + v) rest)"

definition ParseDuration :: "string \<Rightarrow> int64 option" where
  "ParseDuration orig =
     (let signed = orig \<noteq> [] \<and> (hd orig = CHR ''-'' \<or> hd orig = CHR ''+'');
          neg = signed \<and> hd orig = CHR ''-'';
          s = (if signed then tl orig else orig)
      in if s = ''0'' then Some 0
         else if s = [] then None
         else (case duration_parts (length s) 0 s of
                 None \<Rightarrow> None
               | Some d \<Rightarrow>
                   if neg then Some (- d)
                   else if d > 2 ^ 63 - 1 then None else Some d))"

lemma leadingInt_length: "leadingInt x s = Some (v, r) \<Longrightarrow> length r \<le> length s"
  by (induction x s rule: leadingInt.induct) (fastforce simp: Let_def split: option.splits if_splits)+

lemma leadingFraction_length: "leadingFraction x k b s = (v, k', r) \<Longrightarrow> length r \<le> length s"
  by (induction x k b s rule: leadingFraction.induct) (fastforce simp: Let_def split: option.splits if_splits)+

text \<open>The fuel of \<open>duration_parts\<close> never runs out: each part consumes text, so more fuel changes
  nothing.\<close>

lemma duration_part_length:
  assumes "duration_part s = Some (v, r)"
  shows "length r < length s"
proof -
  obtain v1 s1 where li: "leadingInt 0 s = Some (v1, s1)"
    using assms by (auto simp: duration_part_def split: if_splits option.splits)
  define dot where "dot = (s1 \<noteq> [] \<and> hd s1 = CHR ''.'')"
  obtain f k s2 where lf: "(if dot then leadingFraction 0 1 False (tl s1) else (0, 1, s1)) = (f, k, s2)"
    by (metis prod_cases3)
  have "length s1 \<le> length s" by (rule leadingInt_length [OF li])
  moreover have "length s2 \<le> length s1"
    using lf leadingFraction_length [of 0 1 False "tl s1" f k s2] by (auto split: if_splits)
  moreover define u where "u = takeWhile (\<lambda>c. c \<noteq> CHR ''.'' \<and> \<not> is_digit c) s2"
  have "r = drop (length u) s2 \<and> u \<noteq> []"
    using assms unfolding duration_part_def li Let_def option.case prod.case dot_def [symmetric] lf u_def [symmetric]
    by (simp split: if_splits option.splits)
  moreover have "length u \<le> length s2" unfolding u_def by (rule length_takeWhile_le)
  ultimately show ?thesis
    by (cases u) auto
qed

lemma duration_parts_fuel: "length s \<le> n \<Longrightarrow> length s \<le> m \<Longrightarrow> duration_parts n d s = duration_parts m d s"
proof (induction n arbitrary: m d s)
  case 0
  then show ?case by simp
next
  case (Suc n)
  show ?case
  proof (cases s)
  case (Cons c t)
  from Suc(3) Cons obtain m' where m: "m = Suc m'" by (cases m) auto
  show ?thesis
  proof (cases "duration_part (c # t)")
    case (Some vr)
    obtain v r where vr: "vr = (v, r)" by (cases vr)
    have "length r \<le> n" "length r \<le> m'"
      using duration_part_length [of "c # t" v r] Some vr Suc(2,3) Cons m by auto
    then have "duration_parts n (d + v) r = duration_parts m' (d + v) r"
      by (rule Suc.IH)
    then show ?thesis unfolding m Cons duration_parts.simps Some vr option.case prod.case by (simp only:)
  qed (simp only: m Cons duration_parts.simps option.case)
  qed simp
qed

section \<open>Addresses\<close>

text \<open>\<open>netip.Addr\<close>: the four bytes of an IPv4 address, or the sixteen of an IPv6 address with its
  zone.\<close>

datatype Addr = AddrV4 "nat list" | AddrV6 "nat list" string

definition octet :: "string \<Rightarrow> nat option" where
  "octet s =
     (if s = [] \<or> length s > 3 \<or> (length s > 1 \<and> hd s = CHR ''0'') then None
      else case parse_digits 0 s of None \<Rightarrow> None | Some n \<Rightarrow> if n > 255 then None else Some n)"

definition parseIPv4 :: "string \<Rightarrow> nat list option" where
  "parseIPv4 s =
     (let os = map octet (Split s CHR ''.'') in
      if length os = 4 \<and> list_all (\<lambda>x. x \<noteq> None) os then Some (map the os) else None)"

definition unhex :: "char \<Rightarrow> nat option" where
  "unhex c =
     (let n = of_char c :: nat in
      if 48 \<le> n \<and> n \<le> 57 then Some (n - 48)
      else if 97 \<le> n \<and> n \<le> 102 then Some (n - 87)
      else if 65 \<le> n \<and> n \<le> 70 then Some (n - 55)
      else None)"

definition hex_value :: "string \<Rightarrow> nat" where
  "hex_value s = foldl (\<lambda>a c. a * 16 + (case unhex c of Some d \<Rightarrow> d | None \<Rightarrow> 0)) 0 s"

text \<open>The loop of \<open>parseIPv6\<close> over the eight groups: the bytes so far, where the ellipsis was, and
  the text that is left.\<close>

fun v6_loop :: "nat \<Rightarrow> nat list \<Rightarrow> nat option \<Rightarrow> string \<Rightarrow> (nat list \<times> nat option \<times> string) option" where
  "v6_loop 0 bytes el s = Some (bytes, el, s)"
| "v6_loop (Suc n) bytes el s =
     (let digits = takeWhile (\<lambda>c. unhex c \<noteq> None) s; rest = drop (length digits) s in
      if digits = [] \<or> length digits > 4 then None
      else if rest \<noteq> [] \<and> hd rest = CHR ''.'' then
        (if el = None \<and> length bytes \<noteq> 12 then None
         else if length bytes + 4 > 16 then None
         else case parseIPv4 s of None \<Rightarrow> None | Some v4 \<Rightarrow> Some (bytes @ v4, el, []))
      else
        (let v = hex_value digits; bytes' = bytes @ [v div 256, v mod 256] in
         case rest of
           [] \<Rightarrow> Some (bytes', el, [])
         | c # more \<Rightarrow>
             if c \<noteq> CHR '':'' \<or> more = [] then None
             else if hd more = CHR '':'' then
               (if el \<noteq> None then None
                else if tl more = [] then Some (bytes', Some (length bytes'), [])
                else v6_loop n bytes' (Some (length bytes')) (tl more))
             else v6_loop n bytes' el more))"

definition parseIPv6 :: "string \<Rightarrow> Addr option" where
  "parseIPv6 input =
     (let (s, zoned, zone) =
        (case IndexByte input CHR ''%'' of
           None \<Rightarrow> (input, False, [])
         | Some i \<Rightarrow> (take i input, True, drop (Suc i) input));
          lead = HasPrefix s ''::''; s' = (if lead then drop 2 s else s)
      in if zoned \<and> zone = [] then None
         else if lead \<and> s' = [] then Some (AddrV6 (replicate 16 0) zone)
         else
           (case v6_loop 8 [] (if lead then Some 0 else None) s' of
              None \<Rightarrow> None
            | Some (bytes, el, rest) \<Rightarrow>
                if rest \<noteq> [] then None
                else if length bytes < 16 then
                  (case el of
                     None \<Rightarrow> None
                   | Some e \<Rightarrow> Some (AddrV6 (take e bytes @ replicate (16 - length bytes) 0 @ drop e bytes) zone))
                else if el \<noteq> None then None
                else Some (AddrV6 bytes zone)))"

definition ParseAddr :: "string \<Rightarrow> Addr option" where
  "ParseAddr s =
     (case dropWhile (\<lambda>c. c \<noteq> CHR ''.'' \<and> c \<noteq> CHR '':'' \<and> c \<noteq> CHR ''%'') s of
        [] \<Rightarrow> None
      | c # _ \<Rightarrow>
          if c = CHR ''.'' then map_option AddrV4 (parseIPv4 s)
          else if c = CHR '':'' then parseIPv6 s
          else None)"

definition v4_in_v6 :: "nat list" where
  "v4_in_v6 = replicate 10 0 @ [255, 255]"

fun Unmap :: "Addr \<Rightarrow> Addr" where
  "Unmap (AddrV6 bs z) = (if take 12 bs = v4_in_v6 then AddrV4 (drop 12 bs) else AddrV6 bs z)"
| "Unmap a = a"

definition IsLoopback :: "Addr \<Rightarrow> bool" where
  "IsLoopback a =
     (case Unmap a of
        AddrV4 bs \<Rightarrow> take 1 bs = [127]
      | AddrV6 bs z \<Rightarrow> bs = replicate 15 0 @ [1])"

fun Is6 :: "Addr \<Rightarrow> bool" where
  "Is6 (AddrV6 _ _) = True"
| "Is6 (AddrV4 _) = False"

fun Zone :: "Addr \<Rightarrow> string" where
  "Zone (AddrV6 _ z) = z"
| "Zone (AddrV4 _) = []"

fun addr_bytes :: "Addr \<Rightarrow> nat list" where
  "addr_bytes (AddrV4 bs) = bs"
| "addr_bytes (AddrV6 bs _) = bs"

definition BitLen :: "Addr \<Rightarrow> nat" where
  "BitLen a = (if Is6 a then 128 else 32)"

section \<open>Prefixes\<close>

record Prefix =
  px_Addr :: Addr
  px_Bits :: nat

text \<open>\<open>PrefixFrom\<close> drops the zone.\<close>

definition PrefixFrom :: "Addr \<Rightarrow> nat \<Rightarrow> Prefix" where
  "PrefixFrom a bits = \<lparr>px_Addr = (case a of AddrV6 bs _ \<Rightarrow> AddrV6 bs [] | AddrV4 bs \<Rightarrow> AddrV4 bs), px_Bits = bits\<rparr>"

definition ParsePrefix :: "string \<Rightarrow> Prefix option" where
  "ParsePrefix s =
     (case LastIndexByte s CHR ''/'' of
        None \<Rightarrow> None
      | Some i \<Rightarrow>
          (case ParseAddr (take i s) of
             None \<Rightarrow> None
           | Some a \<Rightarrow>
               let bitsStr = drop (Suc i) s in
               if Zone a \<noteq> [] then None
               else if length bitsStr > 1 \<and> \<not> (is_digit (hd bitsStr) \<and> hd bitsStr \<noteq> CHR ''0'') then None
               else (case Atoi bitsStr of
                       None \<Rightarrow> None
                     | Some n \<Rightarrow> if n < 0 \<or> n > int (BitLen a) then None else Some (PrefixFrom a (nat n)))))"

text \<open>The bits of byte \<open>i\<close> that a mask of \<open>bits\<close> ones keeps.\<close>

definition mask_byte :: "nat \<Rightarrow> nat \<Rightarrow> nat \<Rightarrow> nat" where
  "mask_byte bits i b = (let k = min 8 (bits - 8 * i) in (b div 2 ^ (8 - k)) * 2 ^ (8 - k))"

definition mask_bytes :: "nat \<Rightarrow> nat list \<Rightarrow> nat list" where
  "mask_bytes bits bs = map (\<lambda>(i, b). mask_byte bits i b) (enumerate 0 bs)"

definition Masked :: "Prefix \<Rightarrow> Prefix" where
  "Masked p = p\<lparr>px_Addr := (case px_Addr p of
     AddrV4 bs \<Rightarrow> AddrV4 (mask_bytes (px_Bits p) bs)
   | AddrV6 bs z \<Rightarrow> AddrV6 (mask_bytes (px_Bits p) bs) z)\<rparr>"

text \<open>The textual form of an address: dotted IPv4, and IPv6 with its first longest run of at least two
  zero groups compressed.\<close>

definition string4 :: "nat list \<Rightarrow> string" where
  "string4 bs = Join (map (\<lambda>b. Itoa (int b)) bs) ''.''"

fun groups16 :: "nat list \<Rightarrow> nat list" where
  "groups16 (a # b # bs) = (a * 256 + b) # groups16 bs"
| "groups16 _ = []"

fun hex_digits :: "nat \<Rightarrow> string" where
  "hex_digits n = (if n < 16 then [hex_digit n] else hex_digits (n div 16) @ [hex_digit (n mod 16)])"

declare hex_digits.simps [simp del]

definition zero_run :: "nat list \<Rightarrow> nat \<times> nat" where
  "zero_run gs =
     foldl (\<lambda>(st, len) i. let l = length (takeWhile (\<lambda>g. g = 0) (drop i gs)) in
              if l \<ge> 2 \<and> l > len then (i, l) else (st, len))
       (0, 0) [0..<length gs]"

definition string6 :: "nat list \<Rightarrow> string" where
  "string6 bs =
     (let gs = groups16 bs; (st, len) = zero_run gs; hex = (\<lambda>xs. Join (map hex_digits xs) '':'') in
      if len = 0 then hex gs else hex (take st gs) @ ''::'' @ hex (drop (st + len) gs))"

definition Addr_String :: "Addr \<Rightarrow> string" where
  "Addr_String a =
     (case a of
        AddrV4 bs \<Rightarrow> string4 bs
      | AddrV6 bs z \<Rightarrow>
          (if take 12 bs = v4_in_v6 then ''::ffff:'' @ string4 (drop 12 bs) else string6 bs) @
          (if z = [] then [] else CHR ''%'' # z))"

definition Prefix_String :: "Prefix \<Rightarrow> string" where
  "Prefix_String p = Addr_String (px_Addr p) @ CHR ''/'' # Itoa (int (px_Bits p))"

section \<open>The package net\<close>

definition SplitHostPort :: "string \<Rightarrow> (string \<times> string) option" where
  "SplitHostPort hostport =
     (case LastIndexByte hostport CHR '':'' of
        None \<Rightarrow> None
      | Some i \<Rightarrow>
          let port = drop (Suc i) hostport in
          if hd hostport = CHR ''['' then
            (case IndexByte hostport CHR '']'' of
               None \<Rightarrow> None
             | Some end \<Rightarrow>
                 if end + 1 \<noteq> i then None
                 else if List.member (drop 1 hostport) CHR ''['' \<or> List.member (drop (end + 1) hostport) CHR '']'' then None
                 else Some (take (end - 1) (drop 1 hostport), port))
          else if List.member (take i hostport) CHR '':'' then None
          else if List.member hostport CHR ''['' \<or> List.member hostport CHR '']'' then None
          else Some (take i hostport, port))"

definition JoinHostPort :: "string \<Rightarrow> string \<Rightarrow> string" where
  "JoinHostPort host port = (if List.member host (CHR '':'') then CHR ''['' # host @ '']'' else host) @ CHR '':'' # port"

text \<open>A \<open>net.IP\<close> is kept as its sixteen bytes.\<close>

type_synonym IP = "nat list"

definition As16 :: "Addr \<Rightarrow> IP" where
  "As16 a = (case a of AddrV4 bs \<Rightarrow> v4_in_v6 @ bs | AddrV6 bs _ \<Rightarrow> bs)"

definition ParseIP :: "string \<Rightarrow> IP option" where
  "ParseIP s =
     (case ParseAddr s of None \<Rightarrow> None | Some a \<Rightarrow> if Zone a \<noteq> [] then None else Some (As16 a))"

definition To4 :: "IP \<Rightarrow> nat list option" where
  "To4 ip = (if length ip = 4 then Some ip
             else if length ip = 16 \<and> take 12 ip = v4_in_v6 then Some (drop 12 ip) else None)"

text \<open>A network: its number and the number of leading ones and the length in bits of its mask.\<close>

record IPNet =
  net_IP :: IP
  net_Ones :: nat
  net_Len :: nat

definition ParseCIDR :: "string \<Rightarrow> IPNet option" where
  "ParseCIDR s =
     (case IndexByte s CHR ''/'' of
        None \<Rightarrow> None
      | Some i \<Rightarrow>
          (case ParseAddr (take i s) of
             None \<Rightarrow> None
           | Some a \<Rightarrow>
               let mask = drop (Suc i) s in
               if Zone a \<noteq> [] \<or> mask = [] then None
               else (case parse_digits 0 mask of
                       None \<Rightarrow> None
                     | Some n \<Rightarrow>
                         if n > BitLen a then None
                         else
                           let ip = As16 a;
                               ip' = (if BitLen a = 32 \<and> take 12 ip = v4_in_v6 then drop 12 ip else ip)
                           in Some \<lparr>net_IP = mask_bytes n ip', net_Ones = n, net_Len = BitLen a\<rparr>)))"

text \<open>\<open>networkNumberAndMask\<close> and \<open>Contains\<close>: an IPv4 number under a mask of sixteen bytes takes the
  last four bytes of the mask.\<close>

definition network_number :: "IPNet \<Rightarrow> (nat list \<times> nat) option" where
  "network_number n =
     (let ip = (case To4 (net_IP n) of Some v4 \<Rightarrow> v4 | None \<Rightarrow> net_IP n) in
      if net_Len n = 32 then (if length ip = 4 then Some (ip, net_Ones n) else None)
      else Some (ip, if length ip = 4 then net_Ones n - 96 else net_Ones n))"

definition Contains :: "IPNet \<Rightarrow> IP \<Rightarrow> bool" where
  "Contains n ip =
     (case network_number n of
        None \<Rightarrow> False
      | Some (nn, ones) \<Rightarrow>
          let ip' = (case To4 ip of Some v4 \<Rightarrow> v4 | None \<Rightarrow> ip) in
          length ip' = length nn \<and> mask_bytes ones nn = mask_bytes ones ip')"

section \<open>URLs\<close>

record URL =
  u_Scheme :: string
  u_Host :: string
  u_User :: bool
  u_Path :: string
  u_RawQuery :: string
  u_Fragment :: string

text \<open>\<open>strings.Cut\<close> at a byte.\<close>

definition Cut :: "string \<Rightarrow> char \<Rightarrow> string \<times> string" where
  "Cut s c = (case IndexByte s c of None \<Rightarrow> (s, []) | Some i \<Rightarrow> (take i s, drop (Suc i) s))"

definition is_alpha :: "char \<Rightarrow> bool" where
  "is_alpha c \<longleftrightarrow> (let n = of_char c :: nat in 65 \<le> n \<and> n \<le> 90 \<or> 97 \<le> n \<and> n \<le> 122)"

definition getScheme :: "string \<Rightarrow> (string \<times> string) option" where
  "getScheme raw =
     (let s = takeWhile (\<lambda>c. is_alpha c \<or> is_digit c \<or> List.member ''+-.'' c) raw;
          rest = drop (length s) raw
      in if s \<noteq> [] \<and> \<not> is_alpha (hd s) then Some ([], raw)
         else (case rest of
                 [] \<Rightarrow> Some ([], raw)
               | c # tail \<Rightarrow> if c \<noteq> CHR '':'' then Some ([], raw) else if s = [] then None else Some (s, tail)))"

datatype escape_mode = EncodePath | EncodeUserPassword | EncodeHost | EncodeZone | EncodeFragment

text \<open>Bytes that may stand unescaped in a host or a zone.\<close>

definition host_byte :: "char \<Rightarrow> bool" where
  "host_byte c \<longleftrightarrow>
     is_alpha c \<or> is_digit c \<or> List.member (CHR 0x27 # CHR 0x22 # ''-_.~!$&()*+,;=:[]<>'') c"

fun unescape :: "escape_mode \<Rightarrow> string \<Rightarrow> string option" where
  "unescape mode [] = Some []"
| "unescape mode (c # s) =
     (if c = CHR ''%'' then
        (case s of
           h # l # rest \<Rightarrow>
             (case (unhex h, unhex l) of
                (Some a, Some b) \<Rightarrow>
                  let v = char_of (a * 16 + b) in
                  if mode = EncodeHost \<and> a < 8 \<and> v \<noteq> CHR ''%'' then None
                  else if mode = EncodeZone \<and> v \<noteq> CHR ''%'' \<and> v \<noteq> CHR '' '' \<and> \<not> host_byte v then None
                  else map_option (Cons v) (unescape mode rest)
              | _ \<Rightarrow> None)
         | _ \<Rightarrow> None)
      else if (mode = EncodeHost \<or> mode = EncodeZone) \<and> (of_char c :: nat) < 128 \<and> \<not> host_byte c then None
      else map_option (Cons c) (unescape mode s))"

definition validOptionalPort :: "string \<Rightarrow> bool" where
  "validOptionalPort p \<longleftrightarrow> p = [] \<or> (hd p = CHR '':'' \<and> list_all is_digit (tl p))"

fun find_sub :: "string \<Rightarrow> string \<Rightarrow> nat option" where
  "find_sub sub [] = (if sub = [] then Some 0 else None)"
| "find_sub sub (c # s) = (if HasPrefix (c # s) sub then Some 0 else map_option Suc (find_sub sub s))"

definition parse_bracketed :: "string \<Rightarrow> string option" where
  "parse_bracketed host =
     (case LastIndexByte host CHR '']'' of
        None \<Rightarrow> None
      | Some close \<Rightarrow>
          let colonPort = drop (Suc close) host; hostname = drop 1 (take close host);
              name = (case find_sub ''%25'' hostname of
                        Some z \<Rightarrow>
                          (case (unescape EncodeHost (take z hostname), unescape EncodeZone (drop z hostname)) of
                             (Some a, Some b) \<Rightarrow> Some (a @ b) | _ \<Rightarrow> None)
                      | None \<Rightarrow> unescape EncodeHost hostname)
          in if \<not> validOptionalPort colonPort then None
             else (case (unescape EncodeHost colonPort, name) of
                     (Some p, Some n) \<Rightarrow>
                       (case ParseAddr n of
                          Some (AddrV6 _ _) \<Rightarrow> Some (''['' @ n @ '']'' @ p)
                        | _ \<Rightarrow> None)
                   | _ \<Rightarrow> None))"

definition parseHost :: "string \<Rightarrow> string option" where
  "parseHost host =
     (case LastIndexByte host CHR ''['' of
        Some i \<Rightarrow> if i > 0 then None else parse_bracketed host
      | None \<Rightarrow>
          (case LastIndexByte host CHR '':'' of
             Some i \<Rightarrow> if \<not> validOptionalPort (drop i host) then None else unescape EncodeHost host
           | None \<Rightarrow> unescape EncodeHost host))"

definition userinfo_byte :: "char \<Rightarrow> bool" where
  "userinfo_byte c \<longleftrightarrow> is_alpha c \<or> is_digit c \<or> List.member (CHR 0x27 # ''-._:~!$&()*+,;=%@'') c"

definition parseAuthority :: "string \<Rightarrow> (bool \<times> string) option" where
  "parseAuthority authority =
     (case LastIndexByte authority CHR ''@'' of
        None \<Rightarrow> map_option (Pair False) (parseHost authority)
      | Some i \<Rightarrow>
          (case parseHost (drop (Suc i) authority) of
             None \<Rightarrow> None
           | Some host \<Rightarrow>
               let info = take i authority; (name, pw) = Cut info CHR '':'' in
               if \<not> list_all userinfo_byte info then None
               else if unescape EncodeUserPassword name = None \<or> unescape EncodeUserPassword pw = None then None
               else Some (True, host)))"

definition url_parse :: "string \<Rightarrow> URL option" where
  "url_parse raw =
     (if list_ex (\<lambda>c. (of_char c :: nat) < 32 \<or> of_char c = (127::nat)) raw then None
      else if raw = ''*'' then Some \<lparr>u_Scheme = [], u_Host = [], u_User = False, u_Path = ''*'', u_RawQuery = [], u_Fragment = []\<rparr>
      else
        (case getScheme raw of
           None \<Rightarrow> None
         | Some (scheme0, rest0) \<Rightarrow>
             let scheme = ToLower scheme0;
                 (rest, query) = Cut rest0 CHR ''?'';
                 u = \<lparr>u_Scheme = scheme, u_Host = [], u_User = False, u_Path = [], u_RawQuery = query, u_Fragment = []\<rparr>
             in if \<not> HasPrefix rest ''/'' \<and> scheme \<noteq> [] then Some u
                else if \<not> HasPrefix rest ''/'' \<and> List.member (fst (Cut rest CHR ''/'')) CHR '':'' then None
                else if (scheme \<noteq> [] \<or> \<not> HasPrefix rest ''///'') \<and> HasPrefix rest ''//'' then
                  (let authority = takeWhile (\<lambda>c. c \<noteq> CHR ''/'') (drop 2 rest);
                       path = drop (length authority) (drop 2 rest)
                   in case (parseAuthority authority, unescape EncodePath path) of
                        (Some (user, host), Some p) \<Rightarrow> Some (u\<lparr>u_Host := host, u_User := user, u_Path := p\<rparr>)
                      | _ \<Rightarrow> None)
                else map_option (\<lambda>p. u\<lparr>u_Path := p\<rparr>) (unescape EncodePath rest)))"

definition url_Parse :: "string \<Rightarrow> URL option" where
  "url_Parse raw =
     (let (u, frag) = Cut raw CHR ''#'' in
      case url_parse u of
        None \<Rightarrow> None
      | Some url \<Rightarrow>
          if frag = [] then Some url
          else map_option (\<lambda>f. url\<lparr>u_Fragment := f\<rparr>) (unescape EncodeFragment frag))"

text \<open>\<open>URL.String\<close> of an absolute URL without user information whose host and path need no escape.\<close>

definition URL_String :: "URL \<Rightarrow> string" where
  "URL_String u = u_Scheme u @ ''://'' @ u_Host u @ u_Path u @
     (if u_RawQuery u = [] then [] else CHR ''?'' # u_RawQuery u) @
     (if u_Fragment u = [] then [] else CHR ''#'' # u_Fragment u)"

text \<open>Joining a host and a port is inverse to splitting them.\<close>

definition no_brackets :: "string \<Rightarrow> bool" where
  "no_brackets s \<longleftrightarrow> CHR ''['' \<notin> set s \<and> CHR '']'' \<notin> set s"

lemma SplitHostPort_parts:
  assumes "SplitHostPort a = Some (h, p)"
  shows "CHR '':'' \<notin> set p \<and> no_brackets h \<and> no_brackets p"
proof -
  obtain i where i: "LastIndexByte a (CHR '':'') = Some i"
    using assms by (auto simp: SplitHostPort_def split: option.splits)
  from LastIndexByte_Some [OF this] obtain u q where a: "a = u @ CHR '':'' # q" "length u = i" "CHR '':'' \<notin> set q" by blast
  then have p: "p = q"
    using assms i by (auto simp: SplitHostPort_def Let_def split: option.splits if_splits)
  show ?thesis
  proof (cases "hd a = CHR ''[''")
    case False
    then have "no_brackets a" "h = u"
      using assms i a by (auto simp: SplitHostPort_def Let_def no_brackets_def split: if_splits)
    with a p show ?thesis by (auto simp: no_brackets_def)
  next
    case True
    then obtain e where e: "IndexByte a (CHR '']'') = Some e" "e + 1 = i" "h = take (e - 1) (drop 1 a)"
        "CHR ''['' \<notin> set (drop 1 a)" "CHR '']'' \<notin> set (drop (e + 1) a)"
      using assms i by (auto simp: SplitHostPort_def Let_def split: option.splits if_splits)
    have "set q \<subseteq> set (drop 1 a) \<inter> set (drop (e + 1) a)"
      using a e(2) by (cases u) (auto simp: drop_Cons')
    moreover have "set h \<subseteq> set (drop 1 a)" using e(3) set_take_subset by metis
    moreover have "set h \<subseteq> set (take e a)"
      using e(3) by (metis One_nat_def take_drop set_drop_subset take_drop drop_take)
    moreover have "CHR '']'' \<notin> set (take e a)" using IndexByte_Some [OF e(1)] by blast
    ultimately show ?thesis using a(3) p e(4,5) unfolding no_brackets_def by blast
  qed
qed

lemma SplitHostPort_Join:
  assumes "CHR '':'' \<notin> set p" "no_brackets h" "no_brackets p"
  shows "SplitHostPort (JoinHostPort h p) = Some (h, p)"
proof (cases "CHR '':'' \<in> set h")
  case True
  have "LastIndexByte ((CHR ''['' # h @ '']'') @ CHR '':'' # p) (CHR '':'') = Some (length (CHR ''['' # h @ '']''))"
    using assms(1) by (rule LastIndexByte_append)
  moreover have "IndexByte ((CHR ''['' # h) @ CHR '']'' # CHR '':'' # p) (CHR '']'') = Some (length (CHR ''['' # h))"
    using assms(2) by (intro IndexByte_append) (auto simp: no_brackets_def)
  ultimately show ?thesis
    using True assms(2,3) by (simp add: SplitHostPort_def JoinHostPort_def no_brackets_def)
next
  case False
  have "LastIndexByte (h @ CHR '':'' # p) (CHR '':'') = Some (length h)"
    using assms(1) by (rule LastIndexByte_append)
  moreover have "hd (h @ CHR '':'' # p) \<noteq> CHR ''[''"
    using assms(2) by (cases h) (auto simp: no_brackets_def)
  ultimately show ?thesis
    using False assms(2,3) by (simp add: SplitHostPort_def JoinHostPort_def no_brackets_def)
qed

end
