(* ===== verification/Middleware.thy ===== *)
theory Middleware
  imports ErrMap Config
begin

text \<open>
  The HTTP middleware (\<open>internal/middleware\<close>) and the HTTP metrics (\<open>internal/metrics/http.go\<close>):
  authentication, authorization, bulkhead, rate limiter, CORS, proxy trust, security headers,
  status recorder, access log, metrics and panic recovery.  The package's global counters and the
  semaphore of the bulkhead are a record that the state of the program extends, so that a
  middleware is a function on handlers over any such state.  The records that the package logs are kept in
  order; the access log and the metrics take the elapsed time as an argument.
\<close>

section \<open>Log records\<close>

text \<open>A record of \<open>log/slog\<close> as its caller writes it: the component of its logger, level, message and attributes.\<close>

datatype log_value = LogString string | LogInt int | LogBool bool

type_synonym log_attrs = "(string \<times> log_value) list"

record log_record =
  lr_Component :: string
  lr_Level :: int
  lr_Message :: string
  lr_Attrs :: log_attrs

abbreviation (input) LevelInfo :: int where "LevelInfo \<equiv> 0"
abbreviation (input) LevelWarn :: int where "LevelWarn \<equiv> 4"
abbreviation (input) LevelError :: int where "LevelError \<equiv> 8"

section \<open>State of the package\<close>

record HTTPMetrics =
  hm_inFlight :: int64
  hm_requestsTotal :: "(string, int64) gomap"
  hm_errorsTotal :: "(string, int64) gomap"
  hm_latencySumNS :: "(string, int64) gomap"
  hm_latencyCount :: "(string, int64) gomap"

record Counters =
  authnFailures :: "(string, int64) gomap"
  forbiddenTotal :: int64
  rejectionsTotal :: int64
  bulkheadInFlight :: int64
  bulkheadSem :: nat
  rateLimitedTotal :: int64
  corsPreflightTotal :: int64
  corsDeniedTotal :: int64
  httpMetrics :: HTTPMetrics
  logs :: "log_record list"

text \<open>\<open>expvar.Int.Add\<close> and \<open>expvar.Map.Add\<close>.\<close>

definition Int_Add :: "int64 \<Rightarrow> int64 \<Rightarrow> int64" where
  "Int_Add d x = wrap64 (x + d)"

definition Map_Add :: "string \<Rightarrow> int64 \<Rightarrow> (string, int64) gomap \<Rightarrow> (string, int64) gomap" where
  "Map_Add k d m = gm_update k (wrap64 ((case gm_lookup m k of Some x \<Rightarrow> x | None \<Rightarrow> 0) + d)) m"

section \<open>The security log\<close>

definition isHTTPMethod :: "string \<Rightarrow> bool" where
  "isHTTPMethod m \<longleftrightarrow>
     List.member [''CONNECT'', ''DELETE'', ''GET'', ''HEAD'', ''OPTIONS'', ''PATCH'', ''POST'', ''PUT'', ''TRACE''] m"

definition canonicalHTTPRoute :: "string \<Rightarrow> string" where
  "canonicalHTTPRoute pattern =
     (let (meth, route) = Cut pattern CHR '' '' in
      if List.member pattern CHR '' '' \<and> isHTTPMethod meth \<and> route \<noteq> [] then route else pattern)"

definition requestLogAttrs :: "Request \<Rightarrow> int \<Rightarrow> log_attrs" where
  "requestLogAttrs r status =
     (let route = canonicalHTTPRoute (req_Pattern r) in
      [(''method'', LogString (req_Method r)), (''route'', LogString (if route = [] then ''unmatched'' else route)),
       (''status'', LogInt status), (''request_id'', LogString (case RequestID r of Some x \<Rightarrow> x | None \<Rightarrow> []))])"

definition logSecurityDecision :: "string \<Rightarrow> log_attrs \<Rightarrow> 's Counters_scheme \<Rightarrow> 's Counters_scheme" where
  "logSecurityDecision event attrs s =
     s\<lparr>logs := logs s @ [\<lparr>lr_Component = ''http_security'', lr_Level = LevelInfo, lr_Message = ''security decision'',
        lr_Attrs = [(''event'', LogString event), (''decision'', LogString ''denied'')] @ attrs\<rparr>]\<rparr>"

section \<open>Authentication\<close>

type_synonym verifier = "string \<Rightarrow> go_error + Principal"

fun AuthNErrorKind_string :: "AuthNErrorKind \<Rightarrow> string" where
  "AuthNErrorKind_string AuthNMissing = ''missing''"
| "AuthNErrorKind_string AuthNInvalid = ''invalid''"
| "AuthNErrorKind_string AuthNExpired = ''expired''"
| "AuthNErrorKind_string AuthNNotYetValid = ''not_yet_valid''"
| "AuthNErrorKind_string (AuthNKindOther s) = s"

definition NewAuthAPI :: "verifier option \<Rightarrow> go_error + verifier" where
  "NewAuthAPI v =
     (case v of None \<Rightarrow> Inl (OpaqueError ''auth api: verifier is nil'') | Some ver \<Rightarrow> Inr ver)"

definition parseBearerToken :: "string \<Rightarrow> go_error + string" where
  "parseBearerToken hdr0 =
     (let hdr = TrimSpace hdr0; parts = Fields hdr in
      if hdr = [] then Inl (NewUnauthorized AuthNMissing None)
      else if length parts \<noteq> 2 \<or> \<not> EqualFold (parts ! 0) ''Bearer'' then Inl (NewUnauthorized AuthNInvalid None)
      else
        let token = TrimSpace (parts ! 1) in
        if token = [] then Inl (NewUnauthorized AuthNInvalid None) else Inr token)"

definition authNKindOrOther :: "go_error \<Rightarrow> AuthNErrorKind" where
  "authNKindOrOther err = (case AuthNKind err of Some k \<Rightarrow> k | None \<Rightarrow> AuthNKindOther ''other'')"

definition incAuthN :: "AuthNErrorKind \<Rightarrow> 's Counters_scheme \<Rightarrow> 's Counters_scheme" where
  "incAuthN kind s = s\<lparr>authnFailures := Map_Add (AuthNErrorKind_string kind) 1 (authnFailures s)\<rparr>"

definition logAuthNDenied :: "Request \<Rightarrow> AuthNErrorKind \<Rightarrow> 's Counters_scheme \<Rightarrow> 's Counters_scheme" where
  "logAuthNDenied r kind =
     logSecurityDecision ''security.authn.denied'' (requestLogAttrs r 401 @ [(''authn_kind'', LogString (AuthNErrorKind_string kind))])"

definition Authenticate :: "verifier \<Rightarrow> 's Counters_scheme app_handler \<Rightarrow> 's Counters_scheme app_handler" where
  "Authenticate verify next r w s =
     (if req_Method r = ''OPTIONS'' then next r w s
      else
        (case parseBearerToken (Header_Get (req_Header r) ''Authorization'') of
           Inl err \<Rightarrow>
             let k = authNKindOrOther err in (Returned (Some err), r, w, logAuthNDenied r k (incAuthN k s))
         | Inr token \<Rightarrow>
             (case verify token of
                Inl err \<Rightarrow>
                  let uerr = UnauthorizedFromVerifyErr (Some err); k = authNKindOrOther uerr in
                  (Returned (Some uerr), r, w, logAuthNDenied r k (incAuthN k s))
              | Inr p \<Rightarrow> with_copy r (next (r\<lparr>req_Principal := Some p\<rparr>) w s))))"

section \<open>Authorization\<close>

type_synonym AuthorizeAPI = "(string, RouteRule) gomap"

fun index_rules :: "RouteRule list \<Rightarrow> AuthorizeAPI \<Rightarrow> go_error + AuthorizeAPI" where
  "index_rules [] rules = Inr rules"
| "index_rules (rr # rest) rules =
     (if rr_Pattern rr = [] then Inl (OpaqueError ''authorize api: empty rule pattern'')
      else if gm_lookup rules (rr_Pattern rr) \<noteq> None then
        Inl (OpaqueError (''authorize api: duplicate rule pattern '' @ Quote (rr_Pattern rr)))
      else index_rules rest (gm_update (rr_Pattern rr) rr rules))"

definition NewAuthorizeAPI :: "RouteRule list \<Rightarrow> go_error + AuthorizeAPI" where
  "NewAuthorizeAPI policy =
     (if policy = [] then Inl (OpaqueError ''authorize api: policy is empty'') else index_rules policy [])"

fun AuthZErrorKind_string :: "AuthZErrorKind \<Rightarrow> string" where
  "AuthZErrorKind_string AuthZForbidden = ''forbidden''"
| "AuthZErrorKind_string AuthZAdminRequired = ''admin_required''"
| "AuthZErrorKind_string AuthZNoPolicyRule = ''no_policy_rule''"
| "AuthZErrorKind_string AuthZUnknownAccess = ''unknown_access''"

definition logAuthZDenied :: "Request \<Rightarrow> AuthZErrorKind \<Rightarrow> 's Counters_scheme \<Rightarrow> 's Counters_scheme" where
  "logAuthZDenied r kind =
     logSecurityDecision ''security.authz.denied'' (requestLogAttrs r 403 @ [(''authz_kind'', LogString (AuthZErrorKind_string kind))])"

definition forbid :: "AuthZErrorKind \<Rightarrow> Request \<Rightarrow> ResponseWriter \<Rightarrow> 's Counters_scheme \<Rightarrow>
    go_error option outcome \<times> Request \<times> ResponseWriter \<times> 's Counters_scheme" where
  "forbid kind r w s =
     (Returned (Some (NewForbidden kind None)), r, w,
      logAuthZDenied r kind (s\<lparr>forbiddenTotal := Int_Add 1 (forbiddenTotal s)\<rparr>))"

definition Authorize :: "AuthorizeAPI \<Rightarrow> 's Counters_scheme app_handler \<Rightarrow> 's Counters_scheme app_handler" where
  "Authorize rules next r w s =
     (let missing = OpaqueError ''authorize: principal missing (Authenticate must run before Authorize)'' in
      if req_Method r = ''OPTIONS'' then next r w s
      else if req_Pattern r = [] then
        (Returned (Some (OpaqueError ''authorize: empty r.Pattern (Authorize must run after ServeMux)'')), r, w, s)
      else
        (case gm_lookup rules (req_Pattern r) of
           None \<Rightarrow> forbid AuthZNoPolicyRule r w s
         | Some rl \<Rightarrow>
             (case rr_Access rl of
                AccessPublic \<Rightarrow> next r w s
              | AccessAuthenticated \<Rightarrow>
                  (case req_Principal r of
                     None \<Rightarrow> (Returned (Some missing), r, w, s)
                   | Some _ \<Rightarrow> next r w s)
              | AccessAdminOnly \<Rightarrow>
                  (case req_Principal r of
                     None \<Rightarrow> (Returned (Some missing), r, w, s)
                   | Some p \<Rightarrow>
                       if pr_Role p \<noteq> RoleAdmin then forbid AuthZAdminRequired r w s else next r w s)
              | AccessOther _ \<Rightarrow> forbid AuthZUnknownAccess r w s)))"

section \<open>Bulkhead\<close>

text \<open>The semaphore is a buffered channel; only its length matters.  The deferred calls run after
  \<open>next\<close> whether it returned or panicked.  Making a channel of negative capacity panics.\<close>

definition NewBulkhead :: "int64 \<Rightarrow> nat option" where
  "NewBulkhead maxParallel = (if maxParallel < 0 then None else Some (nat maxParallel))"

definition Bulkhead_enter :: "nat \<Rightarrow> 's Counters_scheme \<Rightarrow> 's Counters_scheme option" where
  "Bulkhead_enter maxParallel s =
     (if bulkheadSem s < maxParallel
      then Some (s\<lparr>bulkheadSem := Suc (bulkheadSem s), bulkheadInFlight := Int_Add 1 (bulkheadInFlight s)\<rparr>)
      else None)"

definition Bulkhead_leave :: "'s Counters_scheme \<Rightarrow> 's Counters_scheme" where
  "Bulkhead_leave s = s\<lparr>bulkheadSem := bulkheadSem s - 1, bulkheadInFlight := Int_Add (- 1) (bulkheadInFlight s)\<rparr>"

definition Bulkhead :: "nat \<Rightarrow> 's Counters_scheme app_handler \<Rightarrow> 's Counters_scheme app_handler" where
  "Bulkhead maxParallel next r w s =
     (case Bulkhead_enter maxParallel s of
        Some s1 \<Rightarrow> (case next r w s1 of (out, r2, w2, s2) \<Rightarrow> (out, r2, w2, Bulkhead_leave s2))
      | None \<Rightarrow>
          (Returned (Some (Sentinel ErrBulkheadRejected)), r, w, s\<lparr>rejectionsTotal := Int_Add 1 (rejectionsTotal s)\<rparr>))"

section \<open>Rate limiter\<close>

text \<open>The limiter is the library \<open>golang.org/x/time/rate\<close>: what \<open>Reserve\<close> answers (whether the
  reservation is possible, and its delay) and the effects of \<open>Reserve\<close> and \<open>Cancel\<close> are
  parameters.\<close>

record 's limiter =
  lim_Reserve :: "'s \<Rightarrow> (bool \<times> int64) \<times> 's"
  lim_Cancel :: "'s \<Rightarrow> 's"

definition RateLimited_Process :: "'s Counters_scheme limiter \<Rightarrow> 's Counters_scheme \<Rightarrow> go_error option \<times> 's Counters_scheme" where
  "RateLimited_Process lim s =
     (case lim_Reserve lim s of
        ((ok, d), s1) \<Rightarrow>
          if \<not> ok then (Some (RateLimitError 0), s1\<lparr>rateLimitedTotal := Int_Add 1 (rateLimitedTotal s1)\<rparr>)
          else if d = 0 then (None, s1)
          else if d > 0 then
            (let s2 = lim_Cancel lim s1 in
             (Some (RateLimitError d), s2\<lparr>rateLimitedTotal := Int_Add 1 (rateLimitedTotal s2)\<rparr>))
          else (None, s1))"

definition RateLimiter :: "'s Counters_scheme limiter \<Rightarrow> 's Counters_scheme app_handler \<Rightarrow> 's Counters_scheme app_handler" where
  "RateLimiter lim next r w s =
     (case RateLimited_Process lim s of
        (Some err, s1) \<Rightarrow> (Returned (Some err), r, w, s1)
      | (None, s1) \<Rightarrow> next r w s1)"

section \<open>CORS\<close>

record CORSAPI =
  cors_allowAny :: bool
  cors_allowedOrigins :: "string list"
  cors_allowedMethods :: "string list"
  cors_allowedMethodsUp :: "string list"
  cors_allowedHeaders :: "string list"
  cors_allowedHeadersLo :: "string list"
  cors_allowCredentials :: bool
  cors_maxAgeSeconds :: int64

text \<open>The sets of the structure are lists.  The age is in whole seconds.\<close>

definition NewCORS :: "CORSConfig \<Rightarrow> CORSAPI" where
  "NewCORS cfg =
     \<lparr>cors_allowAny = list_ex (\<lambda>o'. o' = ''*'') (co_AllowedOrigins cfg),
      cors_allowedOrigins = filter (\<lambda>o'. o' \<noteq> ''*'') (co_AllowedOrigins cfg),
      cors_allowedMethods = co_AllowedMethods cfg,
      cors_allowedMethodsUp = filter (\<lambda>m. m \<noteq> []) (map (\<lambda>m. ToUpper (TrimSpace m)) (co_AllowedMethods cfg)),
      cors_allowedHeaders = co_AllowedHeaders cfg,
      cors_allowedHeadersLo = filter (\<lambda>h. h \<noteq> []) (map (\<lambda>h. ToLower (TrimSpace h)) (co_AllowedHeaders cfg)),
      cors_allowCredentials = co_AllowCredentials cfg,
      cors_maxAgeSeconds = go_div (co_MaxAge cfg) time_Second\<rparr>"

definition isOriginAllowed :: "CORSAPI \<Rightarrow> string \<Rightarrow> bool" where
  "isOriginAllowed c origin \<longleftrightarrow> (if cors_allowAny c then True else List.member (cors_allowedOrigins c) origin)"

definition isMethodAllowed :: "CORSAPI \<Rightarrow> string \<Rightarrow> bool" where
  "isMethodAllowed c m \<longleftrightarrow> List.member (cors_allowedMethodsUp c) m"

definition areRequestHeadersAllowed :: "CORSAPI \<Rightarrow> string \<Rightarrow> bool" where
  "areRequestHeadersAllowed c acrh0 =
     (let acrh = TrimSpace acrh0 in
      acrh = [] \<or>
      list_all (\<lambda>p. let h = ToLower (TrimSpace p) in h = [] \<or> List.member (cors_allowedHeadersLo c) h)
        (Split acrh CHR '',''))"

definition logCORSDenied :: "Request \<Rightarrow> string \<Rightarrow> 's Counters_scheme \<Rightarrow> 's Counters_scheme" where
  "logCORSDenied r reason =
     logSecurityDecision ''security.cors.denied'' (requestLogAttrs r 403 @ [(''cors_denial'', LogString reason)])"

definition cors_deny :: "string \<Rightarrow> string \<Rightarrow> Request \<Rightarrow> ResponseWriter \<Rightarrow> 's Counters_scheme \<Rightarrow>
    unit outcome \<times> Request \<times> ResponseWriter \<times> 's Counters_scheme" where
  "cors_deny reason detail r w s =
     (Returned (), r, WriteProblem w (Some r) (problem 403 detail),
      logCORSDenied r reason (s\<lparr>corsDeniedTotal := Int_Add 1 (corsDeniedTotal s)\<rparr>))"

definition cors_preflight :: "CORSAPI \<Rightarrow> 's Counters_scheme http_handler" where
  "cors_preflight c r w s =
     (let reqMethod = ToUpper (TrimSpace (Header_Get (req_Header r) ''Access-Control-Request-Method'')) in
      if \<not> isMethodAllowed c reqMethod then cors_deny ''method'' ''cors method denied'' r w s
      else if \<not> areRequestHeadersAllowed c (Header_Get (req_Header r) ''Access-Control-Request-Headers'') then
        cors_deny ''headers'' ''cors headers denied'' r w s
      else
        let w1 = set_header ''Access-Control-Allow-Methods'' (Join (cors_allowedMethods c) '', '') w;
            w2 = set_header ''Access-Control-Allow-Headers'' (Join (cors_allowedHeaders c) '', '') w1;
            w3 = (if cors_maxAgeSeconds c > 0
                  then set_header ''Access-Control-Max-Age'' (Itoa (cors_maxAgeSeconds c)) w2 else w2);
            w4 = AddVary ''Access-Control-Request-Headers'' (AddVary ''Access-Control-Request-Method'' w3)
        in (Returned (), r, WriteHeader 204 w4, s\<lparr>corsPreflightTotal := Int_Add 1 (corsPreflightTotal s)\<rparr>))"

definition CORS :: "CORSAPI \<Rightarrow> 's Counters_scheme http_handler \<Rightarrow> 's Counters_scheme http_handler" where
  "CORS c next r w s =
     (let origin = Header_Get (req_Header r) ''Origin'' in
      if origin = [] then next r w s
      else if \<not> isOriginAllowed c origin then cors_deny ''origin'' ''cors origin denied'' r w s
      else
        let allowOrigin = (if cors_allowAny c then ''*'' else origin);
            w0 = (if cors_allowAny c then w else AddVary ''Origin'' w)
        in if cors_allowCredentials c \<and> allowOrigin = ''*'' then
             cors_deny ''credentials_wildcard'' ''cors credentials with wildcard origin is not allowed'' r w0 s
           else
             let w1 = set_header ''Access-Control-Allow-Origin'' allowOrigin w0;
                 w2 = (if cors_allowCredentials c then set_header ''Access-Control-Allow-Credentials'' ''true'' w1 else w1)
             in if req_Method r = ''OPTIONS'' \<and> Header_Get (req_Header r) ''Access-Control-Request-Method'' \<noteq> []
                then cors_preflight c r w2 s
                else next r w2 s)"

section \<open>Trusted proxies\<close>

record ProxyAPI =
  px_trustedNets :: "IPNet list"
  px_trustXFF :: bool
  px_trustXFP :: bool

fun proxy_nets :: "string list \<Rightarrow> go_error + IPNet list" where
  "proxy_nets [] = Inr []"
| "proxy_nets (p # ps) =
     (let space = TrimSpace p in
      if space = [] then proxy_nets ps
      else
        (case (if List.member space CHR ''/'' then ParseCIDR space
               else case ParseIP space of
                      None \<Rightarrow> None
                    | Some ip \<Rightarrow> ParseCIDR (space @ (if To4 ip \<noteq> None then ''/32'' else ''/128''))) of
           None \<Rightarrow> Inl (OpaqueError ''invalid ip'')
         | Some n \<Rightarrow> (case proxy_nets ps of Inl e \<Rightarrow> Inl e | Inr ns \<Rightarrow> Inr (n # ns))))"

definition NewProxyAPI :: "ProxyConfig \<Rightarrow> go_error + ProxyAPI" where
  "NewProxyAPI cfg =
     (case ValidateTrustedProxyRequirements cfg of
        Some e \<Rightarrow> Inl e
      | None \<Rightarrow>
          (case proxy_nets (map Prefix_String (pr_TrustedProxies cfg)) of
             Inl e \<Rightarrow> Inl e
           | Inr nets \<Rightarrow> Inr \<lparr>px_trustedNets = nets, px_trustXFF = pr_TrustXFF cfg, px_trustXFP = pr_TrustXFP cfg\<rparr>))"

definition isTrustedProxy :: "ProxyAPI \<Rightarrow> string \<Rightarrow> bool" where
  "isTrustedProxy p ipStr =
     (case ParseIP ipStr of None \<Rightarrow> False | Some ip \<Rightarrow> list_ex (\<lambda>n. Contains n ip) (px_trustedNets p))"

definition parseRemoteIP :: "string \<Rightarrow> string" where
  "parseRemoteIP remoteAddr =
     (if remoteAddr = [] then []
      else
        (case SplitHostPort remoteAddr of
           Some (host, _) \<Rightarrow> host
         | None \<Rightarrow> if ParseIP remoteAddr \<noteq> None then remoteAddr else []))"

fun first_ip :: "string list \<Rightarrow> string" where
  "first_ip [] = []"
| "first_ip (p # ps) =
     (let s0 = TrimSpace p in
      if s0 = [] then first_ip ps
      else
        let s = (case SplitHostPort s0 of Some (host, _) \<Rightarrow> host | None \<Rightarrow> s0) in
        if ParseIP s \<noteq> None then s else first_ip ps)"

definition firstIPFromXFF :: "string \<Rightarrow> string" where
  "firstIPFromXFF xff = first_ip (Split xff CHR '','')"

definition proxy_request_info :: "ProxyAPI \<Rightarrow> Request \<Rightarrow> RequestInfo" where
  "proxy_request_info p r =
     (let remoteIP = parseRemoteIP (req_RemoteAddr r);
          scheme0 = (if req_TLS r then ''https'' else ''http'');
          trusted = (remoteIP \<noteq> [] \<and> isTrustedProxy p remoteIP);
          xfp = ToLower (TrimSpace (Header_Get (req_Header r) ''X-Forwarded-Proto''));
          xff = Header_Get (req_Header r) ''X-Forwarded-For'';
          ip = firstIPFromXFF xff
      in \<lparr>ri_ClientIP = (if trusted \<and> px_trustXFF p \<and> xff \<noteq> [] \<and> ip \<noteq> [] then ip else remoteIP),
          ri_Scheme = (if trusted \<and> px_trustXFP p \<and> (xfp = ''http'' \<or> xfp = ''https'') then xfp else scheme0)\<rparr>)"

definition TrustProxy :: "ProxyAPI \<Rightarrow> 's http_handler \<Rightarrow> 's http_handler" where
  "TrustProxy p next r w s = with_copy r (next (r\<lparr>req_Info := Some (proxy_request_info p r)\<rparr>) w s)"

definition SanitizeRequestIDHeader :: "ProxyAPI \<Rightarrow> 's http_handler \<Rightarrow> 's http_handler" where
  "SanitizeRequestIDHeader p next r w s =
     (let remoteIP = parseRemoteIP (req_RemoteAddr r) in
      if remoteIP = [] \<or> \<not> isTrustedProxy p remoteIP
      then next (r\<lparr>req_Header := Header_Del HeaderName (req_Header r)\<rparr>) w s
      else next r w s)"

section \<open>Security headers\<close>

definition SecurityHeaders :: "SecurityHeadersConfig \<Rightarrow> 's http_handler \<Rightarrow> 's http_handler" where
  "SecurityHeaders cfg next r w s =
     (if \<not> sh_Enable cfg then next r w s
      else
        let w1 = set_header ''X-Content-Type-Options'' ''nosniff'' w;
            w2 = (if sh_ReferrerPolicy cfg \<noteq> [] then set_header ''Referrer-Policy'' (sh_ReferrerPolicy cfg) w1 else w1);
            w3 = set_header ''X-Frame-Options'' ''DENY'' w2;
            isHTTPS = (case req_Info r of Some ri \<Rightarrow> ri_Scheme ri = ''https'' | None \<Rightarrow> req_TLS r);
            w4 = (if hs_Enable (sh_HSTS cfg) \<and> hs_MaxAge (sh_HSTS cfg) > 0 \<and> isHTTPS
                  then set_header ''Strict-Transport-Security''
                         (''max-age='' @ Itoa (go_div (hs_MaxAge (sh_HSTS cfg)) time_Second)) w3
                  else w3)
        in next r w4 s)"

section \<open>Status recorder\<close>

record statusRecorder =
  sr_ResponseWriter :: ResponseWriter
  sr_status :: int
  sr_bytes :: int64
  sr_wroteHeader :: bool

definition newStatusRecorder :: "ResponseWriter \<Rightarrow> statusRecorder" where
  "newStatusRecorder w = \<lparr>sr_ResponseWriter = w, sr_status = 200, sr_bytes = 0, sr_wroteHeader = False\<rparr>"

definition statusRecorder_WriteHeader :: "int \<Rightarrow> statusRecorder \<Rightarrow> statusRecorder" where
  "statusRecorder_WriteHeader code sr =
     (if sr_wroteHeader sr then sr
      else sr\<lparr>sr_wroteHeader := True, sr_status := code, sr_ResponseWriter := WriteHeader code (sr_ResponseWriter sr)\<rparr>)"

text \<open>\<open>sz\<close> gives the number of bytes that the wrapped writer reports for a piece of the body.\<close>

definition statusRecorder_Write :: "(response_body \<Rightarrow> int64) \<Rightarrow> response_body \<Rightarrow> statusRecorder \<Rightarrow> statusRecorder" where
  "statusRecorder_Write sz b sr =
     (let sr1 = (if \<not> sr_wroteHeader sr then statusRecorder_WriteHeader 200 sr else sr)
      in sr1\<lparr>sr_ResponseWriter := Write b (sr_ResponseWriter sr1), sr_bytes := wrap64 (sr_bytes sr1 + sz b)\<rparr>)"

text \<open>What the wrapped writer can do: flush with or without an error, hijack, push; each with its answer.\<close>

datatype flusher = FlushErrors "go_error option" | FlushesOnly | NoFlusher

definition statusRecorder_FlushError :: "flusher \<Rightarrow> statusRecorder \<Rightarrow> go_error option \<times> statusRecorder" where
  "statusRecorder_FlushError f sr =
     (let sr1 = (if \<not> sr_wroteHeader sr then statusRecorder_WriteHeader 200 sr else sr) in
      case f of
        FlushErrors e \<Rightarrow> (e, sr1)
      | FlushesOnly \<Rightarrow> (None, sr1)
      | NoFlusher \<Rightarrow> (Some (Sentinel Http_ErrNotSupported), sr))"

definition statusRecorder_Hijack :: "(go_error + 'conn) option \<Rightarrow> go_error + 'conn" where
  "statusRecorder_Hijack h = (case h of None \<Rightarrow> Inl (OpaqueError ''hijacker not supported'') | Some r \<Rightarrow> r)"

definition statusRecorder_Push :: "(string \<Rightarrow> go_error option) option \<Rightarrow> string \<Rightarrow> go_error option" where
  "statusRecorder_Push p target = (case p of Some push \<Rightarrow> push target | None \<Rightarrow> Some (Sentinel Http_ErrNotSupported))"

text \<open>The status and the number of bytes a finished response is reported with; \<open>w\<close> is the writer the recorder was
  put around.\<close>

definition response_status :: "ResponseWriter \<Rightarrow> int" where
  "response_status w = (case rw_Status w of Some st \<Rightarrow> st | None \<Rightarrow> 200)"

definition response_bytes :: "(response_body \<Rightarrow> int64) \<Rightarrow> ResponseWriter \<Rightarrow> ResponseWriter \<Rightarrow> int64" where
  "response_bytes sz w w1 = foldl (\<lambda>n b. wrap64 (n + sz b)) 0 (drop (length (rw_Body w)) (rw_Body w1))"

section \<open>Access log, metrics and recovery\<close>

definition isNoisyAccessRoute :: "string \<Rightarrow> bool" where
  "isNoisyAccessRoute route \<longleftrightarrow>
     route = ''/livez'' \<or> route = ''/readyz'' \<or> HasPrefix route ''/debug/'' \<or> HasSuffix route ''/events''"

definition accessLogLevel :: "int \<Rightarrow> string \<Rightarrow> int" where
  "accessLogLevel status route =
     (if status \<ge> 400 then 0 else if isNoisyAccessRoute route then - 4 else 0)"

text \<open>What the access log and the recovery read from outside: the sizes of bodies, the time the request took and the
  stack of the goroutine.\<close>

record observation =
  ob_size :: "response_body \<Rightarrow> int64"
  ob_elapsed :: int64
  ob_stack :: string

definition access_record :: "observation \<Rightarrow> Request \<Rightarrow> int \<Rightarrow> int64 \<Rightarrow> log_record" where
  "access_record ob r status bytes =
     (let rid = (case RequestID r of Some x \<Rightarrow> x | None \<Rightarrow> []);
          scheme = (case req_Info r of Some ri \<Rightarrow> if ri_Scheme ri \<noteq> [] then ri_Scheme ri else ''-'' | None \<Rightarrow> ''-'');
          route0 = canonicalHTTPRoute (req_Pattern r);
          route = (if route0 = [] then ''unmatched'' else route0)
      in \<lparr>lr_Component = ''http_access'', lr_Level = accessLogLevel status route, lr_Message = ''http request completed'',
          lr_Attrs = [(''event'', LogString ''http.request.completed''), (''method'', LogString (req_Method r)),
            (''route'', LogString route), (''status'', LogInt status), (''bytes'', LogInt bytes),
            (''duration_ms'', LogInt (go_div (ob_elapsed ob) time_Millisecond)), (''request_id'', LogString rid),
            (''scheme'', LogString scheme)]\<rparr>)"

definition LoggerMiddleware :: "observation \<Rightarrow> 's Counters_scheme http_handler \<Rightarrow> 's Counters_scheme http_handler" where
  "LoggerMiddleware ob next r w s =
     (case next r w s of
        (Panicked, r1, w1, s1) \<Rightarrow> (Panicked, r1, w1, s1)
      | (Returned u, r1, w1, s1) \<Rightarrow>
          (Returned u, r1, w1,
           s1\<lparr>logs := logs s1 @ [access_record ob r1 (response_status w1) (response_bytes (ob_size ob) w w1)]\<rparr>))"

definition HTTPMetrics_Observe :: "string \<Rightarrow> string \<Rightarrow> int \<Rightarrow> int64 \<Rightarrow> HTTPMetrics \<Rightarrow> HTTPMetrics" where
  "HTTPMetrics_Observe meth pattern0 status d m =
     (let pattern = (if pattern0 = [] then ''<unmatched>'' else pattern0);
          reqKey = meth @ ''|'' @ pattern @ ''|'' @ Itoa status;
          baseKey = meth @ ''|'' @ pattern;
          m1 = m\<lparr>hm_requestsTotal := Map_Add reqKey 1 (hm_requestsTotal m),
                 hm_latencySumNS := Map_Add baseKey d (hm_latencySumNS m),
                 hm_latencyCount := Map_Add baseKey 1 (hm_latencyCount m)\<rparr>
      in if status \<ge> 500 then m1\<lparr>hm_errorsTotal := Map_Add baseKey 1 (hm_errorsTotal m1)\<rparr> else m1)"

definition Metrics_in_flight :: "int64 \<Rightarrow> 's Counters_scheme \<Rightarrow> 's Counters_scheme" where
  "Metrics_in_flight d s = s\<lparr>httpMetrics := (httpMetrics s)\<lparr>hm_inFlight := Int_Add d (hm_inFlight (httpMetrics s))\<rparr>\<rparr>"

definition metrics_pattern :: "Request \<Rightarrow> string option" where
  "metrics_pattern r =
     (let pattern = (if req_Pattern r = [] then ''<unmatched>'' else req_Pattern r) in
      if HasPrefix (req_Path r) ''/debug/'' \<or> pattern = ''/api/v1/jobs/{id}/events'' then None
      else (case IndexByte pattern CHR '' '' of Some i \<Rightarrow> Some (drop (i + 1) pattern) | None \<Rightarrow> Some pattern))"

definition Metrics :: "int64 \<Rightarrow> 's Counters_scheme http_handler \<Rightarrow> 's Counters_scheme http_handler" where
  "Metrics elapsed next r w s =
     (case next r w (Metrics_in_flight 1 s) of
        (out, r1, w1, s1) \<Rightarrow>
          let s2 = (case out of
                      Panicked \<Rightarrow> s1
                    | Returned _ \<Rightarrow>
                        (case metrics_pattern r1 of
                           None \<Rightarrow> s1
                         | Some pattern \<Rightarrow>
                             s1\<lparr>httpMetrics := HTTPMetrics_Observe (req_Method r1) pattern (response_status w1) elapsed (httpMetrics s1)\<rparr>))
          in (out, r1, w1, Metrics_in_flight (- 1) s2))"

definition panic_record :: "string \<Rightarrow> string \<Rightarrow> log_record" where
  "panic_record stack rid =
     \<lparr>lr_Component = ''http_recover'', lr_Level = LevelError, lr_Message = ''panic recovered'',
      lr_Attrs = [(''event'', LogString ''http.panic.recovered''), (''request_id'', LogString rid),
        (''error_kind'', LogString ''panic''), (''stack'', LogString stack)]\<rparr>"

definition Recover :: "observation \<Rightarrow> 's Counters_scheme http_handler \<Rightarrow> 's Counters_scheme http_handler" where
  "Recover ob next r w s =
     (case next r w s of
        (Returned u, r1, w1, s1) \<Rightarrow> (Returned u, r1, w1, s1)
      | (Panicked, r1, w1, s1) \<Rightarrow>
          (let rid = (case RequestID r1 of Some x \<Rightarrow> x | None \<Rightarrow> []) in
           (Returned (), r1, WriteProblem w1 (Some r1) ((problem 500 ''internal server error'')\<lparr>p_RequestID := rid\<rparr>),
            s1\<lparr>logs := logs s1 @ [panic_record (ob_stack ob) rid]\<rparr>)))"

section \<open>Authentication and authorization\<close>

definition admits :: "AccessLevel \<Rightarrow> Principal \<Rightarrow> bool" where
  "admits a p \<longleftrightarrow> a = AccessPublic \<or> a = AccessAuthenticated \<or> (a = AccessAdminOnly \<and> pr_Role p = RoleAdmin)"

text \<open>What the security log says of a denied request: its method, route and identifier, the status and the kind of
  the denial, and nothing of its headers.\<close>

definition denial_record :: "string \<Rightarrow> Request \<Rightarrow> int \<Rightarrow> string \<Rightarrow> string \<Rightarrow> log_record" where
  "denial_record event r status key kind =
     \<lparr>lr_Component = ''http_security'', lr_Level = LevelInfo, lr_Message = ''security decision'',
      lr_Attrs = [(''event'', LogString event), (''decision'', LogString ''denied''), (''method'', LogString (req_Method r)),
        (''route'', LogString (case canonicalHTTPRoute (req_Pattern r) of [] \<Rightarrow> ''unmatched'' | route \<Rightarrow> route)),
        (''status'', LogInt status), (''request_id'', LogString (case RequestID r of Some x \<Rightarrow> x | None \<Rightarrow> [])), (key, LogString kind)]\<rparr>"

definition denied_with :: "go_error \<Rightarrow> Request \<Rightarrow> log_record" where
  "denied_with err r =
     (case err of
        ForbiddenError k _ \<Rightarrow> denial_record ''security.authz.denied'' r 403 ''authz_kind'' (AuthZErrorKind_string k)
      | _ \<Rightarrow> denial_record ''security.authn.denied'' r 401 ''authn_kind'' (AuthNErrorKind_string (authNKindOrOther err)))"

definition denial :: "go_error \<Rightarrow> bool" where
  "denial err \<longleftrightarrow> (\<exists>k c. err = UnauthorizedError k c) \<or> (\<exists>k. err = ForbiddenError k None)"

lemma requestLogAttrs_case:
  "requestLogAttrs r status = [(''method'', LogString (req_Method r)),
     (''route'', LogString (case canonicalHTTPRoute (req_Pattern r) of [] \<Rightarrow> ''unmatched'' | route \<Rightarrow> route)),
     (''status'', LogInt status), (''request_id'', LogString (case RequestID r of Some x \<Rightarrow> x | None \<Rightarrow> []))]"
  by (cases "canonicalHTTPRoute (req_Pattern r)") (simp_all add: requestLogAttrs_def Let_def)

lemma logs_denied:
  "logs (logAuthNDenied r k s) = logs s @ [denial_record ''security.authn.denied'' r 401 ''authn_kind'' (AuthNErrorKind_string k)]"
  "logs (logAuthZDenied r kz s) = logs s @ [denial_record ''security.authz.denied'' r 403 ''authz_kind'' (AuthZErrorKind_string kz)]"
  by (simp_all add: logAuthNDenied_def logAuthZDenied_def logSecurityDecision_def denial_record_def requestLogAttrs_case)

lemma denial_record_principal: "denial_record ev (r\<lparr>req_Principal := p\<rparr>) st key kind = denial_record ev r st key kind"
  by (simp add: denial_record_def RequestID_def)

lemma authenticate_logged:
  assumes "req_Method r \<noteq> ''OPTIONS''"
  shows "(\<exists>p. \<forall>next. Authenticate verify next r w s = with_copy r (next (r\<lparr>req_Principal := Some p\<rparr>) w s)) \<or>
    (\<exists>err s'. denial err \<and> logs s' = logs s @ [denied_with err r] \<and>
       (\<forall>next. Authenticate verify next r w s = (Returned (Some err), r, w, s')))"
proof (cases "parseBearerToken (Header_Get (req_Header r) ''Authorization'')")
  case (Inl err)
  then obtain k c where "err = UnauthorizedError k c"
    by (auto simp: parseBearerToken_def NewUnauthorized_def Let_def split: if_splits list.splits)
  with Inl assms show ?thesis
    by (auto simp: Authenticate_def logs_denied incAuthN_def denial_def denied_with_def Let_def)
next
  case (Inr token)
  show ?thesis
  proof (cases "verify token")
    case (Inl err)
    obtain k c where "UnauthorizedFromVerifyErr (Some err) = UnauthorizedError k c"
      by (cases "AuthNKind err") (auto simp: UnauthorizedFromVerifyErr_def NewUnauthorized_def)
    with Inl \<open>parseBearerToken _ = Inr token\<close> assms show ?thesis
      by (auto simp: Authenticate_def logs_denied incAuthN_def denial_def denied_with_def Let_def)
  qed (use Inr assms in \<open>auto simp: Authenticate_def\<close>)
qed

lemma authorize_logged:
  assumes "req_Method r \<noteq> ''OPTIONS''" "req_Pattern r \<noteq> []" "req_Principal r = Some p"
  shows "(\<forall>next. Authorize rules next r w s = next r w s) \<or>
    (\<exists>err s'. denial err \<and> logs s' = logs s @ [denied_with err r] \<and>
       (\<forall>next. Authorize rules next r w s = (Returned (Some err), r, w, s')))"
proof -
  have forbidden: "\<exists>err s'. denial err \<and> logs s' = logs s @ [denied_with err r] \<and> forbid k r w s = (Returned (Some err), r, w, s')" for k
    by (simp add: forbid_def NewForbidden_def logs_denied denial_def denied_with_def)
  show ?thesis
  proof (cases "gm_lookup rules (req_Pattern r)")
    case None
    with assms forbidden show ?thesis by (simp add: Authorize_def)
  next
    case (Some rl)
    with assms forbidden show ?thesis
      by (cases "rr_Access rl"; cases "pr_Role p = RoleAdmin") (simp_all add: Authorize_def)
  qed
qed


text \<open>A handler that answers by itself, without calling the handler it wraps.\<close>

definition answers_alone ::
  "('s app_handler \<Rightarrow> 's app_handler) \<Rightarrow> Request \<Rightarrow> ResponseWriter \<Rightarrow> 's \<Rightarrow> bool" where
  "answers_alone mw r w s \<longleftrightarrow> (\<exists>err s'. \<forall>next. mw next r w s = (Returned (Some err), r, w, s'))"

lemma authenticate_cases:
  assumes "req_Method r \<noteq> ''OPTIONS''"
  shows "answers_alone (Authenticate verify) r w s \<or>
    (\<exists>token p. parseBearerToken (Header_Get (req_Header r) ''Authorization'') = Inr token \<and> verify token = Inr p \<and>
       (\<forall>next. Authenticate verify next r w s = with_copy r (next (r\<lparr>req_Principal := Some p\<rparr>) w s)))"
proof (cases "parseBearerToken (Header_Get (req_Header r) ''Authorization'')")
  case (Inr token)
  then show ?thesis
    using assms by (cases "verify token") (auto simp: Authenticate_def answers_alone_def Let_def)
qed (use assms in \<open>auto simp: Authenticate_def answers_alone_def Let_def\<close>)

lemma authorize_cases:
  assumes "req_Method r \<noteq> ''OPTIONS''" and "req_Principal r = Some p"
  shows "answers_alone (Authorize rules) r w s \<or>
    (\<exists>rl. gm_lookup rules (req_Pattern r) = Some rl \<and> admits (rr_Access rl) p \<and>
       (\<forall>next. Authorize rules next r w s = next r w s))"
proof (cases "gm_lookup rules (req_Pattern r)")
  case (Some rl)
  show ?thesis
  proof (cases "req_Pattern r = []")
    case False
    then show ?thesis
      using assms Some
      by (cases "rr_Access rl") (auto simp: Authorize_def answers_alone_def admits_def forbid_def)
  qed (use assms in \<open>auto simp: Authorize_def answers_alone_def\<close>)
qed (use assms in \<open>cases "req_Pattern r = []"; auto simp: Authorize_def answers_alone_def forbid_def\<close>)

text \<open>The composition the router uses: the inner handler runs only with a verified principal whom the
  policy's rule for the matched pattern admits, and otherwise an error is returned.\<close>

lemma guarded_cases:
  assumes "req_Method r \<noteq> ''OPTIONS''"
  shows "(\<exists>err s'. \<forall>next. Authenticate verify (Authorize rules next) r w s = (Returned (Some err), r, w, s')) \<or>
    (\<exists>token p rl. parseBearerToken (Header_Get (req_Header r) ''Authorization'') = Inr token \<and> verify token = Inr p \<and>
       gm_lookup rules (req_Pattern r) = Some rl \<and> admits (rr_Access rl) p \<and>
       (\<forall>next. Authenticate verify (Authorize rules next) r w s = with_copy r (next (r\<lparr>req_Principal := Some p\<rparr>) w s)))"
  using authenticate_cases [OF assms, of verify w s]
proof
  assume "answers_alone (Authenticate verify) r w s"
  then show ?thesis by (auto simp: answers_alone_def)
next
  assume "\<exists>token p. parseBearerToken (Header_Get (req_Header r) ''Authorization'') = Inr token \<and> verify token = Inr p \<and>
       (\<forall>next. Authenticate verify next r w s = with_copy r (next (r\<lparr>req_Principal := Some p\<rparr>) w s))"
  then obtain token p where t: "parseBearerToken (Header_Get (req_Header r) ''Authorization'') = Inr token" "verify token = Inr p"
    and a: "Authenticate verify next r w s = with_copy r (next (r\<lparr>req_Principal := Some p\<rparr>) w s)" for "next"
    by blast
  let ?r = "r\<lparr>req_Principal := Some p\<rparr>"
  have "req_Method ?r \<noteq> ''OPTIONS''" "req_Principal ?r = Some p" using assms by simp_all
  from authorize_cases [OF this, of rules w s] show ?thesis
  proof
    assume "answers_alone (Authorize rules) ?r w s"
    then show ?thesis by (auto simp: answers_alone_def a with_copy_def)
  next
    assume "\<exists>rl. gm_lookup rules (req_Pattern ?r) = Some rl \<and> admits (rr_Access rl) p \<and>
      (\<forall>next. Authorize rules next ?r w s = next ?r w s)"
    then show ?thesis using t by (auto simp: a)
  qed
qed

lemma index_rules_spec:
  "index_rules ps rules = Inr out \<Longrightarrow>
   gm_lookup out pat = (case gm_lookup rules pat of Some rl \<Rightarrow> Some rl | None \<Rightarrow> find (\<lambda>rr. rr_Pattern rr = pat) ps)"
  by (induction ps arbitrary: rules) (auto simp: gm_lookup_update split: if_splits option.splits)

section \<open>Bulkhead\<close>

text \<open>
  Requests that run at the same time: \<open>inside\<close> are the requests between the two halves of
  \<open>Bulkhead\<close>.  A request enters, is rejected, or leaves (by returning or by panicking, the
  deferred calls are the same); between these the handlers change the rest of the state.
\<close>

inductive bulkhead_step ::
  "nat \<Rightarrow> 's Counters_scheme \<times> nat set \<Rightarrow> 's Counters_scheme \<times> nat set \<Rightarrow> bool" for n :: nat where
  enter: "i \<notin> inside \<Longrightarrow> Bulkhead_enter n s = Some s' \<Longrightarrow> bulkhead_step n (s, inside) (s', insert i inside)"
| reject: "i \<notin> inside \<Longrightarrow> Bulkhead_enter n s = None \<Longrightarrow>
    bulkhead_step n (s, inside) (s\<lparr>rejectionsTotal := Int_Add 1 (rejectionsTotal s)\<rparr>, inside)"
| leave: "i \<in> inside \<Longrightarrow> bulkhead_step n (s, inside) (Bulkhead_leave s, inside - {i})"
| work: "bulkheadSem s' = bulkheadSem s \<Longrightarrow> bulkheadInFlight s' = bulkheadInFlight s \<Longrightarrow>
    bulkhead_step n (s, inside) (s', inside)"

definition bulkhead_inv :: "nat \<Rightarrow> 's Counters_scheme \<times> nat set \<Rightarrow> bool" where
  "bulkhead_inv n st \<longleftrightarrow>
     finite (snd st) \<and> bulkheadSem (fst st) = card (snd st) \<and> card (snd st) \<le> n \<and>
     bulkheadInFlight (fst st) = wrap64 (int (card (snd st)))"

lemma wrap64_add: "wrap64 (wrap64 x + y) = wrap64 (x + y)"
proof -
  have "((x + 2 ^ 63) mod 2 ^ 64 - 2 ^ 63 + y + 2 ^ 63) mod 2 ^ 64 = ((x + 2 ^ 63) mod 2 ^ 64 + y) mod (2 ^ 64 :: int)"
    by (simp add: algebra_simps)
  also have "\<dots> = (x + 2 ^ 63 + y) mod 2 ^ 64" by (rule mod_add_left_eq)
  finally show ?thesis by (simp add: wrap64_def algebra_simps)
qed

lemma bulkhead_inv_step:
  assumes "bulkhead_step n st st'" and "bulkhead_inv n st"
  shows "bulkhead_inv n st'"
  using assms
proof (induction rule: bulkhead_step.induct)
  case (leave i inside s)
  then have "0 < card inside" by (auto simp: bulkhead_inv_def card_gt_0_iff)
  with leave show ?case
    using wrap64_add [of "int (card inside)" "- 1"]
    by (auto simp: bulkhead_inv_def Bulkhead_leave_def Int_Add_def of_nat_diff)
next
  case (enter i inside s s')
  then show ?case
    using wrap64_add [of "int (card inside)" 1]
    by (auto simp: bulkhead_inv_def Bulkhead_enter_def Int_Add_def add.commute split: if_splits)
qed (auto simp: bulkhead_inv_def)

text \<open>C20: under any interleaving of requests that starts with an idle bulkhead, at most
  \<open>maxParallel\<close> requests are ever inside the wrapped handler, the semaphore and the in-flight gauge
  count exactly them, and a request is rejected only when the bulkhead is full.\<close>

theorem bulkhead_bound:
  assumes "(bulkhead_step n)\<^sup>*\<^sup>* (s0, {}) (s, inside)"
    and "bulkheadSem s0 = 0" and "bulkheadInFlight s0 = 0"
  shows "card inside \<le> n \<and> bulkheadSem s = card inside \<and> bulkheadInFlight s = wrap64 (int (card inside)) \<and>
         (Bulkhead_enter n s = None \<longleftrightarrow> card inside = n)"
proof -
  have "bulkhead_inv n (s0, {})"
    using assms(2,3) by (simp add: bulkhead_inv_def wrap64_in_range in_int64_def int64_min_def int64_max_def)
  with assms(1) have "bulkhead_inv n (s, inside)"
    by (induction "(s, inside)" arbitrary: s inside rule: rtranclp_induct)
       (use bulkhead_inv_step in \<open>auto\<close>)
  then show ?thesis by (auto simp: bulkhead_inv_def Bulkhead_enter_def split: if_splits)
qed

definition sample_counters :: Counters where
  "sample_counters = \<lparr>authnFailures = [], forbiddenTotal = 0, rejectionsTotal = 0, bulkheadInFlight = 0, bulkheadSem = 0,
     rateLimitedTotal = 0, corsPreflightTotal = 0, corsDeniedTotal = 0,
     httpMetrics = \<lparr>hm_inFlight = 0, hm_requestsTotal = [], hm_errorsTotal = [], hm_latencySumNS = [], hm_latencyCount = []\<rparr>,
     logs = []\<rparr>"

theorem bulkhead_bound_witness:
  "Bulkhead_enter 1 (sample_counters\<lparr>bulkheadSem := 1, bulkheadInFlight := 1\<rparr>) = None"
proof -
  let ?s = "sample_counters\<lparr>bulkheadSem := 1, bulkheadInFlight := 1\<rparr>"
  have "Bulkhead_enter 1 sample_counters = Some ?s"
    by (simp add: Bulkhead_enter_def sample_counters_def Int_Add_def wrap64_def)
  then have "bulkhead_step 1 (sample_counters, {}) (?s, {7})"
    by (rule bulkhead_step.enter [rotated]) simp
  from bulkhead_bound [OF r_into_rtranclp [of "bulkhead_step 1", OF this]] show ?thesis
    by (simp add: sample_counters_def)
qed

section \<open>CORS\<close>

text \<open>What the response says about the origin: the origin itself, listed, or the wildcard without
  credentials.\<close>

definition cors_headers_ok :: "CORSConfig \<Rightarrow> string \<Rightarrow> ResponseWriter \<Rightarrow> bool" where
  "cors_headers_ok cfg origin w \<longleftrightarrow>
     (Header_Get (rw_Header w) ''Access-Control-Allow-Origin'' = origin \<and> origin \<in> set (co_AllowedOrigins cfg) \<or>
      Header_Get (rw_Header w) ''Access-Control-Allow-Origin'' = ''*'' \<and> ''*'' \<in> set (co_AllowedOrigins cfg) \<and>
      \<not> co_AllowCredentials cfg) \<and>
     Header_Get (rw_Header w) ''Access-Control-Allow-Credentials'' = (if co_AllowCredentials cfg then ''true'' else [])"

definition is_preflight :: "Request \<Rightarrow> bool" where
  "is_preflight r \<longleftrightarrow>
     req_Method r = ''OPTIONS'' \<and> Header_Get (req_Header r) ''Access-Control-Request-Method'' \<noteq> []"

lemma canonical_names [simp]:
  "CanonicalHeaderKey ''Vary'' = ''Vary''"
  "CanonicalHeaderKey ''Content-Type'' = ''Content-Type''"
  "CanonicalHeaderKey ''X-Request-Id'' = ''X-Request-Id''"
  "CanonicalHeaderKey ''Access-Control-Allow-Origin'' = ''Access-Control-Allow-Origin''"
  "CanonicalHeaderKey ''Access-Control-Allow-Credentials'' = ''Access-Control-Allow-Credentials''"
  "CanonicalHeaderKey ''Access-Control-Allow-Methods'' = ''Access-Control-Allow-Methods''"
  "CanonicalHeaderKey ''Access-Control-Allow-Headers'' = ''Access-Control-Allow-Headers''"
  "CanonicalHeaderKey ''Access-Control-Max-Age'' = ''Access-Control-Max-Age''"
  by code_simp+

lemma AddVary_other [simp]:
  "CanonicalHeaderKey k \<noteq> ''Vary'' \<Longrightarrow> Header_Get (rw_Header (AddVary t w)) k = Header_Get (rw_Header w) k"
  by (simp add: AddVary_def Header_Get_def)

lemma AddVary_status [simp]: "rw_Status (AddVary t w) = rw_Status w"
  by (simp add: AddVary_def)

lemma WriteProblem_status: "rw_Status w = None \<Longrightarrow> p_Status p \<noteq> 0 \<Longrightarrow> rw_Status (WriteProblem w r p) = Some (p_Status p)"
  by (simp add: WriteProblem_def Let_def Write_def WriteHeader_def complete_problem_status)

lemma WriteProblem_header:
  assumes "CanonicalHeaderKey k \<noteq> ''Content-Type''" and "CanonicalHeaderKey k \<noteq> ''X-Request-Id''"
  shows "Header_Get (rw_Header (WriteProblem w r p)) k = Header_Get (rw_Header w) k"
  using assms by (simp add: WriteProblem_def Let_def Write_def WriteHeader_def HeaderName_def split: option.split)

text \<open>The header that names the origin, set or absent; a denied request may lack it.\<close>

lemma cors_deny_result:
  assumes "rw_Status w = None"
  shows "\<exists>w'. cors_deny rs d r w s = (Returned (), r, w', logCORSDenied r rs (s\<lparr>corsDeniedTotal := Int_Add 1 (corsDeniedTotal s)\<rparr>)) \<and>
    rw_Status w' = Some 403 \<and>
    Header_Get (rw_Header w') ''Access-Control-Allow-Credentials'' = Header_Get (rw_Header w) ''Access-Control-Allow-Credentials'' \<and>
    Header_Get (rw_Header w') ''Access-Control-Allow-Origin'' = Header_Get (rw_Header w) ''Access-Control-Allow-Origin''"
  using WriteProblem_status [OF assms] by (simp add: cors_deny_def WriteProblem_header problem_def)

lemma cors_preflight_result:
  assumes "rw_Status w = None"
  shows "\<exists>w' s' st. cors_preflight c r w s = (Returned (), r, w', s') \<and> rw_Status w' = Some st \<and> (st = 403 \<or> st = 204) \<and>
    Header_Get (rw_Header w') ''Access-Control-Allow-Credentials'' = Header_Get (rw_Header w) ''Access-Control-Allow-Credentials'' \<and>
    Header_Get (rw_Header w') ''Access-Control-Allow-Origin'' = Header_Get (rw_Header w) ''Access-Control-Allow-Origin''"
proof -
  let ?m = "isMethodAllowed c (ToUpper (TrimSpace (Header_Get (req_Header r) ''Access-Control-Request-Method'')))"
  let ?h = "areRequestHeadersAllowed c (Header_Get (req_Header r) ''Access-Control-Request-Headers'')"
  consider "\<not> ?m" | "?m" "\<not> ?h" | "?m" "?h" by blast
  then show ?thesis
  proof cases
    case 1
    then show ?thesis
      using cors_deny_result [OF assms, of "''method''" "''cors method denied''" r s] by (auto simp: cors_preflight_def Let_def)
  next
    case 2
    then show ?thesis
      using cors_deny_result [OF assms, of "''headers''" "''cors headers denied''" r s] by (auto simp: cors_preflight_def Let_def)
  next
    case 3
    then show ?thesis
      using assms by (simp add: cors_preflight_def Let_def WriteHeader_def)
  qed
qed

text \<open>C25: a cross-origin request reaches the wrapped handler only when its origin is listed or the
  wildcard is, and the headers then name that origin, or the wildcard without credentials; every other
  request is answered 403, or 204 for an accepted preflight, and the credentials header never
  comes with the wildcard.\<close>

theorem cors_policy:
  assumes origin: "Header_Get (req_Header r) ''Origin'' \<noteq> []" and fresh: "rw_Status w = None"
    and clean: "Header_Get (rw_Header w) ''Access-Control-Allow-Credentials'' = []"
  shows "(\<exists>w'. (\<forall>next. CORS (NewCORS cfg) next r w s = next r w' s) \<and>
            cors_headers_ok cfg (Header_Get (req_Header r) ''Origin'') w' \<and> \<not> is_preflight r) \<or>
         (\<exists>w' s' st. (\<forall>next. CORS (NewCORS cfg) next r w s = (Returned (), r, w', s')) \<and> rw_Status w' = Some st \<and>
            (st = 403 \<or> st = 204 \<and> is_preflight r \<and> cors_headers_ok cfg (Header_Get (req_Header r) ''Origin'') w') \<and>
            (Header_Get (rw_Header w') ''Access-Control-Allow-Credentials'' = [] \<or>
             cors_headers_ok cfg (Header_Get (req_Header r) ''Origin'') w'))"
proof -
  let ?o = "Header_Get (req_Header r) ''Origin''" and ?c = "NewCORS cfg"
  define w0 where "w0 = (if cors_allowAny ?c then w else AddVary ''Origin'' w)"
  define w1 where "w1 = set_header ''Access-Control-Allow-Origin'' (if cors_allowAny ?c then ''*'' else ?o) w0"
  define w2 where "w2 = (if cors_allowCredentials ?c then set_header ''Access-Control-Allow-Credentials'' ''true'' w1 else w1)"
  have w0: "rw_Status w0 = None" "Header_Get (rw_Header w0) ''Access-Control-Allow-Credentials'' = []"
    using fresh clean by (simp_all add: w0_def)
  have w2: "rw_Status w2 = None" using w0 by (simp add: w2_def w1_def)
  have run: "CORS ?c next r w s =
      (if \<not> isOriginAllowed ?c ?o then cors_deny ''origin'' ''cors origin denied'' r w s
       else if cors_allowCredentials ?c \<and> (if cors_allowAny ?c then ''*'' else ?o) = ''*''
            then cors_deny ''credentials_wildcard'' ''cors credentials with wildcard origin is not allowed'' r w0 s
       else if is_preflight r then cors_preflight ?c r w2 s else next r w2 s)" for "next"
    using origin by (simp add: CORS_def Let_def w0_def w1_def w2_def is_preflight_def)
  have ok: "cors_headers_ok cfg ?o w2" if "isOriginAllowed ?c ?o"
      and "\<not> (cors_allowCredentials ?c \<and> (if cors_allowAny ?c then ''*'' else ?o) = ''*'')"
    using that w0 unfolding cors_headers_ok_def w2_def w1_def
    by (auto simp: isOriginAllowed_def NewCORS_def list_ex_iff split: if_splits)
  show ?thesis
  proof (cases "isOriginAllowed ?c ?o \<and> \<not> (cors_allowCredentials ?c \<and> (if cors_allowAny ?c then ''*'' else ?o) = ''*'')")
    case True
    show ?thesis
    proof (cases "is_preflight r")
      case pre: True
      obtain w' s' st where "cors_preflight ?c r w2 s = (Returned (), r, w', s')" "rw_Status w' = Some st" "st = 403 \<or> st = 204"
        "cors_headers_ok cfg ?o w'"
        using cors_preflight_result [OF w2, of ?c r s] ok True by (auto simp: cors_headers_ok_def)
      then show ?thesis using True pre run by auto
    next
      case False
      then show ?thesis using True ok run by auto
    qed
  next
    case False
    then show ?thesis
      using run cors_deny_result [OF fresh, of "''origin''" "''cors origin denied''" r s] w0 clean
        cors_deny_result [OF w0(1), of "''credentials_wildcard''" "''cors credentials with wildcard origin is not allowed''" r s]
      by (cases "isOriginAllowed ?c ?o") auto
  qed
qed

definition sample_request :: Request where
  "sample_request = \<lparr>req_Method = ''GET'', req_Path = ''/api/v1/users'', req_Pattern = ''GET /api/v1/users'', req_PathValues = [],
     req_RawQuery = [], req_Header = [(''Origin'', [''https://example.com'']), (''X-Forwarded-For'', [''9.9.9.9'']), (''X-Request-Id'', [''evil''])],
     req_Body = [], req_BodyLimit = None, req_RemoteAddr = ''192.0.2.1:4711'', req_TLS = False, req_RequestID = None, req_Principal = None, req_Info = None\<rparr>"


definition sample_cors :: CORSConfig where
  "sample_cors = \<lparr>co_AllowedOrigins = [''https://other.example''], co_AllowedMethods = [''GET''], co_AllowedHeaders = [],
     co_AllowCredentials = True, co_MaxAge = 0\<rparr>"

theorem cors_policy_witness:
  "\<exists>w' s'. CORS (NewCORS sample_cors) (\<lambda>r w s. (Panicked, r, w, s)) sample_request fresh_writer sample_counters =
       (Returned (), sample_request, w', s') \<and> rw_Status w' = Some 403"
proof -
  have origin: "Header_Get (req_Header sample_request) ''Origin'' = ''https://example.com''" by code_simp
  have "\<not> cors_headers_ok sample_cors ''https://example.com'' w'" for w'
    by (simp add: cors_headers_ok_def sample_cors_def)
  moreover have "\<not> is_preflight sample_request" by (simp add: is_preflight_def sample_request_def)
  ultimately show ?thesis
    using cors_policy [of sample_request fresh_writer sample_cors sample_counters] origin
    by (fastforce simp: fresh_writer_def)
qed

section \<open>Trusted proxies\<close>

lemma first_ip_parses: "first_ip ps \<noteq> [] \<Longrightarrow> ParseIP (first_ip ps) \<noteq> None"
  by (induction ps) (auto simp: Let_def split: if_splits)

text \<open>The peer's own address and scheme.\<close>

definition direct_info :: "Request \<Rightarrow> RequestInfo" where
  "direct_info r = \<lparr>ri_ClientIP = parseRemoteIP (req_RemoteAddr r), ri_Scheme = (if req_TLS r then ''https'' else ''http'')\<rparr>"

lemma proxy_untrusted:
  "\<not> isTrustedProxy p (parseRemoteIP (req_RemoteAddr r)) \<Longrightarrow> proxy_request_info p r = direct_info r"
  by (simp add: proxy_request_info_def direct_info_def Let_def)

text \<open>C26: the outermost handlers (request-id sanitiser, request-id, proxy trust) let a peer outside the
  configured networks choose nothing: whatever its headers say, the inner handler sees the fresh request
  identifier, the peer's own address and the scheme of the connection.  For a trusted peer, a client
  address that differs from the peer's is a valid IP address taken from \<open>X-Forwarded-For\<close>, and only
  when that header is trusted.\<close>

theorem trust_proxy:
  "(if isTrustedProxy p (parseRemoteIP (req_RemoteAddr r)) \<and> parseRemoteIP (req_RemoteAddr r) \<noteq> []
    then proxy_request_info p r = direct_info r \<or> px_trustXFF p \<or> px_trustXFP p
    else \<exists>hdr. \<forall>next. snd (snd (SanitizeRequestIDHeader p (RequestIDMiddleware fresh (TrustProxy p next)) r w s)) =
           snd (snd (next (r\<lparr>req_Header := hdr, req_RequestID := Some fresh, req_Info := Some (direct_info r)\<rparr>)
                       (set_header HeaderName fresh w) s))) \<and>
   (ri_ClientIP (proxy_request_info p r) = parseRemoteIP (req_RemoteAddr r) \<or>
    px_trustXFF p \<and> ParseIP (ri_ClientIP (proxy_request_info p r)) \<noteq> None)"
proof -
  have untrusted: "\<exists>hdr. \<forall>next. snd (snd (SanitizeRequestIDHeader p (RequestIDMiddleware fresh (TrustProxy p next)) r w s)) =
           snd (snd (next (r\<lparr>req_Header := hdr, req_RequestID := Some fresh, req_Info := Some (direct_info r)\<rparr>)
                       (set_header HeaderName fresh w) s))"
    if u: "\<not> isTrustedProxy p (parseRemoteIP (req_RemoteAddr r)) \<or> parseRemoteIP (req_RemoteAddr r) = []"
  proof (intro exI allI)
    fix "next" :: "Request \<Rightarrow> ResponseWriter \<Rightarrow> 'a \<Rightarrow> unit outcome \<times> Request \<times> ResponseWriter \<times> 'a"
    let ?h = "Header_Del HeaderName (req_Header r)"
    let ?r = "r\<lparr>req_Header := ?h, req_RequestID := Some fresh\<rparr>"
    have "proxy_request_info p ?r = direct_info r"
      using u by (auto simp: proxy_request_info_def direct_info_def Let_def)
    moreover have "sanitizeRequestID (Header_Get ?h HeaderName) = None"
      by (simp add: sanitizeRequestID_def)
    ultimately show "snd (snd (SanitizeRequestIDHeader p (RequestIDMiddleware fresh (TrustProxy p next)) r w s)) =
        snd (snd (next (r\<lparr>req_Header := ?h, req_RequestID := Some fresh, req_Info := Some (direct_info r)\<rparr>)
                    (set_header HeaderName fresh w) s))"
      using u by (auto simp: SanitizeRequestIDHeader_def RequestIDMiddleware_def TrustProxy_def with_copy_def Let_def)
  qed
  moreover have "proxy_request_info p r = direct_info r \<or> px_trustXFF p \<or> px_trustXFP p"
    by (auto simp: proxy_request_info_def direct_info_def Let_def)
  moreover have "ri_ClientIP (proxy_request_info p r) = parseRemoteIP (req_RemoteAddr r) \<or>
    px_trustXFF p \<and> ParseIP (ri_ClientIP (proxy_request_info p r)) \<noteq> None"
    using first_ip_parses [of "Split (Header_Get (req_Header r) ''X-Forwarded-For'') CHR '',''"]
    by (auto simp: proxy_request_info_def firstIPFromXFF_def Let_def)
  ultimately show ?thesis by auto
qed

definition sample_proxy :: ProxyAPI where
  "sample_proxy = \<lparr>px_trustedNets = [\<lparr>net_IP = [10, 0, 0, 0], net_Ones = 8, net_Len = 32\<rparr>], px_trustXFF = True, px_trustXFP = True\<rparr>"

theorem trust_proxy_witness:
  "\<exists>hdr. \<forall>next. snd (snd (SanitizeRequestIDHeader sample_proxy (RequestIDMiddleware ''rid-1'' (TrustProxy sample_proxy next))
       sample_request fresh_writer sample_counters)) =
     snd (snd (next (sample_request\<lparr>req_Header := hdr, req_RequestID := Some ''rid-1'',
         req_Info := Some \<lparr>ri_ClientIP = ''192.0.2.1'', ri_Scheme = ''http''\<rparr>\<rparr>) (set_header HeaderName ''rid-1'' fresh_writer)
       sample_counters))"
proof -
  have "\<not> isTrustedProxy sample_proxy (parseRemoteIP (req_RemoteAddr sample_request))" by code_simp
  moreover have "direct_info sample_request = \<lparr>ri_ClientIP = ''192.0.2.1'', ri_Scheme = ''http''\<rparr>" by code_simp
  ultimately show ?thesis
    using trust_proxy [of sample_proxy sample_request "''rid-1''" fresh_writer sample_counters] by simp
qed

section \<open>Recorder and recovery\<close>

text \<open>Recording commutes with writing: the recorder around \<open>w\<close> reports the status its writer sends and the bytes
  written since.\<close>

definition recorder_ok :: "(response_body \<Rightarrow> int64) \<Rightarrow> ResponseWriter \<Rightarrow> statusRecorder \<Rightarrow> bool" where
  "recorder_ok sz w sr \<longleftrightarrow>
     (if sr_wroteHeader sr then rw_Status (sr_ResponseWriter sr) = Some (sr_status sr)
      else rw_Status (sr_ResponseWriter sr) = None \<and> sr_status sr = 200) \<and>
     length (rw_Body w) \<le> length (rw_Body (sr_ResponseWriter sr)) \<and>
     sr_bytes sr = response_bytes sz w (sr_ResponseWriter sr)"

lemma recorder_reports:
  "recorder_ok sz w sr \<Longrightarrow> sr_status sr = response_status (sr_ResponseWriter sr) \<and>
     sr_bytes sr = response_bytes sz w (sr_ResponseWriter sr)"
  by (auto simp: recorder_ok_def response_status_def split: if_splits)

lemma body_WriteHeader [simp]: "rw_Body (WriteHeader st w) = rw_Body w"
  by (simp add: WriteHeader_def split: option.splits)

lemma recorder_new: "rw_Status w = None \<Longrightarrow> recorder_ok sz w (newStatusRecorder w)"
  by (simp add: recorder_ok_def newStatusRecorder_def response_bytes_def)

lemma recorder_WriteHeader:
  "recorder_ok sz w sr \<Longrightarrow> recorder_ok sz w (statusRecorder_WriteHeader code sr) \<and>
     sr_ResponseWriter (statusRecorder_WriteHeader code sr) = WriteHeader code (sr_ResponseWriter sr)"
  by (auto simp: recorder_ok_def statusRecorder_WriteHeader_def response_bytes_def WriteHeader_def split: if_splits option.splits)

lemma recorder_Write:
  assumes "recorder_ok sz w sr"
  shows "recorder_ok sz w (statusRecorder_Write sz b sr) \<and>
     sr_ResponseWriter (statusRecorder_Write sz b sr) = Write b (sr_ResponseWriter sr)"
proof -
  define sr1 where "sr1 = (if \<not> sr_wroteHeader sr then statusRecorder_WriteHeader 200 sr else sr)"
  have ok: "recorder_ok sz w sr1" "sr_wroteHeader sr1"
    using assms recorder_WriteHeader [OF assms, of 200] by (auto simp: sr1_def statusRecorder_WriteHeader_def)
  have "sr_ResponseWriter sr1 = WriteHeader 200 (sr_ResponseWriter sr)"
    using assms recorder_WriteHeader [OF assms, of 200] by (auto simp: sr1_def recorder_ok_def WriteHeader_def)
  moreover have "WriteHeader 200 (WriteHeader 200 v) = WriteHeader 200 v" for v
    by (simp add: WriteHeader_def split: option.splits)
  moreover have "Write b (sr_ResponseWriter sr1) = (sr_ResponseWriter sr1)\<lparr>rw_Body := rw_Body (sr_ResponseWriter sr1) @ [b]\<rparr>"
    using ok by (simp add: Write_def WriteHeader_def recorder_ok_def Let_def)
  ultimately show ?thesis
    using ok by (simp add: statusRecorder_Write_def sr1_def [symmetric] Let_def recorder_ok_def response_bytes_def Write_def)
qed

lemma recorder_Flush: "recorder_ok sz w sr \<Longrightarrow> recorder_ok sz w (snd (statusRecorder_FlushError f sr))"
  using recorder_WriteHeader [of sz w sr 200]
  by (auto simp: statusRecorder_FlushError_def Let_def split: flusher.splits)

lemma Recover_returns: "fst (Recover ob next r w s) \<noteq> Panicked"
  by (auto simp: Recover_def Let_def split: outcome.splits prod.splits)

lemma Metrics_balanced:
  assumes "\<And>r w s. hm_inFlight (httpMetrics (snd (snd (snd (next r w s))))) = hm_inFlight (httpMetrics s)"
    and "in_int64 (hm_inFlight (httpMetrics s))"
  shows "hm_inFlight (httpMetrics (snd (snd (snd (Metrics elapsed next r w s))))) = hm_inFlight (httpMetrics s)"
proof -
  obtain out r1 w1 s1 where run: "next r w (Metrics_in_flight 1 s) = (out, r1, w1, s1)" by (metis prod_cases4)
  have g: "hm_inFlight (HTTPMetrics_Observe m pat st d hm) = hm_inFlight hm" for m pat st d hm
    by (simp add: HTTPMetrics_Observe_def Let_def)
  have "hm_inFlight (httpMetrics s1) = Int_Add 1 (hm_inFlight (httpMetrics s))"
    using assms(1) [of r w "Metrics_in_flight 1 s"] run by (simp add: Metrics_in_flight_def)
  then show ?thesis
    using run assms(2) wrap64_add [of "hm_inFlight (httpMetrics s) + 1" "- 1"]
    by (simp add: Metrics_def Metrics_in_flight_def Int_Add_def g wrap64_in_range split: outcome.split option.split)
qed

end
