(* ===== verification/Outbound.thy ===== *)
theory Outbound
  imports Services Middleware
begin

text \<open>
  The client of the profile service (\<open>internal/outbound\<close>): one HTTP request and the classification of
  its failures, the instrumented client with the outbound metrics, and the retrying client with
  exponential back-off, jitter and deadlines.  Time is a clock in the state; a context has a deadline
  and a moment of cancellation.  The HTTP transport, the JSON decoder and the random numbers are
  parameters.
\<close>

section \<open>Kinds of failure\<close>

definition KindLabel :: "go_error \<Rightarrow> string" where
  "KindLabel err =
     (if errors_Is err Profile_ErrTimeout then ''timeout''
      else if errors_Is err Profile_ErrCanceled then ''canceled''
      else if errors_Is err Profile_ErrNetwork then ''network''
      else if errors_Is err Profile_ErrUpstream5xx then ''5xx''
      else if errors_Is err Profile_ErrUpstream4xx then ''4xx''
      else if errors_Is err Profile_ErrParse then ''parse''
      else if errors_Is err Profile_ErrBadResponse then ''bad_response''
      else ''unknown'')"

definition profileErrorStatus :: "go_error option \<Rightarrow> int" where
  "profileErrorStatus err =
     (case err of
        None \<Rightarrow> 200
      | Some e \<Rightarrow> (case errors_As as_Profile e of Some st \<Rightarrow> st | None \<Rightarrow> 0))"

definition isTimeout :: "go_error \<Rightarrow> bool" where
  "isTimeout err \<longleftrightarrow> errors_As as_NetTimeout err = Some True"

section \<open>One request\<close>

text \<open>What the transport sends back: a status and the result of decoding the body.\<close>

record http_response =
  resp_StatusCode :: int
  resp_Decoded :: "go_error + Profile"

record outgoing =
  out_URL :: URL
  out_Accept :: string
  out_RequestID :: string

type_synonym 's transport = "outgoing \<Rightarrow> 's \<Rightarrow> (go_error + http_response) \<times> 's"
type_synonym 's profile_client = "int64 \<Rightarrow> string \<Rightarrow> 's \<Rightarrow> (go_error + Profile) \<times> 's"

text \<open>\<open>base.JoinPath("profiles", id)\<close> for a base path without dot segments.\<close>

definition profile_url :: "URL \<Rightarrow> int64 \<Rightarrow> URL" where
  "profile_url base userID = base\<lparr>u_Path := TrimRightByte (u_Path base) CHR ''/'' @ ''/profiles/'' @ Itoa userID\<rparr>"

definition classify_do_error :: "go_error \<Rightarrow> go_error" where
  "classify_do_error err =
     (if errors_Is err ContextCanceled then ProfileError Profile_ErrCanceled 0 (Some err)
      else if errors_Is err ContextDeadlineExceeded \<or> isTimeout err then ProfileError Profile_ErrTimeout 0 (Some err)
      else ProfileError Profile_ErrNetwork 0 (Some err))"

definition classify_response :: "http_response \<Rightarrow> go_error + Profile" where
  "classify_response resp =
     (let code = resp_StatusCode resp in
      if code \<noteq> 200 then
        Inl (if code \<ge> 500 then ProfileError Profile_ErrUpstream5xx code None
             else if code \<ge> 400 \<and> code \<le> 499 then ProfileError Profile_ErrUpstream4xx code None
             else ProfileError Profile_ErrBadResponse code None)
      else
        (case resp_Decoded resp of
           Inl err \<Rightarrow> Inl (ProfileError Profile_ErrParse code (Some err))
         | Inr p \<Rightarrow> Inr p))"

definition ClientImpl_FetchProfile :: "URL option \<Rightarrow> 's transport \<Rightarrow> 's profile_client" where
  "ClientImpl_FetchProfile base do_request userID requestID s =
     (case base of
        None \<Rightarrow> (Inl (ProfileError Profile_ErrBadResponse 0 (Some (OpaqueError ''base url is nil''))), s)
      | Some b \<Rightarrow>
          (case url_Parse (URL_String (profile_url b userID)) of
             None \<Rightarrow> (Inl (ProfileError Profile_ErrBadResponse 0 (Some (OpaqueError []))), s)
           | Some u \<Rightarrow>
               (case do_request \<lparr>out_URL = u, out_Accept = ''application/json'', out_RequestID = requestID\<rparr> s of
                  (Inl err, s1) \<Rightarrow> (Inl (classify_do_error err), s1)
                | (Inr resp, s1) \<Rightarrow> (classify_response resp, s1))))"

section \<open>Outbound metrics\<close>

text \<open>\<open>time.Time.Sub\<close> saturates at the ends of the 64-bit range.\<close>

definition time_Sub :: "int \<Rightarrow> int \<Rightarrow> int64" where
  "time_Sub t u = max int64_min (min int64_max (t - u))"

record OutboundMetrics =
  om_requestsTotal :: "(string, int64) gomap"
  om_latencySumNS :: "(string, int64) gomap"
  om_latencyCount :: "(string, int64) gomap"
  om_errorsTotal :: "(string, int64) gomap"

definition statusClass :: "int \<Rightarrow> string" where
  "statusClass status =
     (if status = 0 then ''error''
      else if status < 100 \<or> status > 599 then ''unknown''
      else Itoa (go_div status 100) @ ''xx'')"

definition OutboundMetrics_Observe :: "string \<Rightarrow> string \<Rightarrow> int \<Rightarrow> int64 \<Rightarrow> OutboundMetrics \<Rightarrow> OutboundMetrics" where
  "OutboundMetrics_Observe host0 route0 status d m =
     (let host = (if host0 = [] then ''<unknown>'' else host0);
          route = (if route0 = [] then ''<unknown>'' else route0);
          reqKey = host @ ''|'' @ route @ ''|'' @ statusClass status;
          baseKey = host @ ''|'' @ route
      in m\<lparr>om_requestsTotal := Map_Add reqKey 1 (om_requestsTotal m),
           om_latencySumNS := Map_Add baseKey d (om_latencySumNS m),
           om_latencyCount := Map_Add baseKey 1 (om_latencyCount m)\<rparr>)"

definition OutboundMetrics_IncError :: "string \<Rightarrow> OutboundMetrics \<Rightarrow> OutboundMetrics" where
  "OutboundMetrics_IncError kind m =
     m\<lparr>om_errorsTotal := Map_Add (if kind = [] then ''unknown'' else kind) 1 (om_errorsTotal m)\<rparr>"

text \<open>The state of a call: the clock, the metrics and the log, and the rest.\<close>

record Calls =
  now :: int
  outMetrics :: OutboundMetrics
  outLog :: "log_record list"

text \<open>The time that passed since \<open>start\<close>, in milliseconds.\<close>

definition since_ms :: "int \<Rightarrow> 's Calls_scheme \<Rightarrow> int64" where
  "since_ms start s = go_div (time_Sub (now s) start) time_Millisecond"

definition outbound_log :: "int \<Rightarrow> string \<Rightarrow> log_attrs \<Rightarrow> 's Calls_scheme \<Rightarrow> 's Calls_scheme" where
  "outbound_log level msg attrs s =
     s\<lparr>outLog := outLog s @ [\<lparr>lr_Component = ''outbound_profile'', lr_Level = level, lr_Message = msg, lr_Attrs = attrs\<rparr>]\<rparr>"

lemma outbound_log_simps [simp]:
  "now (outbound_log lv msg attrs s) = now s" "outMetrics (outbound_log lv msg attrs s) = outMetrics s"
  by (simp_all add: outbound_log_def)

definition log_request :: "string \<Rightarrow> string \<Rightarrow> go_error option \<Rightarrow> int64 \<Rightarrow> 's Calls_scheme \<Rightarrow> 's Calls_scheme" where
  "log_request host requestID err d =
     (let attrs = (\<lambda>event. [(''event'', LogString event), (''operation'', LogString ''profile.fetch''), (''request_id'', LogString requestID),
            (''host'', LogString host), (''method'', LogString ''GET''), (''route'', LogString ''/profiles/{user_id}''),
            (''status'', LogInt (profileErrorStatus err)), (''duration_ms'', LogInt (go_div d time_Millisecond))])
      in case err of
           Some e \<Rightarrow> outbound_log LevelWarn ''outbound request failed''
             (attrs ''profile.request.failed'' @ [(''error_kind'', LogString (KindLabel e))])
         | None \<Rightarrow> outbound_log LevelInfo ''outbound request completed'' (attrs ''profile.request.completed''))"

definition Instrumented_FetchProfile :: "string \<Rightarrow> 's Calls_scheme profile_client \<Rightarrow> 's Calls_scheme profile_client" where
  "Instrumented_FetchProfile host next userID requestID s =
     (let (res, s1) = next userID requestID s;
          d = time_Sub (now s1) (now s);
          err = (case res of Inl e \<Rightarrow> Some e | Inr _ \<Rightarrow> None);
          m1 = (case err of Some e \<Rightarrow> OutboundMetrics_IncError (KindLabel e) (outMetrics s1) | None \<Rightarrow> outMetrics s1);
          m2 = OutboundMetrics_Observe host ''GET /profiles/{user_id}'' (profileErrorStatus err) d m1
      in (res, log_request host requestID err d (s1\<lparr>outMetrics := m2\<rparr>)))"

section \<open>Retries\<close>

record Ctx =
  ctx_deadline :: "int64 option"
  ctx_canceledAt :: "int64 option"

text \<open>When the context is done, and why: the earlier of its deadline and its cancellation.\<close>

definition ctx_done :: "Ctx \<Rightarrow> (int64 \<times> sentinel) option" where
  "ctx_done ctx =
     (case (ctx_deadline ctx, ctx_canceledAt ctx) of
        (None, None) \<Rightarrow> None
      | (Some d, None) \<Rightarrow> Some (d, ContextDeadlineExceeded)
      | (None, Some c) \<Rightarrow> Some (c, ContextCanceled)
      | (Some d, Some c) \<Rightarrow> if d \<le> c then Some (d, ContextDeadlineExceeded) else Some (c, ContextCanceled))"

definition ctx_Err :: "Ctx \<Rightarrow> 's Calls_scheme \<Rightarrow> go_error option" where
  "ctx_Err ctx s =
     (case ctx_done ctx of
        Some (t, e) \<Rightarrow> if t \<le> now s then Some (Sentinel e) else None
      | None \<Rightarrow> None)"

record RetryingProfileClient =
  rc_maxAttempts :: int64
  rc_baseDelay :: int64
  rc_maxDelay :: int64

definition NewRetryingProfileClient :: "int64 \<Rightarrow> int64 \<Rightarrow> int64 \<Rightarrow> RetryingProfileClient" where
  "NewRetryingProfileClient maxAttempts baseDelay maxDelay =
     \<lparr>rc_maxAttempts = (if maxAttempts < 1 then 1 else maxAttempts),
      rc_baseDelay = (if baseDelay < 0 then 0 else baseDelay),
      rc_maxDelay = (if maxDelay < 0 then 0 else maxDelay)\<rparr>"

definition isRetryableProfileError :: "go_error \<Rightarrow> bool" where
  "isRetryableProfileError err \<longleftrightarrow>
     errors_Is err Profile_ErrTimeout \<or> errors_Is err Profile_ErrNetwork \<or> errors_Is err Profile_ErrUpstream5xx"

definition ctxToProfileError :: "go_error \<Rightarrow> go_error" where
  "ctxToProfileError err =
     (if errors_Is err ContextCanceled then ProfileError Profile_ErrCanceled 0 (Some err)
      else ProfileError Profile_ErrTimeout 0 (Some err))"

text \<open>The delay before jitter: doubled in 64 bits, capped at the end.\<close>

fun double_delay :: "nat \<Rightarrow> int64 \<Rightarrow> int64" where
  "double_delay 0 delay = delay"
| "double_delay (Suc n) delay = (if delay \<le> 0 then 0 else double_delay n (wrap64 (delay * 2)))"

definition backoff_ceiling :: "RetryingProfileClient \<Rightarrow> nat \<Rightarrow> int64" where
  "backoff_ceiling c attempt =
     (let delay0 = double_delay (attempt - 1) (rc_baseDelay c);
          delay = (if rc_maxDelay c > 0 \<and> delay0 > rc_maxDelay c then rc_maxDelay c else delay0)
      in if delay \<le> 0 then 0 else delay)"

text \<open>\<open>rng.Int63n\<close> is a parameter; it panics when its argument is not positive.\<close>

definition backoffWithJitter ::
  "(int64 \<Rightarrow> 's \<Rightarrow> int64 \<times> 's) \<Rightarrow> RetryingProfileClient \<Rightarrow> nat \<Rightarrow> 's \<Rightarrow> int64 outcome \<times> 's" where
  "backoffWithJitter Int63n c attempt s =
     (let delay = backoff_ceiling c attempt; n = wrap64 (delay + 1) in
      if delay \<le> 0 then (Returned 0, s)
      else if n \<le> 0 then (Panicked, s)
      else (case Int63n n s of (d, s1) \<Rightarrow> (Returned d, s1)))"

text \<open>The milliseconds a log record mentions, if the context has a deadline.\<close>

definition deadlineRemainingMS :: "Ctx \<Rightarrow> 's Calls_scheme \<Rightarrow> int64 \<times> bool" where
  "deadlineRemainingMS ctx s =
     (case ctx_deadline ctx of
        None \<Rightarrow> (0, False)
      | Some deadline \<Rightarrow>
          (let remaining = time_Sub deadline (now s) in (go_div (if remaining < 0 then 0 else remaining) time_Millisecond, True)))"

text \<open>The log of the retries; nothing is written when only one attempt is allowed.\<close>

definition deadline_attr :: "Ctx \<Rightarrow> 's Calls_scheme \<Rightarrow> log_attrs" where
  "deadline_attr ctx s =
     (case deadlineRemainingMS ctx s of (remaining, ok) \<Rightarrow> if ok then [(''deadline_remaining_ms'', LogInt remaining)] else [])"

definition logRetryScheduled ::
  "RetryingProfileClient \<Rightarrow> Ctx \<Rightarrow> string \<Rightarrow> nat \<Rightarrow> int64 \<Rightarrow> go_error \<Rightarrow> 's Calls_scheme \<Rightarrow> 's Calls_scheme" where
  "logRetryScheduled c ctx requestID attempt delay err s =
     (if rc_maxAttempts c \<le> 1 then s
      else outbound_log LevelInfo ''profile retry scheduled''
        ([(''event'', LogString ''profile.retry.scheduled''), (''operation'', LogString ''profile.fetch''), (''request_id'', LogString requestID),
          (''attempt'', LogInt (int attempt)), (''max_attempts'', LogInt (rc_maxAttempts c)),
          (''backoff_ms'', LogInt (go_div delay time_Millisecond)), (''retryable'', LogBool True),
          (''error_kind'', LogString (KindLabel err)), (''status'', LogInt (profileErrorStatus (Some err)))] @ deadline_attr ctx s) s)"

definition logRetryCompleted ::
  "RetryingProfileClient \<Rightarrow> Ctx \<Rightarrow> string \<Rightarrow> nat \<Rightarrow> int \<Rightarrow> string \<Rightarrow> go_error option \<Rightarrow> 's Calls_scheme \<Rightarrow> 's Calls_scheme" where
  "logRetryCompleted c ctx requestID attempts start result err s =
     (if rc_maxAttempts c \<le> 1 \<or> (attempts \<le> 1 \<and> err = None) then s
      else outbound_log LevelInfo ''profile retry completed''
        ([(''event'', LogString ''profile.retry.completed''), (''operation'', LogString ''profile.fetch''), (''request_id'', LogString requestID),
          (''outcome'', LogString result), (''attempts'', LogInt (int attempts)), (''max_attempts'', LogInt (rc_maxAttempts c)),
          (''duration_ms'', LogInt (since_ms start s))] @
         (case err of
            Some e \<Rightarrow> [(''error_kind'', LogString (KindLabel e)), (''status'', LogInt (profileErrorStatus err)),
              (''retryable'', LogBool (isRetryableProfileError e))]
          | None \<Rightarrow> []) @ deadline_attr ctx s) s)"

lemma log_now [simp]:
  "now (logRetryScheduled c ctx rid a d e s) = now s" "now (logRetryCompleted c ctx rid n st oc err s) = now s"
  by (simp_all add: logRetryScheduled_def logRetryCompleted_def)

definition hasTimeForDelay :: "Ctx \<Rightarrow> int64 \<Rightarrow> 's Calls_scheme \<Rightarrow> bool" where
  "hasTimeForDelay ctx d s =
     (case ctx_deadline ctx of None \<Rightarrow> True | Some t \<Rightarrow> time_Sub t (now s) > d)"

text \<open>The timer and the context race; \<open>tie\<close> decides when both are ready at the same moment.\<close>

definition sleepWithContext :: "bool \<Rightarrow> Ctx \<Rightarrow> int64 \<Rightarrow> 's Calls_scheme \<Rightarrow> go_error option \<times> 's Calls_scheme" where
  "sleepWithContext tie ctx d s =
     (let fires = now s + d in
      case ctx_done ctx of
        None \<Rightarrow> (None, s\<lparr>now := fires\<rparr>)
      | Some (t, e) \<Rightarrow>
          if t < fires \<or> (t = fires \<and> tie) then (Some (Sentinel e), s\<lparr>now := max (now s) t\<rparr>)
          else (None, s\<lparr>now := fires\<rparr>))"

text \<open>The loop: \<open>n\<close> attempts are left, \<open>attempt\<close> is the number of the next one.\<close>

fun retry_loop ::
  "bool \<Rightarrow> (int64 \<Rightarrow> 's Calls_scheme \<Rightarrow> int64 \<times> 's Calls_scheme) \<Rightarrow> RetryingProfileClient \<Rightarrow> 's Calls_scheme profile_client \<Rightarrow> Ctx \<Rightarrow>
   int64 \<Rightarrow> string \<Rightarrow> int \<Rightarrow> nat \<Rightarrow> nat \<Rightarrow> go_error option \<Rightarrow> 's Calls_scheme \<Rightarrow> (go_error + Profile) outcome \<times> 's Calls_scheme" where
  "retry_loop tie rng c next ctx uid rid start 0 attempt lastErr s =
     (Returned (case lastErr of Some e \<Rightarrow> Inl e | None \<Rightarrow> Inr \<lparr>prof_UserID = 0, prof_Bio = [], prof_City = []\<rparr>),
      logRetryCompleted c ctx rid (attempt - 1) start ''failed'' lastErr s)"
| "retry_loop tie rng c next ctx uid rid start (Suc n) attempt lastErr s =
     (let failed = (\<lambda>attempts err t. (Returned (Inl err), logRetryCompleted c ctx rid attempts start ''failed'' (Some err) t)) in
      case ctx_Err ctx s of
        Some e \<Rightarrow> failed (attempt - 1) (ctxToProfileError e) s
      | None \<Rightarrow>
          (case next uid rid s of
             (Inr p, s1) \<Rightarrow> (Returned (Inr p), logRetryCompleted c ctx rid attempt start ''success'' None s1)
           | (Inl err, s1) \<Rightarrow>
               if int attempt = rc_maxAttempts c then failed attempt err s1
               else if \<not> isRetryableProfileError err then failed attempt err s1
               else
                 (case backoffWithJitter rng c attempt s1 of
                    (Panicked, s2) \<Rightarrow> (Panicked, s2)
                  | (Returned delay, s2) \<Rightarrow>
                      if delay > 0 \<and> \<not> hasTimeForDelay ctx delay s2 then failed attempt err s2
                      else
                        (let s3 = logRetryScheduled c ctx rid attempt delay err s2 in
                         if delay > 0 then
                           (case sleepWithContext tie ctx delay s3 of
                              (Some e, s4) \<Rightarrow> failed attempt (ctxToProfileError e) s4
                            | (None, s4) \<Rightarrow> retry_loop tie rng c next ctx uid rid start n (Suc attempt) (Some err) s4)
                         else retry_loop tie rng c next ctx uid rid start n (Suc attempt) (Some err) s3))))"

definition Retrying_FetchProfile ::
  "bool \<Rightarrow> (int64 \<Rightarrow> 's Calls_scheme \<Rightarrow> int64 \<times> 's Calls_scheme) \<Rightarrow> RetryingProfileClient \<Rightarrow> 's Calls_scheme profile_client \<Rightarrow> Ctx \<Rightarrow>
   int64 \<Rightarrow> string \<Rightarrow> 's Calls_scheme \<Rightarrow> (go_error + Profile) outcome \<times> 's Calls_scheme" where
  "Retrying_FetchProfile tie rng c next ctx uid rid s =
     retry_loop tie rng c next ctx uid rid (now s) (nat (rc_maxAttempts c)) 1 None s"

section \<open>The back-off\<close>

lemma double_delay_nonpos: "d \<le> 0 \<Longrightarrow> double_delay n d \<le> 0"
  by (cases n) simp_all

lemma wrap64_double:
  assumes "0 < d" "d < 2 ^ 63"
  shows "wrap64 (d * 2) = (if d * 2 < 2 ^ 63 then d * 2 else d * 2 - 2 ^ 64)"
proof (cases "d * 2 < 2 ^ 63")
  case False
  then have "(d * 2 + 2 ^ 63) mod 2 ^ 64 = d * 2 + 2 ^ 63 - 2 ^ 64"
    using assms by (intro int_mod_pos_eq [of _ _ 1]) simp_all
  with False show ?thesis by (simp add: wrap64_def)
qed (use assms in \<open>simp add: wrap64_def\<close>)

lemma double_delay_exact:
  assumes "0 < d" "d < 2 ^ 63"
  shows "if d * 2 ^ n < 2 ^ 63 then double_delay n d = d * 2 ^ n else double_delay n d \<le> 0"
  using assms
proof (induction n arbitrary: d)
  case (Suc n)
  show ?case
  proof (cases "d * 2 < 2 ^ 63")
    case True
    with Suc.IH [of "d * 2"] Suc.prems show ?thesis
      by (simp add: wrap64_double mult.assoc mult.left_commute)
  next
    case False
    then have "wrap64 (d * 2) \<le> 0" using Suc.prems by (simp add: wrap64_double)
    then have "double_delay (Suc n) d \<le> 0" using Suc.prems by (simp add: double_delay_nonpos)
    moreover have "d \<le> d * 2 ^ n" using Suc.prems by simp
    then have "d * 2 \<le> d * 2 ^ Suc n" by simp
    then have "2 ^ 63 \<le> d * 2 ^ Suc n" using False by linarith
    ultimately show ?thesis by simp
  qed
qed simp

text \<open>What the comment in the code asks for, while the power stays below \<open>2^63\<close>.\<close>

definition capped_power :: "int \<Rightarrow> int \<Rightarrow> nat \<Rightarrow> int" where
  "capped_power base cap n = (if 0 < cap then min cap (base * 2 ^ n) else base * 2 ^ n)"

lemma backoff_ceiling_exact:
  assumes "0 < rc_baseDelay c" "rc_baseDelay c < 2 ^ 63"
  shows "backoff_ceiling c (Suc n) =
    (if rc_baseDelay c * 2 ^ n < 2 ^ 63 then capped_power (rc_baseDelay c) (rc_maxDelay c) n else 0)"
proof (cases "rc_baseDelay c * 2 ^ n < 2 ^ 63")
  case True
  with double_delay_exact [OF assms, of n] assms have "double_delay n (rc_baseDelay c) = rc_baseDelay c * 2 ^ n"
    by simp
  moreover have "0 < rc_baseDelay c * 2 ^ n" using assms by simp
  ultimately show ?thesis using True by (auto simp: backoff_ceiling_def capped_power_def Let_def min_def)
next
  case False
  with double_delay_exact [OF assms, of n] have "double_delay n (rc_baseDelay c) \<le> 0" by simp
  with False show ?thesis by (auto simp: backoff_ceiling_def Let_def)
qed

lemma backoff_ceiling_range:
  assumes "rc_baseDelay c < 2 ^ 63 - 1"
  shows "0 \<le> backoff_ceiling c attempt \<and> backoff_ceiling c attempt < 2 ^ 63 - 1"
proof (cases "0 < rc_baseDelay c")
  case False
  then show ?thesis
    using double_delay_nonpos [of "rc_baseDelay c" "attempt - 1"] by (auto simp: backoff_ceiling_def Let_def)
next
  case True
  have at_one: "backoff_ceiling c attempt = backoff_ceiling c (Suc (attempt - 1))"
    by (simp add: backoff_ceiling_def)
  have "rc_baseDelay c * 2 ^ n < 2 ^ 63 - 1" if "rc_baseDelay c * 2 ^ n < 2 ^ 63" for n
  proof (cases n)
    case (Suc k)
    then have "rc_baseDelay c * 2 ^ n = 2 * (rc_baseDelay c * 2 ^ k)" by simp
    moreover have "2 * x < 2 ^ 63 \<Longrightarrow> 2 * x < 2 ^ 63 - 1" for x :: int by simp
    ultimately show ?thesis using that by metis
  qed (use assms in simp)
  from this [of "attempt - 1"] show ?thesis
    using True assms unfolding at_one by (auto simp: backoff_ceiling_exact capped_power_def min_def)
qed

lemma backoffWithJitter_range:
  assumes "rc_baseDelay c < 2 ^ 63 - 1" "\<forall>n. 0 < n \<longrightarrow> 0 \<le> fst (Int63n n s) \<and> fst (Int63n n s) < n"
  shows "\<exists>d. fst (backoffWithJitter Int63n c a s) = Returned d \<and> 0 \<le> d \<and> d \<le> backoff_ceiling c a"
proof -
  let ?top = "backoff_ceiling c a"
  have range: "0 \<le> ?top" "?top < 2 ^ 63 - 1" using backoff_ceiling_range [OF assms(1)] by auto
  then have "wrap64 (?top + 1) = ?top + 1"
    by (intro wrap64_in_range) (simp add: in_int64_def int64_min_def int64_max_def)
  moreover have "0 \<le> fst (Int63n (?top + 1) s) \<and> fst (Int63n (?top + 1) s) < ?top + 1"
    using assms(2) [rule_format, of "?top + 1"] range by linarith
  ultimately show ?thesis
    using range by (auto simp: backoffWithJitter_def Let_def split: prod.splits)
qed

text \<open>C36: For a source of random numbers below its bound, the delay before the next attempt is random between
  0 and the doubled base delay capped by the maximum, but once the doubled delay reaches
  \<open>2^63\<close> nanoseconds it is 0, whatever the cap.\<close>

theorem backoff_bounds:
  assumes "\<forall>n t. 0 < n \<longrightarrow> 0 \<le> fst (Int63n n t) \<and> fst (Int63n n t) < n"
    and "c = NewRetryingProfileClient attempts base cap"
    and "0 < base" "base < 2 ^ 63 - 1"
  shows "\<exists>delay. fst (backoffWithJitter Int63n c (Suc n) s) = Returned delay \<and> 0 \<le> delay \<and>
    delay \<le> (if base * 2 ^ n < 2 ^ 63 then capped_power base cap n else 0)"
proof -
  have c: "rc_baseDelay c = base" "rc_maxDelay c = max 0 cap"
    using assms by (auto simp: NewRetryingProfileClient_def)
  then have "backoff_ceiling c (Suc n) = (if base * 2 ^ n < 2 ^ 63 then capped_power base cap n else 0)"
    using assms(3,4) by (simp add: backoff_ceiling_exact capped_power_def)
  then show ?thesis
    using backoffWithJitter_range [of c Int63n s "Suc n"] assms(1,4) c by auto
qed

theorem backoff_bounds_witness:
  "\<exists>delay. fst (backoffWithJitter (\<lambda>n u. (n - 1, u)) (NewRetryingProfileClient 60 50000000 1000000000) (Suc 38) ()) = Returned delay \<and>
     0 \<le> delay \<and> delay \<le> (0::int)"
  using backoff_bounds [of "\<lambda>n (u::unit). (n - 1, u)" "NewRetryingProfileClient 60 50000000 1000000000" 60 50000000 1000000000 38 "()"]
  by simp

section \<open>The retries\<close>

text \<open>A client that keeps a record of what its calls returned.\<close>

record Traced = Calls +
  trace :: "(go_error + Profile) list"

definition traced :: "'s Traced_scheme profile_client \<Rightarrow> 's Traced_scheme profile_client" where
  "traced client uid rid s = (case client uid rid s of (res, s1) \<Rightarrow> (res, s1\<lparr>trace := trace s @ [res]\<rparr>))"

fun retryable :: "go_error + Profile \<Rightarrow> bool" where
  "retryable (Inl e) = isRetryableProfileError e"
| "retryable (Inr p) = False"

text \<open>How a run may end: with the result of its last call, when that is final, was the last one allowed or
  the deadline is no further away than the longest delay; or with the error of a context that is
  done.\<close>

definition retry_end :: "RetryingProfileClient \<Rightarrow> Ctx \<Rightarrow> (go_error + Profile) list \<Rightarrow> int \<Rightarrow> go_error + Profile \<Rightarrow> bool" where
  "retry_end c ctx ys t r \<longleftrightarrow>
     (ys \<noteq> [] \<and> r = last ys \<and>
       (\<not> retryable r \<or> int (length ys) = rc_maxAttempts c \<or>
        (\<exists>d. ctx_deadline ctx = Some d \<and> time_Sub d t \<le> backoff_ceiling c (length ys)))) \<or>
     (\<exists>u e. ctx_done ctx = Some (u, e) \<and> u \<le> t \<and> r = Inl (ctxToProfileError (Sentinel e)))"

text \<open>What the retries rely on of the random numbers.\<close>

definition random_below :: "(int64 \<Rightarrow> 's Traced_scheme \<Rightarrow> int64 \<times> 's Traced_scheme) \<Rightarrow> bool" where
  "random_below Int63n \<longleftrightarrow>
     (\<forall>n s. trace (snd (Int63n n s)) = trace s \<and> (0 < n \<longrightarrow> 0 \<le> fst (Int63n n s) \<and> fst (Int63n n s) < n))"

lemma ctx_Err_Some: "ctx_Err ctx s = Some e \<Longrightarrow> \<exists>u x. ctx_done ctx = Some (u, x) \<and> u \<le> now s \<and> e = Sentinel x"
  by (auto simp: ctx_Err_def split: option.splits if_splits)

lemma sleepWithContext_Some:
  "sleepWithContext tie ctx d s = (Some e, s') \<Longrightarrow> \<exists>u x. ctx_done ctx = Some (u, x) \<and> u \<le> now s' \<and> e = Sentinel x"
  by (auto simp: sleepWithContext_def Let_def split: option.splits if_splits)

lemma sleepWithContext_trace: "trace (snd (sleepWithContext tie ctx d s)) = trace s"
  by (auto simp: sleepWithContext_def Let_def split: option.splits)

lemma backoffWithJitter_trace:
  "random_below rng \<Longrightarrow> trace (snd (backoffWithJitter rng c a s)) = trace s"
  by (auto simp: backoffWithJitter_def random_below_def Let_def split: prod.splits) (metis snd_conv)

lemma log_trace [simp]:
  "trace (logRetryScheduled c ctx rid a d e s) = trace s" "trace (logRetryCompleted c ctx rid n st oc err s) = trace s"
  by (simp_all add: logRetryScheduled_def logRetryCompleted_def outbound_log_def)

lemma list_all_butlast: "list_all P xs \<Longrightarrow> list_all P (butlast xs)"
  by (auto simp: list_all_iff dest: in_set_butlastD)

lemma retry_loop_done:
  assumes "ctx_Err ctx s = Some e" "retry_loop tie rng c client ctx uid rid start (Suc n) attempt lastErr s = (res, s')"
  shows "trace s' = trace s \<and> now s' = now s \<and> (\<exists>r. res = Returned r \<and> retry_end c ctx (trace s) (now s) r)"
  using assms ctx_Err_Some [OF assms(1)] by (auto simp: retry_end_def)

lemma retry_loop_end:
  assumes rng: "random_below rng" and base: "rc_baseDelay c < 2 ^ 63 - 1"
    and "int attempt + int n = rc_maxAttempts c" "list_all retryable ys" "trace s = ys" "length ys + 1 = attempt"
    and "retry_loop tie rng c (traced client) ctx uid rid start (Suc n) attempt lastErr s = (res, s')"
  shows "\<exists>r. res = Returned r \<and> length (trace s') \<le> nat (rc_maxAttempts c) \<and> list_all retryable (butlast (trace s')) \<and>
    retry_end c ctx (trace s') (now s') r"
  using assms(3-)
proof (induction n arbitrary: attempt ys s lastErr)
  case 0
  have len: "length ys < nat (rc_maxAttempts c)" using 0 by linarith
  show ?case
  proof (cases "ctx_Err ctx s")
    case (Some e)
    with 0 len retry_loop_done [OF Some 0(5)] show ?thesis
      by (auto simp: list_all_butlast less_imp_le)
  next
    case None
    obtain out s1 where call: "client uid rid s = (out, s1)" by fastforce
    with None 0 show ?thesis
      by (auto simp: retry_end_def traced_def split: sum.splits)
  qed
next
  case (Suc n)
  have len: "length ys < nat (rc_maxAttempts c)" using Suc.prems by linarith
  show ?case
  proof (cases "ctx_Err ctx s")
    case (Some e)
    with Suc.prems len retry_loop_done [OF Some Suc.prems(5)] show ?thesis
      by (auto simp: list_all_butlast less_imp_le)
  next
    case None
    obtain out s1 where call: "traced client uid rid s = (out, s1)" by fastforce
    then have tr1: "trace s1 = ys @ [out]" using Suc.prems by (auto simp: traced_def split: prod.splits)
    show ?thesis
    proof (cases "retryable out")
      case False
      with None call tr1 Suc.prems show ?thesis
        by (cases out) (auto simp: retry_end_def)
    next
      case True
      then obtain err where out: "out = Inl err" "isRetryableProfileError err" by (cases out) auto
      obtain delay s2 where bk: "backoffWithJitter rng c attempt s1 = (Returned delay, s2)" "delay \<le> backoff_ceiling c attempt"
        using backoffWithJitter_range [OF base, of rng s1 attempt] rng
        by (cases "backoffWithJitter rng c attempt s1") (auto simp: random_below_def)
      have tr2: "trace s2 = ys @ [Inl err]"
        using backoffWithJitter_trace [OF rng, of c attempt s1] bk tr1 out by simp
      have IH: "retry_loop tie rng c (traced client) ctx uid rid start (Suc n) (Suc attempt) (Some err) t = (res, s') \<Longrightarrow>
          trace t = ys @ [Inl err] \<Longrightarrow> ?thesis" for t
        using Suc.prems out by (intro Suc.IH [of "Suc attempt" "ys @ [Inl err]" t "Some err"]) auto
      define s2' where "s2' = logRetryScheduled c ctx rid attempt delay err s2"
      have tr2': "trace s2' = ys @ [Inl err]" using tr2 by (simp add: s2'_def)
      obtain e3 s3 where sleep: "sleepWithContext tie ctx delay s2' = (e3, s3)" by fastforce
      have tr3: "trace s3 = ys @ [Inl err]" using sleepWithContext_trace [of tie ctx delay s2'] sleep tr2' by simp
      have last: "int attempt \<noteq> rc_maxAttempts c" using Suc.prems by simp
      note step = Suc.prems(5) [unfolded retry_loop.simps(2) [of tie rng c "traced client" ctx uid rid start "Suc n"] Let_def]
      consider (late) "delay > 0" "\<not> hasTimeForDelay ctx delay s2" | (again) "\<not> delay > 0"
        | (woken) "delay > 0" "hasTimeForDelay ctx delay s2" "e3 = None"
        | (ended) e where "delay > 0" "hasTimeForDelay ctx delay s2" "e3 = Some e"
        by (cases e3) auto
      then show ?thesis
      proof cases
        case late
        with step None call out bk last
        have "res = Returned (Inl err)" "trace s' = ys @ [Inl err]" "now s' = now s2"
          using tr2 by (auto simp del: retry_loop.simps)
        with late bk(2) Suc.prems(1-4) show ?thesis
          by (auto simp: retry_end_def hasTimeForDelay_def split: option.splits)
      next
        case again
        with step None call out bk last show ?thesis
          by (intro IH [OF _ tr2']) (simp add: s2'_def del: retry_loop.simps)
      next
        case woken
        with step None call out bk last sleep show ?thesis
          by (intro IH [OF _ tr3]) (simp add: s2'_def del: retry_loop.simps)
      next
        case ended
        with step None call out bk last sleep
        have "res = Returned (Inl (ctxToProfileError e))" "trace s' = ys @ [Inl err]" "now s' = now s3"
          using tr3 by (auto simp: s2'_def simp del: retry_loop.simps)
        with ended sleepWithContext_Some [of tie ctx delay s2' e s3] sleep len Suc.prems(2) show ?thesis
          by (auto simp: retry_end_def)
      qed
    qed
  qed
qed

text \<open>C16: Whatever the profile service answers, the retrying client returns after at most \<open>maxAttempts\<close> calls
  (at least one is allowed); it calls again only after a timeout, a network error or a 5xx answer;
  and it returns the result of the last call, unless the context was done first.\<close>

theorem retry_policy:
  assumes "random_below Int63n"
    and "c = NewRetryingProfileClient attempts base cap" "base < 2 ^ 63 - 1"
    and "trace s = []"
    and "Retrying_FetchProfile tie Int63n c (traced client) ctx uid rid s = (res, s')"
  shows "\<exists>r. res = Returned r \<and> int (length (trace s')) \<le> max 1 attempts \<and>
    list_all retryable (butlast (trace s')) \<and> retry_end c ctx (trace s') (now s') r"
proof -
  have c: "rc_maxAttempts c = max 1 attempts" "rc_baseDelay c < 2 ^ 63 - 1"
    using assms(2,3) by (auto simp: NewRetryingProfileClient_def)
  then have n: "nat (rc_maxAttempts c) = Suc (nat (rc_maxAttempts c) - 1)" by simp
  from assms(5) have "retry_loop tie Int63n c (traced client) ctx uid rid (now s) (Suc (nat (rc_maxAttempts c) - 1)) 1 None s = (res, s')"
    unfolding Retrying_FetchProfile_def by (subst n [symmetric]) simp
  from retry_loop_end [OF assms(1) c(2) _ _ assms(4) _ this] c show ?thesis
    by (simp add: le_nat_iff max_def split: if_splits)
qed

definition sample_calls :: "int \<Rightarrow> Traced" where
  "sample_calls t =
     \<lparr>now = t, outMetrics = \<lparr>om_requestsTotal = [], om_latencySumNS = [], om_latencyCount = [], om_errorsTotal = []\<rparr>, outLog = [], trace = []\<rparr>"

theorem retry_policy_witness:
  "\<exists>r s'. Retrying_FetchProfile False (\<lambda>n s. (0, s)) (NewRetryingProfileClient 3 50 200)
       (traced (\<lambda>uid rid s. (Inl (ProfileError Profile_ErrNetwork 0 None), s))) \<lparr>ctx_deadline = None, ctx_canceledAt = None\<rparr> 7 ''r'' (sample_calls 0)
     = (Returned r, s') \<and> int (length (trace s')) \<le> 3 \<and> list_all retryable (butlast (trace s'))"
proof -
  have "random_below (\<lambda>n (s :: Traced). (0, s))" by (simp add: random_below_def)
  from retry_policy [OF this refl, of 50 "sample_calls 0" False 3 200 "\<lambda>uid rid s. (Inl (ProfileError Profile_ErrNetwork 0 None), s)"
      "\<lparr>ctx_deadline = None, ctx_canceledAt = None\<rparr>" 7 "''r''"]
  show ?thesis
    by (cases "Retrying_FetchProfile False (\<lambda>n s. (0, s)) (NewRetryingProfileClient 3 50 200)
       (traced (\<lambda>uid rid s. (Inl (ProfileError Profile_ErrNetwork 0 None), s))) \<lparr>ctx_deadline = None, ctx_canceledAt = None\<rparr> 7 ''r'' (sample_calls 0)")
      (auto simp: sample_calls_def)
qed

section \<open>Failures of one request\<close>

text \<open>A call that fails although retries were allowed leaves a record of its error at the end of the log.\<close>

definition ends_with_error :: "go_error \<Rightarrow> 's Calls_scheme \<Rightarrow> bool" where
  "ends_with_error e s \<longleftrightarrow> outLog s \<noteq> [] \<and> (''error_kind'', LogString (KindLabel e)) \<in> set (lr_Attrs (last (outLog s)))"

lemma completed_logged:
  "1 < rc_maxAttempts c \<Longrightarrow> ends_with_error e (logRetryCompleted c ctx rid n start oc (Some e) s)"
  by (simp add: logRetryCompleted_def outbound_log_def ends_with_error_def)

lemma retry_failure_logged:
  assumes "1 < rc_maxAttempts c"
  shows "retry_loop tie rng c client ctx uid rid start n attempt lastErr s = (Returned (Inl e), s') \<Longrightarrow> ends_with_error e s'"
proof (induction n arbitrary: attempt lastErr s)
  case 0
  then show ?case by (auto simp: completed_logged [OF assms] split: option.splits)
next
  case (Suc n)
  from Suc.prems show ?case
    by (auto simp: Let_def completed_logged [OF assms] split: option.splits prod.splits sum.splits outcome.splits if_splits intro: Suc.IH)
qed

lemma ClientImpl_failure:
  "fst (ClientImpl_FetchProfile base do_request uid rid s) = Inl e \<Longrightarrow>
     \<exists>k st cause. e = ProfileError k st cause \<and> KindLabel e \<noteq> ''unknown''"
  by (auto simp: ClientImpl_FetchProfile_def classify_do_error_def classify_response_def KindLabel_def Let_def
      split: option.splits sum.splits if_splits prod.splits)

end
