(* ===== verification/Handlers.thy ===== *)
theory Handlers
  imports WorkerPool Outbound
begin

text \<open>
  The handlers of the API (\<open>internal/routes\<close>): users in both versions, jobs with their event stream and
  the call through the gRPC bridge, and users with profiles.  They run on the program's state
  (\<open>App\<close>: the counters of the middleware, the repositories, the event hub, the job metrics and the
  work queue).  What the libraries do to one exchange (the JSON and protobuf codecs, the outcome of the
  final write, the clock) is the record \<open>exchange\<close>, a parameter.
\<close>

section \<open>State and exchange\<close>

record ('j, 'u) App = Counters +
  app_world :: "('j, 'u) world"
  app_queue :: Queue

datatype payload =
    PayJob Job
  | PayUser UserDTO
  | PayUsers "UserDTO list"
  | PayUserV2 UserDTOV2
  | PayUsersV2 "UserDTOV2 list"
  | PayExport UserExport
  | PayProfile UserProfileDTO
  | PayBridge JobBridgeDTO

record exchange =
  ex_now :: int64
  ex_enqueue :: ctx_obs
  ex_json :: "payload \<Rightarrow> go_error + string"
  ex_proto :: "payload \<Rightarrow> go_error + string"
  ex_write :: "go_error option"
  ex_decode :: "string \<Rightarrow> int64 option \<Rightarrow> (go_error \<times> string) + CreateUserInput"
  ex_decodeV2 :: "string \<Rightarrow> int64 option \<Rightarrow> (go_error \<times> string) + CreateUserInputV2"
  ex_trailing :: "string \<Rightarrow> int64 option \<Rightarrow> go_error option"

text \<open>\<open>r.URL.Query().Get\<close>: malformed pairs are skipped, the first value counts.\<close>

fun QueryUnescape :: "string \<Rightarrow> string option" where
  "QueryUnescape [] = Some []"
| "QueryUnescape (c # s) =
     (if c = CHR 0x25 then
        (case s of
           a # b # t \<Rightarrow>
             (case (unhex a, unhex b) of
                (Some x, Some y) \<Rightarrow> map_option ((#) (char_of (16 * x + y))) (QueryUnescape t)
              | _ \<Rightarrow> None)
         | _ \<Rightarrow> None)
      else map_option ((#) (if c = CHR ''+'' then CHR '' '' else c)) (QueryUnescape s))"

fun parseQuery :: "string list \<Rightarrow> (string \<times> string) list" where
  "parseQuery [] = []"
| "parseQuery (part # parts) =
     (if part = [] \<or> List.member part (CHR '';'') then parseQuery parts
      else
        (let (k, v) = Cut part CHR ''='' in
         case (QueryUnescape k, QueryUnescape v) of
           (Some k', Some v') \<Rightarrow> (k', v') # parseQuery parts
         | _ \<Rightarrow> parseQuery parts))"

definition Query_Get :: "Request \<Rightarrow> string \<Rightarrow> string" where
  "Query_Get r k = (case map_of (parseQuery (Split (req_RawQuery r) CHR ''&'')) k of None \<Rightarrow> [] | Some v \<Rightarrow> v)"

text \<open>A handler that fails before it changed anything, and one that ends with a written response.\<close>

definition fails :: "go_error \<Rightarrow> Request \<Rightarrow> ResponseWriter \<Rightarrow> 's \<Rightarrow> go_error option outcome \<times> Request \<times> ResponseWriter \<times> 's" where
  "fails e r w s = (Returned (Some e), r, w, s)"

definition replies :: "go_error option \<times> ResponseWriter \<Rightarrow> Request \<Rightarrow> 's \<Rightarrow> go_error option outcome \<times> Request \<times> ResponseWriter \<times> 's" where
  "replies ew r s = (Returned (fst ew), r, snd ew, s)"

definition reply_json :: "exchange \<Rightarrow> int \<Rightarrow> payload \<Rightarrow> ResponseWriter \<Rightarrow> go_error option \<times> ResponseWriter" where
  "reply_json ex status v w = WriteJSON w status (ex_json ex v) (ex_write ex)"

definition reply_negotiated :: "exchange \<Rightarrow> Request \<Rightarrow> int \<Rightarrow> payload \<Rightarrow> ResponseWriter \<Rightarrow> go_error option \<times> ResponseWriter" where
  "reply_negotiated ex r status v w = WriteNegotiated w r status (ex_json ex v) (Some (ex_proto ex v)) (ex_write ex)"

text \<open>Decoding and validating the body of a create request.\<close>

definition decode_input ::
  "(string \<Rightarrow> int64 option \<Rightarrow> (go_error \<times> string) + 'a) \<Rightarrow> ('a \<Rightarrow> ErrorDetail list) \<Rightarrow> exchange \<Rightarrow> Request \<Rightarrow> go_error + 'a" where
  "decode_input dec validate ex r =
     (case dec (req_Body r) (req_BodyLimit r) of
        Inl err \<Rightarrow> (case ParseJSON (Some err) None of Some e \<Rightarrow> Inl e | None \<Rightarrow> Inl (fst err))
      | Inr inp \<Rightarrow>
          (case ParseJSON None (ex_trailing ex (req_Body r) (req_BodyLimit r)) of
             Some e \<Rightarrow> Inl e
           | None \<Rightarrow>
               if validate inp \<noteq> [] then Inl (ValidationError (ToInvalidParams (validate inp))) else Inr inp))"

section \<open>Creating users\<close>

definition publishQueuedJob :: "exchange \<Rightarrow> int64 \<Rightarrow> ('j, 'u) world \<Rightarrow> ('j, 'u) world option" where
  "publishQueuedJob ex jid wd =
     publish_event jid JobQueued NoData (ex_now ex)
       (wd\<lparr>w_observer := (w_observer wd)\<lparr>obs_queued := Suc (obs_queued (w_observer wd))\<rparr>\<rparr>)"

definition deleteJobAfterFailedEnqueue :: "'j JobRepository \<Rightarrow> int64 \<Rightarrow> 'j \<Rightarrow> go_error option \<times> 'j" where
  "deleteJobAfterFailedEnqueue jr jid = JobService_Delete jr jid"

text \<open>The asynchronous branch, the same code in both versions: the job is stored, announced and queued,
  and taken back when the queue does not accept it.\<close>

definition enqueue_or_rollback ::
  "'j JobRepository \<Rightarrow> exchange \<Rightarrow> WorkItem \<Rightarrow> ('j, 'u) App \<Rightarrow> go_error option \<times> ('j, 'u) App" where
  "enqueue_or_rollback jr ex item s =
     (case Enqueue (ex_enqueue ex) item (app_queue s) of
        (None, q) \<Rightarrow> (None, s\<lparr>app_queue := q\<rparr>)
      | (Some enqueueErr, q) \<Rightarrow>
          (case deleteJobAfterFailedEnqueue jr (wi_JobID item) (w_jobs (app_world s)) of
             (None, js) \<Rightarrow> (Some enqueueErr, s\<lparr>app_queue := q, app_world := (app_world s)\<lparr>w_jobs := js\<rparr>\<rparr>)
           | (Some deleteErr, js) \<Rightarrow>
               (errors_Join [Some enqueueErr, Some deleteErr], s\<lparr>app_queue := q, app_world := (app_world s)\<lparr>w_jobs := js\<rparr>\<rparr>)))"

definition async_create :: "'j JobRepository \<Rightarrow> exchange \<Rightarrow> CreateUserInput \<Rightarrow> ('j, 'u) App app_handler" where
  "async_create jr ex inp r w s =
     (case req_Principal r of
        None \<Rightarrow> fails (NewUnauthorized AuthNMissing None) r w s
      | Some who \<Rightarrow>
          (case JobService_Save jr \<lparr>job_ID = 0, job_Status = JobQueued, job_Result = None, job_Error = None,
                                     job_OwnerUserID = pr_UserID who\<rparr> (w_jobs (app_world s)) of
             ((Some e, _), js) \<Rightarrow> fails e r w (s\<lparr>app_world := (app_world s)\<lparr>w_jobs := js\<rparr>\<rparr>)
           | ((None, job), js) \<Rightarrow>
               (case publishQueuedJob ex (job_ID job) ((app_world s)\<lparr>w_jobs := js\<rparr>) of
                  None \<Rightarrow> (Panicked, r, w, s\<lparr>app_world := (app_world s)\<lparr>w_jobs := js\<rparr>\<rparr>)
                | Some wd \<Rightarrow>
                    (case enqueue_or_rollback jr ex \<lparr>wi_JobID = job_ID job, wi_Payload = inp\<rparr> (s\<lparr>app_world := wd\<rparr>) of
                       (Some e, s1) \<Rightarrow> fails e r w s1
                     | (None, s1) \<Rightarrow>
                         replies (reply_json ex 202 (PayJob job)
                           (set_header ''Location'' (''/api/v1/jobs/'' @ Itoa (job_ID job)) w)) r s1))))"

text \<open>The synchronous branch; the versions differ in the location and the representation.\<close>

definition sync_create ::
  "'u UserRepository \<Rightarrow> exchange \<Rightarrow> string \<Rightarrow> (UserDTO \<Rightarrow> payload) \<Rightarrow> CreateUserInput \<Rightarrow> ('j, 'u) App app_handler" where
  "sync_create ur ex location repr inp r w s =
     (case UserService_CreateUser ur inp (w_users (app_world s)) of
        (Inl e, us) \<Rightarrow> fails e r w (s\<lparr>app_world := (app_world s)\<lparr>w_users := us\<rparr>\<rparr>)
      | (Inr u, us) \<Rightarrow>
          replies (reply_json ex 201 (repr u) (set_header ''Location'' (location @ Itoa (dto_ID u)) w)) r
            (s\<lparr>app_world := (app_world s)\<lparr>w_users := us\<rparr>\<rparr>))"

definition UsersHandler_Create :: "'j JobRepository \<Rightarrow> 'u UserRepository \<Rightarrow> exchange \<Rightarrow> ('j, 'u) App app_handler" where
  "UsersHandler_Create jr ur ex r0 w s =
     (let r = LimitBody r0 (64 * 1024) in
      case RequireJSONContentType r of
        Some e \<Rightarrow> fails e r w s
      | None \<Rightarrow>
          if Query_Get r ''async'' = ''1'' then
            (case decode_input (ex_decode ex) ValidateCreateUserInput ex r of
               Inl e \<Rightarrow> fails e r w s
             | Inr inp \<Rightarrow> async_create jr ex inp r w s)
          else
            (case decode_input (ex_decode ex) ValidateCreateUserInput ex r of
               Inl e \<Rightarrow> fails e r w s
             | Inr inp \<Rightarrow> sync_create ur ex ''/api/v1/users/'' PayUser inp r w s))"

definition UsersV2Handler_Create :: "'j JobRepository \<Rightarrow> 'u UserRepository \<Rightarrow> exchange \<Rightarrow> ('j, 'u) App app_handler" where
  "UsersV2Handler_Create jr ur ex r0 w s =
     (let r = LimitBody r0 (64 * 1024) in
      case RequireJSONContentType r of
        Some e \<Rightarrow> fails e r w s
      | None \<Rightarrow>
          if Query_Get r ''async'' = ''1'' then
            (case decode_input (ex_decodeV2 ex) ValidateCreateUserInputV2 ex r of
               Inl e \<Rightarrow> fails e r w s
             | Inr inp \<Rightarrow> async_create jr ex (MapCreateV2ToV1 inp) r w s)
          else
            (case decode_input (ex_decodeV2 ex) ValidateCreateUserInputV2 ex r of
               Inl e \<Rightarrow> fails e r w s
             | Inr inp \<Rightarrow>
                 sync_create ur ex ''/api/v2/users/'' (\<lambda>u. PayUserV2 (MapUserDTOToV2 u)) (MapCreateV2ToV1 inp) r w s))"

section \<open>Reading users\<close>

definition user_dto :: "User \<Rightarrow> UserDTO" where
  "user_dto u = \<lparr>dto_ID = user_ID u, dto_Name = user_Name u, dto_Email = user_Email u\<rparr>"

definition with_users :: "'u \<Rightarrow> ('j, 'u) App \<Rightarrow> ('j, 'u) App" where
  "with_users us s = s\<lparr>app_world := (app_world s)\<lparr>w_users := us\<rparr>\<rparr>"

definition with_jobs :: "'j \<Rightarrow> ('j, 'u) App \<Rightarrow> ('j, 'u) App" where
  "with_jobs js s = s\<lparr>app_world := (app_world s)\<lparr>w_jobs := js\<rparr>\<rparr>"

text \<open>The check at the head of the handlers of one user.\<close>

definition own_user_only :: "int64 \<Rightarrow> 's app_handler \<Rightarrow> 's app_handler" where
  "own_user_only uid h r w s =
     (case req_Principal r of
        None \<Rightarrow> fails (NewUnauthorized AuthNMissing None) r w s
      | Some who \<Rightarrow>
          if \<not> CanReadUser who uid then fails (NewForbidden AuthZForbidden None) r w s else h r w s)"

definition not_modified :: "ResponseWriter \<Rightarrow> ResponseWriter" where
  "not_modified w = WriteHeader 304 (set_header ''Cache-Control'' ''private, max-age=60'' (AddVary ''Accept'' w))"

definition user_response :: "exchange \<Rightarrow> User \<Rightarrow> Request \<Rightarrow> ResponseWriter \<Rightarrow> go_error option \<times> ResponseWriter" where
  "user_response ex u r w =
     (let etag = UserETag (user_ID u) (user_Version u); w1 = set_header ''ETag'' etag w in
      if IfNoneMatchMatches (Header_Get (req_Header r) ''If-None-Match'') etag then (None, not_modified w1)
      else reply_negotiated ex r 200 (PayUser (user_dto u)) (set_header ''Cache-Control'' ''private, max-age=60'' w1))"

definition UsersHandler_GetByID :: "'u UserRepository \<Rightarrow> exchange \<Rightarrow> int64 \<Rightarrow> ('j, 'u) App app_handler" where
  "UsersHandler_GetByID ur ex uid =
     own_user_only uid (\<lambda>r w s.
       (case UserService_GetByID ur uid (w_users (app_world s)) of
          (Inl e, us) \<Rightarrow> fails e r w (with_users us s)
        | (Inr u, us) \<Rightarrow> replies (user_response ex u r w) r (with_users us s)))"

definition UsersV2Handler_GetByID :: "'u UserRepository \<Rightarrow> exchange \<Rightarrow> int64 \<Rightarrow> ('j, 'u) App app_handler" where
  "UsersV2Handler_GetByID ur ex uid =
     own_user_only uid (\<lambda>r w s.
       (case UserService_GetByID ur uid (w_users (app_world s)) of
          (Inl e, us) \<Rightarrow> fails e r w (with_users us s)
        | (Inr u, us) \<Rightarrow> replies (reply_json ex 200 (PayUser (user_dto u)) w) r (with_users us s)))"

text \<open>\<open>serve_content\<close> is \<open>http.ServeContent\<close> of the given name and bytes, with its ranges.\<close>

definition UsersHandler_Export ::
  "'u UserRepository \<Rightarrow> exchange \<Rightarrow> (string \<Rightarrow> string \<Rightarrow> Request \<Rightarrow> ResponseWriter \<Rightarrow> ResponseWriter) \<Rightarrow> int64 \<Rightarrow> ('j, 'u) App app_handler" where
  "UsersHandler_Export ur ex serve_content uid =
     own_user_only uid (\<lambda>r w s.
       (case UserService_GetByID ur uid (w_users (app_world s)) of
          (Inl e, us) \<Rightarrow> fails e r w (with_users us s)
        | (Inr u, us) \<Rightarrow>
            (case ex_json ex (PayExport \<lparr>exp_ID = user_ID u, exp_Name = user_Name u, exp_Email = user_Email u, exp_Age = user_Age u\<rparr>) of
               Inl e \<Rightarrow> fails e r w (with_users us s)
             | Inr bytes \<Rightarrow>
                 (let name = ''user-'' @ Itoa uid @ ''-export.json'';
                      w1 = set_header ''Content-Disposition'' (''attachment; filename='' @ [CHR 0x22] @ name @ [CHR 0x22]) w;
                      w2 = set_header ''Content-Type'' ''application/json'' w1
                  in replies (None, serve_content name bytes r w2) r (with_users us s)))))"

definition UsersV2Handler_Export :: "int64 \<Rightarrow> 's app_handler" where
  "UsersV2Handler_Export uid r w s = replies (None, w) r s"

definition UsersHandler_List :: "'u UserRepository \<Rightarrow> exchange \<Rightarrow> ('j, 'u) App app_handler" where
  "UsersHandler_List ur ex r w s =
     (case UserService_GetAllUsers ur (w_users (app_world s)) of
        (Inl e, us) \<Rightarrow> fails e r w (with_users us s)
      | (Inr users, us) \<Rightarrow> replies (reply_json ex 200 (PayUsers (map user_dto users)) w) r (with_users us s))"

definition UsersV2Handler_List :: "'u UserRepository \<Rightarrow> exchange \<Rightarrow> ('j, 'u) App app_handler" where
  "UsersV2Handler_List ur ex r w s =
     (case UserService_GetAllUsers ur (w_users (app_world s)) of
        (Inl e, us) \<Rightarrow> fails e r w (with_users us s)
      | (Inr users, us) \<Rightarrow> replies (reply_json ex 200 (PayUsersV2 (MapUsersToV2 users)) w) r (with_users us s))"

definition GetUserProfile ::
  "'u UserRepository \<Rightarrow> (int64 \<Rightarrow> string \<Rightarrow> go_error + Profile) \<Rightarrow> exchange \<Rightarrow> int64 \<Rightarrow> ('j, 'u) App app_handler" where
  "GetUserProfile ur fetch ex uid =
     own_user_only uid (\<lambda>r w s.
       (let rid = (case RequestID r of Some x \<Rightarrow> x | None \<Rightarrow> Header_Get (req_Header r) HeaderName) in
        case UserProfileService_GetUserWithProfile ur fetch uid rid (w_users (app_world s)) of
          (Inl e, us) \<Rightarrow> fails e r w (with_users us s)
        | (Inr (u, p), us) \<Rightarrow>
            replies (reply_negotiated ex r 200
              (PayProfile \<lparr>updto_ID = user_ID u, updto_Name = user_Name u, updto_Email = user_Email u,
                           updto_Profile = \<lparr>pdto_Bio = prof_Bio p, pdto_City = prof_City p\<rparr>\<rparr>) w) r (with_users us s)))"

section \<open>Jobs\<close>

text \<open>The head of the two handlers of one job: it is loaded first, then the caller is checked.\<close>

definition own_job_only :: "'j JobRepository \<Rightarrow> int64 \<Rightarrow> (Job \<Rightarrow> ('j, 'u) App app_handler) \<Rightarrow> ('j, 'u) App app_handler" where
  "own_job_only jr jid h r w s =
     (case JobService_GetByID jr jid (w_jobs (app_world s)) of
        (Inl e, js) \<Rightarrow> fails e r w (with_jobs js s)
      | (Inr job, js) \<Rightarrow>
          (case req_Principal r of
             None \<Rightarrow> fails (NewUnauthorized AuthNMissing None) r w (with_jobs js s)
           | Some who \<Rightarrow>
               if \<not> CanReadJob who (job_OwnerUserID job)
               then fails (NewForbidden AuthZForbidden None) r w (with_jobs js s)
               else h job r w (with_jobs js s)))"

definition JobHandler_GetByID :: "'j JobRepository \<Rightarrow> exchange \<Rightarrow> int64 \<Rightarrow> ('j, 'u) App app_handler" where
  "JobHandler_GetByID jr ex jid =
     own_job_only jr jid (\<lambda>job r w s. replies (reply_json ex 200 (PayJob job) w) r s)"

text \<open>The numbers of the protobuf enumeration.\<close>

definition mapPBJobStatus :: "int \<Rightarrow> string" where
  "mapPBJobStatus s =
     (if s = 1 then ''queued'' else if s = 2 then ''running'' else if s = 3 then ''succeeded''
      else if s = 4 then ''failed'' else ''unknown'')"

text \<open>The client of the bridge takes the outgoing metadata and the identifier of the job.\<close>

type_synonym bridge_client = "(string \<times> string) list \<Rightarrow> int64 \<Rightarrow> go_error + int64 \<times> int"

definition bridge_metadata :: "Request \<Rightarrow> (string \<times> string) list" where
  "bridge_metadata r =
     (case RequestID r of Some rid \<Rightarrow> [(''request-id'', rid)] | None \<Rightarrow> []) @
     (let auth = TrimSpace (Header_Get (req_Header r) ''Authorization'') in
      if auth \<noteq> [] then [(''authorization'', auth)] else [])"

definition JobHandler_GetByIDViaGRPC ::
  "bridge_client option \<Rightarrow> (go_error \<Rightarrow> (grpc_code \<times> string) option) \<Rightarrow> exchange \<Rightarrow> int64 \<Rightarrow> 's app_handler" where
  "JobHandler_GetByIDViaGRPC client FromError ex jid r w s =
     (case client of
        None \<Rightarrow> fails (Sentinel ErrGRPCBridgeUnavailable) r w s
      | Some GetJob \<Rightarrow>
          (case GetJob (bridge_metadata r) jid of
             Inl err \<Rightarrow> replies (MapGRPCBridgeError FromError (Some err), w) r s
           | Inr (rid, st) \<Rightarrow>
               replies (reply_json ex 200 (PayBridge \<lparr>jb_ID = rid, jb_Status = mapPBJobStatus st, jb_Source = ''grpc''\<rparr>) w) r s))"

definition sseCloseReason :: "go_error \<Rightarrow> string" where
  "sseCloseReason err =
     (if errors_Is err ContextCanceled then ''client_closed''
      else if errors_Is err ContextDeadlineExceeded then ''deadline_exceeded'' else ''context_done'')"

definition sseErrorKind :: "go_error \<Rightarrow> string" where
  "sseErrorKind err =
     (if errors_Is err ContextCanceled then ''context_canceled''
      else if errors_Is err ContextDeadlineExceeded then ''deadline_exceeded''
      else if errors_As as_NetTimeout err = Some True then ''timeout'' else ''write_error'')"

section \<open>The event stream of a job\<close>

text \<open>The outcome of the calls one write makes: setting the deadline, the two writes and the flush.\<close>

record sse_io =
  io_deadline :: "go_error option"
  io_first :: "go_error option"
  io_second :: "go_error option"
  io_flush :: "go_error option"

definition writeWithTimeout :: "int64 \<Rightarrow> sse_io \<Rightarrow> go_error option \<times> string \<Rightarrow> go_error option \<times> string" where
  "writeWithTimeout writeTimeout io write =
     (case (if writeTimeout > 0 then io_deadline io else None) of
        Some e \<Rightarrow> (Some e, [])
      | None \<Rightarrow> (case write of (Some e, out) \<Rightarrow> (Some e, out) | (None, out) \<Rightarrow> (io_flush io, out)))"

text \<open>Which ready case the loop takes while the context is live: the ticker fired, or the subscription has a
  value (\<open>None\<close>: it is closed).\<close>

datatype sse_case =
    CaseTick sse_io
  | CaseEvent "Event option" sse_io

record sse_end =
  se_error :: "go_error option"
  se_reason :: string
  se_failures :: nat
  se_phase :: string

text \<open>
  The loop over the cases it takes, with the bytes it writes.  After them the request's context is
  done, with the error \<open>closing\<close>: these are all the streams that end.
\<close>

fun sse_loop :: "int64 \<Rightarrow> (event_data \<Rightarrow> go_error + string) \<Rightarrow> go_error \<Rightarrow> sse_case list \<Rightarrow> sse_end \<times> string list" where
  "sse_loop wt enc closing [] = (\<lparr>se_error = None, se_reason = sseCloseReason closing, se_failures = 0, se_phase = []\<rparr>, [])"
| "sse_loop wt enc closing (CaseTick io # cs) =
     (case writeWithTimeout wt io (case io_first io of Some e \<Rightarrow> (Some e, []) | None \<Rightarrow> (None, '': heartbeat\<newline>\<newline>'')) of
        (Some e, out) \<Rightarrow> (\<lparr>se_error = Some e, se_reason = ''write_failed'', se_failures = 1, se_phase = ''heartbeat''\<rparr>, [out])
      | (None, out) \<Rightarrow> (case sse_loop wt enc closing cs of (res, outs) \<Rightarrow> (res, out # outs)))"
| "sse_loop wt enc closing (CaseEvent None io # cs) =
     (\<lparr>se_error = None, se_reason = ''subscription_closed'', se_failures = 0, se_phase = []\<rparr>, [])"
| "sse_loop wt enc closing (CaseEvent (Some ev) io # cs) =
     (case writeWithTimeout wt io
             (WriteSSE enc (io_first io) (io_second io) \<lparr>ev_Type = ev_Type ev, ev_JobID = 0, ev_At = 0, ev_Data = ev_Data ev\<rparr>) of
        (Some e, out) \<Rightarrow> (\<lparr>se_error = Some e, se_reason = ''write_failed'', se_failures = 1, se_phase = ''event''\<rparr>, [out])
      | (None, out) \<Rightarrow> (case sse_loop wt enc closing cs of (res, outs) \<Rightarrow> (res, out # outs)))"

definition sse_bytes :: "string list \<Rightarrow> ResponseWriter \<Rightarrow> ResponseWriter" where
  "sse_bytes outs w = fold (\<lambda>out v. if out = [] then v else Write (BodyBytes out) v) outs w"

definition set_hub :: "Hub \<Rightarrow> ('j, 'u) App \<Rightarrow> ('j, 'u) App" where
  "set_hub h s = s\<lparr>app_world := (app_world s)\<lparr>w_hub := h\<rparr>\<rparr>"

text \<open>
  One open stream as the handler sees it: what the rest of the program does meanwhile, the cases the loop
  takes, the error of the context in the end, and how long the stream was open.
\<close>

record ('j, 'u) sse_run =
  run_between :: "('j, 'u) App \<Rightarrow> ('j, 'u) App"
  run_cases :: "sse_case list"
  run_closing :: go_error
  run_elapsed :: int64

definition sse_log :: "int \<Rightarrow> string \<Rightarrow> string \<Rightarrow> int64 \<Rightarrow> Request \<Rightarrow> log_attrs \<Rightarrow> ('j, 'u) App \<Rightarrow> ('j, 'u) App" where
  "sse_log level msg event jid r attrs s =
     s\<lparr>logs := logs s @ [\<lparr>lr_Component = ''sse'', lr_Level = level, lr_Message = msg,
        lr_Attrs = [(''event'', LogString event), (''request_id'', LogString (case RequestID r of Some x \<Rightarrow> x | None \<Rightarrow> [])),
          (''job_id'', LogInt jid)] @ attrs\<rparr>]\<rparr>"

definition logSSEWriteFailure :: "int64 \<Rightarrow> Request \<Rightarrow> string \<Rightarrow> go_error \<Rightarrow> ('j, 'u) App \<Rightarrow> ('j, 'u) App" where
  "logSSEWriteFailure jid r phase err =
     sse_log LevelWarn ''sse write failed'' ''sse.write.failed'' jid r
       [(''phase'', LogString phase), (''error_kind'', LogString (sseErrorKind err))]"

definition log_sse_closed :: "int64 \<Rightarrow> Request \<Rightarrow> sse_end \<Rightarrow> int64 \<Rightarrow> ('j, 'u) App \<Rightarrow> ('j, 'u) App" where
  "log_sse_closed jid r e elapsed =
     sse_log LevelInfo ''sse connection closed'' ''sse.connection.closed'' jid r
       [(''reason'', LogString (se_reason e)), (''write_failures'', LogInt (int (se_failures e))),
        (''duration_ms'', LogInt (go_div elapsed time_Millisecond))]"

text \<open>The handler once the caller may see the job.  The subscription is removed on every way out.\<close>

definition sse_stream ::
  "int64 \<Rightarrow> (event_data \<Rightarrow> go_error + string) \<Rightarrow> bool \<Rightarrow> ('j, 'u) sse_run \<Rightarrow> int64 \<Rightarrow> ('j, 'u) App app_handler" where
  "sse_stream wt enc flusher sr jid r w s =
     (let w1 = set_header ''Cache-Control'' ''no-cache'' (set_header ''Content-Type'' ''text/event-stream'' w) in
      if \<not> flusher then fails (Sentinel ErrStreamingUnsupported) r w1 s
      else
        (case Hub_Subscribe jid (w_hub (app_world s)) of
           None \<Rightarrow> (Panicked, r, w1, s)
         | Some (Inl e, h) \<Rightarrow> fails e r w1 (set_hub h s)
         | Some (Inr sid, h) \<Rightarrow>
             (let s1 = run_between sr (sse_log LevelInfo ''sse connection opened'' ''sse.connection.opened'' jid r [] (set_hub h s));
                  (e, outs) = sse_loop wt enc (run_closing sr) (run_cases sr);
                  s2 = (case se_error e of Some err \<Rightarrow> logSSEWriteFailure jid r (se_phase e) err s1 | None \<Rightarrow> s1);
                  s3 = log_sse_closed jid r e (run_elapsed sr) s2
              in (Returned (se_error e), r, sse_bytes outs w1,
                  set_hub (snd (Hub_unsubscribe jid sid False (w_hub (app_world s3)))) s3))))"

definition JobHandler_Events ::
  "'j JobRepository \<Rightarrow> int64 \<Rightarrow> (event_data \<Rightarrow> go_error + string) \<Rightarrow> bool \<Rightarrow> ('j, 'u) sse_run \<Rightarrow> int64 \<Rightarrow> ('j, 'u) App app_handler" where
  "JobHandler_Events jr wt enc flusher sr jid =
     own_job_only jr jid (\<lambda>job. sse_stream wt enc flusher sr jid)"

section \<open>Admission of asynchronous jobs\<close>

text \<open>
  Against a store \<open>m\<close> of jobs: a refused request leaves jobs and queue as they were, an admitted one
  stores a new queued job of the caller and appends exactly its item to the queue.
\<close>

abbreviation jobs_of :: "('j, 'u) App \<Rightarrow> 'j" where
  "jobs_of s \<equiv> w_jobs (app_world s)"

definition refused :: "('j \<Rightarrow> job_store) \<Rightarrow> ('j, 'u) App \<Rightarrow> ('j, 'u) App \<Rightarrow> bool" where
  "refused m s s' \<longleftrightarrow> m (jobs_of s') = m (jobs_of s) \<and> q_ch (app_queue s') = q_ch (app_queue s)"

definition admitted :: "('j \<Rightarrow> job_store) \<Rightarrow> Principal \<Rightarrow> CreateUserInput \<Rightarrow> Job \<Rightarrow> ('j, 'u) App \<Rightarrow> ('j, 'u) App \<Rightarrow> bool" where
  "admitted m who inp job s s' \<longleftrightarrow>
     m (jobs_of s) (job_ID job) = None \<and> m (jobs_of s') = (m (jobs_of s))(job_ID job \<mapsto> job) \<and>
     job_Status job = JobQueued \<and> job_OwnerUserID job = pr_UserID who \<and>
     q_ch (app_queue s') = q_ch (app_queue s) @ [\<lparr>wi_JobID = job_ID job, wi_Payload = inp\<rparr>]"

lemma publishQueuedJob_Some:
  assumes "hub_inv (w_hub wd)"
  shows "\<exists>h ob. publishQueuedJob ex jid wd = Some (wd\<lparr>w_hub := h, w_observer := ob\<rparr>)"
proof -
  have "\<exists>h. Hub_Publish jid ev (w_hub wd) = Some h" for ev
    using Publish_spec [OF assms, of jid ev] by (cases "hub_closed (w_hub wd)") (simp add: Hub_Publish_def, blast)
  then obtain h where "Hub_Publish jid \<lparr>ev_Type = JobStatus_string JobQueued, ev_JobID = jid, ev_At = ex_now ex, ev_Data = NoData\<rparr> (w_hub wd) = Some h"
    by blast
  then show ?thesis by (cases wd) (auto simp: publishQueuedJob_def publish_event_def)
qed

lemma Enqueue_cases:
  "Enqueue c x q = (e, q') \<Longrightarrow> q_ch q' = (if e = None then q_ch q @ [x] else q_ch q)"
  by (cases e) (auto simp: Enqueue_def split: option.splits if_splits)

context job_repository begin

lemma rollback_spec:
  assumes "invar (jobs_of s)" and "abs (jobs_of s) (wi_JobID item) = Some j"
    and "enqueue_or_rollback repo ex item s = (e, s')"
  shows "if e = None then abs (jobs_of s') = abs (jobs_of s) \<and> q_ch (app_queue s') = q_ch (app_queue s) @ [item]
         else abs (jobs_of s') = (abs (jobs_of s))(wi_JobID item := None) \<and> q_ch (app_queue s') = q_ch (app_queue s)"
  using assms delete [OF assms(1), of "wi_JobID item"]
  by (auto simp: enqueue_or_rollback_def deleteJobAfterFailedEnqueue_def JobService_Delete_def errors_Join_def
      dest: Enqueue_cases split: prod.splits option.splits if_splits)

lemma async_admission:
  assumes "invar (jobs_of s)" and "hub_inv (w_hub (app_world s))" and "req_Principal r = Some who"
    and "\<And>job e job' js. job_ID job = 0 \<Longrightarrow> repo_Save repo job (jobs_of s) = ((e, job'), js) \<Longrightarrow> e = None \<and> invar js"
  shows "\<exists>e w' s'. async_create repo ex inp r w s = (Returned e, r, w', s') \<and>
    (e \<noteq> None \<and> w' = w \<and> refused abs s s' \<or>
     (\<exists>job. admitted abs who inp job s s' \<and>
        (e, w') = reply_json ex 202 (PayJob job) (set_header ''Location'' (''/api/v1/jobs/'' @ Itoa (job_ID job)) w)))"
proof -
  let ?job = "\<lparr>job_ID = 0, job_Status = JobQueued, job_Result = None, job_Error = None, job_OwnerUserID = pr_UserID who\<rparr>"
  obtain e job js where save: "repo_Save repo ?job (jobs_of s) = ((e, job), js)" by (cases "repo_Save repo ?job (jobs_of s)") auto
  then have "e = None \<and> invar js" by (intro assms(4) [of ?job]) simp_all
  then have e: "e = None" and inv: "invar js" by simp_all
  from save_new [OF assms(1) _ _ save [unfolded e]]
  have job: "job = ?job\<lparr>job_ID := job_ID job\<rparr>" "abs (jobs_of s) (job_ID job) = None"
    "abs js = (abs (jobs_of s))(job_ID job \<mapsto> job)" by simp_all
  obtain h ob where pub: "publishQueuedJob ex (job_ID job) ((app_world s)\<lparr>w_jobs := js\<rparr>) =
      Some ((app_world s)\<lparr>w_jobs := js, w_hub := h, w_observer := ob\<rparr>)"
    using publishQueuedJob_Some [of "(app_world s)\<lparr>w_jobs := js\<rparr>" ex "job_ID job"] assms(2) by auto
  let ?s = "s\<lparr>app_world := (app_world s)\<lparr>w_jobs := js, w_hub := h, w_observer := ob\<rparr>\<rparr>"
  let ?item = "\<lparr>wi_JobID = job_ID job, wi_Payload = inp\<rparr>"
  obtain e2 s2 where enq: "enqueue_or_rollback repo ex ?item ?s = (e2, s2)" by fastforce
  have spec: "if e2 = None then abs (jobs_of s2) = abs js \<and> q_ch (app_queue s2) = q_ch (app_queue s) @ [?item]
     else abs (jobs_of s2) = (abs js)(job_ID job := None) \<and> q_ch (app_queue s2) = q_ch (app_queue s)"
    using rollback_spec [OF _ _ enq] inv job by simp
  have run: "async_create repo ex inp r w s =
     (case e2 of Some x \<Rightarrow> fails x r w s2
      | None \<Rightarrow> replies (reply_json ex 202 (PayJob job) (set_header ''Location'' (''/api/v1/jobs/'' @ Itoa (job_ID job)) w)) r s2)"
    using save e pub enq assms(3) by (simp add: async_create_def JobService_Save_def)
  have status: "job_Status job = JobQueued" "job_OwnerUserID job = pr_UserID who" by (subst job(1), simp)+
  have same: "(abs (jobs_of s))(job_ID job := None) = abs (jobs_of s)" using job(2) by auto
  show ?thesis
  proof (cases e2)
    case None
    then have "admitted abs who inp job s s2" using spec job status by (simp add: admitted_def)
    then show ?thesis unfolding run None by (auto simp: replies_def prod_eq_iff)
  next
    case (Some x)
    then have "refused abs s s2" using spec job same by (simp add: refused_def)
    then show ?thesis unfolding run Some by (auto simp: fails_def)
  qed
qed

end

lemma memory_async_admission:
  assumes "mj_inv (jobs_of s)" and "mj_nextID (jobs_of s) < int64_max" and "hub_inv (w_hub (app_world s))"
    and "req_Principal r = Some who"
  shows "\<exists>e w' s'. async_create memory_jobs ex inp r w s = (Returned e, r, w', s') \<and>
    (e \<noteq> None \<and> w' = w \<and> refused mj_abs s s' \<or>
     (\<exists>job. admitted mj_abs who inp job s s' \<and>
        (e, w') = reply_json ex 202 (PayJob job) (set_header ''Location'' (''/api/v1/jobs/'' @ Itoa (job_ID job)) w)))"
proof (rule mem.async_admission [OF assms(1,3,4)])
  have "0 < mj_nextID (jobs_of s)" using assms(1) by (simp add: mj_inv_def)
  then show "e = None \<and> mj_inv js" if "job_ID job = 0" "repo_Save memory_jobs job (jobs_of s) = ((e, job'), js)" for job e job' js
    using memory_Save_new [of "jobs_of s" job e job' js] mj_inv_Save [of "jobs_of s" job] assms(1,2) that
    by (simp add: memory_jobs_def)
qed

text \<open>C10: With \<open>async=1\<close>, creating a user (in either version, over the in-memory repository) never panics and is all or
  nothing: either the request is refused with an error, no job is stored and nothing is queued,
  or exactly one new queued job of the caller is stored and exactly its item is queued.\<close>

theorem async_create_admission:
  assumes "create = UsersHandler_Create \<or> create = UsersV2Handler_Create"
    and "mj_inv (jobs_of s)" and "mj_nextID (jobs_of s) < int64_max"
    and "hub_inv (w_hub (app_world s))" and "Query_Get r ''async'' = ''1''"
  shows "\<exists>e w' s'. create memory_jobs ur ex r w s = (Returned e, LimitBody r (64 * 1024), w', s') \<and>
    (e \<noteq> None \<and> w' = w \<and> refused mj_abs s s' \<or>
     (\<exists>who inp job. req_Principal r = Some who \<and> admitted mj_abs who inp job s s' \<and>
        (e, w') = reply_json ex 202 (PayJob job) (set_header ''Location'' (''/api/v1/jobs/'' @ Itoa (job_ID job)) w)))"
proof -
  let ?r = "LimitBody r (64 * 1024)"
  let ?goal = "\<lambda>res. \<exists>e w' s'. res = (Returned e, ?r, w', s') \<and>
    (e \<noteq> None \<and> w' = w \<and> refused mj_abs s s' \<or>
     (\<exists>who inp job. req_Principal r = Some who \<and> admitted mj_abs who inp job s s' \<and>
        (e, w') = reply_json ex 202 (PayJob job) (set_header ''Location'' (''/api/v1/jobs/'' @ Itoa (job_ID job)) w)))"
  have fails: "?goal (fails e ?r w s)" for e by (auto simp: fails_def refused_def)
  have async: "?goal (async_create memory_jobs ex inp ?r w s)" for inp
  proof (cases "req_Principal r")
    case None
    then show ?thesis using fails by (simp add: async_create_def LimitBody_def)
  next
    case (Some who)
    then have "req_Principal ?r = Some who" by (simp add: LimitBody_def)
    from memory_async_admission [OF assms(2-4) this, of ex inp w] Some show ?thesis by blast
  qed
  have query: "Query_Get ?r ''async'' = ''1''" using assms(5) by (simp add: Query_Get_def LimitBody_def)
  show ?thesis
    using assms(1) fails async query
    by (auto simp: UsersHandler_Create_def UsersV2Handler_Create_def Let_def split: option.splits sum.splits)
qed

text \<open>An exchange whose body is the input itself, with a valid user and no failures.\<close>

definition sample_exchange :: exchange where
  "sample_exchange = \<lparr>ex_now = 0, ex_enqueue = live_ctx, ex_json = \<lambda>_. Inr ''{}'', ex_proto = \<lambda>_. Inr [], ex_write = None,
     ex_decode = \<lambda>_ _. Inr \<lparr>cui_Name = ''Ann'', cui_Age = 30, cui_Email = ''ann@example.com''\<rparr>,
     ex_decodeV2 = \<lambda>_ _. Inr \<lparr>cui2_FullName = ''Ann'', cui2_Age = 30, cui2_Email = ''ann@example.com''\<rparr>,
     ex_trailing = \<lambda>_ _. Some (Sentinel Io_EOF)\<rparr>"

definition sample_app :: "(MemoryJobRepository, MemoryUserRepository) App" where
  "sample_app = \<lparr>authnFailures = [], forbiddenTotal = 0, rejectionsTotal = 0, bulkheadInFlight = 0, bulkheadSem = 0,
     rateLimitedTotal = 0, corsPreflightTotal = 0, corsDeniedTotal = 0,
     httpMetrics = \<lparr>hm_inFlight = 0, hm_requestsTotal = [], hm_errorsTotal = [], hm_latencySumNS = [], hm_latencyCount = []\<rparr>,
     logs = [], app_world = sample_world, app_queue = sample_queue\<rparr>"

definition sample_create :: Request where
  "sample_create = sample_request\<lparr>req_Method := ''POST'', req_RawQuery := ''async=1'',
     req_Header := [(''Content-Type'', [''application/json''])], req_Principal := Some \<lparr>pr_UserID = 9, pr_Role = RoleAdmin\<rparr>\<rparr>"

theorem async_create_admission_witness:
  "\<exists>e w' s'. UsersV2Handler_Create memory_jobs memory_users sample_exchange sample_create fresh_writer sample_app =
       (Returned e, LimitBody sample_create (64 * 1024), w', s') \<and>
     (refused mj_abs sample_app s' \<or> (\<exists>who inp job. req_Principal sample_create = Some who \<and> admitted mj_abs who inp job sample_app s'))"
proof -
  have "Query_Get sample_create ''async'' = ''1''" by code_simp
  moreover have "mj_nextID sample_repo < int64_max" by code_simp
  ultimately show ?thesis
    using async_create_admission [of UsersV2Handler_Create sample_app sample_create memory_users sample_exchange fresh_writer]
      sample_repo_inv hub_inv_New [OF sample_hub_New]
    by (auto simp: sample_app_def sample_world_def)
qed

lemma async_create_admits:
  "rw_Status (fst (snd (snd (UsersHandler_Create memory_jobs memory_users sample_exchange sample_create fresh_writer sample_app)))) = Some 202"
  by code_simp

section \<open>Resources and streams\<close>

text \<open>A handler behind \<open>own_user_only\<close> learns nothing to tell a stranger: the answer does not depend on it.\<close>

lemma own_user_only_stranger:
  assumes "req_Principal r = Some who" and "pr_Role who \<noteq> RoleAdmin" and "pr_UserID who \<noteq> uid"
  shows "own_user_only uid h r w s = fails (NewForbidden AuthZForbidden None) r w s"
  using assms by (simp add: own_user_only_def CanReadUser_def)

lemmas user_handlers_guarded = UsersHandler_GetByID_def UsersV2Handler_GetByID_def UsersHandler_Export_def GetUserProfile_def

text \<open>A healthy stream writes its events in the order it receives them and ends without an error.\<close>

definition healthy :: sse_io where
  "healthy = \<lparr>io_deadline = None, io_first = None, io_second = None, io_flush = None\<rparr>"

definition sse_frame :: "(event_data \<Rightarrow> string) \<Rightarrow> Event \<Rightarrow> string" where
  "sse_frame enc ev = (if ev_Type ev = [] then [] else ''event: '' @ ev_Type ev @ ''\<newline>'') @ ''data: '' @ enc (ev_Data ev) @ ''\<newline>\<newline>''"

lemma sse_loop_delivers:
  "sse_loop wt (\<lambda>d. Inr (enc d)) closing (map (\<lambda>ev. CaseEvent (Some ev) healthy) evs) =
     (\<lparr>se_error = None, se_reason = sseCloseReason closing, se_failures = 0, se_phase = []\<rparr>, map (sse_frame enc) evs)"
  by (induction evs) (simp_all add: writeWithTimeout_def healthy_def WriteSSE_def sse_frame_def)

text \<open>An error of the loop is the error of its last write, counted once.\<close>

lemma sse_loop_failure:
  "sse_loop wt enc closing cs = (res, outs) \<Longrightarrow>
     (se_error res = None \<longleftrightarrow> se_failures res = 0) \<and> se_failures res \<le> 1 \<and> length outs \<le> length cs"
  by (induction wt enc closing cs arbitrary: res outs rule: sse_loop.induct)
     (auto split: prod.splits option.splits)

lemma unsubscribed:
  "gm_lookup (subs_of (snd (Hub_unsubscribe jid sid False h)) jid) sid = None"
  by (auto simp: Hub_unsubscribe_def subs_of_def gomap_simps delete_conv' Let_def split: option.splits)

end
