(* ===== verification/Grpc.thy ===== *)
theory Grpc
  imports Handlers
begin

text \<open>
  The gRPC side of the program: the interceptors (\<open>internal/interceptors\<close>), the job service and the
  transport rules of server and client (\<open>internal/transport\<close>), and the life cycle of the server
  (\<open>grpcserver/runtime.go\<close>) as a state machine.  The library \<open>google.golang.org/grpc\<close> is a parameter:
  metadata are association lists, and a call of \<open>Serve\<close> or \<open>GracefulStop\<close> returns in a step of its own.
\<close>

section \<open>Interceptors\<close>

text \<open>\<open>metadata.MD\<close> with lower-case keys; \<open>Pairs\<close> and \<open>AppendToOutgoingContext\<close> keep every value.\<close>

type_synonym MD = "(string, string list) gomap"

definition MD_Get :: "MD \<Rightarrow> string \<Rightarrow> string list" where
  "MD_Get md k = (case gm_lookup md (ToLower k) of None \<Rightarrow> [] | Some vs \<Rightarrow> vs)"

definition MD_Set :: "string \<Rightarrow> string list \<Rightarrow> MD \<Rightarrow> MD" where
  "MD_Set k vs md = (if vs = [] then md else gm_update (ToLower k) vs md)"

definition sanitizeGRPCRequestID :: "string \<Rightarrow> string option" where
  "sanitizeGRPCRequestID s0 =
     (let s = TrimSpace s0 in
      if s = [] \<or> length s > 128 then None
      else if list_ex (\<lambda>b. of_char b < (0x21 :: nat) \<or> of_char b > (0x7e :: nat)) s then None
      else Some s)"

definition requestIDFromMetadata :: "MD \<Rightarrow> string option" where
  "requestIDFromMetadata md =
     (case MD_Get md ''request-id'' of [v] \<Rightarrow> sanitizeGRPCRequestID v | _ \<Rightarrow> None)"

text \<open>The context of a call on the server: the incoming metadata and what the interceptors add, with the
  header and trailer sent back.\<close>

record grpc_ctx =
  gc_md :: "MD option"
  gc_RequestID :: "string option"
  gc_Principal :: "Principal option"

record grpc_reply =
  gp_header :: MD
  gp_trailer :: MD

type_synonym ('q, 'a) unary_handler = "grpc_ctx \<Rightarrow> 'q \<Rightarrow> go_error + 'a"

definition UnaryRequestIDAndLogging ::
  "string \<Rightarrow> ('q, 'a) unary_handler \<Rightarrow> grpc_ctx \<Rightarrow> 'q \<Rightarrow> (go_error + 'a) \<times> grpc_reply" where
  "UnaryRequestIDAndLogging fresh handler ctx req =
     (let rid = (case gc_md ctx of
                   None \<Rightarrow> fresh
                 | Some md \<Rightarrow> (case requestIDFromMetadata md of Some x \<Rightarrow> x | None \<Rightarrow> fresh))
      in (handler (ctx\<lparr>gc_RequestID := Some rid\<rparr>) req,
          \<lparr>gp_header = [(''request-id'', [rid])], gp_trailer = [(''request-id'', [rid])]\<rparr>))"

definition ensureOutgoingRequestID :: "string \<Rightarrow> MD option \<Rightarrow> MD" where
  "ensureOutgoingRequestID fresh outgoing =
     (case outgoing of
        None \<Rightarrow> [(''request-id'', [fresh])]
      | Some md \<Rightarrow> if requestIDFromMetadata md \<noteq> None then md else MD_Set ''request-id'' [fresh] md)"

text \<open>The deadline of a client call: the earlier of the caller's and the timeout.\<close>

definition UnaryClientRequestIDAndTimeout ::
  "string \<Rightarrow> int64 \<Rightarrow> int \<Rightarrow> (MD \<Rightarrow> int option \<Rightarrow> 'a) \<Rightarrow> MD option \<Rightarrow> int option \<Rightarrow> 'a" where
  "UnaryClientRequestIDAndTimeout fresh timeout clock invoker outgoing deadline =
     invoker (ensureOutgoingRequestID fresh outgoing)
       (if timeout > 0
        then Some (case deadline of None \<Rightarrow> clock + timeout | Some d \<Rightarrow> min d (clock + timeout))
        else deadline)"

definition grpc_parseBearerToken :: "string \<Rightarrow> go_error + string" where
  "grpc_parseBearerToken header0 =
     (let header = TrimSpace header0 in
      if header = [] then Inl (NewUnauthorized AuthNMissing None)
      else
        (case Fields header of
           [scheme, tok] \<Rightarrow>
             if \<not> EqualFold scheme ''Bearer'' then Inl (NewUnauthorized AuthNInvalid None)
             else if TrimSpace tok = [] then Inl (NewUnauthorized AuthNInvalid None)
             else Inr (TrimSpace tok)
         | _ \<Rightarrow> Inl (NewUnauthorized AuthNInvalid None)))"

definition bearerTokenFromIncomingMetadata :: "grpc_ctx \<Rightarrow> go_error + string" where
  "bearerTokenFromIncomingMetadata ctx =
     (case gc_md ctx of
        None \<Rightarrow> Inl (NewUnauthorized AuthNMissing None)
      | Some md \<Rightarrow>
          (case MD_Get md ''authorization'' of
             [] \<Rightarrow> Inl (NewUnauthorized AuthNMissing None)
           | [v] \<Rightarrow> grpc_parseBearerToken v
           | _ \<Rightarrow> Inl (NewUnauthorized AuthNInvalid None)))"

definition grpcUnauthenticated :: "go_error \<Rightarrow> go_error" where
  "grpcUnauthenticated err =
     (if AuthNKind err = Some AuthNMissing then GrpcStatusError Codes_Unauthenticated ''authentication required''
      else GrpcStatusError Codes_Unauthenticated ''invalid bearer token'')"

definition UnaryAuthenticate :: "verifier \<Rightarrow> ('q, 'a) unary_handler \<Rightarrow> ('q, 'a) unary_handler" where
  "UnaryAuthenticate verify handler ctx req =
     (case bearerTokenFromIncomingMetadata ctx of
        Inl err \<Rightarrow> Inl (grpcUnauthenticated err)
      | Inr token \<Rightarrow>
          (case verify token of
             Inl err \<Rightarrow> Inl (grpcUnauthenticated (UnauthorizedFromVerifyErr (Some err)))
           | Inr p \<Rightarrow> handler (ctx\<lparr>gc_Principal := Some p\<rparr>) req))"

section \<open>The job service\<close>

definition mapJobStatus :: "JobStatus \<Rightarrow> int" where
  "mapJobStatus s =
     (case s of JobQueued \<Rightarrow> 1 | JobRunning \<Rightarrow> 2 | JobSucceeded \<Rightarrow> 3 | JobFailed \<Rightarrow> 4 | JobStatusOther _ \<Rightarrow> 0)"

text \<open>A request is the identifier, or \<open>None\<close> for a nil message.\<close>

definition GetJob :: "'j JobRepository \<Rightarrow> 'j \<Rightarrow> (int64 option, int64 \<times> int) unary_handler" where
  "GetJob jr js ctx req =
     (case gc_Principal ctx of
        None \<Rightarrow> Inl (GrpcStatusError Codes_Unauthenticated ''authentication required'')
      | Some who \<Rightarrow>
          (case req of
             None \<Rightarrow> Inl (GrpcStatusError Codes_InvalidArgument ''request must not be nil'')
           | Some jid \<Rightarrow>
               if jid \<le> 0 then Inl (GrpcStatusError Codes_InvalidArgument ''job ID must be positive'')
               else
                 (case fst (JobService_GetByID jr jid js) of
                    Inl err \<Rightarrow>
                      Inl (if errors_Is err ContextCanceled then GrpcStatusError Codes_Canceled ''request canceled''
                           else if errors_Is err ContextDeadlineExceeded then GrpcStatusError Codes_DeadlineExceeded ''deadline exceeded''
                           else if errors_Is err ErrJobNotFound
                           then GrpcStatusError Codes_NotFound (''job with ID '' @ Itoa jid @ '' not found'')
                           else GrpcStatusError Codes_Internal ''internal error'')
                  | Inr job \<Rightarrow>
                      if \<not> CanReadJob who (job_OwnerUserID job)
                      then Inl (GrpcStatusError Codes_PermissionDenied ''permission denied'')
                      else Inr (job_ID job, mapJobStatus (job_Status job)))))"

text \<open>The chain the server installs.\<close>

definition grpc_server :: "string \<Rightarrow> verifier \<Rightarrow> 'j JobRepository \<Rightarrow> 'j \<Rightarrow> grpc_ctx \<Rightarrow> int64 option \<Rightarrow> (go_error + int64 \<times> int) \<times> grpc_reply" where
  "grpc_server fresh verify jr js = UnaryRequestIDAndLogging fresh (UnaryAuthenticate verify (GetJob jr js))"

section \<open>Transport rules\<close>

definition grpc_isLoopbackListenAddr :: "string \<Rightarrow> bool" where
  "grpc_isLoopbackListenAddr addr =
     (case SplitHostPort addr of
        None \<Rightarrow> False
      | Some (host0, _) \<Rightarrow>
          let host = TrimSpace host0 in
          if EqualFold host ''localhost'' then True
          else if host = [] then False
          else (case ParseAddr host of None \<Rightarrow> False | Some ip \<Rightarrow> IsLoopback ip))"

record grpc_server_config =
  gsc_Addr :: string
  gsc_ReflectionEnabled :: bool
  gsc_TLS_Enable :: bool
  gsc_CertFile :: string
  gsc_KeyFile :: string
  gsc_ClientCAFile :: string

text \<open>Loading certificates and opening the listener can fail; both outcomes are parameters.\<close>

definition server_tls_credentials :: "(string \<Rightarrow> string \<Rightarrow> string \<Rightarrow> go_error option) \<Rightarrow> grpc_server_config \<Rightarrow> go_error option" where
  "server_tls_credentials load cfg =
     (if TrimSpace (gsc_CertFile cfg) = [] then Some (OpaqueError ''GRPC_TLS_CERT_FILE is required'')
      else if TrimSpace (gsc_KeyFile cfg) = [] then Some (OpaqueError ''GRPC_TLS_KEY_FILE is required'')
      else if TrimSpace (gsc_ClientCAFile cfg) = [] then Some (OpaqueError ''GRPC_TLS_CLIENT_CA_FILE is required'')
      else load (gsc_CertFile cfg) (gsc_KeyFile cfg) (gsc_ClientCAFile cfg))"

definition grpc_transport_error :: "(string \<Rightarrow> string \<Rightarrow> string \<Rightarrow> go_error option) \<Rightarrow> grpc_server_config \<Rightarrow> go_error option" where
  "grpc_transport_error load cfg =
     (if gsc_TLS_Enable cfg then server_tls_credentials load cfg
      else if \<not> grpc_isLoopbackListenAddr (gsc_Addr cfg)
      then Some (OpaqueError ''plaintext grpc requires a loopback listener'')
      else None)"

definition loopbackTarget :: "string \<Rightarrow> go_error + string" where
  "loopbackTarget addr =
     (if HasPrefix addr '':'' then Inr (''127.0.0.1'' @ addr)
      else
        (case SplitHostPort addr of
           None \<Rightarrow> Inl (OpaqueError [])
         | Some (host, port) \<Rightarrow>
             let h = (if host = [] \<or> host = ''0.0.0.0'' \<or> host = ''::'' then ''127.0.0.1'' else host) in
             Inr (JoinHostPort h port)))"

definition isLoopbackTarget :: "string \<Rightarrow> bool" where
  "isLoopbackTarget target =
     (case SplitHostPort target of
        None \<Rightarrow> False
      | Some (host0, _) \<Rightarrow>
          let host = TrimSpace host0 in
          if EqualFold host ''localhost'' then True
          else (case ParseAddr host of None \<Rightarrow> False | Some ip \<Rightarrow> IsLoopback ip))"

definition client_call_timeout :: "int64 \<Rightarrow> go_error + int64" where
  "client_call_timeout t =
     (let ct = (if t = 0 then 2 * time_Second else t) in
      if ct < 0 then Inl (OpaqueError ''grpc client call timeout must be >= 0'') else Inr ct)"

text \<open>The two transports accept the same credentials and the same request identifiers.\<close>

lemma grpc_parseBearerToken_eq: "grpc_parseBearerToken = parseBearerToken"
  by (intro ext) (auto simp: grpc_parseBearerToken_def parseBearerToken_def Let_def split: list.splits)

lemma sanitizeGRPCRequestID_eq: "sanitizeGRPCRequestID = sanitizeRequestID"
  by (intro ext) (simp add: sanitizeGRPCRequestID_def sanitizeRequestID_def Let_def)

text \<open>The listener the server accepts without TLS is one the client accepts as well.\<close>

lemma plaintext_client_ok:
  assumes "grpc_isLoopbackListenAddr addr" and "loopbackTarget addr = Inr addr"
  shows "isLoopbackTarget addr"
  using assms by (auto simp: grpc_isLoopbackListenAddr_def isLoopbackTarget_def Let_def split: option.splits if_splits)

text \<open>Reading a job through gRPC: only with an accepted token, and only one's own job unless one is an
  administrator; the status survives the way through the protobuf enumeration.\<close>

lemma mapPB_mapJobStatus:
  "mapPBJobStatus (mapJobStatus st) = (case st of JobStatusOther _ \<Rightarrow> ''unknown'' | _ \<Rightarrow> JobStatus_string st)"
  by (cases st) (simp_all add: mapPBJobStatus_def mapJobStatus_def JobStatus_string_def)

lemma bearer_request_id [simp]: "bearerTokenFromIncomingMetadata (ctx\<lparr>gc_RequestID := x\<rparr>) = bearerTokenFromIncomingMetadata ctx"
  by (simp add: bearerTokenFromIncomingMetadata_def)

lemma grpc_server_reads_own:
  assumes "fst (grpc_server fresh verify jr js ctx req) = Inr (jid, st)"
  shows "\<exists>token who job k. bearerTokenFromIncomingMetadata ctx = Inr token \<and> verify token = Inr who \<and>
    req = Some k \<and> fst (JobService_GetByID jr k js) = Inr job \<and> CanReadJob who (job_OwnerUserID job) \<and>
    jid = job_ID job \<and> st = mapJobStatus (job_Status job)"
  using assms
  by (auto simp: grpc_server_def UnaryRequestIDAndLogging_def UnaryAuthenticate_def GetJob_def Let_def
      split: sum.splits option.splits if_splits)

section \<open>The life cycle of the server\<close>

datatype runtimeState = runtimeStateNew | runtimeStateRunning | runtimeStateStopping | runtimeStateStopped

text \<open>
  The fields of \<open>Runtime\<close>; a channel is its closed flag and a \<open>sync.Once\<close> the flag that it ran.  The last
  four fields are what the library and the runtime's goroutines are doing: the goroutine of \<open>Start\<close> is
  inside \<open>Serve\<close>, one is inside \<open>GracefulStop\<close>, the server was told to stop, the listener is closed.
\<close>

record Runtime =
  rt_state :: runtimeState
  rt_err :: "go_error option"
  rt_done :: bool
  rt_doneOnce :: bool
  rt_shutdownOnce :: bool
  rt_forceStopOnce :: bool
  rt_gracefulDone :: bool
  rt_serving :: bool
  rt_stopping :: bool
  rt_stopped :: bool
  rt_listenerClosed :: bool

definition NewRuntime :: Runtime where
  "NewRuntime = \<lparr>rt_state = runtimeStateNew, rt_err = None, rt_done = False, rt_doneOnce = False, rt_shutdownOnce = False,
     rt_forceStopOnce = False, rt_gracefulDone = False, rt_serving = False, rt_stopping = False, rt_stopped = False,
     rt_listenerClosed = False\<rparr>"

definition NewRuntimeWithConfig ::
  "(string \<Rightarrow> string \<Rightarrow> string \<Rightarrow> go_error option) \<Rightarrow> (string \<Rightarrow> go_error option) \<Rightarrow> grpc_server_config \<Rightarrow> verifier option \<Rightarrow>
     go_error + Runtime" where
  "NewRuntimeWithConfig load listen cfg verify =
     (if TrimSpace (gsc_Addr cfg) = [] then Inl (OpaqueError ''grpc addr is required'')
      else if gsc_ReflectionEnabled cfg \<and> \<not> grpc_isLoopbackListenAddr (gsc_Addr cfg)
      then Inl (OpaqueError ''grpc reflection requires a loopback listener'')
      else
        (case verify of
           None \<Rightarrow> Inl (OpaqueError ''grpc auth: verifier is nil'')
         | Some v \<Rightarrow>
             (case grpc_transport_error load cfg of
                Some e \<Rightarrow> Inl e
              | None \<Rightarrow> (case listen (gsc_Addr cfg) of Some e \<Rightarrow> Inl e | None \<Rightarrow> Inr NewRuntime))))"

text \<open>\<open>None\<close> below is a panic: the close of a channel that is closed already.\<close>

definition close_done :: "Runtime \<Rightarrow> Runtime option" where
  "close_done r =
     (if rt_doneOnce r then Some r
      else if rt_done r then None
      else Some (r\<lparr>rt_doneOnce := True, rt_done := True\<rparr>))"

text \<open>The receiver of the methods may be a nil pointer.\<close>

definition Runtime_Start :: "Runtime option \<Rightarrow> go_error option \<times> Runtime option" where
  "Runtime_Start rt =
     (case rt of
        None \<Rightarrow> (Some (Sentinel ErrGRPCServerRuntimeRequired), rt)
      | Some r \<Rightarrow>
          if rt_state r \<noteq> runtimeStateNew then (Some (Sentinel ErrGRPCServerAlreadyStarted), rt)
          else (None, Some (r\<lparr>rt_state := runtimeStateRunning, rt_serving := True\<rparr>)))"

definition finishServe :: "go_error option \<Rightarrow> Runtime \<Rightarrow> (bool \<times> Runtime) option" where
  "finishServe err r =
     (let fatal = (case err of
                     None \<Rightarrow> False
                   | Some e \<Rightarrow> rt_state r = runtimeStateRunning \<and> \<not> errors_Is e Grpc_ErrServerStopped);
          r1 = (if fatal then r\<lparr>rt_err := err\<rparr> else r)
      in map_option (\<lambda>r2. (fatal, r2)) (close_done (r1\<lparr>rt_state := runtimeStateStopped\<rparr>)))"

definition beginShutdown :: "Runtime \<Rightarrow> (bool \<times> Runtime) option" where
  "beginShutdown r =
     (case rt_state r of
        runtimeStateNew \<Rightarrow>
          map_option (\<lambda>r2. (False, r2))
            (close_done (r\<lparr>rt_state := runtimeStateStopped, rt_stopped := True, rt_listenerClosed := True\<rparr>))
      | runtimeStateRunning \<Rightarrow> Some (True, r\<lparr>rt_state := runtimeStateStopping\<rparr>)
      | runtimeStateStopping \<Rightarrow> Some (True, r)
      | runtimeStateStopped \<Rightarrow> Some (False, r))"

text \<open>\<open>Shutdown\<close> up to its \<open>select\<close>: whether it has to wait.  (What \<open>beginShutdown\<close> does to a new server after it
  released the mutex is part of the same step.)\<close>

definition Shutdown_enter :: "Runtime \<Rightarrow> (bool \<times> Runtime) option" where
  "Shutdown_enter r =
     (case beginShutdown r of
        None \<Rightarrow> None
      | Some (False, r1) \<Rightarrow> Some (False, r1)
      | Some (True, r1) \<Rightarrow>
          Some (True, if rt_shutdownOnce r1 then r1
                      else r1\<lparr>rt_shutdownOnce := True, rt_stopping := True, rt_stopped := True\<rparr>))"

text \<open>The goroutine that \<open>Shutdown\<close> starts, when \<open>GracefulStop\<close> returns.\<close>

definition gracefulStop_returns :: "Runtime \<Rightarrow> Runtime option" where
  "gracefulStop_returns r =
     (if rt_gracefulDone r then None else Some (r\<lparr>rt_stopping := False, rt_gracefulDone := True\<rparr>))"

definition forceStop :: "Runtime \<Rightarrow> Runtime" where
  "forceStop r = (if rt_forceStopOnce r then r else r\<lparr>rt_forceStopOnce := True, rt_stopped := True\<rparr>)"

definition Runtime_Ready :: "Runtime option \<Rightarrow> go_error option" where
  "Runtime_Ready rt =
     (case rt of
        None \<Rightarrow> Some (Sentinel ErrGRPCServerNotRunning)
      | Some r \<Rightarrow> if rt_state r \<noteq> runtimeStateRunning then Some (Sentinel ErrGRPCServerNotRunning) else None)"

definition Runtime_Done :: "Runtime option \<Rightarrow> bool" where
  "Runtime_Done rt = (case rt of None \<Rightarrow> True | Some r \<Rightarrow> rt_done r)"

definition Runtime_Err :: "Runtime option \<Rightarrow> go_error option" where
  "Runtime_Err rt = (case rt of None \<Rightarrow> Some (Sentinel ErrGRPCServerRuntimeRequired) | Some r \<Rightarrow> rt_err r)"

section \<open>Calls of Shutdown\<close>

text \<open>
  A call of \<open>Shutdown\<close> that has to wait is in its \<open>select\<close>, or it saw the graceful stop end and waits for
  \<open>done\<close>, or its context ended first and it forced the stop.  A step of progress is one the library or a
  waiting call makes on its own; the others are new calls.
\<close>

datatype waiter = Waiting | Draining | Forced go_error

inductive rt_progress :: "Runtime \<times> waiter list \<Rightarrow> Runtime \<times> waiter list \<Rightarrow> bool" where
  serve: "rt_serving r \<Longrightarrow> (err = None \<longrightarrow> rt_stopped r) \<Longrightarrow>
    finishServe err (r\<lparr>rt_serving := False\<rparr>) = Some (fatal, r') \<Longrightarrow> rt_progress (r, ws) (r', ws)"
| graceful: "rt_stopping r \<Longrightarrow> gracefulStop_returns r = Some r' \<Longrightarrow> rt_progress (r, ws) (r', ws)"
| timeout: "i < length ws \<Longrightarrow> ws ! i = Waiting \<Longrightarrow> rt_progress (r, ws) (forceStop r, ws[i := Forced e])"
| drained: "i < length ws \<Longrightarrow> ws ! i = Waiting \<Longrightarrow> rt_gracefulDone r \<Longrightarrow> rt_progress (r, ws) (r, ws[i := Draining])"
| returns: "i < length ws \<Longrightarrow> ws ! i \<noteq> Waiting \<Longrightarrow> rt_gracefulDone r \<Longrightarrow> rt_done r \<Longrightarrow>
    rt_progress (r, ws) (r, take i ws @ drop (Suc i) ws)"

inductive rt_step :: "Runtime \<times> waiter list \<Rightarrow> Runtime \<times> waiter list \<Rightarrow> bool" where
  start: "Runtime_Start (Some r) = (None, Some r') \<Longrightarrow> rt_step (r, ws) (r', ws)"
| shutdown: "Shutdown_enter r = Some (b, r') \<Longrightarrow> rt_step (r, ws) (r', ws @ (if b then [Waiting] else []))"
| progress: "rt_progress st st' \<Longrightarrow> rt_step st st'"

text \<open>What holds between the steps.\<close>

definition rt_inv :: "Runtime \<times> waiter list \<Rightarrow> bool" where
  "rt_inv st \<longleftrightarrow>
     (case st of (r, ws) \<Rightarrow>
       rt_doneOnce r = rt_done r \<and>
       (rt_done r \<longleftrightarrow> rt_state r = runtimeStateStopped) \<and>
       (rt_serving r \<longleftrightarrow> rt_state r = runtimeStateRunning \<or> rt_state r = runtimeStateStopping) \<and>
       (rt_state r = runtimeStateStopping \<longrightarrow> rt_shutdownOnce r) \<and>
       (rt_shutdownOnce r \<longrightarrow> rt_stopped r \<and> rt_state r \<noteq> runtimeStateNew \<and> rt_state r \<noteq> runtimeStateRunning) \<and>
       (rt_shutdownOnce r \<longleftrightarrow> rt_stopping r \<or> rt_gracefulDone r) \<and>
       \<not> (rt_stopping r \<and> rt_gracefulDone r) \<and>
       (ws \<noteq> [] \<longrightarrow> rt_shutdownOnce r) \<and>
       (rt_err r \<noteq> None \<longrightarrow> rt_state r = runtimeStateStopped))"

definition runtime_work :: "Runtime \<times> waiter list \<Rightarrow> nat" where
  "runtime_work st =
     (case st of (r, ws) \<Rightarrow>
       (if rt_serving r then 1 else 0) + (if rt_stopping r then 1 else 0) +
       sum_list (map (\<lambda>x. if x = Waiting then 2 else 1) ws))"

lemma rt_inv_New: "rt_inv (NewRuntime, [])"
  by (simp add: rt_inv_def NewRuntime_def)

text \<open>What the end of \<open>Serve\<close> leaves behind.\<close>

lemma finishServe_spec:
  assumes "finishServe err r = Some (fatal, r')" and "rt_doneOnce r = rt_done r" and "\<not> rt_done r"
  shows "\<exists>e. r' = r\<lparr>rt_err := e, rt_state := runtimeStateStopped, rt_doneOnce := True, rt_done := True\<rparr>"
proof -
  define r1 where "r1 = (if fatal then r\<lparr>rt_err := err\<rparr> else r)"
  have "r' = r1\<lparr>rt_state := runtimeStateStopped, rt_doneOnce := True, rt_done := True\<rparr>"
    using assms by (auto simp: finishServe_def close_done_def Let_def r1_def split: if_splits)
  then show ?thesis by (cases r) (auto simp: r1_def)
qed

lemma rt_inv_progress: "rt_progress st st' \<Longrightarrow> rt_inv st \<Longrightarrow> rt_inv st'"
proof (induction rule: rt_progress.induct)
  case (serve r err fatal r' ws)
  then have "\<not> rt_done r" "rt_doneOnce r = rt_done r" by (auto simp: rt_inv_def)
  with finishServe_spec [OF serve(3)] obtain e where
    "r' = r\<lparr>rt_serving := False, rt_err := e, rt_state := runtimeStateStopped, rt_doneOnce := True, rt_done := True\<rparr>"
    by auto
  with serve show ?case by (auto simp: rt_inv_def)
next
  case (graceful r r' ws)
  then show ?case by (auto simp: rt_inv_def gracefulStop_returns_def split: if_splits)
next
  case (timeout i ws r e)
  then show ?case by (simp add: rt_inv_def forceStop_def) blast
qed (auto simp: rt_inv_def)

lemma rt_inv_step: "rt_step st st' \<Longrightarrow> rt_inv st \<Longrightarrow> rt_inv st'"
proof (induction rule: rt_step.induct)
  case (shutdown r b r' ws)
  then show ?case
    by (cases "rt_state r")
       (auto simp: rt_inv_def Shutdown_enter_def beginShutdown_def close_done_def split: if_splits)
qed (auto simp: rt_inv_progress, auto simp: rt_inv_def Runtime_Start_def split: if_splits)

lemma rt_inv_reachable: "rt_step\<^sup>*\<^sup>* (NewRuntime, []) st \<Longrightarrow> rt_inv st"
  by (induction rule: rtranclp_induct) (auto simp: rt_inv_New rt_inv_step)

text \<open>No operation panics.\<close>

lemma runtime_no_panic:
  assumes "rt_inv (r, ws)"
  shows "Shutdown_enter r \<noteq> None" "rt_serving r \<Longrightarrow> finishServe err (r\<lparr>rt_serving := False\<rparr>) \<noteq> None"
    "rt_stopping r \<Longrightarrow> gracefulStop_returns r \<noteq> None"
  using assms
  by (cases "rt_state r";
      auto simp: rt_inv_def Shutdown_enter_def beginShutdown_def finishServe_def gracefulStop_returns_def close_done_def Let_def)+

lemma work_update: "i < length ws \<Longrightarrow> sum_list (map f (ws[i := x])) + f (ws ! i) = sum_list (map f ws) + (f x :: nat)"
  by (induction ws arbitrary: i) (auto split: nat.splits simp: nth_Cons')

lemma work_remove: "i < length ws \<Longrightarrow> sum_list (map f (take i ws @ drop (Suc i) ws)) + f (ws ! i) = (sum_list (map f ws) :: nat)"
  using arg_cong [OF id_take_nth_drop [of i ws], of "\<lambda>xs. sum_list (map f xs)"] by simp

lemma progress_work:
  assumes "rt_progress st st'" and "rt_inv st"
  shows "runtime_work st' < runtime_work st"
  using assms
proof (induction rule: rt_progress.induct)
  case (serve r err fatal r' ws)
  then have "\<not> rt_done r" "rt_doneOnce r = rt_done r" by (auto simp: rt_inv_def)
  with finishServe_spec [OF serve(3)] serve(1) show ?case by (auto simp: runtime_work_def)
next
  case (graceful r r' ws)
  then show ?case by (auto simp: runtime_work_def gracefulStop_returns_def split: if_splits)
next
  case (timeout i ws r e)
  then show ?case
    using work_update [of i ws "\<lambda>x. if x = Waiting then 2 else 1" "Forced e"] by (auto simp: runtime_work_def forceStop_def)
next
  case (drained i ws r)
  then show ?case
    using work_update [of i ws "\<lambda>x. if x = Waiting then 2 else 1" Draining] by (auto simp: runtime_work_def)
next
  case (returns i ws r)
  then show ?case
    using work_remove [of i ws "\<lambda>x. if x = Waiting then 2 else 1"] by (auto simp: runtime_work_def)
qed

lemma progress_possible:
  assumes "rt_inv (r, ws)" and "ws \<noteq> []"
  shows "\<exists>st. rt_progress (r, ws) st"
proof (cases "rt_serving r")
  case True
  then obtain x where "finishServe None (r\<lparr>rt_serving := False\<rparr>) = Some x"
    using runtime_no_panic(2) [OF assms(1), of None] by blast
  then show ?thesis
    using True assms by (cases x) (auto simp: rt_inv_def intro: rt_progress.serve)
next
  case False
  then have dn: "rt_done r" using assms by (cases "rt_state r") (auto simp: rt_inv_def)
  show ?thesis
  proof (cases "rt_stopping r")
    case True
    then show ?thesis using runtime_no_panic(3) [OF assms(1)] by (auto intro: rt_progress.graceful)
  next
    case False
    then have "rt_gracefulDone r" using assms by (auto simp: rt_inv_def)
    then show ?thesis
      using assms(2) dn by (cases "ws ! 0 = Waiting") (blast intro: rt_progress.drained rt_progress.returns)+
  qed
qed

lemma progress_done:
  assumes "rt_progress st st'" and "rt_inv st" and "rt_done (fst st) \<or> snd st' = [] \<and> snd st \<noteq> []"
  shows "rt_done (fst st')"
  using assms
proof (induction rule: rt_progress.induct)
  case (serve r err fatal r' ws)
  then show ?case using finishServe_spec [OF serve(3)] by (auto simp: rt_inv_def)
qed (auto simp: gracefulStop_returns_def forceStop_def split: if_splits)



end
