(* ===== verification/Router.thy ===== *)
theory Router
  imports Handlers
begin

text \<open>
  The routes of the program (\<open>internal/router\<close>) and the health endpoints (\<open>internal/health\<close>).  The first
  part models what the routes use of \<open>http.ServeMux\<close>: patterns with an optional method and wildcards,
  the most specific match, cleaned paths, and the answers for redirects, unknown methods and unknown
  paths.  Paths are those without percent-encoding and patterns have no host.
\<close>

section \<open>The multiplexer\<close>

datatype segment = Lit string | Wild string | Multi

record route_pattern =
  pat_text :: string
  pat_method :: "string option"
  pat_segs :: "segment list"

definition parse_segment :: "string \<Rightarrow> segment" where
  "parse_segment x =
     (if x = [] then Multi
      else if hd x = CHR 0x7B \<and> last x = CHR 0x7D then Wild (butlast (tl x))
      else Lit x)"

definition path_segments :: "string \<Rightarrow> string list" where
  "path_segments p = tl (Split p CHR ''/'')"

definition parsePattern :: "string \<Rightarrow> route_pattern" where
  "parsePattern x =
     (case IndexByte x (CHR '' '') of
        None \<Rightarrow> \<lparr>pat_text = x, pat_method = None, pat_segs = map parse_segment (path_segments x)\<rparr>
      | Some i \<Rightarrow> \<lparr>pat_text = x, pat_method = Some (take i x), pat_segs = map parse_segment (path_segments (drop (Suc i) x))\<rparr>)"

text \<open>The tree walk of the multiplexer: at each segment a literal is tried first, then a wildcard for a
  nonempty segment, then a trailing slash, which takes the rest.\<close>

type_synonym 'h candidate = "segment list \<times> (string \<times> string) list \<times> route_pattern \<times> 'h"

definition take_lit :: "string \<Rightarrow> 'h candidate list \<Rightarrow> 'h candidate list" where
  "take_lit x cs = map (\<lambda>(sg, b, p). (tl sg, b, p)) (filter (\<lambda>(sg, b, p). sg \<noteq> [] \<and> hd sg = Lit x) cs)"

fun take_wild :: "string \<Rightarrow> 'h candidate list \<Rightarrow> 'h candidate list" where
  "take_wild x [] = []"
| "take_wild x ((Wild n # sg, b, p) # cs) = (sg, b @ [(n, x)], p) # take_wild x cs"
| "take_wild x (c # cs) = take_wild x cs"

fun matchPath :: "'h candidate list \<Rightarrow> string list \<Rightarrow> 'h candidate option" where
  "matchPath cs [] = find (\<lambda>(sg, _). sg = []) cs"
| "matchPath cs (x # xs) =
     (case matchPath (take_lit x cs) xs of
        Some c \<Rightarrow> Some c
      | None \<Rightarrow>
          (case (if x = [] then None else matchPath (take_wild x cs) xs) of
             Some c \<Rightarrow> Some c
           | None \<Rightarrow> find (\<lambda>(sg, _). sg = [Multi]) cs))"

type_synonym 'h mux = "(string \<times> 'h) list"

definition candidates :: "'h mux \<Rightarrow> string option \<Rightarrow> 'h candidate list" where
  "candidates m meth =
     filter (\<lambda>(_, _, p, _). pat_method p = meth)
       (map (\<lambda>(x, h). let p = parsePattern x in (pat_segs p, [], p, h)) m)"

fun first_some :: "'a option list \<Rightarrow> 'a option" where
  "first_some [] = None"
| "first_some (x # xs) = (case x of Some y \<Rightarrow> Some y | None \<Rightarrow> first_some xs)"

text \<open>Patterns for the method come first, for \<open>HEAD\<close> also those for \<open>GET\<close>, then those for every method.\<close>

definition method_keys :: "string \<Rightarrow> string option list" where
  "method_keys meth = [Some meth] @ (if meth = ''HEAD'' then [Some ''GET''] else []) @ [None]"

definition mux_match :: "'h mux \<Rightarrow> string \<Rightarrow> string \<Rightarrow> 'h candidate option" where
  "mux_match m meth p = first_some (map (\<lambda>k. matchPath (candidates m k) (path_segments p)) (method_keys meth))"

fun clean_segments :: "string list \<Rightarrow> string list \<Rightarrow> string list" where
  "clean_segments acc [] = rev acc"
| "clean_segments acc (x # xs) =
     (if x = [] \<or> x = ''.'' then clean_segments acc xs
      else if x = ''..'' then clean_segments (tl acc) xs
      else clean_segments (x # acc) xs)"

definition cleanPath :: "string \<Rightarrow> string" where
  "cleanPath p =
     (let q = (if p = [] \<or> hd p \<noteq> CHR ''/'' then CHR ''/'' # p else p);
          np = CHR ''/'' # Join (clean_segments [] (Split q CHR ''/'')) ''/''
      in if last q = CHR ''/'' \<and> np \<noteq> ''/'' then np @ ''/'' else np)"

definition exactMatch :: "'h candidate option \<Rightarrow> string \<Rightarrow> bool" where
  "exactMatch c p =
     (case c of
        None \<Rightarrow> False
      | Some (_, _, pat, _) \<Rightarrow>
          if pat_segs pat = [] \<or> last (pat_segs pat) \<noteq> Multi then True
          else if p \<noteq> [] \<and> last p \<noteq> CHR ''/'' then False
          else length (pat_segs pat) = count_list p CHR ''/'')"

datatype 'h found =
    Found string "(string \<times> string) list" 'h
  | Redirect string string
  | NoMethod "string list"
  | NoRoute

definition allowed_methods :: "'h mux \<Rightarrow> string \<Rightarrow> string list" where
  "allowed_methods m p =
     (let hit = (\<lambda>k. matchPath (candidates m (Some k)) (path_segments p) \<noteq> None \<or>
                     (last p \<noteq> CHR ''/'' \<and> matchPath (candidates m (Some k)) (path_segments (p @ ''/'')) \<noteq> None))
      in filter (\<lambda>k. hit k \<or> (k = ''HEAD'' \<and> hit ''GET'')) [''GET'', ''HEAD'', ''POST''])"

definition pattern_of :: "'h candidate option \<Rightarrow> string" where
  "pattern_of c = (case c of None \<Rightarrow> [] | Some (_, _, pat, _) \<Rightarrow> pat_text pat)"

definition slash_match :: "'h mux \<Rightarrow> string \<Rightarrow> string \<Rightarrow> 'h candidate option \<Rightarrow> 'h candidate option" where
  "slash_match m meth p n =
     (if \<not> exactMatch n p \<and> p \<noteq> [] \<and> last p \<noteq> CHR ''/''
      then (let n' = mux_match m meth (p @ ''/'') in if exactMatch n' (p @ ''/'') then n' else None)
      else None)"

definition findHandler :: "'h mux \<Rightarrow> string \<Rightarrow> string \<Rightarrow> 'h found" where
  "findHandler m meth path =
     (let p = (if meth = ''CONNECT'' then path else cleanPath path);
          n = mux_match m meth p
      in if slash_match m meth p n \<noteq> None then Redirect (pattern_of (slash_match m meth p n)) (p @ ''/'')
         else if p \<noteq> path then Redirect (pattern_of n) p
         else
           (case n of
              Some (_, binds, pat, h) \<Rightarrow> Found (pat_text pat) binds h
            | None \<Rightarrow> (case allowed_methods m p of [] \<Rightarrow> NoRoute | ms \<Rightarrow> NoMethod ms)))"

text \<open>\<open>http.Error\<close> and \<open>http.Redirect\<close>.\<close>

definition http_Error :: "int \<Rightarrow> string \<Rightarrow> ResponseWriter \<Rightarrow> ResponseWriter" where
  "http_Error code msg w =
     (let w1 = w\<lparr>rw_Header := Header_Del ''Content-Length'' (rw_Header w)\<rparr>;
          w2 = set_header ''X-Content-Type-Options'' ''nosniff'' (set_header ''Content-Type'' ''text/plain; charset=utf-8'' w1)
      in Write (BodyBytes (msg @ ''\<newline>'')) (WriteHeader code w2))"

definition html_char :: "char \<Rightarrow> string" where
  "html_char c =
     (if c = CHR ''&'' then ''&amp;'' else if c = CHR ''<'' then ''&lt;'' else if c = CHR ''>'' then ''&gt;''
      else if c = CHR 0x22 then ''&#34;'' else if c = CHR 0x27 then ''&#39;'' else [c])"

definition http_Redirect :: "Request \<Rightarrow> string \<Rightarrow> ResponseWriter \<Rightarrow> ResponseWriter" where
  "http_Redirect r target w =
     (let url = target @ (if req_RawQuery r = [] then [] else CHR ''?'' # req_RawQuery r);
          had = Header_Values (rw_Header w) ''Content-Type'' \<noteq> [];
          body = \<not> had \<and> (req_Method r = ''GET'' \<or> req_Method r = ''HEAD'');
          w1 = set_header ''Location'' url w;
          w2 = (if body then set_header ''Content-Type'' ''text/html; charset=utf-8'' w1 else w1);
          w3 = WriteHeader 301 w2
      in if \<not> had \<and> req_Method r = ''GET''
         then Write (BodyBytes (''<a href='' @ [CHR 0x22] @ concat (map html_char url) @ [CHR 0x22] @ ''>Moved Permanently</a>.\<newline>\<newline>'')) w3
         else w3)"

definition mux_ServeHTTP :: "'s http_handler mux \<Rightarrow> 's http_handler" where
  "mux_ServeHTTP m r w s =
     (case findHandler m (req_Method r) (req_Path r) of
        Found pat binds h \<Rightarrow> h (r\<lparr>req_Pattern := pat, req_PathValues := binds\<rparr>) w s
      | Redirect pat target \<Rightarrow>
          (let r1 = r\<lparr>req_Pattern := pat, req_PathValues := []\<rparr> in (Returned (), r1, http_Redirect r1 target w, s))
      | NoMethod ms \<Rightarrow>
          (let r1 = r\<lparr>req_Pattern := [], req_PathValues := []\<rparr> in
           (Returned (), r1, http_Error 405 ''Method Not Allowed'' (set_header ''Allow'' (Join ms '', '') w), s))
      | NoRoute \<Rightarrow>
          (let r1 = r\<lparr>req_Pattern := [], req_PathValues := []\<rparr> in
           (Returned (), r1, http_Error 404 ''404 page not found'' w, s)))"

section \<open>The API router\<close>

text \<open>The interfaces of \<open>internal/httpapi\<close>.\<close>

record 's UsersAPI =
  ua_List :: "'s app_handler"
  ua_Create :: "'s app_handler"
  ua_GetByID :: "int64 \<Rightarrow> 's app_handler"
  ua_Export :: "int64 \<Rightarrow> 's app_handler"

record 's JobsAPI =
  ja_GetByID :: "int64 \<Rightarrow> 's app_handler"
  ja_Events :: "int64 \<Rightarrow> 's app_handler"
  ja_GetByIDViaGRPC :: "int64 \<Rightarrow> 's app_handler"

record 's API =
  api_users :: "'s UsersAPI"
  api_usersV2 :: "'s UsersAPI"
  api_jobs :: "'s JobsAPI"
  api_usersProfile :: "(int64 \<Rightarrow> 's app_handler) option"

record 's guards =
  gd_limiter :: "'s limiter"
  gd_bulkhead :: nat
  gd_auth :: verifier
  gd_rbac :: AuthorizeAPI

text \<open>The outermost check comes first: bulkhead, rate limit, authentication, authorization.\<close>

definition wrap :: "'s Counters_scheme guards \<Rightarrow> 's Counters_scheme app_handler \<Rightarrow> 's Counters_scheme http_handler" where
  "wrap g h =
     AppHandler_ServeHTTP
       (Bulkhead (gd_bulkhead g) (RateLimiter (gd_limiter g) (Authenticate (gd_auth g) (Authorize (gd_rbac g) h))))"

definition PathValue :: "Request \<Rightarrow> string \<Rightarrow> string" where
  "PathValue r k = (case map_of (req_PathValues r) k of None \<Rightarrow> [] | Some v \<Rightarrow> v)"

definition with_id :: "(int64 \<Rightarrow> 's app_handler) \<Rightarrow> 's app_handler" where
  "with_id h r w s =
     (case ParsePositiveInt (PathValue r ''id'') of
        None \<Rightarrow> fails (BadRequestError ''id must be a positive integer'') r w s
      | Some i \<Rightarrow> h i r w s)"

definition get_only :: "'s app_handler \<Rightarrow> 's app_handler" where
  "get_only h r w s =
     (if req_Method r = ''GET'' then h r w s else fails (MethodNotAllowedError ''GET'') r w s)"

definition users_collection :: "'s UsersAPI \<Rightarrow> 's app_handler" where
  "users_collection u r w s =
     (if req_Method r = ''GET'' then ua_List u r w s
      else if req_Method r = ''POST'' then ua_Create u r w s
      else fails (MethodNotAllowedError ''GET, POST'') r w s)"

definition method_not_allowed :: "'s app_handler" where
  "method_not_allowed r w s = fails (MethodNotAllowedError ''GET, POST'') r w s"

definition api_routes :: "'s API \<Rightarrow> 's app_handler mux" where
  "api_routes api =
     [(''GET /api/v1/users'', ua_List (api_users api)),
      (''POST /api/v1/users'', ua_Create (api_users api)),
      (''GET /api/v2/users'', ua_List (api_usersV2 api)),
      (''POST /api/v2/users'', ua_Create (api_usersV2 api)),
      (''/api/v1/jobs/{id}'', get_only (with_id (ja_GetByID (api_jobs api)))),
      (''/api/v1/jobs/{id}/grpc'', get_only (with_id (ja_GetByIDViaGRPC (api_jobs api)))),
      (''/api/v1/jobs/{id}/events'', get_only (with_id (ja_Events (api_jobs api)))),
      (''/api/v1/users/{id}'', get_only (with_id (ua_GetByID (api_users api))))] @
     (case api_usersProfile api of
        None \<Rightarrow> []
      | Some profile \<Rightarrow> [(''/api/v1/users/{id}/profile'', get_only (with_id profile))]) @
     [(''/api/v1/users/{id}/export'', get_only (with_id (ua_Export (api_users api)))),
      (''/api/v1/users'', users_collection (api_users api)),
      (''/api/v2/users'', method_not_allowed)]"

text \<open>An answer of the multiplexer itself has an empty pattern.\<close>

definition found_pattern :: "'h found \<Rightarrow> string" where
  "found_pattern f = (case f of Found pat _ _ \<Rightarrow> pat | Redirect pat _ \<Rightarrow> pat | _ \<Rightarrow> [])"

definition WithProblemNotFound :: "'s http_handler mux \<Rightarrow> 's http_handler" where
  "WithProblemNotFound m r w s =
     (if found_pattern (findHandler m (req_Method r) (req_Path r)) = []
      then (Returned (), r, WriteProblem w (Some r) (problem 404 ''not found''), s)
      else mux_ServeHTTP m r w s)"

definition NewRouter :: "'s Counters_scheme guards \<Rightarrow> 's Counters_scheme API \<Rightarrow> 's Counters_scheme http_handler" where
  "NewRouter g api = WithProblemNotFound (map (\<lambda>(pat, h). (pat, wrap g h)) (api_routes api))"

section \<open>Health\<close>

text \<open>A check is its name and the method it calls.  What the methods answer when a request comes is an argument
  of the handler: the text of the error, if any, and the text of the error the context has afterwards.\<close>

datatype CheckFunc = Runtime_Ready_check | Repository_Ready_check | CheckRunning_check | Hub_Ready_check

type_synonym check_results = "CheckFunc \<Rightarrow> string option \<times> string option"

record health_check =
  hc_Name :: string
  hc_Fn :: CheckFunc

record Readiness =
  rd_ready :: bool
  rd_checks :: "health_check list"

definition NewReadiness :: "health_check list \<Rightarrow> Readiness" where
  "NewReadiness checks = \<lparr>rd_ready = False, rd_checks = checks\<rparr>"

definition SetReady :: "Readiness \<Rightarrow> Readiness" where
  "SetReady rd = rd\<lparr>rd_ready := True\<rparr>"

definition SetNotReady :: "Readiness \<Rightarrow> Readiness" where
  "SetNotReady rd = rd\<lparr>rd_ready := False\<rparr>"

definition IsReady :: "Readiness \<Rightarrow> bool" where
  "IsReady rd = rd_ready rd"

fun run_checks :: "check_results \<Rightarrow> health_check list \<Rightarrow> (string, string) gomap \<Rightarrow> (string, string) gomap" where
  "run_checks ev [] details = details"
| "run_checks ev (c # cs) details =
     (let d1 = (case fst (ev (hc_Fn c)) of Some e \<Rightarrow> gm_update (hc_Name c) e details | None \<Rightarrow> details) in
      case snd (ev (hc_Fn c)) of
        Some e \<Rightarrow> gm_update ''timeout'' e d1
      | None \<Rightarrow> run_checks ev cs d1)"

text \<open>The status of the answer and its body before encoding.\<close>

definition readiness_answer :: "check_results \<Rightarrow> Readiness \<Rightarrow> int \<times> string \<times> (string, string) gomap" where
  "readiness_answer ev rd =
     (if \<not> IsReady rd then (503, ''not_ready'', [(''lifecycle'', ''not_ready'')])
      else
        (let details = run_checks ev (rd_checks rd) [] in
         if details \<noteq> [] then (503, ''not_ready'', details) else (200, ''ok'', [])))"

definition health_headers :: "ResponseWriter \<Rightarrow> ResponseWriter" where
  "health_headers w = set_header ''Content-Type'' ''application/json; charset=utf-8'' (set_header ''Cache-Control'' ''no-store'' w)"

text \<open>\<open>encode\<close> is the JSON encoding with the time stamp.\<close>

definition LivenessHandler :: "(string \<Rightarrow> (string, string) gomap \<Rightarrow> string) \<Rightarrow> 's http_handler" where
  "LivenessHandler encode r w s = (Returned (), r, Write (BodyBytes (encode ''ok'' [])) (health_headers w), s)"

definition ReadinessHandler ::
  "(string \<Rightarrow> (string, string) gomap \<Rightarrow> string) \<Rightarrow> check_results \<Rightarrow> Readiness \<Rightarrow> 's http_handler" where
  "ReadinessHandler encode ev rd r w s =
     (case readiness_answer ev rd of
        (status, st, details) \<Rightarrow>
          (Returned (), r, Write (BodyBytes (encode st details)) (WriteHeader status (health_headers w)), s))"

definition NewHealthRouter ::
  "(string \<Rightarrow> (string, string) gomap \<Rightarrow> string) \<Rightarrow> check_results \<Rightarrow> Readiness \<Rightarrow> 's http_handler" where
  "NewHealthRouter encode ev rd =
     mux_ServeHTTP [(''GET /livez'', LivenessHandler encode), (''GET /readyz'', ReadinessHandler encode ev rd)]"

definition NewDebugRouter :: "(string \<Rightarrow> 's http_handler) \<Rightarrow> 's http_handler" where
  "NewDebugRouter h =
     mux_ServeHTTP
       (map (\<lambda>p. (''GET '' @ p, h p))
         [''/debug/vars'', ''/debug/runtime'', ''/debug/pprof/'', ''/debug/pprof/cmdline'', ''/debug/pprof/profile'',
          ''/debug/pprof/symbol'', ''/debug/pprof/trace''])"

definition NewRoot :: "'s http_handler \<Rightarrow> 's http_handler \<Rightarrow> 's http_handler option \<Rightarrow> 's http_handler" where
  "NewRoot app health debug =
     mux_ServeHTTP
       ([(''/'', app), (''/livez'', health), (''/readyz'', health)] @
        (case debug of None \<Rightarrow> [] | Some d \<Rightarrow> [(''/debug/'', d)]))"

section \<open>Which handler is found\<close>

definition cand_map :: "('a \<Rightarrow> 'b) \<Rightarrow> 'a candidate \<Rightarrow> 'b candidate" where
  "cand_map f c = (case c of (sg, b, p, h) \<Rightarrow> (sg, b, p, f h))"

lemma cand_map_simp [simp]: "cand_map f (sg, b, p, h) = (sg, b, p, f h)"
  by (simp add: cand_map_def)

lemma take_lit_map: "take_lit x (map (cand_map f) cs) = map (cand_map f) (take_lit x cs)"
  by (induction cs) (auto simp: take_lit_def cand_map_def)

lemma take_wild_map: "take_wild x (map (cand_map f) cs) = map (cand_map f) (take_wild x cs)"
  by (induction x cs rule: take_wild.induct) auto

lemma find_map_cand: "find (\<lambda>(sg, _). P sg) (map (cand_map f) cs) = map_option (cand_map f) (find (\<lambda>(sg, _). P sg) cs)"
  by (induction cs) auto

lemma matchPath_map: "matchPath (map (cand_map f) cs) xs = map_option (cand_map f) (matchPath cs xs)"
  by (induction xs arbitrary: cs) (auto simp: find_map_cand take_lit_map take_wild_map split: option.splits)

lemma candidates_map: "candidates (map (\<lambda>(p, h). (p, f h)) m) k = map (cand_map f) (candidates m k)"
  by (induction m) (auto simp: candidates_def Let_def)

lemma first_some_map: "first_some (map (map_option f) xs) = map_option f (first_some xs)"
  by (induction xs) (auto split: option.splits)

lemma mux_match_map: "mux_match (map (\<lambda>(p, h). (p, f h)) m) meth p = map_option (cand_map f) (mux_match m meth p)"
  by (simp add: mux_match_def candidates_map matchPath_map first_some_map [symmetric] comp_def)

fun found_map :: "('a \<Rightarrow> 'b) \<Rightarrow> 'a found \<Rightarrow> 'b found" where
  "found_map f (Found p b h) = Found p b (f h)"
| "found_map f (Redirect p t) = Redirect p t"
| "found_map f (NoMethod ms) = NoMethod ms"
| "found_map f NoRoute = NoRoute"

lemma exactMatch_map [simp]: "exactMatch (map_option (cand_map f) c) p = exactMatch c p"
  by (cases c) (auto simp: exactMatch_def)

lemma pattern_of_map [simp]: "pattern_of (map_option (cand_map f) c) = pattern_of c"
  by (cases c) (auto simp: pattern_of_def)

lemma allowed_methods_map [simp]: "allowed_methods (map (\<lambda>(p, h). (p, f h)) m) p = allowed_methods m p"
  by (simp add: allowed_methods_def candidates_map matchPath_map)

lemma slash_match_map [simp]:
  "slash_match (map (\<lambda>(p, h). (p, f h)) m) meth p (map_option (cand_map f) n) = map_option (cand_map f) (slash_match m meth p n)"
  by (simp add: slash_match_def mux_match_map Let_def)

lemma findHandler_map: "findHandler (map (\<lambda>(p, h). (p, f h)) m) meth path = found_map f (findHandler m meth path)"
  by (auto simp: findHandler_def mux_match_map Let_def split: option.splits list.splits)

text \<open>What is found was registered, for this method or for all.\<close>

lemma take_lit_snd: "c \<in> set (take_lit x cs) \<Longrightarrow> \<exists>c' \<in> set cs. snd (snd c) = snd (snd c')"
  by (force simp: take_lit_def)

lemma take_wild_snd: "c \<in> set (take_wild x cs) \<Longrightarrow> \<exists>c' \<in> set cs. snd (snd c) = snd (snd c')"
  by (induction x cs rule: take_wild.induct) auto

lemma find_set: "find P cs = Some c \<Longrightarrow> c \<in> set cs"
  by (auto simp: find_Some_iff)

lemma matchPath_snd: "matchPath cs xs = Some c \<Longrightarrow> \<exists>c' \<in> set cs. snd (snd c) = snd (snd c')"
proof (induction xs arbitrary: cs)
  case (Cons x xs)
  consider "matchPath (take_lit x cs) xs = Some c" | "matchPath (take_wild x cs) xs = Some c"
    | "find (\<lambda>(sg, _). sg = [Multi]) cs = Some c"
    using Cons.prems by (auto split: option.splits if_splits)
  then show ?case
  proof cases
    case 1
    then obtain c' where "c' \<in> set (take_lit x cs)" "snd (snd c) = snd (snd c')" using Cons.IH by blast
    then show ?thesis using take_lit_snd by metis
  next
    case 2
    then obtain c' where "c' \<in> set (take_wild x cs)" "snd (snd c) = snd (snd c')" using Cons.IH by blast
    then show ?thesis using take_wild_snd by metis
  qed (blast dest: find_set)
qed (auto dest: find_set)

lemma first_some_set: "first_some xs = Some y \<Longrightarrow> Some y \<in> set xs"
  by (induction xs) (auto split: option.splits)

lemma findHandler_Found:
  assumes "findHandler m meth path = Found pat binds h"
  shows "(pat, h) \<in> set m \<and> pat_method (parsePattern pat) \<in> set (method_keys meth)"
proof -
  obtain sg p where m: "mux_match m meth path = Some (sg, binds, p, h)" and pat: "pat_text p = pat"
    using assms by (auto simp: findHandler_def Let_def split: if_splits option.splits list.splits)
  from first_some_set [OF m [unfolded mux_match_def]]
  obtain k where k: "k \<in> set (method_keys meth)"
    and "matchPath (candidates m k) (path_segments path) = Some (sg, binds, p, h)" by force
  from matchPath_snd [OF this(2)] obtain x where "(x, h) \<in> set m" "p = parsePattern x" "pat_method p = k"
    by (auto simp: candidates_def Let_def)
  moreover from this have "pat_text p = x" by (simp add: parsePattern_def split: option.splits)
  ultimately show ?thesis using pat k by auto
qed

section \<open>Access control\<close>

text \<open>Whose credentials a request carries, and the rule that lets them through.\<close>

definition cleared :: "verifier \<Rightarrow> AuthorizeAPI \<Rightarrow> string \<Rightarrow> string \<Rightarrow> bool" where
  "cleared verify rules authorization pat \<longleftrightarrow>
     (\<exists>token p rl. parseBearerToken authorization = Inr token \<and> verify token = Inr p \<and>
        gm_lookup rules pat = Some rl \<and> admits (rr_Access rl) p)"

text \<open>Two handlers that behave differently behind the guards: the request was cleared, or it is a
  preflight, which the guards let through.\<close>

lemma guarded_differ:
  assumes "Authenticate verify (Authorize rules h1) r w s \<noteq> Authenticate verify (Authorize rules h2) r w s"
  shows "cleared verify rules (Header_Get (req_Header r) ''Authorization'') (req_Pattern r) \<or>
    (req_Method r = ''OPTIONS'' \<and> h1 r w s \<noteq> h2 r w s)"
proof (cases "req_Method r = ''OPTIONS''")
  case True
  then show ?thesis using assms by (simp add: Authenticate_def Authorize_def)
next
  case False
  from guarded_cases [OF False, of verify rules w s] show ?thesis
  proof
    assume "\<exists>err s'. \<forall>next. Authenticate verify (Authorize rules next) r w s = (Returned (Some err), r, w, s')"
    then show ?thesis using assms by auto
  qed (auto simp: cleared_def)
qed

lemma wrap_differ:
  assumes "wrap g h1 r w s \<noteq> wrap g h2 r w s"
  shows "cleared (gd_auth g) (gd_rbac g) (Header_Get (req_Header r) ''Authorization'') (req_Pattern r) \<or>
    (req_Method r = ''OPTIONS'' \<and> (\<exists>s'. h1 r w s' \<noteq> h2 r w s'))"
proof -
  let ?A = "\<lambda>h. Authenticate (gd_auth g) (Authorize (gd_rbac g) h)"
  have "\<exists>s'. ?A h1 r w s' \<noteq> ?A h2 r w s'"
  proof (rule ccontr)
    assume "\<not> ?thesis"
    then have eq: "?A h1 r w s' = ?A h2 r w s'" for s' by blast
    then have "RateLimiter (gd_limiter g) (?A h1) r w s' = RateLimiter (gd_limiter g) (?A h2) r w s'" for s'
      by (auto simp: RateLimiter_def split: prod.split option.split)
    then have "wrap g h1 r w s = wrap g h2 r w s"
      by (simp add: wrap_def AppHandler_ServeHTTP_def Bulkhead_def split: option.split)
    with assms show False by simp
  qed
  then show ?thesis using guarded_differ by blast
qed

text \<open>The routes as a table over the API, the same for two APIs that both have or both lack profiles.\<close>

definition route_table :: "bool \<Rightarrow> (string \<times> ('s API \<Rightarrow> 's app_handler)) list" where
  "route_table profiles =
     [(''GET /api/v1/users'', \<lambda>api. ua_List (api_users api)),
      (''POST /api/v1/users'', \<lambda>api. ua_Create (api_users api)),
      (''GET /api/v2/users'', \<lambda>api. ua_List (api_usersV2 api)),
      (''POST /api/v2/users'', \<lambda>api. ua_Create (api_usersV2 api)),
      (''/api/v1/jobs/{id}'', \<lambda>api. get_only (with_id (ja_GetByID (api_jobs api)))),
      (''/api/v1/jobs/{id}/grpc'', \<lambda>api. get_only (with_id (ja_GetByIDViaGRPC (api_jobs api)))),
      (''/api/v1/jobs/{id}/events'', \<lambda>api. get_only (with_id (ja_Events (api_jobs api)))),
      (''/api/v1/users/{id}'', \<lambda>api. get_only (with_id (ua_GetByID (api_users api))))] @
     (if profiles then [(''/api/v1/users/{id}/profile'', \<lambda>api. get_only (with_id (the (api_usersProfile api))))] else []) @
     [(''/api/v1/users/{id}/export'', \<lambda>api. get_only (with_id (ua_Export (api_users api)))),
      (''/api/v1/users'', \<lambda>api. users_collection (api_users api)),
      (''/api/v2/users'', \<lambda>api. method_not_allowed)]"

lemma api_routes_table: "api_routes api = map (\<lambda>(p, sel). (p, sel api)) (route_table (api_usersProfile api \<noteq> None))"
  by (cases "api_usersProfile api") (simp_all add: api_routes_def route_table_def)

lemma route_table_methods:
  "list_all (\<lambda>p. pat_method (parsePattern p) = Some ''GET'' \<or> pat_method (parsePattern p) = Some ''POST'' \<or> pat_method (parsePattern p) = None)
     (map fst (route_table b))"
  by (cases b; simp add: route_table_def; code_simp)

text \<open>A preflight reaches only handlers that refuse its method.\<close>

lemma route_table_options:
  assumes "(pat, sel) \<in> set (route_table b)" "pat_method (parsePattern pat) = None" "req_Method r = ''OPTIONS''"
  shows "sel api1 r w s = sel api2 r w s"
proof -
  have "pat_method (parsePattern ''GET /api/v1/users'') \<noteq> None" "pat_method (parsePattern ''POST /api/v1/users'') \<noteq> None"
    "pat_method (parsePattern ''GET /api/v2/users'') \<noteq> None" "pat_method (parsePattern ''POST /api/v2/users'') \<noteq> None"
    by code_simp+
  then show ?thesis
    using assms by (auto simp: route_table_def get_only_def users_collection_def method_not_allowed_def split: if_splits)
qed

lemma router_differ:
  fixes api1 :: "'s Counters_scheme API"
  assumes "(api_usersProfile api1 = None) = (api_usersProfile api2 = None)"
    and "NewRouter g api1 r w s \<noteq> NewRouter g api2 r w s"
  shows "\<exists>pat binds h. findHandler (api_routes api1) (req_Method r) (req_Path r) = Found pat binds h \<and>
    cleared (gd_auth g) (gd_rbac g) (Header_Get (req_Header r) ''Authorization'') pat"
proof -
  let ?T = "route_table (api_usersProfile api1 \<noteq> None) :: (string \<times> ('s Counters_scheme API \<Rightarrow> 's Counters_scheme app_handler)) list"
  have m1: "map (\<lambda>(p, h). (p, wrap g h)) (api_routes api1) = map (\<lambda>(p, h). (p, (\<lambda>sel. wrap g (sel api1)) h)) ?T"
    by (simp add: api_routes_table case_prod_beta)
  have m2: "map (\<lambda>(p, h). (p, wrap g h)) (api_routes api2) = map (\<lambda>(p, h). (p, (\<lambda>sel. wrap g (sel api2)) h)) ?T"
    using assms(1) by (simp add: api_routes_table case_prod_beta)
  have f: "findHandler (api_routes api1) = (\<lambda>meth p. found_map (\<lambda>sel. sel api1) (findHandler ?T meth p))"
    by (intro ext) (simp only: api_routes_table findHandler_map)
  show ?thesis
  proof (cases "findHandler ?T (req_Method r) (req_Path r)")
    case (Found pat binds sel)
    let ?r = "r\<lparr>req_Pattern := pat, req_PathValues := binds\<rparr>"
    have in_T: "(pat, sel) \<in> set ?T" "pat_method (parsePattern pat) \<in> set (method_keys (req_Method r))"
      using findHandler_Found [OF Found] by auto
    have "wrap g (sel api1) ?r w s \<noteq> wrap g (sel api2) ?r w s"
      using assms(2) Found
      by (auto simp: NewRouter_def WithProblemNotFound_def mux_ServeHTTP_def m1 m2 findHandler_map found_pattern_def split: if_splits)
    from wrap_differ [OF this] show ?thesis
    proof
      assume o: "req_Method ?r = ''OPTIONS'' \<and> (\<exists>s'. sel api1 ?r w s' \<noteq> sel api2 ?r w s')"
      then have "pat_method (parsePattern pat) = None"
        using in_T route_table_methods [of "api_usersProfile api1 \<noteq> None"] by (force simp: method_keys_def list_all_iff)
      with o in_T show ?thesis using route_table_options by fastforce
    qed (use Found f in auto)
  qed (use assms(2) in \<open>auto simp: NewRouter_def WithProblemNotFound_def mux_ServeHTTP_def m1 m2 findHandler_map found_pattern_def split: if_splits\<close>)
qed

end
