(* ===== verification/Wiring.thy ===== *)
theory Wiring
  imports Router
begin

text \<open>
  How \<open>cmd/api/main.go\<close> puts the program together: the chain of middleware around the routers of API,
  health and debug endpoints.  The properties of this theory are about a request on its way through
  the whole chain.
\<close>

section \<open>The handler of the server\<close>

record wiring =
  wr_proxy :: ProxyAPI
  wr_cors :: CORSAPI
  wr_headers :: SecurityHeadersConfig

definition api_handler :: "wiring \<Rightarrow> 's Counters_scheme guards \<Rightarrow> 's Counters_scheme API \<Rightarrow> 's Counters_scheme http_handler" where
  "api_handler wr g api = SecurityHeaders (wr_headers wr) (CORS (wr_cors wr) (NewRouter g api))"

definition debug_handler :: "'s Counters_scheme guards \<Rightarrow> 's Counters_scheme http_handler \<Rightarrow> 's Counters_scheme http_handler" where
  "debug_handler g rawDebug =
     AppHandler_ServeHTTP (Authenticate (gd_auth g) (Authorize (gd_rbac g) (HandlerToApp rawDebug)))"

text \<open>\<open>fresh\<close> is the identifier made up for a request without one, \<open>ob\<close> what the chain observes of the request.\<close>

definition middleware_chain :: "wiring \<Rightarrow> string \<Rightarrow> observation \<Rightarrow> 's Counters_scheme http_handler \<Rightarrow> 's Counters_scheme http_handler" where
  "middleware_chain wr fresh ob root =
     SanitizeRequestIDHeader (wr_proxy wr)
       (RequestIDMiddleware fresh
         (Recover ob (TrustProxy (wr_proxy wr) (Metrics (ob_elapsed ob) (LoggerMiddleware ob (Recover ob root))))))"

definition server_handler ::
  "wiring \<Rightarrow> string \<Rightarrow> observation \<Rightarrow> 's Counters_scheme guards \<Rightarrow> 's Counters_scheme http_handler \<Rightarrow>
     's Counters_scheme API \<Rightarrow> (string \<Rightarrow> 's Counters_scheme http_handler) option \<Rightarrow> 's Counters_scheme http_handler" where
  "server_handler wr fresh ob g health api debug =
     middleware_chain wr fresh ob
       (NewRoot (api_handler wr g api) health (map_option (\<lambda>d. debug_handler g (NewDebugRouter d)) debug))"

section \<open>Agreement of handlers\<close>

text \<open>
  The guards look at a request's method, path and credentials.  Two handlers agree on a request when
  they do the same on everything with the same head; every middleware of the chain keeps agreement,
  because it passes the head on.
\<close>

definition same_head :: "Request \<Rightarrow> Request \<Rightarrow> bool" where
  "same_head r r' \<longleftrightarrow> req_Method r' = req_Method r \<and> req_Path r' = req_Path r \<and>
     Header_Get (req_Header r') ''Authorization'' = Header_Get (req_Header r) ''Authorization''"

definition agree :: "Request \<Rightarrow> 's http_handler \<Rightarrow> 's http_handler \<Rightarrow> bool" where
  "agree r h1 h2 \<longleftrightarrow> (\<forall>r' w s. same_head r r' \<longrightarrow> h1 r' w s = h2 r' w s)"

named_theorems agree_intros

lemma agree_refl [agree_intros]: "agree r h h"
  by (simp add: agree_def)

lemma agreeD: "agree r h1 h2 \<Longrightarrow> same_head r r' \<Longrightarrow> h1 r' w s = h2 r' w s"
  by (simp add: agree_def)

lemma same_head_updates [simp]:
  "same_head r (r'\<lparr>req_Pattern := p\<rparr>) = same_head r r'" "same_head r (r'\<lparr>req_PathValues := b\<rparr>) = same_head r r'"
  "same_head r (r'\<lparr>req_RequestID := i\<rparr>) = same_head r r'" "same_head r (r'\<lparr>req_Info := x\<rparr>) = same_head r r'"
  by (simp_all add: same_head_def)

lemma agree_Recover [agree_intros]: "agree r h1 h2 \<Longrightarrow> agree r (Recover ob h1) (Recover ob h2)"
  by (simp add: agree_def Recover_def)

lemma agree_RequestID [agree_intros]: "agree r h1 h2 \<Longrightarrow> agree r (RequestIDMiddleware x h1) (RequestIDMiddleware x h2)"
  by (simp add: agree_def RequestIDMiddleware_def Let_def)

lemma agree_Logger [agree_intros]: "agree r h1 h2 \<Longrightarrow> agree r (LoggerMiddleware ob h1) (LoggerMiddleware ob h2)"
  by (simp add: agree_def LoggerMiddleware_def)

lemma agree_Metrics [agree_intros]: "agree r h1 h2 \<Longrightarrow> agree r (Metrics d h1) (Metrics d h2)"
  by (simp add: agree_def Metrics_def)

lemma agree_TrustProxy [agree_intros]: "agree r h1 h2 \<Longrightarrow> agree r (TrustProxy p h1) (TrustProxy p h2)"
  by (simp add: agree_def TrustProxy_def)

lemma agree_SecurityHeaders [agree_intros]: "agree r h1 h2 \<Longrightarrow> agree r (SecurityHeaders c h1) (SecurityHeaders c h2)"
  by (simp add: agree_def SecurityHeaders_def Let_def)

lemma agree_CORS [agree_intros]: "agree r h1 h2 \<Longrightarrow> agree r (CORS c h1) (CORS c h2)"
proof -
  have "CORS c h1 r' w s = CORS c h2 r' w s" if "h1 r' = h2 r'" for r' w and s :: "'a Counters_scheme"
    by (simp only: CORS_def that)
  then show "agree r h1 h2 \<Longrightarrow> ?thesis" by (simp add: agree_def fun_eq_iff)
qed

lemma agree_Sanitize [agree_intros]: "agree r h1 h2 \<Longrightarrow> agree r (SanitizeRequestIDHeader p h1) (SanitizeRequestIDHeader p h2)"
proof -
  have "CanonicalHeaderKey ''Authorization'' \<noteq> CanonicalHeaderKey HeaderName" by code_simp
  then have "same_head r (r'\<lparr>req_Header := Header_Del HeaderName (req_Header r')\<rparr>) = same_head r r'" for r r'
    by (simp add: same_head_def)
  then show "agree r h1 h2 \<Longrightarrow> ?thesis" by (simp add: agree_def SanitizeRequestIDHeader_def Let_def)
qed

text \<open>The root: the debug handler sees requests under its own pattern.\<close>

lemma agree_root:
  assumes "agree r app1 app2"
    and "(d1 = None) = (d2 = None)"
    and "\<And>r' w s. d1 \<noteq> None \<Longrightarrow> same_head r r' \<Longrightarrow> req_Pattern r' = ''/debug/'' \<Longrightarrow> the d1 r' w s = the d2 r' w s"
  shows "agree r (NewRoot app1 health d1) (NewRoot app2 health d2)"
proof -
  define T where "T = [(''/'', \<lambda>(a, d). a), (''/livez'', \<lambda>(a, d). health), (''/readyz'', \<lambda>(a, d). health)] @
    (if d1 = None then [] else [(''/debug/'', \<lambda>(a, d). the d)])"
  have root: "NewRoot a health d = mux_ServeHTTP (map (\<lambda>(p, sel). (p, sel (a, d))) T)" if "(d = None) = (d1 = None)" for a d
    using that by (cases d) (auto simp: NewRoot_def T_def)
  have "NewRoot app1 health d1 r' w s = NewRoot app2 health d2 r' w s" if "same_head r r'" for r' w s
  proof (cases "findHandler T (req_Method r') (req_Path r')")
    case (Found pat binds sel)
    then have "(pat, sel) \<in> set T" by (blast dest: findHandler_Found)
    then have "sel (app1, d1) (r'\<lparr>req_Pattern := pat, req_PathValues := binds\<rparr>) w s =
        sel (app2, d2) (r'\<lparr>req_Pattern := pat, req_PathValues := binds\<rparr>) w s"
      using that assms by (auto simp: T_def agree_def split: if_splits)
    then show ?thesis using Found assms(2) by (simp add: root mux_ServeHTTP_def findHandler_map)
  qed (use assms(2) in \<open>simp_all add: root mux_ServeHTTP_def findHandler_map\<close>)
  then show ?thesis by (simp add: agree_def)
qed

text \<open>The debug endpoints answer only \<open>GET\<close>, so a preflight does not reach them either.\<close>

lemma debug_router_options:
  assumes "req_Method r = ''OPTIONS''"
  shows "NewDebugRouter h1 r w s = NewDebugRouter h2 r w s"
proof -
  define T where "T = map (\<lambda>p. (''GET '' @ p, p))
    [''/debug/vars'', ''/debug/runtime'', ''/debug/pprof/'', ''/debug/pprof/cmdline'', ''/debug/pprof/profile'',
     ''/debug/pprof/symbol'', ''/debug/pprof/trace'']"
  have T: "NewDebugRouter h = mux_ServeHTTP (map (\<lambda>(p, k). (p, h k)) T)" for h :: "string \<Rightarrow> 'a http_handler"
    by (simp add: NewDebugRouter_def T_def)
  have "list_all (\<lambda>(p, k). pat_method (parsePattern p) = Some ''GET'') T" unfolding T_def by code_simp
  then have "findHandler T ''OPTIONS'' p \<noteq> Found pat binds k" for p pat binds k
    using findHandler_Found [of T "''OPTIONS''" p pat binds k] by (fastforce simp: method_keys_def list_all_iff)
  then show ?thesis
    using assms by (cases "findHandler T ''OPTIONS'' (req_Path r)") (simp_all add: T mux_ServeHTTP_def findHandler_map)
qed

lemma debug_differ:
  assumes "debug_handler g (NewDebugRouter h1) r w s \<noteq> debug_handler g (NewDebugRouter h2) r w s"
  shows "cleared (gd_auth g) (gd_rbac g) (Header_Get (req_Header r) ''Authorization'') (req_Pattern r)"
proof -
  have "Authenticate (gd_auth g) (Authorize (gd_rbac g) (HandlerToApp (NewDebugRouter h1))) r w s \<noteq>
      Authenticate (gd_auth g) (Authorize (gd_rbac g) (HandlerToApp (NewDebugRouter h2))) r w s"
    using assms by (auto simp: debug_handler_def AppHandler_ServeHTTP_def)
  from guarded_differ [OF this] show ?thesis
    using debug_router_options [of r h1 w s h2] by (auto simp: HandlerToApp_def)
qed

lemma cleared_rule:
  assumes "NewAuthorizeAPI DefaultPolicy = Inr rules" and "cleared verify rules authorization pat"
  shows "\<exists>token p rl. parseBearerToken authorization = Inr token \<and> verify token = Inr p \<and>
    rl \<in> set DefaultPolicy \<and> admits (rr_Access rl) p \<and> rr_Pattern rl = pat"
proof -
  have "gm_lookup rules pat = find (\<lambda>rr. rr_Pattern rr = pat) DefaultPolicy"
    using index_rules_spec [of DefaultPolicy "[]" rules pat] assms(1)
    by (simp add: NewAuthorizeAPI_def DefaultPolicy_def)
  moreover obtain token p rl where "parseBearerToken authorization = Inr token" "verify token = Inr p"
    "gm_lookup rules pat = Some rl" "admits (rr_Access rl) p"
    using assms(2) by (auto simp: cleared_def)
  ultimately show ?thesis using find_Some_iff [of "\<lambda>rr. rr_Pattern rr = pat" DefaultPolicy rl] by (metis nth_mem)
qed

text \<open>C3: Whatever the handlers of the API and the debug endpoints do, a request can tell them apart (the
  response or the state depends on them) only if it carries a bearer token that the verifier accepts,
  and the default policy has a rule for the very pattern the request matches (or for the debug
  endpoints) that admits the token's principal.  This holds through the whole chain of middleware, for
  preflights too.\<close>

theorem access_control:
  assumes "NewAuthorizeAPI DefaultPolicy = Inr (gd_rbac g)"
    and "(api_usersProfile api1 = None) = (api_usersProfile api2 = None)"
    and "server_handler wr fresh ob g health api1 (Some debug1) r w s \<noteq>
         server_handler wr fresh ob g health api2 (Some debug2) r w s"
  shows "\<exists>token p rl. parseBearerToken (Header_Get (req_Header r) ''Authorization'') = Inr token \<and> gd_auth g token = Inr p \<and>
    rl \<in> set DefaultPolicy \<and> admits (rr_Access rl) p \<and>
    (rr_Pattern rl = ''/debug/'' \<or> (\<exists>binds h. findHandler (api_routes api1) (req_Method r) (req_Path r) = Found (rr_Pattern rl) binds h))"
proof -
  let ?c = "cleared (gd_auth g) (gd_rbac g) (Header_Get (req_Header r) ''Authorization'')"
  have "?c ''/debug/'' \<or> (\<exists>pat binds h. findHandler (api_routes api1) (req_Method r) (req_Path r) = Found pat binds h \<and> ?c pat)"
  proof (rule ccontr)
    assume none: "\<not> ?thesis"
    have "agree r (NewRouter g api1) (NewRouter g api2)"
      unfolding agree_def
    proof (intro allI impI)
      fix r' w s
      assume "same_head r r'"
      then show "NewRouter g api1 r' w s = NewRouter g api2 r' w s"
        using router_differ [OF assms(2), of g r' w s] none by (auto simp: same_head_def)
    qed
    moreover have "debug_handler g (NewDebugRouter debug1) r' w s = debug_handler g (NewDebugRouter debug2) r' w s"
      if "same_head r r'" "req_Pattern r' = ''/debug/''" for r' w s
      using debug_differ [of g debug1 r' w s debug2] that none by (auto simp: same_head_def)
    ultimately have "agree r (server_handler wr fresh ob g health api1 (Some debug1))
        (server_handler wr fresh ob g health api2 (Some debug2))"
      unfolding server_handler_def middleware_chain_def api_handler_def by (intro agree_intros agree_root) simp_all
    then show False using assms(3) by (auto simp: agree_def same_head_def)
  qed
  then show ?thesis using cleared_rule [OF assms(1)] by metis
qed

text \<open>An API whose handlers answer with a given status, behind guards that know one token.\<close>

definition status_api :: "int \<Rightarrow> Counters API" where
  "status_api st =
     (let h = (\<lambda>r w s. (Returned None, r, WriteHeader st w, s));
          u = \<lparr>ua_List = h, ua_Create = h, ua_GetByID = \<lambda>_. h, ua_Export = \<lambda>_. h\<rparr>
      in \<lparr>api_users = u, api_usersV2 = u,
          api_jobs = \<lparr>ja_GetByID = \<lambda>_. h, ja_Events = \<lambda>_. h, ja_GetByIDViaGRPC = \<lambda>_. h\<rparr>, api_usersProfile = Some (\<lambda>_. h)\<rparr>)"

definition sample_guards :: "Counters guards" where
  "sample_guards = \<lparr>gd_limiter = \<lparr>lim_Reserve = \<lambda>s. ((True, 0), s), lim_Cancel = \<lambda>s. s\<rparr>, gd_bulkhead = 4,
     gd_auth = \<lambda>t. if t = ''tok'' then Inr \<lparr>pr_UserID = 1, pr_Role = RoleAdmin\<rparr> else Inl (Sentinel ErrForbidden),
     gd_rbac = (case NewAuthorizeAPI DefaultPolicy of Inr rules \<Rightarrow> rules | Inl _ \<Rightarrow> [])\<rparr>"

definition sample_wiring :: wiring where
  "sample_wiring = \<lparr>wr_proxy = sample_proxy, wr_cors = NewCORS sample_cors,
     wr_headers = \<lparr>sh_Enable = False, sh_ReferrerPolicy = [], sh_HSTS = \<lparr>hs_Enable = False, hs_MaxAge = 0\<rparr>\<rparr>\<rparr>"

definition sample_observation :: observation where
  "sample_observation = \<lparr>ob_size = \<lambda>_. 1, ob_elapsed = 1, ob_stack = []\<rparr>"

definition bearer_request :: Request where
  "bearer_request = sample_request\<lparr>req_Header := [(''Authorization'', [''Bearer tok''])], req_Pattern := []\<rparr>"

definition sample_run :: "int \<Rightarrow> int option" where
  "sample_run st = rw_Status (fst (snd (snd (server_handler sample_wiring ''rid'' sample_observation sample_guards (LivenessHandler (\<lambda>_ _. []))
     (status_api st) (Some (\<lambda>_ r w s. (Returned (), r, w, s))) bearer_request fresh_writer sample_counters))))"

lemma sample_run_200: "sample_run 200 = Some 200"
  by code_simp

lemma sample_run_204: "sample_run 204 = Some 204"
  by code_simp

theorem access_control_witness:
  "\<exists>token p rl. parseBearerToken (Header_Get (req_Header bearer_request) ''Authorization'') = Inr token \<and>
     gd_auth sample_guards token = Inr p \<and> rl \<in> set DefaultPolicy \<and> admits (rr_Access rl) p"
proof -
  let ?run = "\<lambda>st. server_handler sample_wiring ''rid'' sample_observation sample_guards (LivenessHandler (\<lambda>_ _. [])) (status_api st)
    (Some (\<lambda>_ r w s. (Returned (), r, w, s))) bearer_request fresh_writer sample_counters"
  have "?run 200 \<noteq> ?run 204"
    using sample_run_200 sample_run_204 unfolding sample_run_def by force
  moreover have "NewAuthorizeAPI DefaultPolicy = Inr (gd_rbac sample_guards)" by code_simp
  ultimately show ?thesis
    using access_control [of sample_guards "status_api 200" "status_api 204" sample_wiring "''rid''" sample_observation "LivenessHandler (\<lambda>_ _. [])"
        "\<lambda>_ r w s. (Returned (), r, w, s)" bearer_request fresh_writer sample_counters "\<lambda>_ r w s. (Returned (), r, w, s)"]
    by (auto simp: status_api_def Let_def)
qed

section \<open>Every request is answered\<close>

text \<open>The request as the routers see it, and the problem a client gets when a handler panics.\<close>

definition sanitized_request :: "ProxyAPI \<Rightarrow> Request \<Rightarrow> Request" where
  "sanitized_request p r =
     (if parseRemoteIP (req_RemoteAddr r) = [] \<or> \<not> isTrustedProxy p (parseRemoteIP (req_RemoteAddr r))
      then r\<lparr>req_Header := Header_Del HeaderName (req_Header r)\<rparr> else r)"

definition seen_id :: "wiring \<Rightarrow> string \<Rightarrow> Request \<Rightarrow> string" where
  "seen_id wr fresh r =
     (case sanitizeRequestID (Header_Get (req_Header (sanitized_request (wr_proxy wr) r)) HeaderName) of Some x \<Rightarrow> x | None \<Rightarrow> fresh)"

definition seen_request :: "wiring \<Rightarrow> string \<Rightarrow> Request \<Rightarrow> Request" where
  "seen_request wr fresh r =
     (let r1 = (sanitized_request (wr_proxy wr) r)\<lparr>req_RequestID := Some (seen_id wr fresh r)\<rparr>
      in r1\<lparr>req_Info := Some (proxy_request_info (wr_proxy wr) r1)\<rparr>)"

definition panic_answer :: "ResponseWriter \<Rightarrow> Request \<Rightarrow> ResponseWriter" where
  "panic_answer w r =
     WriteProblem w (Some r) ((problem 500 ''internal server error'')\<lparr>p_RequestID := (case RequestID r of Some x \<Rightarrow> x | None \<Rightarrow> [])\<rparr>)"

lemma chain_seen:
  "middleware_chain wr fresh ob root r w s =
     with_copy (sanitized_request (wr_proxy wr) r)
       (Recover ob (TrustProxy (wr_proxy wr) (Metrics (ob_elapsed ob) (LoggerMiddleware ob (Recover ob root))))
         ((sanitized_request (wr_proxy wr) r)\<lparr>req_RequestID := Some (seen_id wr fresh r)\<rparr>)
         (set_header HeaderName (seen_id wr fresh r) w) s)"
  by (simp add: middleware_chain_def SanitizeRequestIDHeader_def RequestIDMiddleware_def sanitized_request_def seen_id_def Let_def)

lemma Recover_cases:
  assumes "next r w s = (out, r1, w1, s1)"
  shows "Recover ob next r w s =
    (Returned (), r1, (if out = Panicked then panic_answer w1 r1 else w1),
     s1\<lparr>logs := logs s1 @ (if out = Panicked then [panic_record (ob_stack ob) (case RequestID r1 of Some x \<Rightarrow> x | None \<Rightarrow> [])] else [])\<rparr>)"
  using assms by (cases out) (simp_all add: Recover_def panic_answer_def Let_def)

lemma inFlight_Observe [simp]: "hm_inFlight (HTTPMetrics_Observe m pat st d hm) = hm_inFlight hm"
  by (simp add: HTTPMetrics_Observe_def Let_def)

lemma panic_answer_status: "rw_Status w = None \<Longrightarrow> rw_Status (panic_answer w r) = Some 500"
  by (simp add: panic_answer_def WriteProblem_status problem_def)

lemma body_Write [simp]: "rw_Body (Write b w) = rw_Body w @ [b]"
  by (simp add: Write_def Let_def)

lemma panic_answer_body:
  "\<exists>p. rw_Body (panic_answer w r) = rw_Body w @ [BodyProblem p] \<and> p_Status p = 500 \<and> p_Detail p = ''internal server error''"
proof -
  have "p_Detail (complete_problem rq p) = p_Detail p" for rq p
    by (simp add: complete_problem_def default_request_id_def default_instance_def default_title_def default_status_def
        default_type_def split: option.splits)
  then show ?thesis
    by (auto simp: panic_answer_def WriteProblem_def complete_problem_status problem_def Let_def)
qed

text \<open>C7: whatever the routers and handlers behind the chain do with a request, panics included, the server answers and goes
  on: the chain returns, the number of requests in flight is taken back, the handler sees the request identifier that the
  response carries, and the access log gets exactly one record, with the status that is sent, after the record of
  the panic if there was one.  A panic before the response has begun is answered with status 500, and its answer
  says nothing about its cause.\<close>

theorem server_answers:
  assumes "root (seen_request wr fresh r) (set_header HeaderName (seen_id wr fresh r) w) (Metrics_in_flight 1 s) = (out, r1, w1, s1)"
  shows "\<exists>r' w' s'. middleware_chain wr fresh ob root r w s = (Returned (), r', w', s') \<and>
    hm_inFlight (httpMetrics s') = Int_Add (- 1) (hm_inFlight (httpMetrics s1)) \<and>
    logs s' = logs s1 @ (if out = Panicked then [panic_record (ob_stack ob) (case RequestID r1 of Some x \<Rightarrow> x | None \<Rightarrow> [])] else []) @
      [access_record ob r1 (response_status w') (response_bytes (ob_size ob) w w')] \<and>
    (if out = Panicked
     then (rw_Status w1 = None \<longrightarrow> rw_Status w' = Some 500) \<and>
       (\<exists>p. rw_Body w' = rw_Body w1 @ [BodyProblem p] \<and> p_Status p = 500 \<and> p_Detail p = ''internal server error'')
     else w' = w1)"
proof -
  let ?w = "set_header HeaderName (seen_id wr fresh r) w"
  define w' where "w' = (if out = Panicked then panic_answer w1 r1 else w1)"
  define s2 where "s2 = s1\<lparr>logs := logs s1 @ (if out = Panicked then [panic_record (ob_stack ob) (case RequestID r1 of Some x \<Rightarrow> x | None \<Rightarrow> [])] else [])\<rparr>"
  define s3 where "s3 = s2\<lparr>logs := logs s2 @ [access_record ob r1 (response_status w') (response_bytes (ob_size ob) w w')]\<rparr>"
  have "LoggerMiddleware ob (Recover ob root) (seen_request wr fresh r) ?w (Metrics_in_flight 1 s) = (Returned (), r1, w', s3)"
    using Recover_cases [of root, OF assms, of ob] by (simp add: LoggerMiddleware_def s3_def s2_def w'_def response_bytes_def)
  then obtain s4 where m: "Metrics (ob_elapsed ob) (LoggerMiddleware ob (Recover ob root)) (seen_request wr fresh r) ?w s = (Returned (), r1, w', s4)"
    and s4: "logs s4 = logs s3" "hm_inFlight (httpMetrics s4) = Int_Add (- 1) (hm_inFlight (httpMetrics s3))"
    by (auto simp: Metrics_def Metrics_in_flight_def Let_def split: option.splits)
  let ?r = "(sanitized_request (wr_proxy wr) r)\<lparr>req_RequestID := Some (seen_id wr fresh r)\<rparr>"
  let ?trusted = "TrustProxy (wr_proxy wr) (Metrics (ob_elapsed ob) (LoggerMiddleware ob (Recover ob root)))"
  have "?trusted ?r ?w s = (Returned (), ?r, w', s4)"
    using m by (simp add: TrustProxy_def with_copy_def seen_request_def Let_def)
  from Recover_cases [of ?trusted, OF this, of ob] have run: "middleware_chain wr fresh ob root r w s = (Returned (), sanitized_request (wr_proxy wr) r, w', s4)"
    by (simp add: chain_seen with_copy_def)
  have "logs s3 = logs s1 @ (if out = Panicked then [panic_record (ob_stack ob) (case RequestID r1 of Some x \<Rightarrow> x | None \<Rightarrow> [])] else []) @
      [access_record ob r1 (response_status w') (response_bytes (ob_size ob) w w')]" "httpMetrics s3 = httpMetrics s1"
    by (simp_all add: s3_def s2_def)
  with run s4 panic_answer_status [of w1 r1] panic_answer_body [of w1 r1] show ?thesis by (auto simp: w'_def)
qed

theorem server_answers_witness:
  "\<exists>r' w' s'. middleware_chain sample_wiring ''rid'' sample_observation (\<lambda>r w s. (Panicked, r, w, s)) sample_request fresh_writer sample_counters =
     (Returned (), r', w', s') \<and> rw_Status w' = Some 500 \<and> length (logs s') = 2"
  using server_answers [of "\<lambda>r w s. (Panicked, r, w, s)" sample_wiring "''rid''" sample_request fresh_writer sample_counters]
  by (fastforce simp: fresh_writer_def Metrics_in_flight_def sample_counters_def)

section \<open>Routes and policy\<close>

text \<open>Every route of the API has a rule, so no route is dead by default.\<close>

lemma routes_have_rules:
  "list_all (\<lambda>pat. List.member (map rr_Pattern DefaultPolicy) pat) (map fst (route_table b))"
  by (cases b; simp add: route_table_def DefaultPolicy_def rule_def)

text \<open>The location that \<open>UsersV2Handler_Create\<close> answers with has no route.\<close>

lemma v2_location_unrouted:
  "findHandler (map (\<lambda>(p, h). (p, ())) (route_table True)) ''GET'' ''/api/v2/users/7'' = NoRoute"
  by (simp only: route_table_def if_True list.map append.simps prod.case) code_simp

end
