(* ===== verification/Server.thy ===== *)
theory Server
  imports Grpc Wiring
begin

text \<open>
  The supervisor (\<open>internal/api/server.go\<close>): it opens the listeners, starts the worker pool and the gRPC
  runtime, serves until its context ends or a server fails, and shuts everything down in order, with
  one classified outcome.  The results of the library's listeners and servers are parameters, and so is
  what the rest of the program does while the supervisor waits.
\<close>

section \<open>Outcomes\<close>

text \<open>The children of an error are what either form of \<open>Unwrap\<close> returns.\<close>

function hasShutdownOutcome :: "go_error \<Rightarrow> shutdownOutcome \<Rightarrow> bool" where
  "hasShutdownOutcome err outcome \<longleftrightarrow>
     errors_As as_ComponentShutdown err = Some outcome \<or>
     list_ex (\<lambda>child. hasShutdownOutcome child outcome) (children err)"
  by pat_completeness auto
termination
  by (relation "measure (\<lambda>(e, _). err_size e)") (auto simp: err_size_children)

declare hasShutdownOutcome.simps [simp del]

definition overallShutdownOutcome :: "go_error option \<Rightarrow> go_error option \<Rightarrow> shutdownOutcome" where
  "overallShutdownOutcome runErr cleanupErr =
     (if runErr = None \<and> cleanupErr = None then ShutdownGraceful
      else
        (case cleanupErr of
           None \<Rightarrow> ShutdownFailed
         | Some e \<Rightarrow>
             if hasShutdownOutcome e ShutdownForced then ShutdownForced
             else if hasShutdownOutcome e ShutdownTimedOut then ShutdownTimedOut
             else ShutdownFailed))"

section \<open>Shutting down the components\<close>

text \<open>\<open>shut\<close> is what the server's \<open>Shutdown\<close> returns and \<open>cls\<close> what its \<open>Close\<close> returns.\<close>

definition shutdownServer :: "string \<Rightarrow> go_error option \<Rightarrow> go_error option \<Rightarrow> go_error option" where
  "shutdownServer name shut cls =
     (case shut of
        None \<Rightarrow> None
      | Some err \<Rightarrow>
          if errors_Is err Http_ErrServerClosed then None
          else
            (let outcome = (if errors_Is err ContextDeadlineExceeded then ShutdownForced else ShutdownFailed);
                 main = ComponentShutdownError name outcome (Some err)
             in case cls of
                  None \<Rightarrow> Some main
                | Some closeErr \<Rightarrow>
                    if errors_Is closeErr Http_ErrServerClosed then Some main
                    else errors_Join [Some main, Some (ComponentShutdownError name ShutdownFailed (Some closeErr))]))"

text \<open>Both servers shut down at the same time; their errors are collected in the order they arrive.\<close>

definition shutdownHTTPServers ::
  "go_error option \<times> go_error option \<Rightarrow> (go_error option \<times> go_error option) option \<Rightarrow> bool \<Rightarrow> go_error option list" where
  "shutdownHTTPServers http https https_first =
     (let e1 = shutdownServer ''http'' (fst http) (snd http) in
      case https of
        None \<Rightarrow> [e1]
      | Some r \<Rightarrow> (let e2 = shutdownServer ''https'' (fst r) (snd r) in if https_first then [e2, e1] else [e1, e2]))"

definition shutdownGRPC :: "go_error option \<Rightarrow> go_error option" where
  "shutdownGRPC shut =
     (case shut of
        None \<Rightarrow> None
      | Some err \<Rightarrow>
          if errors_Is err ContextDeadlineExceeded then Some (ComponentShutdownError ''grpc'' ShutdownForced (Some err))
          else Some (ComponentShutdownError ''grpc'' ShutdownFailed (Some err)))"

definition shutdownWorkerPool :: "go_error option \<Rightarrow> go_error option" where
  "shutdownWorkerPool stop =
     (case stop of
        None \<Rightarrow> None
      | Some err \<Rightarrow>
          if errors_Is err ContextDeadlineExceeded then Some (ComponentShutdownError ''workerpool'' ShutdownTimedOut (Some err))
          else Some (ComponentShutdownError ''workerpool'' ShutdownFailed (Some err)))"

section \<open>The server\<close>

text \<open>
  A Go interface value is nil only when nothing was put into it: a nil pointer in it is a value of its own.
\<close>

datatype grpcRuntime = NilInterface | RuntimePointer "Runtime option"

record 'j Server =
  sv_readiness :: Readiness
  sv_queue :: Queue
  sv_hub :: Hub
  sv_pool :: WorkerPool
  sv_jobs :: 'j
  sv_grpc :: grpcRuntime
  sv_listeners :: "string list"
  sv_log :: "log_record list"

text \<open>\<open>pool.Stop\<close> in one piece: \<open>between\<close> is what happens while it waits, \<open>in_time\<close> whether it sees the
  workers gone before its context ends with \<open>expired\<close>.\<close>

record 'j stop_env =
  se_between :: "WorkerPool \<times> 'j \<Rightarrow> WorkerPool \<times> 'j"
  se_in_time :: bool
  se_expired :: go_error

definition WorkerPool_Stop :: "'j JobRepository \<Rightarrow> 'j stop_env \<Rightarrow> WorkerPool \<times> 'j \<Rightarrow> go_error option \<times> WorkerPool \<times> 'j" where
  "WorkerPool_Stop jr se pj =
     (case WorkerPool_Stop_enter (fst pj) of
        (Inl e, p) \<Rightarrow> (e, p, snd pj)
      | (Inr g, p) \<Rightarrow>
          (let pj1 = se_between se (p, snd pj) in
           if gen_done (wp_gens (fst pj1) ! g) \<and> se_in_time se then completeStop jr g pj1
           else (Some (se_expired se), pj1)))"

record 'j cleanup_env =
  ce_http :: "go_error option \<times> go_error option"
  ce_https :: "(go_error option \<times> go_error option) option"
  ce_https_first :: bool
  ce_http_drain :: "'j Server \<Rightarrow> 'j Server"
  ce_grpc :: "go_error option"
  ce_grpc_drain :: "'j Server \<Rightarrow> 'j Server"
  ce_stop :: "'j stop_env"

definition stop_pool :: "'j JobRepository \<Rightarrow> 'j stop_env \<Rightarrow> 'j Server \<Rightarrow> go_error option \<times> 'j Server" where
  "stop_pool jr se s =
     (case WorkerPool_Stop jr se (sv_pool s, sv_jobs s) of (e, p, js) \<Rightarrow> (e, s\<lparr>sv_pool := p, sv_jobs := js\<rparr>))"

text \<open>The order: not ready, no new jobs, HTTP servers, gRPC, worker pool, event hub.  \<open>None\<close> is a panic.\<close>

definition drain :: "'j cleanup_env \<Rightarrow> 'j Server \<Rightarrow> go_error option list \<times> 'j Server" where
  "drain ce s =
     (let s1 = s\<lparr>sv_readiness := SetNotReady (sv_readiness s)\<rparr>;
          s2 = s1\<lparr>sv_queue := StopAccepting (sv_queue s1)\<rparr>;
          errs = shutdownHTTPServers (ce_http ce) (ce_https ce) (ce_https_first ce);
          s3 = ce_http_drain ce s2
      in if sv_grpc s3 \<noteq> NilInterface then (errs @ [shutdownGRPC (ce_grpc ce)], ce_grpc_drain ce s3)
         else (errs, s3))"

definition cleanup :: "'j JobRepository \<Rightarrow> 'j cleanup_env \<Rightarrow> 'j Server \<Rightarrow> (go_error option \<times> 'j Server) option" where
  "cleanup jr ce s =
     (let (errs, s4) = drain ce s;
          (stopErr, s5) = stop_pool jr (ce_stop ce) s4
      in map_option (\<lambda>h. (errors_Join (errs @ [shutdownWorkerPool stopErr]), s5\<lparr>sv_hub := h, sv_listeners := []\<rparr>))
           (Hub_Close (sv_hub s5)))"

section \<open>Running\<close>

record http_server =
  hs_Addr :: string
  hs_ReadHeaderTimeout :: int64
  hs_ReadTimeout :: int64
  hs_WriteTimeout :: int64
  hs_IdleTimeout :: int64
  hs_MaxHeaderBytes :: int64
  hs_TLSMinVersion :: "nat option option"

text \<open>The TLS configuration is the minimum version it sets, if there is one and if it sets any.\<close>

definition newHTTPServer :: "HTTPConfig \<Rightarrow> string \<Rightarrow> nat option option \<Rightarrow> http_server" where
  "newHTTPServer cfg addr tlsCfg =
     \<lparr>hs_Addr = addr, hs_ReadHeaderTimeout = ht_ReadHeaderTimeout cfg, hs_ReadTimeout = ht_ReadTimeout cfg,
      hs_WriteTimeout = ht_WriteTimeout cfg, hs_IdleTimeout = ht_IdleTimeout cfg, hs_MaxHeaderBytes = ht_MaxHeaderBytes cfg,
      hs_TLSMinVersion = tlsCfg\<rparr>"

text \<open>The servers of \<open>Run\<close>: the second one has a certificate but no minimum version.\<close>

definition run_servers :: "HTTPConfig \<Rightarrow> http_server list" where
  "run_servers cfg =
     newHTTPServer cfg (ht_Addr cfg) None #
     (if tls_Enable (ht_TLS cfg) then [newHTTPServer cfg (tls_Addr (ht_TLS cfg)) (Some None)] else [])"

lemma tls_min_version_ignored:
  "hs_TLSMinVersion ` set (run_servers cfg) \<subseteq> {None, Some None}"
  by (auto simp: run_servers_def newHTTPServer_def)

text \<open>A nil interface has a channel that is never closed.\<close>

definition doneChan :: "grpcRuntime \<Rightarrow> bool" where
  "doneChan rt = (case rt of NilInterface \<Rightarrow> False | RuntimePointer p \<Rightarrow> Runtime_Done p)"

datatype trigger = TriggerContext | TriggerServer string go_error | TriggerGRPC

record 'j run_env =
  re_listen :: "string \<Rightarrow> go_error option"
  re_keyPair :: "go_error option"
  re_parentDone :: bool
  re_startStop :: "'j stop_env"
  re_serve :: "'j Server \<Rightarrow> 'j Server"
  re_trigger :: trigger
  re_cleanup :: "'j cleanup_env"
  re_elapsed :: int64

text \<open>The listeners that are open after the first part of \<open>Run\<close>, or its error; on an error everything
  opened was closed again.\<close>

definition open_listeners :: "'j run_env \<Rightarrow> HTTPConfig \<Rightarrow> go_error + string list" where
  "open_listeners re cfg =
     (case re_listen re (ht_Addr cfg) of
        Some e \<Rightarrow> Inl e
      | None \<Rightarrow>
          if tls_Enable (ht_TLS cfg) then
            (case re_keyPair re of
               Some e \<Rightarrow> Inl e
             | None \<Rightarrow>
                 (case re_listen re (tls_Addr (ht_TLS cfg)) of
                    Some e \<Rightarrow> Inl e
                  | None \<Rightarrow> Inr [ht_Addr cfg, tls_Addr (ht_TLS cfg)]))
          else Inr [ht_Addr cfg])"

definition start_grpc :: "'j Server \<Rightarrow> go_error option \<times> 'j Server" where
  "start_grpc s =
     (case sv_grpc s of
        NilInterface \<Rightarrow> (None, s)
      | RuntimePointer rt \<Rightarrow> (case Runtime_Start rt of (e, rt1) \<Rightarrow> (e, s\<lparr>sv_grpc := RuntimePointer rt1\<rparr>)))"

definition run_error :: "trigger \<Rightarrow> 'j Server \<Rightarrow> go_error option" where
  "run_error tr s =
     (case tr of
        TriggerContext \<Rightarrow> None
      | TriggerServer name e \<Rightarrow> Some (WrapError (name @ '' server failed'') e)
      | TriggerGRPC \<Rightarrow>
          (case sv_grpc s of
             NilInterface \<Rightarrow> None
           | RuntimePointer rt \<Rightarrow> map_option (WrapError ''grpc server failed'') (Runtime_Err rt)))"

text \<open>The two records of a shutdown; those of the single components are left out.\<close>

definition shutdown_trigger :: "trigger \<Rightarrow> 'j Server \<Rightarrow> string" where
  "shutdown_trigger tr s =
     (case tr of
        TriggerContext \<Rightarrow> ''context''
      | TriggerServer name e \<Rightarrow> name @ ''_server_error''
      | TriggerGRPC \<Rightarrow> if run_error tr s = None then ''grpc_stopped'' else ''grpc_server_error'')"

fun shutdownOutcome_string :: "shutdownOutcome \<Rightarrow> string" where
  "shutdownOutcome_string ShutdownGraceful = ''graceful''"
| "shutdownOutcome_string ShutdownForced = ''forced''"
| "shutdownOutcome_string ShutdownTimedOut = ''timed_out''"
| "shutdownOutcome_string ShutdownFailed = ''failed''"

definition server_log :: "int \<Rightarrow> string \<Rightarrow> log_attrs \<Rightarrow> 'j Server \<Rightarrow> 'j Server" where
  "server_log level msg attrs s =
     s\<lparr>sv_log := sv_log s @ [\<lparr>lr_Component = ''api_server'', lr_Level = level, lr_Message = msg, lr_Attrs = attrs\<rparr>]\<rparr>"

definition logShutdownStarted :: "string \<Rightarrow> int64 \<Rightarrow> 'j Server \<Rightarrow> 'j Server" where
  "logShutdownStarted tr timeout =
     server_log LevelInfo ''shutdown started''
       [(''event'', LogString ''shutdown.started''), (''trigger'', LogString tr),
        (''shutdown_timeout_ms'', LogInt (go_div timeout time_Millisecond))]"

definition logShutdownSummary :: "int64 \<Rightarrow> string \<Rightarrow> go_error option \<Rightarrow> go_error option \<Rightarrow> 'j Server \<Rightarrow> 'j Server" where
  "logShutdownSummary elapsed tr runErr cleanupErr s =
     (let result = overallShutdownOutcome runErr cleanupErr;
          (stopOutcome, ok) = WorkerPool_LastStopOutcome (sv_pool s)
      in server_log (if result \<noteq> ShutdownGraceful then LevelWarn else LevelInfo) ''shutdown completed''
           ([(''event'', LogString ''shutdown.completed''), (''trigger'', LogString tr),
             (''outcome'', LogString (shutdownOutcome_string result)), (''duration_ms'', LogInt (go_div elapsed time_Millisecond)),
             (''queue_depth'', LogInt (int (length (q_ch (sv_queue s))))), (''sse_subscribers'', LogInt (hub_subscribers (sv_hub s))),
             (''sse_events_total'', LogInt (hub_eventsTotal (sv_hub s))), (''sse_drops_total'', LogInt (hub_dropsTotal (sv_hub s)))] @
            (if ok then [(''repaired_active_jobs'', LogInt (so_RepairedActiveJobs stopOutcome))] else [])) s)"

definition Run :: "'j JobRepository \<Rightarrow> 'j run_env \<Rightarrow> Config \<Rightarrow> 'j Server \<Rightarrow> (go_error option \<times> 'j Server) option" where
  "Run jr re cfg s =
     (case open_listeners re (cfg_HTTP cfg) of
        Inl e \<Rightarrow> Some (Some e, s)
      | Inr lns \<Rightarrow>
          (case WorkerPool_Start (re_parentDone re) (pl_Workers (cfg_Pool cfg)) (sv_pool s) of
             (Some e, p) \<Rightarrow> Some (Some e, s\<lparr>sv_pool := p\<rparr>)
           | (None, p) \<Rightarrow>
               (case start_grpc (s\<lparr>sv_pool := p, sv_listeners := lns\<rparr>) of
                  (Some e, s1) \<Rightarrow> Some (Some e, (snd (stop_pool jr (re_startStop re) s1))\<lparr>sv_listeners := []\<rparr>)
                | (None, s1) \<Rightarrow>
                    (let s2 = re_serve re (s1\<lparr>sv_readiness := SetReady (sv_readiness s1)\<rparr>);
                         runErr = run_error (re_trigger re) s2;
                         tr = shutdown_trigger (re_trigger re) s2
                     in map_option (\<lambda>(cleanupErr, s3). (errors_Join [runErr, cleanupErr],
                            logShutdownSummary (re_elapsed re) tr runErr cleanupErr s3))
                          (cleanup jr (re_cleanup re) (logShutdownStarted tr (ht_ShutdownTimeout (cfg_HTTP cfg)) s2))))))"

definition NewAPIServer :: "Readiness \<Rightarrow> WorkerPool \<Rightarrow> Queue \<Rightarrow> grpcRuntime \<Rightarrow> Hub \<Rightarrow> 'j \<Rightarrow> 'j Server" where
  "NewAPIServer readiness pool queue runtime eventHub js =
     \<lparr>sv_readiness = readiness, sv_queue = queue, sv_hub = eventHub, sv_pool = pool, sv_jobs = js,
      sv_grpc = runtime, sv_listeners = [], sv_log = []\<rparr>"

text \<open>How \<open>main\<close> builds and runs the server: its variable \<open>grpcRuntime\<close> is a pointer, nil unless gRPC is enabled, and goes into
  the interface as it is.\<close>

definition main_run ::
  "'j JobRepository \<Rightarrow> 'j run_env \<Rightarrow> Config \<Rightarrow> Readiness \<Rightarrow> WorkerPool \<Rightarrow> Queue \<Rightarrow> Runtime \<Rightarrow> Hub \<Rightarrow> 'j \<Rightarrow> (go_error option \<times> 'j Server) option" where
  "main_run jr re cfg readiness pool queue r eventHub js =
     Run jr re cfg
       (NewAPIServer readiness pool queue (RuntimePointer (if gr_Enable (cfg_GRPC cfg) then Some r else None)) eventHub js)"

section \<open>The outcome\<close>

lemma errors_As_Some_chain: "errors_As sel e = Some v \<Longrightarrow> \<exists>x \<in> set (chain e). sel x = Some v"
proof (cases "filter (\<lambda>x. sel x \<noteq> None) (chain e)")
  case (Cons x xs)
  assume "errors_As sel e = Some v"
  moreover have "x \<in> set (chain e)" using arg_cong [OF Cons, of set] by auto
  ultimately show ?thesis unfolding errors_As_def Cons by auto
qed (simp add: errors_As_def)

text \<open>The search finds an outcome exactly when some error of the tree has it.\<close>

lemma hasShutdownOutcome_iff:
  "hasShutdownOutcome e oc \<longleftrightarrow> (\<exists>x \<in> set (chain e). as_ComponentShutdown x = Some oc)"
proof (induction e oc rule: hasShutdownOutcome.induct)
  case (1 e oc)
  show ?case
    by (subst hasShutdownOutcome.simps)
       (use 1 errors_As_Some_chain [of as_ComponentShutdown e oc] errors_As_self [of as_ComponentShutdown e oc]
        in \<open>auto simp: list_ex_iff set_chain [of e]\<close>)
qed

lemma hasShutdownOutcome_simps [simp]:
  "hasShutdownOutcome (JoinError es) oc \<longleftrightarrow> (\<exists>e \<in> set es. hasShutdownOutcome e oc)"
  "hasShutdownOutcome (ComponentShutdownError n out c) oc \<longleftrightarrow> out = oc \<or> (\<exists>e. c = Some e \<and> hasShutdownOutcome e oc)"
  by (auto simp: hasShutdownOutcome_iff set_chain [of "JoinError es"] set_chain [of "ComponentShutdownError n out c"] split: option.splits)

lemma hasShutdownOutcome_Sentinel [simp]: "\<not> hasShutdownOutcome (Sentinel s) oc"
  by (subst hasShutdownOutcome.simps) simp

text \<open>Errors of the libraries and repositories carry no outcome of their own.\<close>

definition plain :: "go_error option \<Rightarrow> bool" where
  "plain e \<longleftrightarrow> (\<forall>x oc. e = Some x \<longrightarrow> \<not> hasShutdownOutcome x oc)"

definition deadline_error :: "go_error option \<Rightarrow> bool" where
  "deadline_error e \<longleftrightarrow> (\<exists>x. e = Some x \<and> errors_Is x ContextDeadlineExceeded)"

definition server_deadline :: "go_error option \<times> go_error option \<Rightarrow> bool" where
  "server_deadline r \<longleftrightarrow> (\<exists>x. fst r = Some x \<and> errors_Is x ContextDeadlineExceeded \<and> \<not> errors_Is x Http_ErrServerClosed)"

definition has_outcome :: "go_error option \<Rightarrow> shutdownOutcome \<Rightarrow> bool" where
  "has_outcome e oc \<longleftrightarrow> (\<exists>x. e = Some x \<and> hasShutdownOutcome x oc)"

definition server_ok :: "go_error option \<times> go_error option \<Rightarrow> bool" where
  "server_ok r \<longleftrightarrow> (\<forall>x. fst r = Some x \<longrightarrow> errors_Is x Http_ErrServerClosed)"

lemma shutdownServer_None: "shutdownServer name a b = None \<longleftrightarrow> server_ok (a, b)"
  by (auto simp: shutdownServer_def server_ok_def errors_Join_def Let_def split: option.splits)

lemma shutdownServer_outcome:
  assumes "plain (fst r)" "plain (snd r)"
  shows "has_outcome (shutdownServer name (fst r) (snd r)) ShutdownForced \<longleftrightarrow> server_deadline r"
    "\<not> has_outcome (shutdownServer name (fst r) (snd r)) ShutdownTimedOut"
  using assms
  by (auto simp: shutdownServer_def has_outcome_def server_deadline_def plain_def errors_Join_def Let_def split: option.splits)

lemma shutdownHTTPServers_outcome:
  assumes "plain (fst http)" "plain (snd http)" "\<And>r. https = Some r \<Longrightarrow> plain (fst r) \<and> plain (snd r)"
  shows "(\<exists>e \<in> set (shutdownHTTPServers http https b). has_outcome e ShutdownForced) \<longleftrightarrow>
      server_deadline http \<or> (\<exists>r. https = Some r \<and> server_deadline r)"
    "\<not> (\<exists>e \<in> set (shutdownHTTPServers http https b). has_outcome e ShutdownTimedOut)"
  using assms shutdownServer_outcome
  by (auto simp: shutdownHTTPServers_def Let_def split: option.splits)

lemma shutdownGRPC_outcome:
  "plain e \<Longrightarrow> has_outcome (shutdownGRPC e) ShutdownForced \<longleftrightarrow> deadline_error e"
  "plain e \<Longrightarrow> \<not> has_outcome (shutdownGRPC e) ShutdownTimedOut"
  by (auto simp: shutdownGRPC_def has_outcome_def deadline_error_def plain_def split: option.splits)

lemma shutdownWorkerPool_outcome:
  "plain e \<Longrightarrow> has_outcome (shutdownWorkerPool e) ShutdownTimedOut \<longleftrightarrow> deadline_error e"
  "plain e \<Longrightarrow> \<not> has_outcome (shutdownWorkerPool e) ShutdownForced"
  by (auto simp: shutdownWorkerPool_def has_outcome_def deadline_error_def plain_def split: option.splits)

lemma has_outcome_Join: "has_outcome (errors_Join es) oc \<longleftrightarrow> (\<exists>e \<in> set es. has_outcome e oc)"
  by (force simp: has_outcome_def errors_Join_def Let_def split: option.splits)

lemma overallShutdownOutcome_alt:
  "overallShutdownOutcome runErr e =
     (if runErr = None \<and> e = None then ShutdownGraceful
      else if has_outcome e ShutdownForced then ShutdownForced
      else if has_outcome e ShutdownTimedOut then ShutdownTimedOut else ShutdownFailed)"
  by (cases e) (auto simp: overallShutdownOutcome_def has_outcome_def)

lemma hub_closed_after_Close: "Hub_Close h = Some h' \<Longrightarrow> hub_closed h'"
  by (auto simp: Hub_Close_def Hub_Close_flag_def Hub_Close_locked_def Let_def split: if_splits option.splits)

text \<open>C27: Whatever the rest of the program does meanwhile, a shutdown that completes is classified by its worst
  component: graceful when nothing failed, forced when an HTTP server or the gRPC runtime ran into the deadline,
  else timed out when only the worker pool did, else failed; the event hub is closed and no listener is
  left.\<close>

theorem shutdown_outcome:
  assumes "cleanup jr ce s = Some (err, s')"
    and "plain (fst (ce_http ce))" "plain (snd (ce_http ce))" "plain (ce_grpc ce)"
    and "\<forall>r. ce_https ce = Some r \<longrightarrow> plain (fst r) \<and> plain (snd r)"
    and "(errs, s4) = drain ce s" and "(stopErr, s5) = stop_pool jr (ce_stop ce) s4" and "plain stopErr"
    and "grpc_on = (sv_grpc (ce_http_drain ce (s\<lparr>sv_readiness := SetNotReady (sv_readiness s), sv_queue := StopAccepting (sv_queue s)\<rparr>)) \<noteq> NilInterface)"
  shows "overallShutdownOutcome runErr err =
      (if runErr = None \<and> server_ok (ce_http ce) \<and> (\<forall>r. ce_https ce = Some r \<longrightarrow> server_ok r) \<and>
          (grpc_on \<longrightarrow> ce_grpc ce = None) \<and> stopErr = None
       then ShutdownGraceful
       else if server_deadline (ce_http ce) \<or> (\<exists>r. ce_https ce = Some r \<and> server_deadline r) \<or> (grpc_on \<and> deadline_error (ce_grpc ce))
       then ShutdownForced
       else if deadline_error stopErr then ShutdownTimedOut else ShutdownFailed) \<and>
    hub_closed (sv_hub s') \<and> sv_listeners s' = []"
proof -
  have errs: "errs = shutdownHTTPServers (ce_http ce) (ce_https ce) (ce_https_first ce) @ (if grpc_on then [shutdownGRPC (ce_grpc ce)] else [])"
    using assms(6,9) by (auto simp: drain_def Let_def split: if_splits)
  obtain h where h: "Hub_Close (sv_hub s5) = Some h" and res: "err = errors_Join (errs @ [shutdownWorkerPool stopErr])"
    "s' = s5\<lparr>sv_hub := h, sv_listeners := []\<rparr>"
    using assms(1,6,7) by (auto simp: cleanup_def split: prod.splits)
  have "hub_closed h" using h hub_closed_after_Close by blast
  moreover have "err = None \<longleftrightarrow> server_ok (ce_http ce) \<and> (\<forall>r. ce_https ce = Some r \<longrightarrow> server_ok r) \<and>
      (grpc_on \<longrightarrow> ce_grpc ce = None) \<and> stopErr = None"
    unfolding res errors_Join_None errs shutdownHTTPServers_def
    by (auto simp: shutdownServer_None shutdownGRPC_def shutdownWorkerPool_def Let_def split: option.splits if_splits)
  moreover have "has_outcome err ShutdownForced \<longleftrightarrow>
      server_deadline (ce_http ce) \<or> (\<exists>r. ce_https ce = Some r \<and> server_deadline r) \<or> (grpc_on \<and> deadline_error (ce_grpc ce))"
    using shutdownHTTPServers_outcome(1) [of "ce_http ce" "ce_https ce" "ce_https_first ce"]
      shutdownGRPC_outcome(1) [OF assms(4)] shutdownWorkerPool_outcome(2) [OF assms(8)] assms(2,3,5)
    unfolding res has_outcome_Join errs by (auto split: if_splits)
  moreover have "has_outcome err ShutdownTimedOut \<longleftrightarrow> deadline_error stopErr"
    using shutdownHTTPServers_outcome(2) [of "ce_http ce" "ce_https ce" "ce_https_first ce"]
      shutdownGRPC_outcome(2) [OF assms(4)] shutdownWorkerPool_outcome(1) [OF assms(8)] assms(2,3,5)
    unfolding res has_outcome_Join errs by (auto split: if_splits)
  ultimately show ?thesis by (auto simp: overallShutdownOutcome_alt res(2))
qed

section \<open>Starting\<close>

text \<open>With gRPC disabled, the server does not run: the nil pointer to the runtime makes a non-nil interface, so
  \<open>Run\<close> calls \<open>Start\<close> on it, gets \<open>ErrGRPCServerRuntimeRequired\<close>, and returns it after it stopped the pool
  and closed the listeners; the server was never ready.\<close>

lemma grpc_disabled_run_fails:
  assumes "\<not> gr_Enable (cfg_GRPC cfg)" and "open_listeners re (cfg_HTTP cfg) = Inr lns"
  shows "\<exists>s'. main_run jr re cfg rd NewWorkerPool q r h js = Some (Some (Sentinel ErrGRPCServerRuntimeRequired), s') \<and>
    sv_listeners s' = [] \<and> sv_readiness s' = rd"
proof -
  let ?s = "NewAPIServer rd NewWorkerPool q (RuntimePointer None) h js"
  obtain p where p: "WorkerPool_Start (re_parentDone re) (pl_Workers (cfg_Pool cfg)) (sv_pool ?s) = (None, p)"
    by (simp add: WorkerPool_Start_def NewAPIServer_def NewWorkerPool_def settleStoppedLocked_def Let_def)
  have "start_grpc (?s\<lparr>sv_pool := p, sv_listeners := lns\<rparr>) =
      (Some (Sentinel ErrGRPCServerRuntimeRequired), ?s\<lparr>sv_pool := p, sv_listeners := lns\<rparr>)"
    by (simp add: start_grpc_def NewAPIServer_def Runtime_Start_def)
  then show ?thesis
    using assms p by (simp add: main_run_def Run_def stop_pool_def NewAPIServer_def split: prod.splits)
qed

definition sample_stop :: "MemoryJobRepository stop_env" where
  "sample_stop = \<lparr>se_between = \<lambda>pj. pj, se_in_time = True, se_expired = Sentinel ContextDeadlineExceeded\<rparr>"

definition sample_cleanup :: "MemoryJobRepository cleanup_env" where
  "sample_cleanup = \<lparr>ce_http = (Some (Sentinel ContextDeadlineExceeded), None), ce_https = None, ce_https_first = False,
     ce_http_drain = \<lambda>s. s, ce_grpc = None, ce_grpc_drain = \<lambda>s. s, ce_stop = sample_stop\<rparr>"

definition sample_server :: "MemoryJobRepository Server" where
  "sample_server = \<lparr>sv_readiness = SetReady (NewReadiness []), sv_queue = sample_queue, sv_hub = sample_hub, sv_pool = NewWorkerPool,
     sv_jobs = sample_repo, sv_grpc = RuntimePointer (Some NewRuntime), sv_listeners = ['':8080''], sv_log = []\<rparr>"

theorem shutdown_outcome_witness:
  "\<exists>err s'. cleanup memory_jobs sample_cleanup sample_server = Some (err, s') \<and>
     overallShutdownOutcome None err = ShutdownForced \<and> hub_closed (sv_hub s')"
proof -
  have stop: "stop_pool memory_jobs (ce_stop sample_cleanup) s = (None, s)" if "sv_pool s = NewWorkerPool" for s
    using that by (cases s) (simp add: stop_pool_def WorkerPool_Stop_def WorkerPool_Stop_enter_def NewWorkerPool_def)
  obtain errs s4 where d: "drain sample_cleanup sample_server = (errs, s4)" by (cases "drain sample_cleanup sample_server")
  then have s4: "sv_pool s4 = NewWorkerPool" "sv_hub s4 = sample_hub"
    by (auto simp: drain_def sample_cleanup_def sample_server_def)
  have "Hub_Close sample_hub \<noteq> None" by (simp add: Hub_Close_def Hub_Close_flag_def Hub_Close_locked_def sample_hub_def)
  then obtain err s' where run: "cleanup memory_jobs sample_cleanup sample_server = Some (err, s')"
    using d s4 stop [OF s4(1)] by (auto simp: cleanup_def)
  have plain: "plain None" "plain (Some (Sentinel ContextDeadlineExceeded))"
    by (simp_all add: plain_def)
  from shutdown_outcome [OF run _ _ _ _ d [symmetric] stop [OF s4(1), symmetric] plain(1) refl, of None] plain
  have "overallShutdownOutcome None err = ShutdownForced \<and> hub_closed (sv_hub s')"
    by (simp add: sample_cleanup_def server_deadline_def server_ok_def)
  with run show ?thesis by blast
qed

section \<open>A clean end\<close>

lemma logShutdownSummary_frame:
  "sv_readiness (logShutdownSummary el tr re ce s) = sv_readiness s" "sv_queue (logShutdownSummary el tr re ce s) = sv_queue s"
  "sv_hub (logShutdownSummary el tr re ce s) = sv_hub s" "sv_pool (logShutdownSummary el tr re ce s) = sv_pool s"
  "sv_jobs (logShutdownSummary el tr re ce s) = sv_jobs s" "sv_listeners (logShutdownSummary el tr re ce s) = sv_listeners s"
  by (simp_all add: logShutdownSummary_def server_log_def Let_def split: prod.splits)

text \<open>
  What the rest of the program may do while \<open>Run\<close> serves or waits: requests and workers call the job
  repository, contexts are cancelled, cancelled workers leave, the queue and the hub are used, and the
  gRPC server changes state.  Only \<open>Run\<close> starts or stops the pool and changes the readiness.
\<close>

inductive pool_env :: "'j JobRepository \<Rightarrow> WorkerPool \<times> 'j \<Rightarrow> WorkerPool \<times> 'j \<Rightarrow> bool" for jr where
  exit: "g < length (wp_gens p) \<Longrightarrow> 0 < gen_remaining (wp_gens p ! g) \<Longrightarrow> gen_cancelled (wp_gens p ! g) \<Longrightarrow>
    pool_env jr (p, js) (p\<lparr>wp_gens := (wp_gens p)[g := workerDone (wp_gens p ! g)]\<rparr>, js)"
| cancel: "g < length (wp_gens p) \<Longrightarrow>
    pool_env jr (p, js) (p\<lparr>wp_gens := (wp_gens p)[g := (wp_gens p ! g)\<lparr>gen_cancelled := True\<rparr>]\<rparr>, js)"
| jobs: "pool_env jr (p, js) (p, repo_run jr ops js)"

inductive serve_env :: "'j JobRepository \<Rightarrow> 'j Server \<Rightarrow> 'j Server \<Rightarrow> bool" for jr where
  pool: "pool_env jr (sv_pool s, sv_jobs s) (p, js) \<Longrightarrow> serve_env jr s (s\<lparr>sv_pool := p, sv_jobs := js\<rparr>)"
| enqueue: "Enqueue c item (sv_queue s) = (e, q) \<Longrightarrow> serve_env jr s (s\<lparr>sv_queue := q\<rparr>)"
| receive: "Chan_receive (sv_queue s) = (it, q) \<Longrightarrow> serve_env jr s (s\<lparr>sv_queue := q\<rparr>)"
| hub: "hub_step (sv_hub s) h \<Longrightarrow> serve_env jr s (s\<lparr>sv_hub := h\<rparr>)"
| grpc: "serve_env jr s (s\<lparr>sv_grpc := rt\<rparr>)"

definition run_env_ok :: "'j JobRepository \<Rightarrow> 'j run_env \<Rightarrow> bool" where
  "run_env_ok jr re \<longleftrightarrow>
     (\<forall>s. (serve_env jr)\<^sup>*\<^sup>* s (re_serve re s)) \<and>
     (\<forall>s. (serve_env jr)\<^sup>*\<^sup>* s (ce_http_drain (re_cleanup re) s)) \<and>
     (\<forall>s. (serve_env jr)\<^sup>*\<^sup>* s (ce_grpc_drain (re_cleanup re) s)) \<and>
     (\<forall>pj. (pool_env jr)\<^sup>*\<^sup>* pj (se_between (ce_stop (re_cleanup re)) pj))"

lemma run_env_okD:
  assumes "run_env_ok jr re"
  shows "(serve_env jr)\<^sup>*\<^sup>* s (re_serve re s)" "(serve_env jr)\<^sup>*\<^sup>* s (ce_http_drain (re_cleanup re) s)"
    "(serve_env jr)\<^sup>*\<^sup>* s (ce_grpc_drain (re_cleanup re) s)" "(pool_env jr)\<^sup>*\<^sup>* pj (se_between (ce_stop (re_cleanup re)) pj)"
  using assms by (simp_all only: run_env_ok_def)

text \<open>The pool between its start and its stop: exactly one generation, whose outcome is open.\<close>

definition one_generation :: "WorkerPool \<Rightarrow> bool" where
  "one_generation p \<longleftrightarrow> wp_generation p = Some 0 \<and>
     (\<exists>gen. wp_gens p = [gen] \<and> gen_outcome gen = None \<and> gen_ok gen)"

lemma one_generation_update:
  assumes "one_generation p" and "g < length (wp_gens p)"
    and "\<And>gen. gen_ok gen \<Longrightarrow> gen_outcome gen = None \<Longrightarrow> gen = wp_gens p ! g \<Longrightarrow> gen_ok (f gen) \<and> gen_outcome (f gen) = None"
  shows "one_generation (p\<lparr>wp_gens := (wp_gens p)[g := f (wp_gens p ! g)]\<rparr>)"
  using assms by (auto simp: one_generation_def)

lemma one_generation_started: "one_generation (snd (WorkerPool_Start pd n NewWorkerPool))"
  by (simp add: one_generation_def WorkerPool_Start_def settleStoppedLocked_def NewWorkerPool_def Let_def gen_ok_def)

lemma one_generation_enter:
  "one_generation p \<Longrightarrow> \<exists>p'. WorkerPool_Stop_enter p = (Inr 0, p') \<and> one_generation p'"
  by (auto simp: one_generation_def WorkerPool_Stop_enter_def Let_def)

text \<open>The running server: the pool with its generation, a sound store and hub, and the queue closed
  once it was.\<close>

definition running :: "('j \<Rightarrow> bool) \<Rightarrow> bool \<Rightarrow> bool \<Rightarrow> 'j Server \<Rightarrow> bool" where
  "running jinv ready stopped s \<longleftrightarrow> one_generation (sv_pool s) \<and> jinv (sv_jobs s) \<and> hub_inv (sv_hub s) \<and>
     IsReady (sv_readiness s) = ready \<and> (stopped \<longrightarrow> q_stopped (sv_queue s))"

lemma Enqueue_stopped: "Enqueue c item q = (e, q') \<Longrightarrow> q_stopped q' = q_stopped q"
  by (auto simp: Enqueue_def split: option.splits if_splits)

lemma Chan_receive_stopped: "Chan_receive q = (it, q') \<Longrightarrow> q_stopped q' = q_stopped q"
  by (auto simp: Chan_receive_def split: list.splits)

lemma Hub_Close_total:
  assumes "hub_inv h"
  shows "\<exists>h'. Hub_Close h = Some h' \<and> hub_closed h'"
  using assms Close_locked_spec [of "h\<lparr>hub_closed := True\<rparr>"] by (auto simp: Hub_Close_def Hub_Close_flag_def)

context job_repository begin

lemma pool_env_keeps:
  "pool_env repo pj pj' \<Longrightarrow> one_generation (fst pj) \<and> invar (snd pj) \<Longrightarrow> one_generation (fst pj') \<and> invar (snd pj')"
proof (induction rule: pool_env.induct)
  case (exit g p js)
  then show ?case using one_generation_update [of p g workerDone] by (auto simp: gen_ok_workerDone)
next
  case (cancel g p js)
  then show ?case using one_generation_update [of p g "\<lambda>x. x\<lparr>gen_cancelled := True\<rparr>"] by auto
qed (simp add: run_invar)

lemma pool_envs_keep:
  "(pool_env repo)\<^sup>*\<^sup>* pj pj' \<Longrightarrow> one_generation (fst pj) \<and> invar (snd pj) \<Longrightarrow> one_generation (fst pj') \<and> invar (snd pj')"
  by (induction rule: rtranclp_induct) (auto dest: pool_env_keeps)

lemma serve_env_keeps: "serve_env repo s s' \<Longrightarrow> running invar ready stopped s \<Longrightarrow> running invar ready stopped s'"
  by (induction rule: serve_env.induct)
     (auto simp: running_def dest: pool_env_keeps Enqueue_stopped Chan_receive_stopped hub_inv_step)

lemma serve_envs_keep: "(serve_env repo)\<^sup>*\<^sup>* s s' \<Longrightarrow> running invar ready stopped s \<Longrightarrow> running invar ready stopped s'"
  by (induction rule: rtranclp_induct) (auto dest: serve_env_keeps)

lemma stop_settles:
  assumes "one_generation p" and "invar js" and "\<And>pj. (pool_env repo)\<^sup>*\<^sup>* pj (se_between se pj)"
    and "WorkerPool_Stop repo se (p, js) = (e, p', js')"
  shows "e = None \<Longrightarrow> \<not> workers_alive p' \<and> wp_generation p' = None \<and> (\<forall>i j. abs js' i = Some j \<longrightarrow> \<not> active j)"
proof -
  assume e: "e = None"
  obtain p1 where p1: "WorkerPool_Stop_enter p = (Inr 0, p1)" "one_generation p1"
    using one_generation_enter [OF assms(1)] by blast
  obtain p2 js2 where b: "se_between se (p1, js) = (p2, js2)" by force
  have k: "one_generation p2" "invar js2"
    using pool_envs_keep [OF assms(3) [of "(p1, js)"]] p1(2) assms(2) b by auto
  obtain gen where gen: "wp_gens p2 = [gen]" "wp_generation p2 = Some 0" "gen_outcome gen = None" "gen_ok gen"
    using k(1) by (auto simp: one_generation_def)
  have fin: "gen_done gen" "completeStop repo 0 (p2, js2) = (None, p', js')"
    using assms(4) p1(1) b e gen(1) by (auto simp: WorkerPool_Stop_def Let_def split: if_splits)
  obtain outc js3 where rep: "repairActiveOnShutdown repo js2 = (outc, js3)" by force
  show ?thesis
    using fin gen rep repair_clears [OF k(2) rep]
    by (auto simp: completeStop_def workers_alive_def gen_ok_def)
qed

text \<open>The state \<open>Run\<close> promises when it returns no error.\<close>

lemma cleanup_settles:
  assumes s: "running invar ready stopped s" and ok: "run_env_ok repo re"
  shows "\<exists>err s'. cleanup repo (re_cleanup re) s = Some (err, s') \<and> sv_listeners s' = [] \<and>
    \<not> IsReady (sv_readiness s') \<and> q_stopped (sv_queue s') \<and> hub_closed (sv_hub s') \<and>
    (err = None \<longrightarrow> \<not> workers_alive (sv_pool s') \<and> wp_generation (sv_pool s') = None \<and>
       (\<forall>i j. abs (sv_jobs s') i = Some j \<longrightarrow> \<not> active j))"
proof -
  let ?ce = "re_cleanup re"
  let ?s2 = "s\<lparr>sv_readiness := SetNotReady (sv_readiness s), sv_queue := StopAccepting (sv_queue s)\<rparr>"
  have s2: "running invar False True ?s2"
    using s by (simp add: running_def IsReady_def SetNotReady_def StopAccepting_def)
  obtain errs s4 where d: "drain ?ce s = (errs, s4)" by force
  have s3: "running invar False True (ce_http_drain ?ce ?s2)"
    by (rule serve_envs_keep [OF run_env_okD(2) [OF ok] s2])
  have "running invar False True (ce_grpc_drain ?ce (ce_http_drain ?ce ?s2))"
    by (rule serve_envs_keep [OF run_env_okD(3) [OF ok] s3])
  with d s3 have s4: "running invar False True s4" by (auto simp: drain_def Let_def split: if_splits)
  obtain e p js where st: "WorkerPool_Stop repo (ce_stop ?ce) (sv_pool s4, sv_jobs s4) = (e, p, js)"
    by (metis surj_pair)
  obtain h where h: "Hub_Close (sv_hub s4) = Some h" "hub_closed h"
    using Hub_Close_total s4 by (auto simp: running_def)
  have "shutdownWorkerPool e = None \<Longrightarrow> e = None" by (auto simp: shutdownWorkerPool_def split: option.splits if_splits)
  then have "\<not> workers_alive p \<and> wp_generation p = None \<and> (\<forall>i j. abs js i = Some j \<longrightarrow> \<not> active j)"
    if "errors_Join (errs @ [shutdownWorkerPool e]) = None"
    using that stop_settles [OF _ _ run_env_okD(4) [OF ok] st] s4 by (simp add: errors_Join_None running_def)
  with d st h s4 show ?thesis by (auto simp: cleanup_def stop_pool_def running_def)
qed

lemma Run_settles:
  assumes "invar js" and "hub_inv h" and "\<not> IsReady rd" and ok: "run_env_ok repo re"
  shows "\<exists>err s'. Run repo re cfg (NewAPIServer rd NewWorkerPool q rt h js) = Some (err, s') \<and> sv_listeners s' = [] \<and>
    \<not> IsReady (sv_readiness s') \<and>
    (err = None \<longrightarrow> q_stopped (sv_queue s') \<and> hub_closed (sv_hub s') \<and>
       \<not> workers_alive (sv_pool s') \<and> wp_generation (sv_pool s') = None \<and>
       (\<forall>i j. abs (sv_jobs s') i = Some j \<longrightarrow> \<not> active j))"
proof (cases "open_listeners re (cfg_HTTP cfg)")
  case (Inl e)
  then show ?thesis using assms(3) by (simp add: Run_def NewAPIServer_def)
next
  case (Inr lns)
  let ?s = "NewAPIServer rd NewWorkerPool q rt h js"
  obtain p where p: "WorkerPool_Start (re_parentDone re) (pl_Workers (cfg_Pool cfg)) NewWorkerPool = (None, p)"
    by (simp add: WorkerPool_Start_def NewWorkerPool_def settleStoppedLocked_def Let_def)
  then have one: "one_generation p"
    using one_generation_started [of "re_parentDone re" "pl_Workers (cfg_Pool cfg)"] by simp
  obtain e rt1 where g: "start_grpc (?s\<lparr>sv_pool := p, sv_listeners := lns\<rparr>) = (e, ?s\<lparr>sv_pool := p, sv_listeners := lns, sv_grpc := rt1\<rparr>)"
    by (atomize_elim, cases rt) (auto simp: start_grpc_def NewAPIServer_def split: prod.splits)
  let ?s1 = "?s\<lparr>sv_pool := p, sv_listeners := lns, sv_grpc := rt1, sv_readiness := SetReady rd\<rparr>"
  show ?thesis
  proof (cases e)
    case (Some err)
    with Inr p g assms(3) show ?thesis
      by (auto simp: Run_def stop_pool_def NewAPIServer_def split: prod.splits)
  next
    case None
    have "running invar True False ?s1"
      using one assms(1,2) by (simp add: running_def NewAPIServer_def IsReady_def SetReady_def)
    then have "running invar True False (re_serve re ?s1)"
      by (rule serve_envs_keep [OF run_env_okD(1) [OF ok]])
    then have log: "running invar True False (logShutdownStarted tr t (re_serve re ?s1))" for tr t
      by (simp add: running_def logShutdownStarted_def server_log_def)
    define runErr tr where "runErr = run_error (re_trigger re) (re_serve re ?s1)"
      and "tr = shutdown_trigger (re_trigger re) (re_serve re ?s1)"
    obtain err s3 where c: "cleanup repo (re_cleanup re) (logShutdownStarted tr (ht_ShutdownTimeout (cfg_HTTP cfg)) (re_serve re ?s1)) = Some (err, s3)"
      and s3: "sv_listeners s3 = []" "\<not> IsReady (sv_readiness s3)" "q_stopped (sv_queue s3)" "hub_closed (sv_hub s3)"
        "err = None \<longrightarrow> \<not> workers_alive (sv_pool s3) \<and> wp_generation (sv_pool s3) = None \<and>
           (\<forall>i j. abs (sv_jobs s3) i = Some j \<longrightarrow> \<not> active j)"
      using cleanup_settles [OF log ok] by blast
    have sv: "sv_pool ?s = NewWorkerPool" "sv_readiness ?s = rd" by (simp_all add: NewAPIServer_def)
    have s1: "?s\<lparr>sv_pool := p, sv_listeners := lns, sv_grpc := rt1\<rparr>\<lparr>sv_readiness := SetReady (sv_readiness ?s)\<rparr> = ?s1"
      using sv by simp
    have "Run repo re cfg ?s = Some (errors_Join [runErr, err], logShutdownSummary (re_elapsed re) tr runErr err s3)"
      using c unfolding Run_def Inr sv(1) p sum.case prod.case option.case g None Let_def runErr_def tr_def
      by (simp add: s1)
    with s3 show ?thesis by (auto simp: errors_Join_None logShutdownSummary_frame)
  qed
qed

end


text \<open>The same over PostgreSQL.\<close>

lemma run_settles_sql:
  assumes "sq_inv text_codec js" and "NewHub n = Some h" and "run_env_ok (sql_jobs text_codec) re"
  shows "\<exists>err s'. main_run (sql_jobs text_codec) re cfg (NewReadiness checks) NewWorkerPool q r h js = Some (err, s') \<and>
    sv_listeners s' = [] \<and> \<not> IsReady (sv_readiness s') \<and>
    (err = None \<longrightarrow> q_stopped (sv_queue s') \<and> hub_closed (sv_hub s') \<and>
       \<not> workers_alive (sv_pool s') \<and> wp_generation (sv_pool s') = None \<and>
       (\<forall>i j. sq_abs text_codec (sv_jobs s') i = Some j \<longrightarrow> \<not> active j))"
  using sql.Run_settles [OF assms(1) hub_inv_New [OF assms(2)] _ assms(3)]
  by (simp add: main_run_def NewReadiness_def IsReady_def)

text \<open>One worker that leaves when it is cancelled, and servers that shut down at once.\<close>

definition worker_leaves :: "WorkerPool \<times> 'j \<Rightarrow> WorkerPool \<times> 'j" where
  "worker_leaves pj =
     (case pj of (p, js) \<Rightarrow>
       if 0 < length (wp_gens p) \<and> 0 < gen_remaining (wp_gens p ! 0) \<and> gen_cancelled (wp_gens p ! 0)
       then (p\<lparr>wp_gens := (wp_gens p)[0 := workerDone (wp_gens p ! 0)]\<rparr>, js) else (p, js))"

definition clean_run :: "MemoryJobRepository run_env" where
  "clean_run = \<lparr>re_listen = \<lambda>_. None, re_keyPair = None, re_parentDone = False, re_startStop = sample_stop,
     re_serve = \<lambda>s. s, re_trigger = TriggerContext,
     re_cleanup = \<lparr>ce_http = (None, None), ce_https = None, ce_https_first = False, ce_http_drain = \<lambda>s. s,
       ce_grpc = None, ce_grpc_drain = \<lambda>s. s,
       ce_stop = \<lparr>se_between = worker_leaves, se_in_time = True, se_expired = Sentinel ContextDeadlineExceeded\<rparr>\<rparr>,
     re_elapsed = 0\<rparr>"

lemma worker_leaves_env: "(pool_env jr)\<^sup>*\<^sup>* pj (worker_leaves pj)"
  by (cases pj) (auto simp: worker_leaves_def intro!: r_into_rtranclp pool_env.exit)

definition one_worker :: Config where
  "one_worker = defaultConfig\<lparr>cfg_Pool := (cfg_Pool defaultConfig)\<lparr>pl_Workers := 1\<rparr>,
     cfg_GRPC := (cfg_GRPC defaultConfig)\<lparr>gr_Enable := True\<rparr>\<rparr>"


end
