(* ===== verification/Telemetry.thy ===== *)
theory Telemetry
  imports Config "HOL-Library.Multiset" "HOL-Library.Word"
begin

text \<open>
  The telemetry runtime (\<open>internal/telemetry/runtime.go\<close>): what it is built from, how it falls back to a
  disabled runtime, the process-wide handlers it installs and gives back, its diagnostics, and the
  error handler, whose lock-free limit on log records is modelled one atomic access at a time.  The
  OpenTelemetry SDK is a record of parameters; resources, exporters and readers are values of type
  variables.
\<close>

section \<open>Build information and resources\<close>

record BuildInfo =
  bi_ServiceName :: string
  bi_ServiceVersion :: string
  bi_ServiceInstanceID :: string
  bi_Environment :: string

definition DefaultServiceName :: string where "DefaultServiceName = ''pet-study''"
definition DefaultServiceVersion :: string where "DefaultServiceVersion = ''dev''"
definition DefaultEnvironment :: string where "DefaultEnvironment = EnvironmentDevelopment"

definition telemetryErrorKind :: "go_error option \<Rightarrow> string" where
  "telemetryErrorKind err =
     (case err of
        None \<Rightarrow> ''none''
      | Some e \<Rightarrow>
          if errors_Is e ContextCanceled then ''canceled''
          else if errors_Is e ContextDeadlineExceeded then ''deadline_exceeded''
          else ''telemetry'')"

definition defaultString :: "string \<Rightarrow> string \<Rightarrow> string" where
  "defaultString s fallback = (let v = TrimSpace s in if v = [] then fallback else v)"

definition hex_digit :: "nat \<Rightarrow> char" where
  "hex_digit n = char_of (if n < 10 then 48 + n else 87 + n)"

definition EncodeToString :: "string \<Rightarrow> string" where
  "EncodeToString bs = concat (map (\<lambda>b. [hex_digit (of_char b div 16), hex_digit (of_char b mod 16)]) bs)"

text \<open>\<open>random\<close> is what reading the 16 bytes gives.\<close>

definition generateInstanceID :: "go_error + string \<Rightarrow> go_error + string" where
  "generateInstanceID random =
     (case random of
        Inl e \<Rightarrow> Inl (WrapError ''generate telemetry service.instance.id'' e)
      | Inr b \<Rightarrow> Inr (EncodeToString b))"

definition normalizeBuildInfo :: "go_error + string \<Rightarrow> BuildInfo \<Rightarrow> go_error + BuildInfo" where
  "normalizeBuildInfo random build =
     (let name = defaultString (bi_ServiceName build) DefaultServiceName;
          version = defaultString (bi_ServiceVersion build) DefaultServiceVersion;
          environment = defaultString (bi_Environment build) DefaultEnvironment;
          instanceID = TrimSpace (bi_ServiceInstanceID build);
          info = (\<lambda>i. \<lparr>bi_ServiceName = name, bi_ServiceVersion = version, bi_ServiceInstanceID = i, bi_Environment = environment\<rparr>)
      in if instanceID = [] then
           (case generateInstanceID random of Inl e \<Rightarrow> Inl e | Inr i \<Rightarrow> Inr (info i))
         else Inr (info instanceID))"

record export_options =
  eo_Timeout :: int64
  eo_InitialInterval :: int64
  eo_MaxInterval :: int64
  eo_MaxElapsedTime :: int64

text \<open>The SDK, for one call of \<open>New\<close>.\<close>

record ('r, 'e, 'm) SDK =
  sdk_Random :: "go_error + string"
  sdk_NewSchemaless :: "(string \<times> string) list \<Rightarrow> 'r"
  sdk_WithTelemetrySDK :: "go_error + 'r"
  sdk_WithFromEnv :: "go_error + 'r"
  sdk_Merge :: "'r \<Rightarrow> 'r \<Rightarrow> go_error + 'r"
  sdk_TraceExporter :: "export_options \<Rightarrow> go_error + 'e"
  sdk_MetricExporter :: "export_options \<Rightarrow> go_error + 'm"

definition merge_resource :: "string \<Rightarrow> ('r, 'e, 'm) SDK \<Rightarrow> 'r \<Rightarrow> go_error + 'r \<Rightarrow> go_error + 'r" where
  "merge_resource what sdk res made =
     (case made of
        Inl e \<Rightarrow> Inl (WrapError (''create '' @ what) e)
      | Inr extra \<Rightarrow>
          (case sdk_Merge sdk res extra of
             Inl e \<Rightarrow> Inl (WrapError (''merge '' @ what) e)
           | Inr r \<Rightarrow> Inr r))"

definition newResource :: "('r, 'e, 'm) SDK \<Rightarrow> BuildInfo \<Rightarrow> bool \<Rightarrow> go_error + 'r" where
  "newResource sdk build includeEnv =
     (case normalizeBuildInfo (sdk_Random sdk) build of
        Inl e \<Rightarrow> Inl e
      | Inr normalized \<Rightarrow>
          (let res = sdk_NewSchemaless sdk
                 [(''service.name'', bi_ServiceName normalized), (''service.version'', bi_ServiceVersion normalized),
                  (''service.instance.id'', bi_ServiceInstanceID normalized),
                  (''deployment.environment.name'', bi_Environment normalized)]
           in case merge_resource ''telemetry SDK resource'' sdk res (sdk_WithTelemetrySDK sdk) of
                Inl e \<Rightarrow> Inl e
              | Inr res1 \<Rightarrow>
                  if includeEnv then merge_resource ''environment telemetry resource'' sdk res1 (sdk_WithFromEnv sdk)
                  else Inr res1))"

section \<open>Diagnostics\<close>

record diagnostics =
  dg_startupFailures :: "64 word"
  dg_exportFailures :: "64 word"
  dg_suppressedExportLogs :: "64 word"
  dg_forceFlushes :: "64 word"
  dg_shutdowns :: "64 word"
  dg_lastStartupFailureKind :: "string option"
  dg_lastExportFailureKind :: "string option"

definition newDiagnostics :: diagnostics where
  "newDiagnostics = \<lparr>dg_startupFailures = 0, dg_exportFailures = 0, dg_suppressedExportLogs = 0, dg_forceFlushes = 0,
     dg_shutdowns = 0, dg_lastStartupFailureKind = None, dg_lastExportFailureKind = None\<rparr>"

record DiagnosticsSnapshot =
  ds_Enabled :: bool
  ds_StartupFailures :: "64 word"
  ds_ExportFailures :: "64 word"
  ds_SuppressedExportLogs :: "64 word"
  ds_ForceFlushes :: "64 word"
  ds_Shutdowns :: "64 word"
  ds_LastStartupFailureKind :: string
  ds_LastExportFailureKind :: string

definition loadAtomicString :: "string option \<Rightarrow> string" where
  "loadAtomicString v = (case v of Some text \<Rightarrow> text | None \<Rightarrow> [])"

definition zero_snapshot :: "bool \<Rightarrow> DiagnosticsSnapshot" where
  "zero_snapshot enabled = \<lparr>ds_Enabled = enabled, ds_StartupFailures = 0, ds_ExportFailures = 0, ds_SuppressedExportLogs = 0,
     ds_ForceFlushes = 0, ds_Shutdowns = 0, ds_LastStartupFailureKind = [], ds_LastExportFailureKind = []\<rparr>"

definition diagnostics_snapshot :: "bool \<Rightarrow> diagnostics option \<Rightarrow> DiagnosticsSnapshot" where
  "diagnostics_snapshot enabled dopt =
     (case dopt of
        None \<Rightarrow> zero_snapshot enabled
      | Some d \<Rightarrow>
          \<lparr>ds_Enabled = enabled, ds_StartupFailures = dg_startupFailures d, ds_ExportFailures = dg_exportFailures d,
           ds_SuppressedExportLogs = dg_suppressedExportLogs d, ds_ForceFlushes = dg_forceFlushes d,
           ds_Shutdowns = dg_shutdowns d, ds_LastStartupFailureKind = loadAtomicString (dg_lastStartupFailureKind d),
           ds_LastExportFailureKind = loadAtomicString (dg_lastExportFailureKind d)\<rparr>)"

definition recordStartupFailure :: "go_error \<Rightarrow> diagnostics \<Rightarrow> diagnostics" where
  "recordStartupFailure err d =
     d\<lparr>dg_startupFailures := dg_startupFailures d + 1, dg_lastStartupFailureKind := Some (telemetryErrorKind (Some err))\<rparr>"

definition recordForceFlush :: "diagnostics \<Rightarrow> diagnostics" where
  "recordForceFlush d = d\<lparr>dg_forceFlushes := dg_forceFlushes d + 1\<rparr>"

definition recordShutdown :: "diagnostics \<Rightarrow> diagnostics" where
  "recordShutdown d = d\<lparr>dg_shutdowns := dg_shutdowns d + 1\<rparr>"

definition recordSuppressedExportLog :: "diagnostics \<Rightarrow> diagnostics" where
  "recordSuppressedExportLog d = d\<lparr>dg_suppressedExportLogs := dg_suppressedExportLogs d + 1\<rparr>"

section \<open>The error handler\<close>

text \<open>
  Loggers are known by a number; a log record is what the handler passes to one.  The handler is an
  object that many goroutines call at once, so a call is a sequence of program points, each with one
  atomic access to the shared state: \<open>HandleEnter\<close> and \<open>HandleCount\<close> are \<open>recordExportFailure\<close>, then the logger
  is loaded and the clock read (\<open>HandleClock\<close>), \<open>HandleLoad\<close> and \<open>HandleCAS\<close> are the loop, \<open>HandleSuppress\<close> and
  \<open>HandleSuppressed\<close> the way out without a record, \<open>HandleLog\<close> the end with one, and
  \<open>HandleDone\<close> says how the call ended.
\<close>

record otelErrorHandler =
  eh_diagnostics :: diagnostics
  eh_logInterval :: int64
  eh_nextLogUnixNano :: int64
  eh_pendingSuppressed :: "64 word"
  eh_logger :: "nat option"

record export_record =
  xr_Logger :: nat
  xr_At :: int64
  xr_ErrorKind :: string
  xr_SuppressedLogs :: "64 word"
  xr_TotalFailures :: "64 word"

definition defaultDiagnosticsLogInterval :: int64 where
  "defaultDiagnosticsLogInterval = 60 * time_Second"

definition newOTelErrorHandler :: "diagnostics \<Rightarrow> int64 \<Rightarrow> otelErrorHandler" where
  "newOTelErrorHandler d logInterval =
     \<lparr>eh_diagnostics = d, eh_logInterval = (if logInterval \<le> 0 then defaultDiagnosticsLogInterval else logInterval),
      eh_nextLogUnixNano = 0, eh_pendingSuppressed = 0, eh_logger = None\<rparr>"

definition setLogger :: "nat \<Rightarrow> nat option \<Rightarrow> otelErrorHandler \<Rightarrow> otelErrorHandler" where
  "setLogger default_logger logger h = h\<lparr>eh_logger := Some (case logger of None \<Rightarrow> default_logger | Some l \<Rightarrow> l)\<rparr>"

datatype handle_end = EndNil | EndUnlogged | EndSuppressed | EndLogged

datatype handle_point =
    HandleEnter "go_error option" int64
  | HandleCount go_error int64
  | HandleClock go_error int64 "64 word"
  | HandleLoad go_error int64 "64 word" nat
  | HandleCAS go_error int64 "64 word" nat int64
  | HandleSuppress
  | HandleSuppressed
  | HandleLog go_error int64 "64 word" nat
  | HandleDone handle_end

text \<open>One access of one call: its next point, the state, and the record it writes, if any.\<close>

fun Handle_step :: "handle_point \<Rightarrow> otelErrorHandler \<Rightarrow> handle_point \<times> otelErrorHandler \<times> export_record option" where
  "Handle_step (HandleEnter err t) h =
     (case err of
        None \<Rightarrow> (HandleDone EndNil, h, None)
      | Some e \<Rightarrow>
          (HandleCount e t,
           h\<lparr>eh_diagnostics := (eh_diagnostics h)\<lparr>dg_lastExportFailureKind := Some (telemetryErrorKind (Some e))\<rparr>\<rparr>, None))"
| "Handle_step (HandleCount e t) h =
     (let cnt = dg_exportFailures (eh_diagnostics h) + 1
      in (HandleClock e t cnt, h\<lparr>eh_diagnostics := (eh_diagnostics h)\<lparr>dg_exportFailures := cnt\<rparr>\<rparr>, None))"
| "Handle_step (HandleClock e t cnt) h =
     (case eh_logger h of
        None \<Rightarrow> (HandleDone EndUnlogged, h, None)
      | Some l \<Rightarrow> (HandleLoad e t cnt l, h, None))"
| "Handle_step (HandleLoad e t cnt l) h =
     (let nxt = eh_nextLogUnixNano h
      in (if nxt > t then HandleSuppress else HandleCAS e t cnt l nxt, h, None))"
| "Handle_step (HandleCAS e t cnt l nxt) h =
     (if eh_nextLogUnixNano h = nxt
      then (HandleLog e t cnt l, h\<lparr>eh_nextLogUnixNano := wrap64 (t + eh_logInterval h)\<rparr>, None)
      else (HandleLoad e t cnt l, h, None))"
| "Handle_step HandleSuppress h =
     (HandleSuppressed, h\<lparr>eh_pendingSuppressed := eh_pendingSuppressed h + 1\<rparr>, None)"
| "Handle_step HandleSuppressed h =
     (HandleDone EndSuppressed, h\<lparr>eh_diagnostics := recordSuppressedExportLog (eh_diagnostics h)\<rparr>, None)"
| "Handle_step (HandleLog e t cnt l) h =
     (HandleDone EndLogged, h\<lparr>eh_pendingSuppressed := 0\<rparr>,
      Some \<lparr>xr_Logger = l, xr_At = t, xr_ErrorKind = telemetryErrorKind (Some e),
            xr_SuppressedLogs = eh_pendingSuppressed h, xr_TotalFailures = cnt\<rparr>)"
| "Handle_step (HandleDone en) h = (HandleDone en, h, None)"

text \<open>
  Concurrent calls: the points of all calls so far, the handler, and the records written.  A call begins
  with an error and the time it will read from the clock; the logger is only ever set.
\<close>

type_synonym handler_state = "handle_point list \<times> otelErrorHandler \<times> export_record list"

inductive handler_step :: "handler_state \<Rightarrow> handler_state \<Rightarrow> bool" where
  call: "0 \<le> t \<Longrightarrow> t + eh_logInterval h \<le> int64_max \<Longrightarrow>
    handler_step (ps, h, rs) (ps @ [HandleEnter err t], h, rs)"
| point: "i < length ps \<Longrightarrow> Handle_step (ps ! i) h = (p, h', out) \<Longrightarrow>
    handler_step (ps, h, rs) (ps[i := p], h', rs @ (case out of None \<Rightarrow> [] | Some r \<Rightarrow> [r]))"
| logger: "handler_step (ps, h, rs) (ps, setLogger default_logger l h, rs)"

section \<open>The runtime\<close>

text \<open>A provider is what it was made of; a nil runtime has the no-op providers.\<close>

datatype 'e span_processor = WithSyncer 'e | WithBatcher 'e nat nat int64 int64

datatype 'm metric_reader = PeriodicReader 'm int64 int64 | GivenReader nat

datatype ('r, 'e) TracerProvider = NoopTracer | SdkTracer 'r "'e span_processor list"

datatype ('r, 'm) MeterProvider = NoopMeter | SdkMeter 'r "'m metric_reader list"

text \<open>Error handlers of the process: the SDK's own, this runtime's, or another one.\<close>

datatype error_handler = SdkHandler | RuntimeHandler | OtherHandler nat

record ('r, 'e, 'm) TelemetryRuntime =
  tr_enabled :: bool
  tr_resource :: 'r
  tr_tracerProvider :: "('r, 'e) TracerProvider"
  tr_meterProvider :: "('r, 'm) MeterProvider"
  tr_errorHandler :: otelErrorHandler
  tr_globalsInstalled :: bool
  tr_previousErrorHandler :: "error_handler option"
  tr_shutdownOnce :: bool
  tr_shutdownErr :: "go_error option"

text \<open>The diagnostics are one object, which the error handler shares.\<close>

abbreviation tr_diagnostics :: "('r, 'e, 'm) TelemetryRuntime \<Rightarrow> diagnostics" where
  "tr_diagnostics r \<equiv> eh_diagnostics (tr_errorHandler r)"

definition update_diagnostics :: "(diagnostics \<Rightarrow> diagnostics) \<Rightarrow> ('r, 'e, 'm) TelemetryRuntime \<Rightarrow> ('r, 'e, 'm) TelemetryRuntime" where
  "update_diagnostics f r = r\<lparr>tr_errorHandler := (tr_errorHandler r)\<lparr>eh_diagnostics := f (tr_diagnostics r)\<rparr>\<rparr>"

record ('e, 'm) runtimeOptions =
  ro_traceExporter :: "'e option"
  ro_useSimpleSpanProcessor :: bool
  ro_metricReader :: "'m metric_reader option"
  ro_resourceFromEnv :: bool
  ro_diagnosticsLogInterval :: int64

definition export_settings :: export_options where
  "export_settings = \<lparr>eo_Timeout = 5 * time_Second, eo_InitialInterval = time_Second, eo_MaxInterval = 5 * time_Second,
     eo_MaxElapsedTime = 30 * time_Second\<rparr>"

definition newOTLPMetricReader :: "('r, 'e, 'm) SDK \<Rightarrow> go_error + 'm metric_reader" where
  "newOTLPMetricReader sdk =
     (case sdk_MetricExporter sdk export_settings of
        Inl e \<Rightarrow> Inl (WrapError ''create OTLP metric exporter'' e)
      | Inr exporter \<Rightarrow> Inr (PeriodicReader exporter (60 * time_Second) (5 * time_Second)))"

definition trace_exporter :: "('r, 'e, 'm) SDK \<Rightarrow> ('e, 'm) runtimeOptions \<Rightarrow> go_error + 'e" where
  "trace_exporter sdk opts =
     (case ro_traceExporter opts of
        Some e \<Rightarrow> Inr e
      | None \<Rightarrow>
          (case sdk_TraceExporter sdk export_settings of
             Inl e \<Rightarrow> Inl (WrapError ''create OTLP trace exporter'' e)
           | Inr e \<Rightarrow> Inr e))"

definition span_processor :: "('e, 'm) runtimeOptions \<Rightarrow> 'e \<Rightarrow> 'e span_processor" where
  "span_processor opts e =
     (if ro_useSimpleSpanProcessor opts then WithSyncer e
      else WithBatcher e 2048 512 (5 * time_Second) (5 * time_Second))"

definition metric_reader_of :: "('r, 'e, 'm) SDK \<Rightarrow> ('e, 'm) runtimeOptions \<Rightarrow> go_error + 'm metric_reader" where
  "metric_reader_of sdk opts = (case ro_metricReader opts of Some rd \<Rightarrow> Inr rd | None \<Rightarrow> newOTLPMetricReader sdk)"

definition runtime_of ::
  "TelemetryConfig \<Rightarrow> ('e, 'm) runtimeOptions \<Rightarrow> 'r \<Rightarrow> 'e span_processor list \<Rightarrow> 'm metric_reader list \<Rightarrow> ('r, 'e, 'm) TelemetryRuntime" where
  "runtime_of cfg opts res processors readers =
     (let logInterval = (if ro_diagnosticsLogInterval opts \<le> 0 then defaultDiagnosticsLogInterval else ro_diagnosticsLogInterval opts)
      in \<lparr>tr_enabled = tel_Enabled cfg, tr_resource = res, tr_tracerProvider = SdkTracer res processors,
          tr_meterProvider = SdkMeter res readers, tr_errorHandler = newOTelErrorHandler newDiagnostics logInterval,
          tr_globalsInstalled = False, tr_previousErrorHandler = None, tr_shutdownOnce = False, tr_shutdownErr = None\<rparr>)"

text \<open>The result with the exporters that were shut down again.\<close>

definition newRuntime ::
  "('r, 'e, 'm) SDK \<Rightarrow> TelemetryConfig \<Rightarrow> BuildInfo \<Rightarrow> ('e, 'm) runtimeOptions \<Rightarrow>
     (go_error + ('r, 'e, 'm) TelemetryRuntime) \<times> 'e list" where
  "newRuntime sdk cfg build opts =
     (case newResource sdk build (ro_resourceFromEnv opts) of
        Inl e \<Rightarrow> (Inl e, [])
      | Inr res \<Rightarrow>
          if \<not> tel_Enabled cfg then (Inr (runtime_of cfg opts res [] []), [])
          else
            (case trace_exporter sdk opts of
               Inl e \<Rightarrow> (Inl e, [])
             | Inr te \<Rightarrow>
                 (case metric_reader_of sdk opts of
                    Inl e \<Rightarrow> (Inl e, [te])
                  | Inr rd \<Rightarrow> (Inr (runtime_of cfg opts res [span_processor opts te] [rd]), []))))"

definition New_telemetry ::
  "('r, 'e, 'm) SDK \<Rightarrow> TelemetryConfig \<Rightarrow> BuildInfo \<Rightarrow> (go_error + ('r, 'e, 'm) TelemetryRuntime) \<times> 'e list" where
  "New_telemetry sdk cfg build =
     newRuntime sdk cfg build \<lparr>ro_traceExporter = None, ro_useSimpleSpanProcessor = False, ro_metricReader = None,
       ro_resourceFromEnv = tel_Enabled cfg, ro_diagnosticsLogInterval = 0\<rparr>"

text \<open>The SDK may answer differently the second time.\<close>

definition NewFailOpen ::
  "('r, 'e, 'm) SDK \<Rightarrow> ('r, 'e, 'm) SDK \<Rightarrow> TelemetryConfig \<Rightarrow> BuildInfo \<Rightarrow> (go_error + ('r, 'e, 'm) TelemetryRuntime) \<times> 'e list" where
  "NewFailOpen sdk sdk2 cfg build =
     (case New_telemetry sdk cfg build of
        (Inr rt, ex) \<Rightarrow> (Inr rt, ex)
      | (Inl err, ex) \<Rightarrow>
          if \<not> tel_Enabled cfg then (Inl err, ex)
          else
            (case New_telemetry sdk2 (cfg\<lparr>tel_Enabled := False\<rparr>) build of
               (Inl fallbackErr, ex2) \<Rightarrow> (Inl (JoinError [err, fallbackErr]), ex @ ex2)
             | (Inr fallback, ex2) \<Rightarrow> (Inr (update_diagnostics (recordStartupFailure err) fallback), ex @ ex2)))"

section \<open>Process-wide handlers and shutdown\<close>

text \<open>The methods are called on a pointer, \<open>None\<close> when it is nil.\<close>

definition Runtime_Enabled :: "('r, 'e, 'm) TelemetryRuntime option \<Rightarrow> bool" where
  "Runtime_Enabled r = (case r of None \<Rightarrow> False | Some rt \<Rightarrow> tr_enabled rt)"

definition Runtime_Resource :: "'r \<Rightarrow> ('r, 'e, 'm) TelemetryRuntime option \<Rightarrow> 'r" where
  "Runtime_Resource none r = (case r of None \<Rightarrow> none | Some rt \<Rightarrow> tr_resource rt)"

definition Runtime_TracerProvider :: "('r, 'e, 'm) TelemetryRuntime option \<Rightarrow> ('r, 'e) TracerProvider" where
  "Runtime_TracerProvider r = (case r of None \<Rightarrow> NoopTracer | Some rt \<Rightarrow> tr_tracerProvider rt)"

definition Runtime_MeterProvider :: "('r, 'e, 'm) TelemetryRuntime option \<Rightarrow> ('r, 'm) MeterProvider" where
  "Runtime_MeterProvider r = (case r of None \<Rightarrow> NoopMeter | Some rt \<Rightarrow> tr_meterProvider rt)"

definition Runtime_Diagnostics :: "('r, 'e, 'm) TelemetryRuntime option \<Rightarrow> DiagnosticsSnapshot" where
  "Runtime_Diagnostics r =
     (case r of None \<Rightarrow> zero_snapshot False | Some rt \<Rightarrow> diagnostics_snapshot (Runtime_Enabled r) (Some (tr_diagnostics rt)))"

record ('r, 'e, 'm) otel_globals =
  og_tracerProvider :: "('r, 'e) TracerProvider"
  og_meterProvider :: "('r, 'm) MeterProvider"
  og_traceContext :: bool
  og_errorHandler :: error_handler

definition installErrorHandler ::
  "nat \<Rightarrow> nat option \<Rightarrow> ('r, 'e, 'm) TelemetryRuntime \<Rightarrow> ('r, 'e, 'm) otel_globals \<Rightarrow>
     ('r, 'e, 'm) TelemetryRuntime \<times> ('r, 'e, 'm) otel_globals" where
  "installErrorHandler dl logger r g =
     (let r1 = (if \<not> tr_globalsInstalled r
                then r\<lparr>tr_previousErrorHandler := Some (og_errorHandler g), tr_globalsInstalled := True\<rparr> else r)
      in (r1\<lparr>tr_errorHandler := setLogger dl logger (tr_errorHandler r1)\<rparr>, g\<lparr>og_errorHandler := RuntimeHandler\<rparr>))"

definition InstallGlobalsWithLogger ::
  "nat \<Rightarrow> nat option \<Rightarrow> ('r, 'e, 'm) TelemetryRuntime option \<Rightarrow> ('r, 'e, 'm) otel_globals \<Rightarrow>
     ('r, 'e, 'm) TelemetryRuntime option \<times> ('r, 'e, 'm) otel_globals" where
  "InstallGlobalsWithLogger dl logger r g =
     (case r of
        None \<Rightarrow> (r, g)
      | Some rt \<Rightarrow>
          (case installErrorHandler dl logger rt
                  (g\<lparr>og_tracerProvider := Runtime_TracerProvider r, og_meterProvider := Runtime_MeterProvider r,
                     og_traceContext := True\<rparr>) of
             (rt1, g1) \<Rightarrow> (Some rt1, g1)))"

definition restoreErrorHandler ::
  "('r, 'e, 'm) TelemetryRuntime \<Rightarrow> ('r, 'e, 'm) otel_globals \<Rightarrow> ('r, 'e, 'm) TelemetryRuntime \<times> ('r, 'e, 'm) otel_globals" where
  "restoreErrorHandler r g =
     (if tr_globalsInstalled r
      then (r\<lparr>tr_globalsInstalled := False\<rparr>,
            g\<lparr>og_errorHandler := (case tr_previousErrorHandler r of Some h \<Rightarrow> h | None \<Rightarrow> og_errorHandler g)\<rparr>)
      else (r, g))"

text \<open>What the providers answer to \<open>ForceFlush\<close> and \<open>Shutdown\<close>.\<close>

record provider_answers =
  pa_flushTracer :: "go_error option"
  pa_flushMeter :: "go_error option"
  pa_shutTracer :: "go_error option"
  pa_shutMeter :: "go_error option"

definition Runtime_ForceFlush ::
  "provider_answers \<Rightarrow> ('r, 'e, 'm) TelemetryRuntime option \<Rightarrow> go_error option \<times> ('r, 'e, 'm) TelemetryRuntime option" where
  "Runtime_ForceFlush pa r =
     (case r of
        None \<Rightarrow> (None, None)
      | Some rt \<Rightarrow> (errors_Join [pa_flushTracer pa, pa_flushMeter pa], Some (update_diagnostics recordForceFlush rt)))"

definition Telemetry_Shutdown ::
  "provider_answers \<Rightarrow> ('r, 'e, 'm) TelemetryRuntime \<Rightarrow> ('r, 'e, 'm) otel_globals \<Rightarrow>
     go_error option \<times> ('r, 'e, 'm) TelemetryRuntime \<times> ('r, 'e, 'm) otel_globals" where
  "Telemetry_Shutdown pa rt g =
     (if tr_shutdownOnce rt then (tr_shutdownErr rt, rt, g)
      else
        (let (flushErr, r1) = Runtime_ForceFlush pa (Some rt);
             rt1 = update_diagnostics recordShutdown (case r1 of Some x \<Rightarrow> x | None \<Rightarrow> rt);
             shutdownErr = errors_Join [pa_shutTracer pa, pa_shutMeter pa];
             (rt2, g2) = restoreErrorHandler rt1 g;
             err = errors_Join [flushErr, shutdownErr]
         in (err, rt2\<lparr>tr_shutdownOnce := True, tr_shutdownErr := err\<rparr>, g2)))"

section \<open>Properties of the runtime\<close>

lemma disabled_runtime:
  assumes "New_telemetry sdk (cfg\<lparr>tel_Enabled := False\<rparr>) build = (res, ex)"
  shows "ex = [] \<and> (\<forall>rt. res = Inr rt \<longrightarrow> \<not> tr_enabled rt \<and> tr_tracerProvider rt = SdkTracer (tr_resource rt) [] \<and>
    tr_meterProvider rt = SdkMeter (tr_resource rt) [] \<and> tr_errorHandler rt = newOTelErrorHandler newDiagnostics defaultDiagnosticsLogInterval)"
  using assms
  by (auto simp: New_telemetry_def newRuntime_def runtime_of_def Let_def split: sum.splits)

text \<open>A trace exporter is either used by the runtime or shut down; a failed start never leaves one open.\<close>

lemma no_exporter_leaks:
  assumes "New_telemetry sdk cfg build = (res, ex)" and "tel_Enabled cfg"
    and "newResource sdk build True = Inr r" and "sdk_TraceExporter sdk export_settings = Inr te"
  shows "(case res of
       Inr rt \<Rightarrow> ex = [] \<and> tr_tracerProvider rt = SdkTracer r [WithBatcher te 2048 512 (5 * time_Second) (5 * time_Second)]
     | Inl _ \<Rightarrow> ex = [te])"
proof (cases "sdk_MetricExporter sdk export_settings")
  case (Inl e)
  with assms show ?thesis
    by (auto simp: New_telemetry_def newRuntime_def trace_exporter_def metric_reader_of_def newOTLPMetricReader_def)
next
  case (Inr m)
  with assms show ?thesis
    by (auto simp: New_telemetry_def newRuntime_def trace_exporter_def metric_reader_of_def newOTLPMetricReader_def
        runtime_of_def span_processor_def Let_def)
qed

text \<open>The bootstrap fails open: it fails only when not even the resource of a disabled runtime can be made.\<close>

lemma fail_open:
  assumes "NewFailOpen sdk sdk2 cfg build = (res, ex)" and "tel_Enabled cfg" and "New_telemetry sdk cfg build = (Inl err, ex1)"
    and "newResource sdk2 build False = Inr r"
  shows "\<exists>rt. res = Inr rt \<and> \<not> tr_enabled rt \<and> ex = ex1 \<and>
    ds_StartupFailures (Runtime_Diagnostics (Some rt)) = 1 \<and>
    ds_LastStartupFailureKind (Runtime_Diagnostics (Some rt)) = telemetryErrorKind (Some err)"
proof -
  obtain rt0 where rt0: "New_telemetry sdk2 (cfg\<lparr>tel_Enabled := False\<rparr>) build = (Inr rt0, [])"
    using assms(4) by (simp add: New_telemetry_def newRuntime_def)
  have h: "\<not> tr_enabled rt0" "tr_errorHandler rt0 = newOTelErrorHandler newDiagnostics defaultDiagnosticsLogInterval"
    using disabled_runtime [OF rt0] by simp_all
  have "res = Inr (update_diagnostics (recordStartupFailure err) rt0)" "ex = ex1"
    using assms(1-3) rt0 by (simp_all add: NewFailOpen_def)
  with h show ?thesis
    by (simp add: update_diagnostics_def recordStartupFailure_def newOTelErrorHandler_def newDiagnostics_def
        Runtime_Diagnostics_def diagnostics_snapshot_def loadAtomicString_def)
qed

text \<open>However often the handlers are installed, the first shutdown gives the error handler back, and later ones
  change nothing and answer the same.\<close>

fun install_all :: "(nat \<times> nat option) list \<Rightarrow> ('r, 'e, 'm) TelemetryRuntime option \<times> ('r, 'e, 'm) otel_globals \<Rightarrow>
    ('r, 'e, 'm) TelemetryRuntime option \<times> ('r, 'e, 'm) otel_globals" where
  "install_all [] rg = rg"
| "install_all ((dl, l) # ls) (r, g) = install_all ls (InstallGlobalsWithLogger dl l r g)"

lemma install_all_previous:
  assumes "install_all ls (Some rt, g) = (Some rt', g')"
    and "tr_globalsInstalled rt \<and> tr_previousErrorHandler rt = Some h \<or> \<not> tr_globalsInstalled rt \<and> og_errorHandler g = h"
  shows "(tr_globalsInstalled rt' \<and> tr_previousErrorHandler rt' = Some h \<or> \<not> tr_globalsInstalled rt' \<and> og_errorHandler g' = h) \<and>
    tr_shutdownOnce rt' = tr_shutdownOnce rt"
  using assms
proof (induction ls arbitrary: rt g)
  case (Cons l ls)
  obtain dl lg where l: "l = (dl, lg)" by force
  then show ?case
    using Cons.prems Cons.IH
    by (fastforce simp: InstallGlobalsWithLogger_def installErrorHandler_def Let_def split: if_splits)
qed auto

lemma telemetry_shutdown_once:
  assumes "\<not> tr_shutdownOnce rt" and "\<not> tr_globalsInstalled rt"
    and "install_all ls (Some rt, g) = (Some rt1, g1)" and "Telemetry_Shutdown pa rt1 g1 = (e, rt2, g2)"
  shows "og_errorHandler g2 = og_errorHandler g \<and> dg_shutdowns (tr_diagnostics rt2) = dg_shutdowns (tr_diagnostics rt1) + 1 \<and>
    Telemetry_Shutdown pa' rt2 g3 = (e, rt2, g3)"
  using install_all_previous [OF assms(3), of "og_errorHandler g"] assms
  by (auto simp: Telemetry_Shutdown_def Runtime_ForceFlush_def restoreErrorHandler_def update_diagnostics_def recordShutdown_def
      recordForceFlush_def Let_def split: if_splits)

section \<open>The limit on log records\<close>

lemma sum_list_set:
  fixes f :: "'a \<Rightarrow> 'b::ab_group_add"
  shows "i < length xs \<Longrightarrow> sum_list (map f (xs[i := x])) = sum_list (map f xs) - f (xs ! i) + f x"
proof (induction xs arbitrary: i)
  case (Cons y ys)
  then show ?case by (cases i) (simp_all add: algebra_simps)
qed simp

text \<open>What a point adds to each of the counts.\<close>

fun counted :: "handle_point \<Rightarrow> 64 word" where
  "counted (HandleEnter _ _) = 0"
| "counted (HandleCount _ _) = 0"
| "counted (HandleDone EndNil) = 0"
| "counted _ = 1"

fun put_off :: "handle_point \<Rightarrow> 64 word" where
  "put_off HandleSuppressed = 1"
| "put_off (HandleDone EndSuppressed) = 1"
| "put_off _ = 0"

fun ended :: "handle_end \<Rightarrow> handle_point \<Rightarrow> 64 word" where
  "ended en (HandleDone x) = (if x = en then 1 else 0)"
| "ended en _ = 0"

definition counts_ok :: "handler_state \<Rightarrow> bool" where
  "counts_ok = (\<lambda>(ps, h, rs).
     dg_exportFailures (eh_diagnostics h) = sum_list (map counted ps) \<and>
     dg_suppressedExportLogs (eh_diagnostics h) = sum_list (map (ended EndSuppressed) ps) \<and>
     eh_pendingSuppressed h + sum_list (map xr_SuppressedLogs rs) = sum_list (map put_off ps) \<and>
     of_nat (length rs) = sum_list (map (ended EndLogged) ps))"

lemma counts_point:
  assumes "i < length ps" and "Handle_step (ps ! i) h = (p, h', out)" and "counts_ok (ps, h, rs)"
  shows "counts_ok (ps[i := p], h', rs @ (case out of None \<Rightarrow> [] | Some r \<Rightarrow> [r]))"
  using assms(2,3)
  by (cases "ps ! i")
     (auto simp: counts_ok_def sum_list_set [OF assms(1)] recordSuppressedExportLog_def Let_def algebra_simps
        split: option.splits if_splits)

lemma counts_step: "handler_step c c' \<Longrightarrow> counts_ok c \<Longrightarrow> counts_ok c'"
proof (induction rule: handler_step.induct)
  case (point i ps h p h' out rs)
  then show ?case using counts_point by blast
qed (simp_all add: counts_ok_def setLogger_def)

text \<open>Times that are pairwise at least \<open>d\<close> apart, in any order.\<close>

definition spaced :: "int \<Rightarrow> int multiset \<Rightarrow> bool" where
  "spaced d M \<longleftrightarrow> (\<forall>a b N. M = add_mset a (add_mset b N) \<longrightarrow> d \<le> \<bar>a - b\<bar>)"

lemma spaced_empty [simp]: "spaced d {#}"
  by (simp add: spaced_def)

lemma spaced_add:
  assumes "spaced d M" and "\<And>w. w \<in># M \<Longrightarrow> w + d \<le> t"
  shows "spaced d (add_mset t M)"
  unfolding spaced_def
proof (intro allI impI)
  fix a b N
  assume "add_mset t M = add_mset a (add_mset b N)"
  then consider "a = t" "M = add_mset b N" | "b = t" "M = add_mset a N" | K where "M = add_mset a (add_mset b K)"
    by (auto simp: add_eq_conv_ex)
  then show "d \<le> \<bar>a - b\<bar>"
    using assms by cases (force simp: spaced_def)+
qed

lemma spaced_sub:
  assumes "spaced d (M + K)"
  shows "spaced d M"
  unfolding spaced_def
proof (intro allI impI)
  fix a b N
  assume "M = add_mset a (add_mset b N)"
  then have "M + K = add_mset a (add_mset b (N + K))" by simp
  with assms show "d \<le> \<bar>a - b\<bar>" unfolding spaced_def by blast
qed

lemma spaced_nth:
  assumes "spaced d (mset xs)" and "i < j" and "j < length xs"
  shows "d \<le> \<bar>xs ! i - xs ! j\<bar>"
proof -
  have j: "mset xs = add_mset (xs ! j) (mset (take j xs) + mset (drop (Suc j) xs))"
    by (subst id_take_nth_drop [OF assms(3)]) simp
  have "xs ! i \<in> set (take j xs)"
    using assms(2,3) nth_mem [of i "take j xs"] by simp
  then obtain K where "mset (take j xs) = add_mset (xs ! i) K"
    by (metis mset_add set_mset_mset)
  with j have "mset xs = add_mset (xs ! i) (add_mset (xs ! j) (K + mset (drop (Suc j) xs)))" by simp
  with assms(1) show ?thesis unfolding spaced_def by blast
qed

text \<open>The times of the records: written, or won by a call that has yet to write.\<close>

fun logging :: "handle_point \<Rightarrow> int multiset" where
  "logging (HandleLog _ t _ _) = {#t#}"
| "logging _ = {#}"

fun point_ok :: "int64 \<Rightarrow> handle_point \<Rightarrow> bool" where
  "point_ok d (HandleEnter _ t) \<longleftrightarrow> 0 \<le> t \<and> t + d \<le> int64_max"
| "point_ok d (HandleCount _ t) \<longleftrightarrow> 0 \<le> t \<and> t + d \<le> int64_max"
| "point_ok d (HandleClock _ t _) \<longleftrightarrow> 0 \<le> t \<and> t + d \<le> int64_max"
| "point_ok d (HandleLoad _ t _ _) \<longleftrightarrow> 0 \<le> t \<and> t + d \<le> int64_max"
| "point_ok d (HandleCAS _ t _ _ nxt) \<longleftrightarrow> 0 \<le> t \<and> t + d \<le> int64_max \<and> nxt \<le> t"
| "point_ok d _ \<longleftrightarrow> True"

definition won :: "handle_point list \<Rightarrow> export_record list \<Rightarrow> int multiset" where
  "won ps rs = mset (map xr_At rs) + sum_list (map logging ps)"

definition times_ok :: "handler_state \<Rightarrow> bool" where
  "times_ok = (\<lambda>(ps, h, rs). 0 < eh_logInterval h \<and> list_all (point_ok (eh_logInterval h)) ps \<and>
     spaced (eh_logInterval h) (won ps rs) \<and> (\<forall>w \<in># won ps rs. w + eh_logInterval h \<le> eh_nextLogUnixNano h))"

lemma logging_set:
  assumes "i < length ps"
  shows "sum_list (map logging (ps[i := p])) + logging (ps ! i) = sum_list (map logging ps) + logging p"
  using assms
proof (induction ps arbitrary: i)
  case (Cons q qs)
  then show ?case by (cases i) (simp_all add: ac_simps)
qed simp

lemma times_point:
  assumes "i < length ps" and "Handle_step (ps ! i) h = (p, h', out)" and "times_ok (ps, h, rs)"
  shows "times_ok (ps[i := p], h', rs @ (case out of None \<Rightarrow> [] | Some r \<Rightarrow> [r]))"
proof -
  let ?d = "eh_logInterval h" and ?rs = "rs @ (case out of None \<Rightarrow> [] | Some r \<Rightarrow> [r])"
  have inv: "0 < ?d" "list_all (point_ok ?d) ps" "spaced ?d (won ps rs)"
    "\<And>w. w \<in># won ps rs \<Longrightarrow> w + ?d \<le> eh_nextLogUnixNano h" "point_ok ?d (ps ! i)"
    using assms(1,3) by (auto simp: times_ok_def list_all_length)
  have d: "eh_logInterval h' = ?d"
    using assms(2) by (cases "ps ! i") (auto simp: Let_def split: option.splits if_splits)
  have p: "point_ok ?d p"
    using assms(2) inv(5) by (cases "ps ! i") (auto simp: Let_def split: option.splits if_splits)
  have pts: "list_all (point_ok ?d) (ps[i := p])"
    using inv(2) p assms(1) by (auto simp: list_all_iff dest: set_update_subset_insert [THEN subsetD])
  show ?thesis
  proof (cases "\<exists>e t c l nxt. ps ! i = HandleCAS e t c l nxt \<and> eh_nextLogUnixNano h = nxt")
    case True
    then obtain e t c l nxt where cas: "ps ! i = HandleCAS e t c l nxt" "eh_nextLogUnixNano h = nxt" by blast
    with assms(2) have h': "p = HandleLog e t c l" "eh_nextLogUnixNano h' = wrap64 (t + ?d)" "out = None" by auto
    have t: "0 \<le> t" "t + ?d \<le> int64_max" "nxt \<le> t" using inv(5) cas(1) by auto
    then have "wrap64 (t + ?d) = t + ?d" using inv(1) by (intro wrap64_in_range) (simp add: in_int64_def int64_min_def)
    moreover have "won (ps[i := p]) ?rs = add_mset t (won ps rs)"
      using logging_set [OF assms(1), of p] cas h' by (simp add: won_def)
    ultimately show ?thesis
      using inv(1,3,4) d pts h' t cas(2) spaced_add [OF inv(3), of t] by (fastforce simp: times_ok_def)
  next
    case False
    then have "eh_nextLogUnixNano h' = eh_nextLogUnixNano h" "won (ps[i := p]) ?rs = won ps rs"
      using assms(2) logging_set [OF assms(1), of p]
      by (cases "ps ! i"; auto simp: won_def Let_def split: option.splits if_splits)+
    then show ?thesis using inv(1,3,4) d pts by (simp add: times_ok_def)
  qed
qed

lemma times_step: "handler_step c c' \<Longrightarrow> times_ok c \<Longrightarrow> times_ok c'"
proof (induction rule: handler_step.induct)
  case (point i ps h p h' out rs)
  then show ?case using times_point by blast
qed (simp_all add: times_ok_def won_def setLogger_def)

lemma handler_reachable:
  assumes "handler_step\<^sup>*\<^sup>* c c'" and "counts_ok c" and "times_ok c"
  shows "counts_ok c' \<and> times_ok c'"
  using assms by (induction rule: rtranclp_induct) (auto dest: counts_step times_step)

lemma handler_start:
  "counts_ok ([], newOTelErrorHandler newDiagnostics d, [])" "times_ok ([], newOTelErrorHandler newDiagnostics d, [])"
  by (simp_all add: counts_ok_def times_ok_def won_def newOTelErrorHandler_def newDiagnostics_def
      defaultDiagnosticsLogInterval_def time_Second_def)

lemma interval_step: "handler_step c c' \<Longrightarrow> eh_logInterval (fst (snd c')) = eh_logInterval (fst (snd c))"
proof (induction rule: handler_step.induct)
  case (point i ps h p h' out rs)
  then show ?case by (cases "ps ! i") (auto simp: Let_def split: option.splits if_splits)
qed (simp_all add: setLogger_def)

lemma interval_reachable: "handler_step\<^sup>*\<^sup>* c c' \<Longrightarrow> eh_logInterval (fst (snd c')) = eh_logInterval (fst (snd c))"
  by (induction rule: rtranclp_induct) (simp_all add: interval_step)

definition returned :: "handle_point \<Rightarrow> bool" where
  "returned p \<longleftrightarrow> (case p of HandleDone _ \<Rightarrow> True | _ \<Rightarrow> False)"

text \<open>Once all calls have returned, the counters add up.\<close>

lemma returned_counts:
  assumes "list_all returned ps"
  shows "sum_list (map counted ps) = sum_list (map (ended EndLogged) ps) + sum_list (map (ended EndSuppressed) ps) +
      sum_list (map (ended EndUnlogged) ps)"
    "sum_list (map put_off ps) = sum_list (map (ended EndSuppressed) ps)"
  using assms
proof (induction ps)
  case (Cons p ps)
  {
    case 1
    with Cons obtain en where "p = HandleDone en" by (auto simp: returned_def split: handle_point.splits)
    with 1 Cons.IH(1) show ?case by (cases en) auto
  next
    case 2
    with Cons obtain en where "p = HandleDone en" by (auto simp: returned_def split: handle_point.splits)
    with 2 Cons.IH(2) show ?case by (cases en) auto
  }
qed simp_all

text \<open>C30: however many goroutines report export failures to the telemetry error handler at the same time, any two
  of the warnings it logs carry times at least the configured interval apart; and once all calls
  have returned, every failure was logged, counted as suppressed or came before a logger was set, and
  the suppressed ones are those the warnings mention plus the ones still waiting to be mentioned.\<close>

theorem telemetry_log_rate:
  assumes "handler_step\<^sup>*\<^sup>* ([], newOTelErrorHandler newDiagnostics d, []) (ps, h, rs)" and "0 < d"
  shows "(\<forall>i j. i < j \<longrightarrow> j < length rs \<longrightarrow> d \<le> \<bar>xr_At (rs ! i) - xr_At (rs ! j)\<bar>) \<and>
    (list_all returned ps \<longrightarrow>
       dg_exportFailures (eh_diagnostics h) = of_nat (length rs) + dg_suppressedExportLogs (eh_diagnostics h) +
         sum_list (map (ended EndUnlogged) ps) \<and>
       dg_suppressedExportLogs (eh_diagnostics h) = eh_pendingSuppressed h + sum_list (map xr_SuppressedLogs rs))"
proof -
  have inv: "counts_ok (ps, h, rs)" "times_ok (ps, h, rs)"
    using handler_reachable [OF assms(1)] handler_start by blast+
  have d: "eh_logInterval h = d"
    using interval_reachable [OF assms(1)] assms(2) by (simp add: newOTelErrorHandler_def)
  then have "spaced d (mset (map xr_At rs))"
    using inv(2) spaced_sub unfolding times_ok_def won_def by blast
  then have "d \<le> \<bar>xr_At (rs ! i) - xr_At (rs ! j)\<bar>" if "i < j" "j < length rs" for i j
    using spaced_nth [of d "map xr_At rs" i j] that by simp
  then show ?thesis
    using inv(1) returned_counts [of ps] by (simp add: counts_ok_def)
qed

text \<open>Two calls that race for one record, at a schedule of the calls' accesses.\<close>

fun handler_run :: "nat list \<Rightarrow> handler_state \<Rightarrow> handler_state" where
  "handler_run [] c = c"
| "handler_run (i # sched) (ps, h, rs) =
     (case Handle_step (ps ! i) h of
        (p, h', out) \<Rightarrow> handler_run sched (ps[i := p], h', rs @ (case out of None \<Rightarrow> [] | Some r \<Rightarrow> [r])))"

lemma handler_run_steps:
  "list_all (\<lambda>i. i < length ps) sched \<Longrightarrow> handler_step\<^sup>*\<^sup>* (ps, h, rs) (handler_run sched (ps, h, rs))"
proof (induction sched arbitrary: ps h rs)
  case (Cons i sched)
  obtain p h' out where s: "Handle_step (ps ! i) h = (p, h', out)" by (metis surj_pair)
  with Cons.prems have "handler_step (ps, h, rs) (ps[i := p], h', rs @ (case out of None \<Rightarrow> [] | Some r \<Rightarrow> [r]))"
    by (auto intro: handler_step.point)
  with Cons s show ?case by (auto intro: converse_rtranclp_into_rtranclp)
qed simp

definition raced :: handler_state where
  "raced = handler_run [0, 1, 0, 1, 0, 1, 0, 1, 1, 0, 1, 0, 0, 0]
     ([HandleEnter (Some (Sentinel ContextCanceled)) 5, HandleEnter (Some (OpaqueError [])) 7],
      setLogger 0 (Some 1) (newOTelErrorHandler newDiagnostics 10), [])"

lemma raced_reachable: "handler_step\<^sup>*\<^sup>* ([], newOTelErrorHandler newDiagnostics 10, []) raced"
proof -
  let ?h = "setLogger 0 (Some 1) (newOTelErrorHandler newDiagnostics 10)"
  let ?a = "HandleEnter (Some (Sentinel ContextCanceled)) 5" and ?b = "HandleEnter (Some (OpaqueError [])) 7"
  have room: "7 + eh_logInterval ?h \<le> int64_max" by code_simp
  have "handler_step ([], newOTelErrorHandler newDiagnostics 10, []) ([], ?h, [])"
    by (rule handler_step.logger)
  moreover have "handler_step ([], ?h, []) ([?a], ?h, [])"
    using room handler_step.call [of 5 ?h "[]" "[]"] by simp
  moreover have "handler_step ([?a], ?h, []) ([?a, ?b], ?h, [])"
    using room handler_step.call [of 7 ?h "[?a]" "[]"] by simp
  moreover have "handler_step\<^sup>*\<^sup>* ([?a, ?b], ?h, []) raced"
    unfolding raced_def by (rule handler_run_steps) simp
  ultimately show ?thesis by (meson converse_rtranclp_into_rtranclp)
qed

theorem telemetry_log_rate_witness:
  "dg_exportFailures (eh_diagnostics (fst (snd raced))) = 1 + dg_suppressedExportLogs (eh_diagnostics (fst (snd raced)))"
proof -
  obtain ps h rs where raced: "raced = (ps, h, rs)" by (metis surj_pair)
  have "list_all returned (fst raced) \<and> length (snd (snd raced)) = 1 \<and> sum_list (map (ended EndUnlogged) (fst raced)) = 0"
    by code_simp
  then show ?thesis
    using telemetry_log_rate [OF raced_reachable [unfolded raced]] by (simp add: raced)
qed

end
