(* ===== verification/Startup.thy ===== *)
theory Startup
  imports Server Telemetry
begin

text \<open>
  The start of the program (\<open>cmd/api/main.go\<close>): \<open>main\<close> loads the configuration and \<open>run\<close> builds every
  component from it, in order, with the deferred functions that undo what was built.  The theory also has
  the constructors that only \<open>run\<close> calls: the database pool (\<open>internal/db\<close>), the transport of outbound
  calls (\<open>internal/outbound/httpclient\<close>) and the gRPC client (\<open>internal/transport/grpcclient\<close>).
\<close>

section \<open>The database pool\<close>

record db_pool =
  dp_MaxOpenConns :: int64
  dp_MaxIdleConns :: int64
  dp_ConnMaxLifetime :: int64
  dp_ConnMaxIdleTime :: int64

text \<open>The answers of the driver; the second component says that the pool was opened and closed again.\<close>

record db_env =
  de_Open :: "string \<Rightarrow> go_error option"
  de_Ping :: "int64 \<Rightarrow> go_error option"

definition db_Open :: "db_env \<Rightarrow> DBConfig \<Rightarrow> (go_error + db_pool) \<times> bool" where
  "db_Open de cfg =
     (case de_Open de (db_DSN cfg) of
        Some e \<Rightarrow> (Inl e, False)
      | None \<Rightarrow>
          (let db = \<lparr>dp_MaxOpenConns = db_MaxOpenConns cfg, dp_MaxIdleConns = db_MaxIdleConns cfg,
                     dp_ConnMaxLifetime = db_ConnMaxLifetime cfg, dp_ConnMaxIdleTime = db_ConnMaxIdleTime cfg\<rparr>
           in case de_Ping de (db_PingTimeout cfg) of
                Some e \<Rightarrow> (Inl e, True)
              | None \<Rightarrow> (Inr db, False)))"

record DBStats =
  dbs_MaxOpenConnections :: int64
  dbs_OpenConnections :: int64
  dbs_InUse :: int64
  dbs_Idle :: int64
  dbs_WaitCount :: int64
  dbs_WaitDuration :: int64
  dbs_MaxIdleClosed :: int64
  dbs_MaxIdleTimeClosed :: int64
  dbs_MaxLifetimeClosed :: int64

text \<open>What the published variables show of the pool's statistics.\<close>

definition PublishStats :: "DBStats option \<Rightarrow> (string, int64) gomap \<Rightarrow> (string, int64) gomap" where
  "PublishStats db vars =
     (case db of
        None \<Rightarrow> vars
      | Some s \<Rightarrow>
          foldl (\<lambda>m (k, v). gm_update k v m) vars
            [(''max_open_connections'', dbs_MaxOpenConnections s), (''open_connections'', dbs_OpenConnections s),
             (''in_use'', dbs_InUse s), (''idle'', dbs_Idle s), (''wait_count'', dbs_WaitCount s),
             (''wait_duration_ns'', dbs_WaitDuration s), (''max_idle_closed'', dbs_MaxIdleClosed s),
             (''max_idle_time_closed'', dbs_MaxIdleTimeClosed s), (''max_lifetime_closed'', dbs_MaxLifetimeClosed s)])"

section \<open>The transport of outbound calls\<close>

record http_transport =
  tp_IdleConnTimeout :: int64
  tp_MaxIdleConns :: int64
  tp_MaxIdleConnsPerHost :: int64
  tp_MaxConnsPerHost :: int64
  tp_TLSHandshakeTimeout :: int64
  tp_ResponseHeaderTimeout :: int64

text \<open>\<open>tr\<close> is the clone of the library's default transport; only these fields are set.\<close>

definition httpclient_New :: "OutboundConfig \<Rightarrow> 'x http_transport_scheme \<Rightarrow> 'x http_transport_scheme" where
  "httpclient_New cfg tr =
     tr\<lparr>tp_IdleConnTimeout := ot_IdleConnTimeout (ob_Transport cfg), tp_MaxIdleConns := ot_MaxIdleConns (ob_Transport cfg),
        tp_MaxIdleConnsPerHost := ot_MaxIdleConnsPerHost (ob_Transport cfg), tp_MaxConnsPerHost := ot_MaxConnsPerHost (ob_Transport cfg),
        tp_TLSHandshakeTimeout := ot_TLSHandshakeTimeout (ob_Transport cfg),
        tp_ResponseHeaderTimeout := ot_ResponseHeaderTimeout (ob_Transport cfg)\<rparr>"

section \<open>Certificates and the gRPC client\<close>

text \<open>Loading a key pair, reading a file, and whether its bytes hold a PEM certificate.\<close>

record file_env =
  fe_KeyPair :: "string \<Rightarrow> string \<Rightarrow> go_error option"
  fe_ReadFile :: "string \<Rightarrow> go_error + string"
  fe_PEM :: "string \<Rightarrow> bool"

definition certPoolFromFile :: "file_env \<Rightarrow> string \<Rightarrow> string \<Rightarrow> go_error option" where
  "certPoolFromFile fe name path =
     (case fe_ReadFile fe path of
        Inl e \<Rightarrow> Some (WrapError (''read '' @ name) e)
      | Inr pemBytes \<Rightarrow>
          if fe_PEM fe pemBytes then None
          else Some (OpaqueError (name @ '' does not contain a valid PEM certificate'')))"

definition load_server_credentials :: "file_env \<Rightarrow> string \<Rightarrow> string \<Rightarrow> string \<Rightarrow> go_error option" where
  "load_server_credentials fe cert key ca =
     (case fe_KeyPair fe cert key of
        Some e \<Rightarrow> Some (WrapError ''load gRPC server certificate'' e)
      | None \<Rightarrow> certPoolFromFile fe ''GRPC_TLS_CLIENT_CA_FILE'' ca)"

record grpc_client_config =
  gcc_Addr :: string
  gcc_CallTimeout :: int64
  gcc_TLS_Enable :: bool
  gcc_CertFile :: string
  gcc_KeyFile :: string
  gcc_CAFile :: string
  gcc_ServerName :: string

definition newClientTLSCredentials :: "file_env \<Rightarrow> grpc_client_config \<Rightarrow> go_error option" where
  "newClientTLSCredentials fe cfg =
     (if TrimSpace (gcc_CertFile cfg) = [] then Some (OpaqueError ''GRPC_TLS_CLIENT_CERT_FILE is required'')
      else if TrimSpace (gcc_KeyFile cfg) = [] then Some (OpaqueError ''GRPC_TLS_CLIENT_KEY_FILE is required'')
      else if TrimSpace (gcc_CAFile cfg) = [] then Some (OpaqueError ''GRPC_TLS_SERVER_CA_FILE is required'')
      else if TrimSpace (gcc_ServerName cfg) = [] then Some (OpaqueError ''GRPC_TLS_SERVER_NAME is required'')
      else
        (case fe_KeyPair fe (gcc_CertFile cfg) (gcc_KeyFile cfg) of
           Some e \<Rightarrow> Some (WrapError ''load gRPC client certificate'' e)
         | None \<Rightarrow> certPoolFromFile fe ''GRPC_TLS_SERVER_CA_FILE'' (gcc_CAFile cfg)))"

definition client_transport_error :: "file_env \<Rightarrow> grpc_client_config \<Rightarrow> string \<Rightarrow> go_error option" where
  "client_transport_error fe cfg target =
     (if gcc_TLS_Enable cfg then newClientTLSCredentials fe cfg
      else if \<not> isLoopbackTarget target then Some (OpaqueError ''plaintext grpc client requires a loopback target'')
      else None)"

text \<open>The connection is the target it goes to and the timeout of its calls.\<close>

definition NewJobsClientWithConfig ::
  "file_env \<Rightarrow> (string \<Rightarrow> go_error option) \<Rightarrow> grpc_client_config \<Rightarrow> go_error + string \<times> int64" where
  "NewJobsClientWithConfig fe dial cfg =
     (case loopbackTarget (gcc_Addr cfg) of
        Inl e \<Rightarrow> Inl e
      | Inr target \<Rightarrow>
          (case client_transport_error fe cfg target of
             Some e \<Rightarrow> Inl e
           | None \<Rightarrow>
               (case client_call_timeout (gcc_CallTimeout cfg) of
                  Inl e \<Rightarrow> Inl e
                | Inr timeout \<Rightarrow> (case dial target of Some e \<Rightarrow> Inl e | None \<Rightarrow> Inr (target, timeout)))))"

section \<open>Building the components\<close>

text \<open>The deferred functions of \<open>run\<close>, and the shutdown of a gRPC runtime that never starts.\<close>

datatype cleanup_action = ShutdownTelemetry | CloseDB | CloseIdleConnections | CloseGRPCConn | ShutdownGRPCRuntime

record ('r, 'e, 'm) start_env =
  st_sdk :: "('r, 'e, 'm) SDK"
  st_sdk2 :: "('r, 'e, 'm) SDK"
  st_version :: "string option"
  st_db :: db_env
  st_files :: file_env
  st_listen :: "string \<Rightarrow> go_error option"
  st_dial :: "string \<Rightarrow> go_error option"
  st_parse :: jwt_parse

definition telemetryBuildInfo :: "string option \<Rightarrow> Config \<Rightarrow> BuildInfo" where
  "telemetryBuildInfo build cfg =
     \<lparr>bi_ServiceName = DefaultServiceName,
      bi_ServiceVersion = (case build of
          Some v \<Rightarrow> if v \<noteq> [] \<and> v \<noteq> ''(devel)'' then v else DefaultServiceVersion
        | None \<Rightarrow> DefaultServiceVersion),
      bi_ServiceInstanceID = [], bi_Environment = rt_Environment (cfg_Runtime cfg)\<rparr>"

definition run_telemetry :: "('r, 'e, 'm) start_env \<Rightarrow> Config \<Rightarrow> go_error + ('r, 'e, 'm) TelemetryRuntime" where
  "run_telemetry st cfg =
     fst (NewFailOpen (st_sdk st) (st_sdk2 st) (cfg_Telemetry cfg) (telemetryBuildInfo (st_version st) cfg))"

text \<open>Either repository in memory, or a database with its deferred \<open>Close\<close>.\<close>

definition run_storage :: "db_env \<Rightarrow> DBConfig \<Rightarrow> go_error + db_pool option \<times> cleanup_action list" where
  "run_storage de cfg =
     (if db_StorageBackend cfg = ''memory'' then Inr (None, [])
      else if db_StorageBackend cfg = ''postgres'' then
        (case fst (db_Open de cfg) of Inl e \<Rightarrow> Inl e | Inr db \<Rightarrow> Inr (Some db, [CloseDB]))
      else Inl (OpaqueError (''unsupported storage backend: '' @ db_StorageBackend cfg)))"

definition run_verifier :: "JWTConfig \<Rightarrow> go_error + JWTVerifierHS256" where
  "run_verifier jwt =
     NewJWTVerifierHS256 (jc_AllowedAlg jwt) (jc_Issuer jwt) (jc_Audience jwt) (jc_ClockSkew jwt)
       (map (\<lambda>k. \<lparr>hk_KID = jk_KID k, hk_Secret = jk_Secret k\<rparr>) (jc_Keys jwt))"

definition grpc_server_settings :: "GRPCConfig \<Rightarrow> grpc_server_config" where
  "grpc_server_settings g =
     \<lparr>gsc_Addr = gr_Addr g, gsc_ReflectionEnabled = gr_ReflectionEnable g, gsc_TLS_Enable = gt_Enable (gr_TLS g),
      gsc_CertFile = gt_CertFile (gr_TLS g), gsc_KeyFile = gt_KeyFile (gr_TLS g), gsc_ClientCAFile = gt_ClientCAFile (gr_TLS g)\<rparr>"

definition grpc_client_settings :: "GRPCConfig \<Rightarrow> grpc_client_config" where
  "grpc_client_settings g =
     \<lparr>gcc_Addr = gr_Addr g, gcc_CallTimeout = 0, gcc_TLS_Enable = gt_Enable (gr_TLS g), gcc_CertFile = gt_ClientCertFile (gr_TLS g),
      gcc_KeyFile = gt_ClientKeyFile (gr_TLS g), gcc_CAFile = gt_ServerCAFile (gr_TLS g), gcc_ServerName = gt_ServerName (gr_TLS g)\<rparr>"

text \<open>The gRPC runtime, its client and the deferred \<open>Close\<close>; the left value also has what an error undoes at once.\<close>

definition run_grpc ::
  "('r, 'e, 'm) start_env \<Rightarrow> verifier \<Rightarrow> GRPCConfig \<Rightarrow>
     (go_error \<times> cleanup_action list) + (Runtime \<times> string \<times> int64) option \<times> cleanup_action list" where
  "run_grpc st verify g =
     (if \<not> gr_Enable g then Inr (None, [])
      else
        (case NewRuntimeWithConfig (load_server_credentials (st_files st)) (st_listen st) (grpc_server_settings g) (Some verify) of
           Inl e \<Rightarrow> Inl (e, [])
         | Inr rt \<Rightarrow>
             (case NewJobsClientWithConfig (st_files st) (st_dial st) (grpc_client_settings g) of
                Inl e \<Rightarrow> Inl (e, [ShutdownGRPCRuntime])
              | Inr conn \<Rightarrow> Inr (Some (rt, conn), [CloseGRPCConn]))))"

definition checkSlice :: "bool \<Rightarrow> health_check list" where
  "checkSlice grpc =
     (if grpc then [\<lparr>hc_Name = ''grpc'', hc_Fn = Runtime_Ready_check\<rparr>] else []) @
     [\<lparr>hc_Name = ''db'', hc_Fn = Repository_Ready_check\<rparr>, \<lparr>hc_Name = ''workerpool'', hc_Fn = CheckRunning_check\<rparr>,
      \<lparr>hc_Name = ''streamHub'', hc_Fn = Hub_Ready_check\<rparr>]"

record ('r, 'e, 'm) components =
  cp_telemetry :: "('r, 'e, 'm) TelemetryRuntime"
  cp_proxy :: ProxyAPI
  cp_hub :: Hub
  cp_db :: "db_pool option"
  cp_queue :: Queue
  cp_profile :: RetryingProfileClient
  cp_verifier :: JWTVerifierHS256
  cp_grpc :: "(Runtime \<times> string \<times> int64) option"
  cp_readiness :: Readiness
  cp_bulkhead :: nat
  cp_auth :: verifier
  cp_rbac :: AuthorizeAPI
  cp_wiring :: wiring
  cp_debug :: bool

datatype ('r, 'e, 'm) setup_result =
    SetupFailed go_error "cleanup_action list"
  | SetupPanicked "cleanup_action list"
  | SetupDone "('r, 'e, 'm) components" "cleanup_action list"

text \<open>The last part: what needs neither files nor the network.\<close>

definition run_assemble ::
  "('r, 'e, 'm) start_env \<Rightarrow> Config \<Rightarrow> ('r, 'e, 'm) TelemetryRuntime \<Rightarrow> ProxyAPI \<Rightarrow> Hub \<Rightarrow> db_pool option \<Rightarrow> Queue \<Rightarrow>
     JWTVerifierHS256 \<Rightarrow> (Runtime \<times> string \<times> int64) option \<Rightarrow> cleanup_action list \<Rightarrow> ('r, 'e, 'm) setup_result" where
  "run_assemble st cfg tr px hub db q ver grpc ds =
     (let retry = ob_Retry (cfg_Outbound cfg)
      in case NewBulkhead (bh_MaxParallel (cfg_Bulkhead cfg)) of
           None \<Rightarrow> SetupPanicked ds
         | Some sem \<Rightarrow>
           (case NewAuthAPI (Some (JWTVerifierHS256_Verify (st_parse st) ver)) of
              Inl e \<Rightarrow> SetupFailed e ds
            | Inr auth \<Rightarrow>
                (case NewAuthorizeAPI DefaultPolicy of
                   Inl e \<Rightarrow> SetupFailed e ds
                 | Inr rbac \<Rightarrow>
                     SetupDone
                       \<lparr>cp_telemetry = tr, cp_proxy = px, cp_hub = hub, cp_db = db, cp_queue = q,
                        cp_profile = NewRetryingProfileClient (or_MaxAttempts retry) (or_BaseDelay retry) (or_MaxDelay retry),
                        cp_verifier = ver, cp_grpc = grpc, cp_readiness = NewReadiness (checkSlice (grpc \<noteq> None)),
                        cp_bulkhead = sem, cp_auth = auth, cp_rbac = rbac,
                        cp_wiring = \<lparr>wr_proxy = px, wr_cors = NewCORS (cfg_CORS cfg), wr_headers = cfg_SecurityHeaders cfg\<rparr>,
                        cp_debug = ht_Debug (cfg_HTTP cfg)\<rparr> ds)))"

definition run_network ::
  "('r, 'e, 'm) start_env \<Rightarrow> Config \<Rightarrow> ('r, 'e, 'm) TelemetryRuntime \<Rightarrow> ProxyAPI \<Rightarrow> Hub \<Rightarrow> db_pool option \<Rightarrow> cleanup_action list \<Rightarrow>
     ('r, 'e, 'm) setup_result" where
  "run_network st cfg tr px hub db ds =
     (case Queue.New (pl_QueueSize (cfg_Pool cfg)) of
        None \<Rightarrow> SetupPanicked ds
      | Some q \<Rightarrow>
          (let ds1 = CloseIdleConnections # ds in
           case run_verifier (au_JWT (cfg_Auth cfg)) of
             Inl e \<Rightarrow> SetupFailed e ds1
           | Inr ver \<Rightarrow>
               (case run_grpc st (JWTVerifierHS256_Verify (st_parse st) ver) (cfg_GRPC cfg) of
                  Inl (e, now_ds) \<Rightarrow> SetupFailed e (now_ds @ ds1)
                | Inr (grpc, gds) \<Rightarrow> run_assemble st cfg tr px hub db q ver grpc (gds @ ds1))))"

definition run_setup :: "('r, 'e, 'm) start_env \<Rightarrow> Config \<Rightarrow> ('r, 'e, 'm) setup_result" where
  "run_setup st cfg =
     (case run_telemetry st cfg of
        Inl e \<Rightarrow> SetupFailed e []
      | Inr tr \<Rightarrow>
          (case NewProxyAPI (cfg_Proxy cfg) of
             Inl e \<Rightarrow> SetupFailed e [ShutdownTelemetry]
           | Inr px \<Rightarrow>
               (case NewHub (sc_SubscriberBuffer (cfg_Streaming cfg)) of
                  None \<Rightarrow> SetupPanicked [ShutdownTelemetry]
                | Some hub \<Rightarrow>
                    (case run_storage (st_db st) (cfg_DB cfg) of
                       Inl e \<Rightarrow> SetupFailed e [ShutdownTelemetry]
                     | Inr (db, ds) \<Rightarrow> run_network st cfg tr px hub db (ds @ [ShutdownTelemetry])))))"

text \<open>
  \<open>main\<close> and \<open>run\<close> as a whole: the exit status of the process.  \<open>serve\<close> is \<open>Run\<close> of the server built from the
  components, \<open>None\<close> when it panics.
\<close>

definition main_exit ::
  "(Config \<Rightarrow> ('r, 'e, 'm) components \<Rightarrow> go_error option option) \<Rightarrow> ('r, 'e, 'm) start_env \<Rightarrow> environment \<Rightarrow> nat" where
  "main_exit serve st env =
     (case Load env of
        Inl _ \<Rightarrow> 1
      | Inr cfg \<Rightarrow>
          (case NewLogger True (cfg_Logging cfg) of
             Inl _ \<Rightarrow> 1
           | Inr _ \<Rightarrow>
               (case run_setup st cfg of
                  SetupFailed _ _ \<Rightarrow> 1
                | SetupPanicked _ \<Rightarrow> 2
                | SetupDone c _ \<Rightarrow> (case serve cfg c of None \<Rightarrow> 2 | Some (Some _) \<Rightarrow> 1 | Some None \<Rightarrow> 0))))"

section \<open>A loaded configuration starts\<close>

lemma index_keys_ok:
  assumes "list_all (\<lambda>k. hk_KID k \<noteq> [] \<and> hk_Secret k \<noteq> []) ks" and "distinct (map hk_KID ks)"
    and "\<And>k. k \<in> set ks \<Longrightarrow> gm_lookup m (hk_KID k) = None"
  shows "\<exists>m'. index_keys ks m = Inr m'"
  using assms
proof (induction ks arbitrary: m)
  case (Cons k ks)
  have "gm_lookup (gm_update (hk_KID k) (hk_Secret k) m) (hk_KID x) = None" if "x \<in> set ks" for x
    using Cons.prems that by (auto simp: gomap_simps) (metis imageI)
  with Cons show ?case by (auto simp: gomap_simps)
qed simp

lemma verifier_ready:
  assumes "Load env = Inr cfg"
  shows "\<exists>v. run_verifier (au_JWT (cfg_Auth cfg)) = Inr v"
proof -
  let ?jwt = "au_JWT (cfg_Auth cfg)"
  let ?keys = "map (\<lambda>k. \<lparr>hk_KID = jk_KID k, hk_Secret = jk_Secret k\<rparr>) (jc_Keys ?jwt)"
  have jwt: "jc_AllowedAlg ?jwt = ''HS256''" "jc_Keys ?jwt \<noteq> []" "distinct (map jk_KID (jc_Keys ?jwt))"
      "list_all (\<lambda>k. jk_KID k \<noteq> [] \<and> jk_Secret k \<noteq> []) (jc_Keys ?jwt)"
    using load_jwt_ready [OF assms] by (simp_all add: jwt_ready_def Let_def)
  have "0 \<le> jc_ClockSkew ?jwt" using load_bounds [OF assms] by (simp add: bounds_ok_def)
  moreover have "\<exists>m. index_keys ?keys [] = Inr m"
    using jwt(3,4) by (intro index_keys_ok) (simp_all add: list.pred_map comp_def)
  ultimately show ?thesis using jwt(1,2) by (auto simp: run_verifier_def NewJWTVerifierHS256_def)
qed

text \<open>The client accepts without TLS every address the configuration accepts without TLS.\<close>

lemma loopback_target_ok:
  assumes "isLoopbackListenAddr addr"
  shows "grpc_isLoopbackListenAddr addr \<and> (\<exists>t. loopbackTarget addr = Inr t \<and> isLoopbackTarget t)"
proof -
  obtain h p where split: "SplitHostPort addr = Some (h, p)"
    using assms by (auto simp: isLoopbackListenAddr_def splitListenAddr_def split: option.splits sum.splits)
  have "\<not> EqualFold [] ''localhost''" by code_simp
  then have loop: "EqualFold (TrimSpace h) ''localhost'' \<or> (\<exists>ip. ParseAddr (TrimSpace h) = Some ip \<and> IsLoopback ip)"
      "TrimSpace h \<noteq> []"
    using assms split
    by (auto simp: isLoopbackListenAddr_def splitListenAddr_def Let_def split: option.splits sum.splits if_splits)
  have any: "\<not> EqualFold (TrimSpace x) ''localhost'' \<and> (case ParseAddr (TrimSpace x) of None \<Rightarrow> True | Some ip \<Rightarrow> \<not> IsLoopback ip)"
    if "x = ''0.0.0.0'' \<or> x = ''::''" for x
    using that by (elim disjE; hypsubst; code_simp)
  have h: "h \<noteq> []" "h \<noteq> ''0.0.0.0''" "h \<noteq> ''::''" using loop any [of h] by auto
  have "\<not> HasPrefix addr '':''"
  proof
    assume "HasPrefix addr '':''"
    then obtain r where r: "addr = CHR '':'' # r" by (cases addr) (auto simp: HasPrefix_def)
    with split h(1) show False
      by (auto simp: SplitHostPort_def Let_def take_Cons' split: option.splits if_splits)
  qed
  with split h have "loopbackTarget addr = Inr (JoinHostPort h p)" by (simp add: loopbackTarget_def Let_def)
  moreover have "SplitHostPort (JoinHostPort h p) = Some (h, p)"
    using SplitHostPort_parts [OF split] SplitHostPort_Join by blast
  ultimately show ?thesis
    using split loop by (auto simp: grpc_isLoopbackListenAddr_def isLoopbackTarget_def Let_def)
qed

text \<open>Everything outside the program that the start depends on answers well.\<close>

definition grpc_files_ok :: "('r, 'e, 'm) start_env \<Rightarrow> GRPCConfig \<Rightarrow> bool" where
  "grpc_files_ok st g \<longleftrightarrow>
     (gt_Enable (gr_TLS g) \<longrightarrow>
        server_tls_credentials (load_server_credentials (st_files st)) (grpc_server_settings g) = None \<and>
        newClientTLSCredentials (st_files st) (grpc_client_settings g) = None)"

definition outside_ok :: "('r, 'e, 'm) start_env \<Rightarrow> Config \<Rightarrow> bool" where
  "outside_ok st cfg \<longleftrightarrow>
     (\<exists>tr. run_telemetry st cfg = Inr tr) \<and>
     (\<exists>nets. proxy_nets (map Prefix_String (pr_TrustedProxies (cfg_Proxy cfg))) = Inr nets) \<and>
     (db_StorageBackend (cfg_DB cfg) = ''memory'' \<or>
      db_StorageBackend (cfg_DB cfg) = ''postgres'' \<and> de_Open (st_db st) (db_DSN (cfg_DB cfg)) = None \<and>
        de_Ping (st_db st) (db_PingTimeout (cfg_DB cfg)) = None) \<and>
     (gr_Enable (cfg_GRPC cfg) \<longrightarrow> st_listen st (gr_Addr (cfg_GRPC cfg)) = None \<and> st_dial st = (\<lambda>_. None) \<and>
        grpc_files_ok st (cfg_GRPC cfg))"

lemma grpc_ready:
  assumes "Load env = Inr cfg" and "gr_Enable (cfg_GRPC cfg)"
    and "st_listen st (gr_Addr (cfg_GRPC cfg)) = None" "st_dial st = (\<lambda>_. None)" "grpc_files_ok st (cfg_GRPC cfg)"
  shows "\<exists>x. run_grpc st verify (cfg_GRPC cfg) = Inr (Some x, [CloseGRPCConn])"
proof -
  let ?g = "cfg_GRPC cfg"
  have addr: "TrimSpace (gr_Addr ?g) \<noteq> []" "SplitHostPort (gr_Addr ?g) \<noteq> None"
    using load_grpc_addr [OF assms(1)] assms(2) by (simp_all add: grpc_addr_set_def grpc_addr_ok_def)
  have loop: "gt_Enable (gr_TLS ?g) \<or> isLoopbackListenAddr (gr_Addr ?g)"
      "gr_ReflectionEnable ?g \<longrightarrow> isLoopbackListenAddr (gr_Addr ?g)"
    using load_grpc_ok [OF assms(1)] assms(2) by (simp_all add: grpc_ok_def)
  have "NewRuntimeWithConfig (load_server_credentials (st_files st)) (st_listen st) (grpc_server_settings ?g) (Some verify) = Inr NewRuntime"
    using addr(1) loop loopback_target_ok [of "gr_Addr ?g"] assms(3,5)
    by (auto simp: NewRuntimeWithConfig_def grpc_transport_error_def grpc_files_ok_def grpc_server_settings_def)
  moreover obtain t where t: "loopbackTarget (gr_Addr ?g) = Inr t"
  proof (atomize_elim, cases "SplitHostPort (gr_Addr ?g)")
    case (Some hp)
    then show "\<exists>t. loopbackTarget (gr_Addr ?g) = Inr t"
      by (cases hp) (simp add: loopbackTarget_def Let_def)
  qed (use addr(2) in simp)
  moreover have "client_transport_error (st_files st) (grpc_client_settings ?g) t = None"
    using t loop(1) loopback_target_ok [of "gr_Addr ?g"] assms(5)
    by (auto simp: client_transport_error_def grpc_files_ok_def grpc_client_settings_def)
  moreover have "client_call_timeout 0 = Inr (2 * time_Second)"
    by (simp add: client_call_timeout_def time_Second_def)
  ultimately show ?thesis
    using assms(2,4) by (simp add: run_grpc_def NewJobsClientWithConfig_def grpc_client_settings_def)
qed

definition deferred :: "Config \<Rightarrow> cleanup_action list" where
  "deferred cfg = (if gr_Enable (cfg_GRPC cfg) then [CloseGRPCConn] else []) @ [CloseIdleConnections] @
     (if db_StorageBackend (cfg_DB cfg) = ''memory'' then [] else [CloseDB]) @ [ShutdownTelemetry]"

lemma DefaultPolicy_ok: "\<exists>rbac. NewAuthorizeAPI DefaultPolicy = Inr rbac"
proof -
  have "case NewAuthorizeAPI DefaultPolicy of Inl _ \<Rightarrow> False | Inr _ \<Rightarrow> True" by code_simp
  then show ?thesis by (auto split: sum.splits)
qed

lemma run_assemble_done:
  assumes "0 \<le> bh_MaxParallel (cfg_Bulkhead cfg)"
  shows "\<exists>c. run_assemble st cfg tr px hub db q ver grpc ds = SetupDone c ds \<and> cp_queue c = q \<and> cp_hub c = hub \<and>
    cp_verifier c = ver \<and> cp_bulkhead c = nat (bh_MaxParallel (cfg_Bulkhead cfg)) \<and> cp_grpc c = grpc \<and> cp_db c = db"
  using assms DefaultPolicy_ok by (auto simp: run_assemble_def NewBulkhead_def NewAuthAPI_def Let_def)

lemma setup_no_panic:
  assumes "Load env = Inr cfg"
  shows "run_setup st cfg \<noteq> SetupPanicked ds"
proof -
  have b: "0 < sc_SubscriberBuffer (cfg_Streaming cfg)" "0 < pl_QueueSize (cfg_Pool cfg)" "0 < bh_MaxParallel (cfg_Bulkhead cfg)"
    using load_bounds [OF assms] by (simp_all add: bounds_ok_def)
  have "run_assemble st cfg tr px hub db q ver grpc ds' \<noteq> SetupPanicked ds" for tr px hub db q ver grpc ds'
    using run_assemble_done [of cfg st tr px hub db q ver grpc ds'] b(3) by auto
  then have "run_network st cfg tr px hub db ds' \<noteq> SetupPanicked ds" for tr px hub db ds'
    using b(2) by (auto simp: run_network_def Queue.New_def Let_def split: sum.splits)
  with b(1) show ?thesis by (auto simp: run_setup_def NewHub_def split: sum.splits)
qed

lemma setup_done:
  assumes load: "Load env = Inr cfg" and out: "outside_ok st cfg"
  shows "\<exists>c. run_setup st cfg = SetupDone c (deferred cfg) \<and> q_cap (cp_queue c) = nat (pl_QueueSize (cfg_Pool cfg)) \<and>
    NewHub (sc_SubscriberBuffer (cfg_Streaming cfg)) = Some (cp_hub c) \<and>
    run_verifier (au_JWT (cfg_Auth cfg)) = Inr (cp_verifier c) \<and> 0 < cp_bulkhead c \<and>
    (cp_grpc c = None \<longleftrightarrow> \<not> gr_Enable (cfg_GRPC cfg))"
proof -
  have b: "0 < sc_SubscriberBuffer (cfg_Streaming cfg)" "0 < pl_QueueSize (cfg_Pool cfg)" "0 < bh_MaxParallel (cfg_Bulkhead cfg)"
    using load_bounds [OF load] by (simp_all add: bounds_ok_def)
  obtain tr px where tr: "run_telemetry st cfg = Inr tr" and px: "NewProxyAPI (cfg_Proxy cfg) = Inr px"
    using out load_profile(2) [OF load] by (auto simp: outside_ok_def NewProxyAPI_def)
  obtain hub where hub: "NewHub (sc_SubscriberBuffer (cfg_Streaming cfg)) = Some hub" using b(1) by (simp add: NewHub_def)
  define dd where "dd = (if db_StorageBackend (cfg_DB cfg) = ''memory'' then [] else [CloseDB])"
  obtain db where db: "run_storage (st_db st) (cfg_DB cfg) = Inr (db, dd)"
    using out by (auto simp: outside_ok_def run_storage_def db_Open_def dd_def)
  obtain q where q: "Queue.New (pl_QueueSize (cfg_Pool cfg)) = Some q" "q_cap q = nat (pl_QueueSize (cfg_Pool cfg))"
    using b(2) by (simp add: Queue.New_def)
  obtain ver where ver: "run_verifier (au_JWT (cfg_Auth cfg)) = Inr ver" using verifier_ready [OF load] by blast
  define gd where "gd = (if gr_Enable (cfg_GRPC cfg) then [CloseGRPCConn] else [])"
  obtain grpc where grpc: "run_grpc st (JWTVerifierHS256_Verify (st_parse st) ver) (cfg_GRPC cfg) = Inr (grpc, gd)"
      "grpc = None \<longleftrightarrow> \<not> gr_Enable (cfg_GRPC cfg)"
  proof (cases "gr_Enable (cfg_GRPC cfg)")
    case True
    then have "st_listen st (gr_Addr (cfg_GRPC cfg)) = None" "st_dial st = (\<lambda>_. None)" "grpc_files_ok st (cfg_GRPC cfg)"
      using out by (simp_all add: outside_ok_def)
    from grpc_ready [OF load True this, of "JWTVerifierHS256_Verify (st_parse st) ver"] True that show ?thesis
      by (auto simp: gd_def)
  next
    case False
    with that show ?thesis by (simp add: run_grpc_def gd_def)
  qed
  have "run_setup st cfg = run_assemble st cfg tr px hub db q ver grpc (deferred cfg)"
    using tr px hub db q(1) ver grpc(1) by (simp add: run_setup_def run_network_def deferred_def dd_def gd_def Let_def)
  with run_assemble_done [of cfg st tr px hub db q ver grpc "deferred cfg"] b(3) hub q(2) ver grpc(2) show ?thesis by auto
qed


definition plain_sdk :: "(string list, string, string) SDK" where
  "plain_sdk = \<lparr>sdk_Random = Inr ''0123456789abcdef'', sdk_NewSchemaless = map fst, sdk_WithTelemetrySDK = Inr [],
     sdk_WithFromEnv = Inr [], sdk_Merge = \<lambda>a b. Inr (a @ b), sdk_TraceExporter = \<lambda>_. Inr [], sdk_MetricExporter = \<lambda>_. Inr []\<rparr>"

definition sample_start :: "(string list, string, string) start_env" where
  "sample_start = \<lparr>st_sdk = plain_sdk, st_sdk2 = plain_sdk, st_version = None, st_db = \<lparr>de_Open = \<lambda>_. None, de_Ping = \<lambda>_. None\<rparr>,
     st_files = \<lparr>fe_KeyPair = \<lambda>_ _. None, fe_ReadFile = \<lambda>_. Inr [], fe_PEM = \<lambda>_. True\<rparr>, st_listen = \<lambda>_. None,
     st_dial = \<lambda>_. None, st_parse = \<lambda>_ _ _. Inl (OpaqueError [])\<rparr>"

lemma default_outside: "outside_ok sample_start defaultConfig"
  by (simp add: outside_ok_def run_telemetry_def NewFailOpen_def New_telemetry_def newRuntime_def newResource_def normalizeBuildInfo_def
      generateInstanceID_def merge_resource_def telemetryBuildInfo_def sample_start_def plain_sdk_def defaultConfig_def Let_def)


section \<open>The process\<close>

text \<open>\<open>Run\<close> of the server that \<open>run\<close> builds from the components.\<close>

definition program_serve ::
  "'j JobRepository \<Rightarrow> 'j run_env \<Rightarrow> 'j \<Rightarrow> Config \<Rightarrow> ('r, 'e, 'm) components \<Rightarrow> go_error option option" where
  "program_serve jr re js cfg c =
     map_option fst (main_run jr re cfg (cp_readiness c) NewWorkerPool (cp_queue c)
       (case cp_grpc c of Some (rt, _) \<Rightarrow> rt | None \<Rightarrow> NewRuntime) (cp_hub c) js)"

lemma disabled_serve_fails:
  assumes "\<not> gr_Enable (cfg_GRPC cfg)"
  shows "\<exists>e. program_serve jr re js cfg c = Some (Some e)"
proof (cases "open_listeners re (cfg_HTTP cfg)")
  case (Inl e)
  then show ?thesis by (simp add: program_serve_def main_run_def Run_def)
next
  case (Inr lns)
  with grpc_disabled_run_fails [OF assms Inr] show ?thesis by (fastforce simp: program_serve_def)
qed

text \<open>C29: With gRPC disabled, which is the default, the program never runs to a clean end: for every environment in
  which \<open>GRPC_ENABLE\<close> is not true, whatever the listeners, the database and the signals do, the process exits with
  status 1; and it does so by returning an error, not by a panic.\<close>

theorem program_needs_grpc:
  assumes "\<And>cfg. Load env = Inr cfg \<Longrightarrow> \<not> gr_Enable (cfg_GRPC cfg)"
  shows "main_exit (program_serve jr re js) st env = 1"
proof (cases "Load env")
  case (Inl e)
  then show ?thesis by (simp add: main_exit_def)
next
  case (Inr cfg)
  show ?thesis
  proof (cases "run_setup st cfg")
    case (SetupPanicked ds)
    with setup_no_panic [OF Inr, of st ds] show ?thesis by simp
  next
    case (SetupDone c ds)
    with disabled_serve_fails [OF assms [OF Inr], of jr re js c] Inr show ?thesis
      by (auto simp: main_exit_def split: sum.splits)
  qed (simp add: main_exit_def Inr split: sum.splits)
qed

theorem program_needs_grpc_witness:
  "main_exit (program_serve memory_jobs \<lparr>re_listen = \<lambda>_. None, re_keyPair = None, re_parentDone = False, re_startStop = sample_stop,
       re_serve = \<lambda>s. s, re_trigger = TriggerContext, re_cleanup = sample_cleanup, re_elapsed = 0\<rparr> NewMemoryJobRepository) sample_start (\<lambda>_. None) = 1"
  by (rule program_needs_grpc) (simp add: config_load_defaults defaultConfig_def)

end
