(* ===== verification/ErrorTexts.thy ===== *)
theory ErrorTexts
  imports Server "HOL-Library.Sublist"
begin

text \<open>
  What the errors of the program print: the \<open>Error\<close> method of every error type, with the texts of the
  package-level errors.  Texts of library errors and of durations are parameters.  The answers of
  \<open>/readyz\<close> and the log records show these texts.
\<close>

record text_env =
  tx_library :: "go_error \<Rightarrow> string"
  tx_duration :: "int64 \<Rightarrow> string"

section \<open>Package-level errors\<close>

text \<open>The values each package makes with \<open>errors.New\<close>.\<close>

definition entity_errors :: "(sentinel \<times> string) list" where
  "entity_errors =
     [(ErrUserNotFound, ''user not found''), (ErrJobNotFound, ''job not found''), (ErrUserAlreadyExists, ''user already exists'')]"

definition service_errors :: "(sentinel \<times> string) list" where
  "service_errors = [(ErrConflict, ''conflict''), (ErrForbidden, ''forbidden'')]"

definition transition_errors :: "(sentinel \<times> string) list" where
  "transition_errors = [(ErrJobTransitionConflict, ''job transition conflict'')]"

definition queue_errors :: "(sentinel \<times> string) list" where
  "queue_errors = [(ErrQueueFull, ''queue is full''), (ErrQueueStopped, ''queue is stopped'')]"

definition stream_errors :: "(sentinel \<times> string) list" where
  "stream_errors = [(ErrHubClosed, ''stream hub is closed'')]"

definition workerpool_errors :: "(sentinel \<times> string) list" where
  "workerpool_errors = [(ErrPoolNotRunning, ''worker pool not running''), (ErrPoolStopping, ''worker pool stopping'')]"

definition grpcserver_errors :: "(sentinel \<times> string) list" where
  "grpcserver_errors =
     [(ErrGRPCServerNotRunning, ''grpc server not running''), (ErrGRPCServerAlreadyStarted, ''grpc server already started''),
      (ErrGRPCServerRuntimeRequired, ''grpc server runtime is nil'')]"

definition jwt_errors :: "(sentinel \<times> string) list" where
  "jwt_errors = [(ErrNoKID, ''no kid in header'')]"

definition bulkhead_errors :: "(sentinel \<times> string) list" where
  "bulkhead_errors = [(ErrBulkheadRejected, ''bulkhead rejected'')]"

definition accept_errors :: "(sentinel \<times> string) list" where
  "accept_errors = [(ErrNotAcceptable, ''unsupported Accept header; supported: application/json, application/protobuf'')]"

definition protobuf_errors :: "(sentinel \<times> string) list" where
  "protobuf_errors = [(ErrProtobufUnavailable, ''protobuf response is not available'')]"

definition bridge_errors :: "(sentinel \<times> string) list" where
  "bridge_errors =
     [(ErrGRPCBridgeUnavailable, ''grpc bridge unavailable''), (ErrGRPCBridgeTimeout, ''grpc bridge timeout''),
      (ErrGRPCBridgeCanceled, ''grpc bridge canceled'')]"

definition json_errors :: "(sentinel \<times> string) list" where
  "json_errors =
     [(ErrJSONEmptyBody, ''json: empty body''), (ErrJSONTrailingData, ''json: trailing data''),
      (ErrJSONUnknownField, ''json: unknown field''), (ErrJSONBadSyntax, ''json: bad syntax''),
      (ErrJSONTypeMismatch, ''json: type mismatch''), (ErrJSONDecodeFailure, ''json: decode failure''),
      (ErrUnsupportedMediaType, ''unsupported media type''), (ErrStreamingUnsupported, ''streaming is not supported'')]"

definition profile_errors :: "(sentinel \<times> string) list" where
  "profile_errors =
     [(Profile_ErrTimeout, ''timeout''), (Profile_ErrCanceled, ''canceled''), (Profile_ErrNetwork, ''network''),
      (Profile_ErrUpstream5xx, ''upstream 5xx''), (Profile_ErrUpstream4xx, ''upstream 4xx''), (Profile_ErrParse, ''parse''),
      (Profile_ErrBadResponse, ''bad response'')]"

definition package_errors :: "(sentinel \<times> string) list" where
  "package_errors =
     entity_errors @ service_errors @ transition_errors @ queue_errors @ stream_errors @ workerpool_errors @ grpcserver_errors @
     jwt_errors @ bulkhead_errors @ accept_errors @ protobuf_errors @ bridge_errors @ json_errors @ profile_errors"

definition sentinel_text :: "text_env \<Rightarrow> sentinel \<Rightarrow> string" where
  "sentinel_text tx s = (case map_of package_errors s of Some t \<Rightarrow> t | None \<Rightarrow> tx_library tx (Sentinel s))"

lemmas package_error_defs = package_errors_def entity_errors_def service_errors_def transition_errors_def queue_errors_def
  stream_errors_def workerpool_errors_def grpcserver_errors_def jwt_errors_def bulkhead_errors_def accept_errors_def protobuf_errors_def
  bridge_errors_def json_errors_def profile_errors_def

text \<open>No two of these errors share a name or a text, so a log line tells which one it was.\<close>

lemma package_errors_distinct: "distinct (map fst package_errors)" "distinct (map snd package_errors)"
  by code_simp+

section \<open>The methods\<close>

text \<open>Each takes the fields of its struct, with the text of the cause for the cause; a nil error prints
  as \<open><nil>\<close> under \<open>%v\<close>.\<close>

definition nil_text :: "string option \<Rightarrow> string" where
  "nil_text c = (case c of None \<Rightarrow> ''<nil>'' | Some t \<Rightarrow> t)"

definition with_cause :: "string \<Rightarrow> string option \<Rightarrow> string" where
  "with_cause t c = t @ (case c of None \<Rightarrow> [] | Some ct \<Rightarrow> '': '' @ ct)"

definition JobTransition_string :: "JobTransition \<Rightarrow> string" where
  "JobTransition_string i =
     (case i of JobTransitionStart \<Rightarrow> ''start'' | JobTransitionSucceed \<Rightarrow> ''succeed'' | JobTransitionFail \<Rightarrow> ''fail''
      | JobTransitionOther t \<Rightarrow> t)"

definition JobTransitionConflictError_Error :: "int64 \<Rightarrow> JobStatus \<Rightarrow> JobStatus \<Rightarrow> JobTransition \<Rightarrow> string" where
  "JobTransitionConflictError_Error jid from to intent =
     ''job '' @ Itoa jid @ '' cannot transition from '' @ Quote (JobStatus_string from) @ '' to '' @
     Quote (JobStatus_string to) @ '' with intent '' @ Quote (JobTransition_string intent)"

definition BadRequestError_Error :: "string \<Rightarrow> string" where
  "BadRequestError_Error detail = (if detail = [] then ''bad request'' else detail)"

definition MethodNotAllowedError_Error :: string where
  "MethodNotAllowedError_Error = ''method not allowed''"

definition ValidationError_Error :: string where
  "ValidationError_Error = ''validation failed''"

definition RateLimitError_Error :: "text_env \<Rightarrow> int64 \<Rightarrow> string" where
  "RateLimitError_Error tx retryAfter = ''rate limit exceeded, retry after '' @ tx_duration tx retryAfter"

definition UnauthorizedError_Error :: "AuthNErrorKind \<Rightarrow> string option \<Rightarrow> string" where
  "UnauthorizedError_Error kind c = with_cause (''unauthorized: '' @ AuthNErrorKind_string kind) c"

definition ForbiddenError_Error :: "AuthZErrorKind \<Rightarrow> string option \<Rightarrow> string" where
  "ForbiddenError_Error kind c = with_cause (''forbidden: '' @ AuthZErrorKind_string kind) c"

definition AuthNError_Error :: "AuthNErrorKind \<Rightarrow> string option \<Rightarrow> string" where
  "AuthNError_Error kind c = with_cause (''authn: '' @ AuthNErrorKind_string kind) c"

definition JSONRequestError_Error :: "string \<Rightarrow> string \<Rightarrow> int64 \<Rightarrow> string option \<Rightarrow> string" where
  "JSONRequestError_Error kind field off c =
     (if field \<noteq> [] then kind @ '': field='' @ Quote field @ '': '' @ nil_text c
      else if off \<noteq> 0 then kind @ '': offset='' @ Itoa off @ '': '' @ nil_text c
      else case c of Some t \<Rightarrow> kind @ '': '' @ t | None \<Rightarrow> kind)"

definition profile_Error_Error :: "string \<Rightarrow> int \<Rightarrow> string option \<Rightarrow> string" where
  "profile_Error_Error kind status c =
     (if status \<noteq> 0 \<and> c \<noteq> None then ''profile '' @ kind @ '': status='' @ Itoa status @ '': '' @ the c
      else if status \<noteq> 0 then ''profile '' @ kind @ '': status='' @ Itoa status
      else if c \<noteq> None then ''profile '' @ kind @ '': '' @ the c
      else ''profile '' @ kind)"

definition componentShutdownError_Error :: "string \<Rightarrow> shutdownOutcome \<Rightarrow> string option \<Rightarrow> string" where
  "componentShutdownError_Error component outcome c =
     with_cause (component @ '' shutdown '' @ shutdownOutcome_string outcome) c"

text \<open>\<open>fmt.Errorf\<close> with \<open>%w\<close>: the wrapped error comes last, except in the two errors of content negotiation,
  which start with it.\<close>

definition wrap_text :: "string \<Rightarrow> go_error \<Rightarrow> string \<Rightarrow> string" where
  "wrap_text msg e t =
     (if e = Sentinel ErrNotAcceptable \<or> e = Sentinel ErrUnsupportedMediaType then t @ '': '' @ msg
      else msg @ '': '' @ t)"

text \<open>\<open>errors.Join\<close>: one text per line.\<close>

fun join_lines :: "string list \<Rightarrow> string" where
  "join_lines [] = []"
| "join_lines [t] = t"
| "join_lines (t # ts) = t @ CHR 0x0A # join_lines ts"

primrec error_text :: "text_env \<Rightarrow> go_error \<Rightarrow> string" where
  "error_text tx (Sentinel s) = sentinel_text tx s"
| "error_text tx (JobTransitionConflictError jid from to intent) = JobTransitionConflictError_Error jid from to intent"
| "error_text tx (BadRequestError d) = BadRequestError_Error d"
| "error_text tx (MethodNotAllowedError a) = MethodNotAllowedError_Error"
| "error_text tx (ValidationError ps) = ValidationError_Error"
| "error_text tx (RateLimitError d) = RateLimitError_Error tx d"
| "error_text tx (UnauthorizedError k c) = UnauthorizedError_Error k (map_option (error_text tx) c)"
| "error_text tx (ForbiddenError k c) = ForbiddenError_Error k (map_option (error_text tx) c)"
| "error_text tx (AuthNError k c) = AuthNError_Error k (map_option (error_text tx) c)"
| "error_text tx (JSONRequestError k f n c) = JSONRequestError_Error (sentinel_text tx k) f n (map_option (error_text tx) c)"
| "error_text tx (ProfileError k n c) = profile_Error_Error (sentinel_text tx k) n (map_option (error_text tx) c)"
| "error_text tx (ComponentShutdownError n out c) = componentShutdownError_Error n out (map_option (error_text tx) c)"
| "error_text tx (WrapError msg e) = wrap_text msg e (error_text tx e)"
| "error_text tx (JoinError es) = join_lines (map (error_text tx) es)"
| "error_text tx (OpaqueError t) = t"
| "error_text tx (MaxBytesError n) = tx_library tx (MaxBytesError n)"
| "error_text tx (JsonSyntaxError n) = tx_library tx (JsonSyntaxError n)"
| "error_text tx (JsonUnmarshalTypeError t) = tx_library tx (JsonUnmarshalTypeError t)"
| "error_text tx (NetError t c) = tx_library tx (NetError t c)"
| "error_text tx (PgError t) = tx_library tx (PgError t)"
| "error_text tx (GrpcStatusError c t) = tx_library tx (GrpcStatusError c t)"

section \<open>A text shows what it wraps\<close>

lemma sublist_end: "sublist t b \<Longrightarrow> sublist t (a @ b)"
  by (meson sublist_append_leftI sublist_order.order_trans)

lemma sublist_begin: "sublist t (t @ b)"
  by (simp add: sublist_append_rightI)

lemmas sublist_intros = sublist_begin sublist_order.order_refl sublist_end

lemma sublist_join_lines: "t \<in> set ts \<Longrightarrow> sublist t (join_lines ts)"
proof (induction ts rule: join_lines.induct)
  case (3 t' u us)
  then consider "t = t'" | "sublist t (join_lines (u # us))" by auto
  then show ?case
  proof cases
    case 2
    have "sublist (join_lines (u # us)) (t' @ CHR 0x0A # join_lines (u # us))"
      using sublist_end [of "join_lines (u # us)" "join_lines (u # us)" "t' @ [CHR 0x0A]"] by simp
    with 2 show ?thesis by (auto intro: sublist_order.order_trans)
  qed (simp add: sublist_begin)
qed auto

text \<open>The only errors that hide what they wrap are the transition conflict, which wraps two
  package-level errors to be found by \<open>errors.Is\<close>, and errors of the network library.\<close>

fun hides_causes :: "go_error \<Rightarrow> bool" where
  "hides_causes (JobTransitionConflictError _ _ _ _) = True"
| "hides_causes (NetError _ _) = True"
| "hides_causes _ = False"

lemma with_cause_shows: "sublist t (with_cause a (Some t))"
  unfolding with_cause_def option.case by (intro sublist_intros)

lemma wrap_text_shows: "sublist t (wrap_text m e t)"
  unfolding wrap_text_def by (simp only: split: if_split) (intro conjI impI sublist_intros)

lemma JSONRequestError_shows:
  "sublist k (JSONRequestError_Error k f n c)" "sublist t (JSONRequestError_Error k f n (Some t))"
  unfolding JSONRequestError_Error_def nil_text_def option.case
  by (cases c; simp only: option.case split: if_split; intro conjI impI sublist_intros)
     (simp only: split: if_split, intro conjI impI sublist_intros)

lemma profile_Error_shows:
  "sublist k (profile_Error_Error k n c)" "sublist t (profile_Error_Error k n (Some t))"
  unfolding profile_Error_Error_def option.sel
  by (simp only: split: if_split, intro conjI impI; rule sublist_end, intro sublist_intros)
     (cases "n = 0"; simp only: simp_thms option.distinct if_True if_False; intro sublist_intros)

lemma error_text_child:
  assumes "c \<in> set (children e)" and "\<not> hides_causes e"
  shows "sublist (error_text tx c) (error_text tx e)"
  using assms
  by (cases e)
     (auto simp: children_def kind_and_cause_def UnauthorizedError_Error_def ForbiddenError_Error_def AuthNError_Error_def
        componentShutdownError_Error_def with_cause_shows wrap_text_shows JSONRequestError_shows profile_Error_shows
        sublist_join_lines split: option.splits)

text \<open>So the text of a cause is part of the text of every error above it.\<close>

lemma error_text_shows:
  assumes "x \<in> set (chain e)" and "\<forall>y \<in> set (chain e). \<not> hides_causes y"
  shows "sublist (error_text tx x) (error_text tx e)"
  using assms
proof (induction e rule: chain.induct)
  case (1 e)
  consider "x = e" | c where "c \<in> set (children e)" "x \<in> set (chain c)"
    using 1(2) by (auto simp: set_chain [of e])
  then show ?case
  proof cases
    case 2
    have "\<forall>y \<in> set (chain c). \<not> hides_causes y" "\<not> hides_causes e"
      using 1(3) 2(1) by (auto simp: set_chain [of e])
    with 1(1) [OF 2] error_text_child [OF 2(1)] show ?thesis by (blast intro: sublist_order.order_trans)
  qed simp
qed

end
