(* ===== verification/Health.thy ===== *)
theory Health
  imports Startup ErrorTexts
begin

text \<open>
  What \<open>/readyz\<close> says about the running server: the checks that \<open>run\<close> registers (\<open>cmd/api/main.go\<close>) are
  method values of the gRPC runtime, the repository, the worker pool and the event hub, and the handler
  (\<open>internal/health\<close>) calls them on the state of the moment.
\<close>

text \<open>The two closures of \<open>repoReady\<close>; \<open>ctxErr\<close> is what the request's context says, \<open>ping\<close> the answer of the
  database within a timeout.\<close>

definition repoReady :: "DBConfig \<Rightarrow> go_error option \<Rightarrow> (int64 \<Rightarrow> go_error option) \<Rightarrow> go_error option" where
  "repoReady cfg ctxErr ping =
     (if db_StorageBackend cfg = ''memory'' then MemoryUserRepository_Ping ctxErr else ping (db_PingTimeout cfg))"

record probe =
  pb_ctx :: "go_error option"
  pb_ping :: "int64 \<Rightarrow> go_error option"
  pb_late :: "CheckFunc \<Rightarrow> go_error option"

definition check_error :: "DBConfig \<Rightarrow> probe \<Rightarrow> 'j Server \<Rightarrow> CheckFunc \<Rightarrow> go_error option" where
  "check_error cfg pb s fn =
     (case fn of
        Runtime_Ready_check \<Rightarrow> (case sv_grpc s of RuntimePointer rt \<Rightarrow> Runtime_Ready rt | NilInterface \<Rightarrow> Runtime_Ready None)
      | Repository_Ready_check \<Rightarrow> repoReady cfg (pb_ctx pb) (pb_ping pb)
      | CheckRunning_check \<Rightarrow> WorkerPool_CheckRunning (sv_pool s)
      | Hub_Ready_check \<Rightarrow> Hub_Ready (sv_hub s))"

text \<open>\<open>pb_late\<close> is \<open>ctx.Err()\<close> after a check.\<close>

definition server_checks :: "text_env \<Rightarrow> DBConfig \<Rightarrow> probe \<Rightarrow> 'j Server \<Rightarrow> check_results" where
  "server_checks tx cfg pb s fn =
     (map_option (error_text tx) (check_error cfg pb s fn), map_option (error_text tx) (pb_late pb fn))"

text \<open>The root router as \<open>run\<close> builds it, on a server in state \<open>s\<close>.\<close>

definition health_root ::
  "(string \<Rightarrow> (string, string) gomap \<Rightarrow> string) \<Rightarrow> text_env \<Rightarrow> DBConfig \<Rightarrow> probe \<Rightarrow> 'j Server \<Rightarrow>
     's http_handler \<Rightarrow> 's http_handler option \<Rightarrow> 's http_handler" where
  "health_root encode tx cfg pb s app debug =
     NewRoot app (NewHealthRouter encode (server_checks tx cfg pb s) (sv_readiness s)) debug"

text \<open>The checks of the server that \<open>run\<close> builds.\<close>

lemma setup_readiness:
  assumes "run_setup st cfg = SetupDone c ds"
  shows "cp_readiness c = NewReadiness (checkSlice (cp_grpc c \<noteq> None))"
  using assms
  by (auto simp: run_setup_def run_network_def run_assemble_def Let_def split: sum.splits option.splits)

section \<open>The route\<close>

lemma gm_update_not_empty [simp]: "gm_update k v m \<noteq> []"
  by (cases m) auto

lemma run_checks_empty:
  "run_checks ev cs d = [] \<longleftrightarrow> d = [] \<and> (\<forall>c \<in> set cs. ev (hc_Fn c) = (None, None))"
  by (induction ev cs d rule: run_checks.induct) (auto simp: prod_eq_iff split: option.splits)

definition root_table :: "bool \<Rightarrow> (string \<times> nat) list" where
  "root_table debug = [(''/'', 0), (''/livez'', 1), (''/readyz'', 1)] @ (if debug then [(''/debug/'', 2)] else [])"

lemma root_finds_readyz: "findHandler (root_table debug) ''GET'' ''/readyz'' = Found ''/readyz'' [] 1"
proof -
  have "findHandler (root_table False) ''GET'' ''/readyz'' = Found ''/readyz'' [] 1"
    "findHandler (root_table True) ''GET'' ''/readyz'' = Found ''/readyz'' [] 1" by code_simp+
  then show ?thesis by (cases debug) simp_all
qed

lemma health_finds_readyz:
  "findHandler [(''GET /livez'', 0 :: nat), (''GET /readyz'', 1)] ''GET'' ''/readyz'' = Found ''GET /readyz'' [] 1"
  by code_simp

lemma root_readyz:
  assumes "req_Method r = ''GET''" and "req_Path r = ''/readyz''"
  shows "rw_Status (fst (snd (snd (health_root encode tx cfg pb s app debug r fresh_writer st)))) =
    Some (fst (readiness_answer (server_checks tx cfg pb s) (sv_readiness s)))"
proof -
  let ?h = "NewHealthRouter encode (server_checks tx cfg pb s) (sv_readiness s)"
  let ?hs = "[LivenessHandler encode, ReadinessHandler encode (server_checks tx cfg pb s) (sv_readiness s)]"
  have outer: "NewRoot app ?h debug = mux_ServeHTTP (map (\<lambda>(p, i). (p, [app, ?h, the debug] ! i)) (root_table (debug \<noteq> None)))"
    by (cases debug) (simp_all add: NewRoot_def root_table_def)
  have inner: "?h = mux_ServeHTTP (map (\<lambda>(p, i). (p, ?hs ! i)) [(''GET /livez'', 0 :: nat), (''GET /readyz'', 1)])"
    by (simp add: NewHealthRouter_def)
  have "?h r' fresh_writer st = ReadinessHandler encode (server_checks tx cfg pb s) (sv_readiness s)
      (r'\<lparr>req_Pattern := ''GET /readyz'', req_PathValues := []\<rparr>) fresh_writer st"
    if "req_Method r' = ''GET''" "req_Path r' = ''/readyz''" for r'
    unfolding inner mux_ServeHTTP_def findHandler_map that health_finds_readyz by simp
  then have "NewRoot app ?h debug r fresh_writer st = ReadinessHandler encode (server_checks tx cfg pb s) (sv_readiness s)
      (r\<lparr>req_Pattern := ''GET /readyz'', req_PathValues := []\<rparr>) fresh_writer st"
    unfolding outer mux_ServeHTTP_def findHandler_map assms root_finds_readyz using assms by simp
  then show ?thesis
    by (simp add: health_root_def ReadinessHandler_def health_headers_def fresh_writer_def Write_def WriteHeader_def Let_def split: prod.splits)
qed

section \<open>A truthful answer\<close>

lemma IsRunning_alive:
  assumes "pool_inv p ws"
  shows "WorkerPool_IsRunning p \<longleftrightarrow> \<not> wp_stopping p \<and> workers_alive p"
proof (cases "wp_generation p")
  case None
  then have "\<forall>g < length (wp_gens p). \<not> 0 < gen_remaining (wp_gens p ! g)"
    using assms by (auto simp: pool_inv_def others_done_def gen_ok_def)
  with None show ?thesis by (auto simp: WorkerPool_IsRunning_def workers_alive_def list_ex_length)
next
  case (Some g)
  then have g: "g < length (wp_gens p)" using assms by (simp add: pool_inv_def current_ok_def)
  have "workers_alive p \<longleftrightarrow> \<not> gen_done (wp_gens p ! g)"
    using assms g Some by (fastforce simp: workers_alive_def list_ex_length pool_inv_def others_done_def gen_ok_def)
  with Some show ?thesis by (simp add: WorkerPool_IsRunning_def)
qed

definition grpc_running :: "'j Server \<Rightarrow> bool" where
  "grpc_running s \<longleftrightarrow> (\<exists>r. sv_grpc s = RuntimePointer (Some r) \<and> rt_state r = runtimeStateRunning)"

lemma grpc_check: "check_error cfg pb s Runtime_Ready_check = None \<longleftrightarrow> grpc_running s"
  by (auto simp: check_error_def grpc_running_def Runtime_Ready_def split: grpcRuntime.splits option.splits)

lemma serve_envs_readiness: "(serve_env jr)\<^sup>*\<^sup>* s s' \<Longrightarrow> sv_readiness s' = sv_readiness s"
  by (induction rule: rtranclp_induct) (auto elim: serve_env.cases)

text \<open>C15: \<open>/readyz\<close> tells the truth.  A \<open>GET\<close> of it is answered 200 exactly if the server has declared itself ready,
  the gRPC server runs (when it is enabled), the repository answers, a worker is alive and the pool is not
  stopping, the event hub is open, and the request's context survived every check; otherwise the answer is 503.
  From the moment shutdown declares the server not ready, every answer is 503, whatever happens in the program.\<close>

theorem readiness_truthful:
  assumes "req_Method r = ''GET''" and "req_Path r = ''/readyz''"
    and "rd_checks (sv_readiness s) = checkSlice grpc" and "pool_inv (sv_pool s) ws"
  shows "rw_Status (fst (snd (snd (health_root encode tx cfg pb s app debug r fresh_writer st)))) =
      Some (if IsReady (sv_readiness s) \<and> (grpc \<longrightarrow> grpc_running s) \<and> repoReady cfg (pb_ctx pb) (pb_ping pb) = None \<and>
          workers_alive (sv_pool s) \<and> \<not> wp_stopping (sv_pool s) \<and> \<not> hub_closed (sv_hub s) \<and>
          (\<forall>c \<in> set (checkSlice grpc). pb_late pb (hc_Fn c) = None)
        then 200 else 503) \<and>
    (\<forall>s'. (serve_env jr)\<^sup>*\<^sup>* (s\<lparr>sv_readiness := SetNotReady (sv_readiness s)\<rparr>) s' \<longrightarrow>
       rw_Status (fst (snd (snd (health_root encode tx cfg pb s' app debug r fresh_writer st)))) = Some 503)"
proof (intro conjI allI impI)
  have "run_checks (server_checks tx cfg pb s) (checkSlice grpc) [] = [] \<longleftrightarrow>
      (grpc \<longrightarrow> grpc_running s) \<and> repoReady cfg (pb_ctx pb) (pb_ping pb) = None \<and> WorkerPool_IsRunning (sv_pool s) \<and>
      \<not> hub_closed (sv_hub s) \<and> (\<forall>c \<in> set (checkSlice grpc). pb_late pb (hc_Fn c) = None)"
    unfolding run_checks_empty
    by (auto simp: checkSlice_def server_checks_def grpc_check) (auto simp: check_error_def WorkerPool_CheckRunning_def Hub_Ready_def split: if_splits)
  then show "rw_Status (fst (snd (snd (health_root encode tx cfg pb s app debug r fresh_writer st)))) =
      Some (if IsReady (sv_readiness s) \<and> (grpc \<longrightarrow> grpc_running s) \<and> repoReady cfg (pb_ctx pb) (pb_ping pb) = None \<and>
          workers_alive (sv_pool s) \<and> \<not> wp_stopping (sv_pool s) \<and> \<not> hub_closed (sv_hub s) \<and>
          (\<forall>c \<in> set (checkSlice grpc). pb_late pb (hc_Fn c) = None)
        then 200 else 503)"
    using IsRunning_alive [OF assms(4)]
    by (simp add: root_readyz [OF assms(1,2)] readiness_answer_def assms(3) Let_def)
next
  fix s' assume "(serve_env jr)\<^sup>*\<^sup>* (s\<lparr>sv_readiness := SetNotReady (sv_readiness s)\<rparr>) s'"
  then have "\<not> IsReady (sv_readiness s')"
    by (drule_tac serve_envs_readiness) (simp add: SetNotReady_def IsReady_def)
  then show "rw_Status (fst (snd (snd (health_root encode tx cfg pb s' app debug r fresh_writer st)))) = Some 503"
    by (simp add: root_readyz [OF assms(1,2)] readiness_answer_def)
qed

definition ready_server :: "MemoryJobRepository Server" where
  "ready_server = sample_server\<lparr>sv_readiness := SetReady (NewReadiness (checkSlice True)), sv_pool := started,
     sv_grpc := RuntimePointer (Some (NewRuntime\<lparr>rt_state := runtimeStateRunning\<rparr>))\<rparr>"

definition good_probe :: probe where
  "good_probe = \<lparr>pb_ctx = None, pb_ping = \<lambda>_. None, pb_late = \<lambda>_. None\<rparr>"

definition sample_readyz :: "MemoryJobRepository Server \<Rightarrow> int option" where
  "sample_readyz s = rw_Status (fst (snd (snd (health_root (\<lambda>_ _. []) \<lparr>tx_library = \<lambda>_. [], tx_duration = \<lambda>_. []\<rparr> (cfg_DB defaultConfig)
     good_probe s (\<lambda>r w st. (Panicked, r, w, st)) None (sample_request\<lparr>req_Method := ''GET'', req_Path := ''/readyz''\<rparr>) fresh_writer ()))))"

theorem readiness_truthful_witness:
  "sample_readyz ready_server = Some 200 \<and>
   sample_readyz (ready_server\<lparr>sv_readiness := SetNotReady (sv_readiness ready_server)\<rparr>) = Some 503"
proof -
  have checks: "rd_checks (sv_readiness ready_server) = checkSlice True"
    by (simp add: ready_server_def SetReady_def NewReadiness_def)
  have pool: "pool_inv (sv_pool ready_server) []"
    using pool_inv_reachable [OF r_into_rtranclp [of "pool_step memory_jobs", OF started_reachable [of _ sample_repo]]] pool_inv_New
    by (simp add: ready_server_def)
  have up: "IsReady (sv_readiness ready_server)" "grpc_running ready_server" "workers_alive (sv_pool ready_server)"
      "\<not> wp_stopping (sv_pool ready_server)" "\<not> hub_closed (sv_hub ready_server)"
    by (simp_all add: ready_server_def IsReady_def SetReady_def grpc_running_def workers_alive_def started_def WorkerPool_Start_def
        settleStoppedLocked_def NewWorkerPool_def sample_server_def sample_hub_def Let_def)
  have repo: "repoReady (cfg_DB defaultConfig) (pb_ctx good_probe) (pb_ping good_probe) = None"
    by (simp add: repoReady_def good_probe_def MemoryUserRepository_Ping_def)
  let ?r = "sample_request\<lparr>req_Method := ''GET'', req_Path := ''/readyz''\<rparr>"
  have req: "req_Method ?r = ''GET''" "req_Path ?r = ''/readyz''" by simp_all
  from readiness_truthful [OF req checks pool, of "\<lambda>_ _. []" "\<lparr>tx_library = \<lambda>_. [], tx_duration = \<lambda>_. []\<rparr>" "cfg_DB defaultConfig" good_probe
      "\<lambda>r w st. (Panicked, r, w, st)" None "()" memory_jobs] up repo
  show ?thesis by (simp add: sample_readyz_def good_probe_def)
qed

end
