(* ===== verification/Pipeline.thy ===== *)
theory Pipeline
  imports Wiring
begin

text \<open>
  The job pipeline as a whole: the handlers that create users (Handlers), the queue between them and
  the workers (Queue), the processing of one item (WorkerPool), the in-memory job repository
  (JobRepo) and the event hub (Stream) as one transition system, in which requests, workers and event
  streams interleave.  The invariant ties the store to the queue: the jobs that are not terminal
  are exactly the ones whose item is queued or held by a worker.
\<close>

section \<open>The transition system\<close>

text \<open>
  A state of the running service: the application with its queue, and the items that workers have
  taken and not finished.  A worker takes the oldest item when one of the \<open>n\<close> workers is idle and
  processes it; meanwhile requests create users, streams come and go, and the queue may be stopped.
\<close>

type_synonym service = "(MemoryJobRepository, MemoryUserRepository) App"

inductive worker_step :: "nat \<Rightarrow> service \<times> WorkItem list \<Rightarrow> service \<times> WorkItem list \<Rightarrow> bool" for n where
  take: "length held < n \<Longrightarrow> Chan_receive (app_queue s) = (Some item, q) \<Longrightarrow>
    worker_step n (s, held) (s\<lparr>app_queue := q\<rparr>, item # held)"
| process: "item \<in> set held \<Longrightarrow>
    worker_item memory_jobs memory_users False item t (app_world s) = Some (c, w) \<Longrightarrow>
    worker_step n (s, held) (s\<lparr>app_world := w\<rparr>, remove1 item held)"

inductive service_step :: "nat \<Rightarrow> service \<times> WorkItem list \<Rightarrow> service \<times> WorkItem list \<Rightarrow> bool" for n where
  worker: "worker_step n c c' \<Longrightarrow> service_step n c c'"
| create_v1: "mj_nextID (jobs_of s) < int64_max \<Longrightarrow>
    UsersHandler_Create memory_jobs memory_users ex r rw s = (out, r', rw', s') \<Longrightarrow>
    service_step n (s, held) (s', held)"
| create_v2: "mj_nextID (jobs_of s) < int64_max \<Longrightarrow>
    UsersV2Handler_Create memory_jobs memory_users ex r rw s = (out, r', rw', s') \<Longrightarrow>
    service_step n (s, held) (s', held)"
| stream: "hub_step (w_hub (app_world s)) h \<Longrightarrow> service_step n (s, held) (set_hub h s, held)"
| stop: "service_step n (s, held) (s\<lparr>app_queue := StopAccepting (app_queue s)\<rparr>, held)"

definition pending :: "service \<times> WorkItem list \<Rightarrow> int64 list" where
  "pending = (\<lambda>(s, held). map wi_JobID (q_ch (app_queue s) @ held))"

text \<open>A store and the identifiers that are pending agree: exactly the pending jobs are queued, all others are terminal.\<close>

definition tracked :: "job_store \<Rightarrow> int64 list \<Rightarrow> bool" where
  "tracked m ids \<longleftrightarrow> distinct ids \<and> (\<forall>i \<in> set ids. \<exists>j. m i = Some j \<and> job_Status j = JobQueued) \<and>
     (\<forall>i j. m i = Some j \<longrightarrow> IsTerminal (job_Status j) \<or> i \<in> set ids)"

definition service_inv :: "service \<times> WorkItem list \<Rightarrow> bool" where
  "service_inv c \<longleftrightarrow> mj_inv (jobs_of (fst c)) \<and> hub_inv (w_hub (app_world (fst c))) \<and>
     tracked (mj_abs (jobs_of (fst c))) (pending c)"

lemma tracked_cong: "distinct xs = distinct ys \<Longrightarrow> set xs = set ys \<Longrightarrow> tracked m xs \<longleftrightarrow> tracked m ys"
  by (simp add: tracked_def)

lemma map_remove1_distinct:
  "distinct (map f xs) \<Longrightarrow> x \<in> set xs \<Longrightarrow> map f (remove1 x xs) = remove1 (f x) (map f xs)"
proof (induction xs)
  case (Cons a xs)
  then show ?case by (cases "x = a") (auto simp: rev_image_eqI)
qed simp

lemma tracked_admit:
  assumes "tracked m ids" and "m i = None" and "job_Status j = JobQueued"
  shows "tracked (m(i \<mapsto> j)) (i # ids)"
  using assms by (auto simp: tracked_def)

lemma tracked_finish:
  assumes "tracked m ids" and "IsTerminal (job_Status j)"
  shows "tracked (m(i \<mapsto> j)) (remove1 i ids)"
  using assms by (auto simp: tracked_def in_set_remove1)

lemma rollback_keeps:
  assumes "enqueue_or_rollback memory_jobs ex item s = (e, s')"
    and "mj_inv (jobs_of s)" and "hub_inv (w_hub (app_world s))"
  shows "mj_inv (jobs_of s') \<and> hub_inv (w_hub (app_world s'))"
proof -
  have "mj_inv js" if "deleteJobAfterFailedEnqueue memory_jobs i (jobs_of s) = (x, js)" for i x js
    using that mem.invar_ops(5) [OF assms(2), of i]
    by (auto simp: deleteJobAfterFailedEnqueue_def JobService_Delete_def split: prod.splits option.splits if_splits)
  then show ?thesis
    using assms by (auto simp: enqueue_or_rollback_def split: prod.splits option.splits)
qed

lemma queued_job_saved:
  assumes "mj_inv r" and "mj_nextID r < int64_max" and "job_ID job = 0"
    and "repo_Save memory_jobs job r = ((e, job'), r')"
  shows "e = None \<and> mj_inv r'"
proof -
  have "job_ID job < mj_nextID r" using assms(1,3) by (simp add: mj_inv_def)
  with memory_Save_new [OF assms(1,3)] mj_inv_Save [OF assms(1) _ assms(2)] assms(4) show ?thesis
    by (force simp: memory_jobs_def)
qed

lemma publishQueued_keeps:
  assumes "publishQueuedJob ex i wd = Some wd'" and "hub_inv (w_hub wd)"
  shows "w_jobs wd' = w_jobs wd \<and> hub_inv (w_hub wd')"
  using assms by (auto simp: publishQueuedJob_def publish_event_def dest: hub_inv_Publish)

lemma async_keeps:
  assumes run: "async_create memory_jobs ex inp r rw s = (out, r', rw', s')"
    and "mj_nextID (jobs_of s) < int64_max" and "mj_inv (jobs_of s)" and "hub_inv (w_hub (app_world s))"
  shows "mj_inv (jobs_of s') \<and> hub_inv (w_hub (app_world s'))"
proof (cases "req_Principal r")
  case None
  with assms show ?thesis by (simp add: async_create_def fails_def)
next
  case (Some who)
  let ?job = "\<lparr>job_ID = 0, job_Status = JobQueued, job_Result = None, job_Error = None, job_OwnerUserID = pr_UserID who\<rparr>"
  obtain e job js where save: "repo_Save memory_jobs ?job (jobs_of s) = ((e, job), js)"
    by (metis surj_pair)
  with queued_job_saved [OF assms(3,2) _ save] have js: "e = None" "mj_inv js" by simp_all
  let ?w = "(app_world s)\<lparr>w_jobs := js\<rparr>"
  show ?thesis
  proof (cases "publishQueuedJob ex (job_ID job) ?w")
    case None
    with run Some save js assms(4) show ?thesis by (auto simp: async_create_def JobService_Save_def)
  next
    case (Some wd)
    let ?item = "\<lparr>wi_JobID = job_ID job, wi_Payload = inp\<rparr>"
    obtain e2 s2 where enq: "enqueue_or_rollback memory_jobs ex ?item (s\<lparr>app_world := wd\<rparr>) = (e2, s2)" by force
    have "s' = s2"
      using run \<open>req_Principal r = Some who\<close> save js Some enq
      by (auto simp: async_create_def JobService_Save_def fails_def replies_def split: option.splits)
    with rollback_keeps [OF enq] publishQueued_keeps [OF Some] js assms(4) show ?thesis by simp
  qed
qed

lemma sync_keeps:
  assumes "sync_create ur ex loc repr inp r rw s = (out, r', rw', s')"
  shows "jobs_of s' = jobs_of s \<and> w_hub (app_world s') = w_hub (app_world s) \<and> app_queue s' = app_queue s"
  using assms by (auto simp: sync_create_def fails_def replies_def split: prod.splits sum.splits)

lemma async_tracked:
  assumes run: "async_create memory_jobs ex inp r rw s = (out, r', rw', s')"
    and room: "mj_nextID (jobs_of s) < int64_max" and inv: "service_inv (s, held)"
  shows "service_inv (s', held)"
proof (cases "req_Principal r")
  case None
  with run inv show ?thesis by (simp add: async_create_def fails_def)
next
  case (Some who)
  have i: "mj_inv (jobs_of s)" "hub_inv (w_hub (app_world s))" "tracked (mj_abs (jobs_of s)) (pending (s, held))"
    using inv by (simp_all add: service_inv_def)
  have "refused mj_abs s s' \<or> (\<exists>job. admitted mj_abs who inp job s s')"
    using mem.async_admission [OF i(1,2) Some, of ex inp rw] queued_job_saved [OF i(1) room] run
    by (auto simp: prod_eq_iff)
  then have "tracked (mj_abs (jobs_of s')) (pending (s', held))"
  proof
    assume "refused mj_abs s s'"
    with i(3) show ?thesis by (simp add: refused_def pending_def)
  next
    assume "\<exists>job. admitted mj_abs who inp job s s'"
    then obtain job where job: "mj_abs (jobs_of s) (job_ID job) = None" "job_Status job = JobQueued"
        "mj_abs (jobs_of s') = (mj_abs (jobs_of s))(job_ID job \<mapsto> job)"
        "q_ch (app_queue s') = q_ch (app_queue s) @ [\<lparr>wi_JobID = job_ID job, wi_Payload = inp\<rparr>]"
      by (auto simp: admitted_def)
    show ?thesis
      using tracked_admit [OF i(3) job(1,2)] job(3,4)
      by (subst tracked_cong [where ys = "job_ID job # pending (s, held)"]) (auto simp: pending_def)
  qed
  with async_keeps [OF run room i(1,2)] show ?thesis by (simp add: service_inv_def)
qed

lemma create_tracked:
  assumes "UsersHandler_Create memory_jobs memory_users ex r rw s = (out, r', rw', s') \<or>
      UsersV2Handler_Create memory_jobs memory_users ex r rw s = (out, r', rw', s')"
    and "mj_nextID (jobs_of s) < int64_max" and "service_inv (s, held)"
  shows "service_inv (s', held)"
  using assms async_tracked [OF _ assms(2,3)] sync_keeps [where s = s and s' = s' and ur = memory_users]
  unfolding UsersHandler_Create_def UsersV2Handler_Create_def Let_def
  by (auto simp: fails_def service_inv_def pending_def split: option.splits sum.splits if_splits)

lemma process_tracked:
  assumes "item \<in> set held" and "worker_item memory_jobs memory_users False item t (app_world s) = Some (c, w)"
    and inv: "service_inv (s, held)"
  shows "service_inv (s\<lparr>app_world := w\<rparr>, remove1 item held)"
proof -
  have i: "mj_inv (jobs_of s)" "hub_inv (w_hub (app_world s))" "tracked (mj_abs (jobs_of s)) (pending (s, held))"
    using inv by (simp_all add: service_inv_def)
  have mem: "wi_JobID item \<in> set (pending (s, held))" using assms(1) by (simp add: pending_def)
  then obtain j where j: "mj_abs (jobs_of s) (wi_JobID item) = Some j" "job_Status j = JobQueued"
    using i(3) by (auto simp: tracked_def)
  obtain res us where create: "UserService_CreateUser memory_users (wi_Payload item) (w_users (app_world s)) = (res, us)"
    by force
  let ?j = "case res of Inl e \<Rightarrow> mark_failed (ToJobProblem e) (mark_running j)
      | Inr u \<Rightarrow> mark_succeeded \<lparr>jr_UserID = dto_ID u\<rparr> (mark_running j)"
  from memw.item_processed [OF i(1,2) j create, of t] assms(2)
  have w: "mj_inv (w_jobs w)" "hub_inv (w_hub w)" "mj_abs (w_jobs w) = (mj_abs (jobs_of s))(wi_JobID item \<mapsto> ?j)"
    by auto
  have "IsTerminal (job_Status ?j)"
    by (cases res) (simp_all add: IsTerminal_def mark_failed_def mark_succeeded_def)
  from tracked_finish [OF i(3) this, of "wi_JobID item"] w(3) have
    "tracked (mj_abs (w_jobs w)) (remove1 (wi_JobID item) (pending (s, held)))" by simp
  moreover have "remove1 (wi_JobID item) (pending (s, held)) = pending (s\<lparr>app_world := w\<rparr>, remove1 item held)"
    using i(3) assms(1)
    by (auto simp: tracked_def pending_def remove1_append map_remove1_distinct)
  ultimately show ?thesis using w(1,2) by (simp add: service_inv_def)
qed

lemma worker_tracked: "worker_step n c c' \<Longrightarrow> service_inv c \<Longrightarrow> service_inv c'"
proof (induction rule: worker_step.induct)
  case (take held s item q)
  then have "q_ch (app_queue s) = item # q_ch q"
    by (auto simp: Chan_receive_def split: list.splits)
  with take show ?case
    by (auto simp: service_inv_def pending_def elim!: tracked_cong [THEN iffD1, rotated 2])
next
  case (process item held t s c w)
  then show ?case by (blast intro: process_tracked)
qed

lemma service_tracked: "service_step n c c' \<Longrightarrow> service_inv c \<Longrightarrow> service_inv c'"
proof (induction rule: service_step.induct)
  case (worker c c')
  then show ?case by (rule worker_tracked)
next
  case (stream s h held)
  then show ?case
    by (auto simp: service_inv_def set_hub_def pending_def dest: hub_inv_step)
next
  case (stop s held)
  then show ?case by (simp add: service_inv_def pending_def StopAccepting_def)
qed (blast intro: create_tracked)+

lemma service_reachable: "(service_step n)\<^sup>*\<^sup>* c c' \<Longrightarrow> service_inv c \<Longrightarrow> service_inv c'"
  by (induction rule: rtranclp_induct) (auto dest: service_tracked)

text \<open>As long as something is pending a worker can move, and every move brings the service closer to the end.\<close>

definition backlog :: "service \<times> WorkItem list \<Rightarrow> nat" where
  "backlog = (\<lambda>(s, held). 2 * length (q_ch (app_queue s)) + length held)"

lemma worker_enabled:
  assumes "service_inv (s, held)" and "pending (s, held) \<noteq> []" and "0 < n"
  shows "\<exists>c'. worker_step n (s, held) c'"
proof (cases held)
  case Nil
  with assms(2) obtain item q where "Chan_receive (app_queue s) = (Some item, q)"
    by (cases "q_ch (app_queue s)") (auto simp: pending_def Chan_receive_def)
  with Nil assms(3) worker_step.take [of held n s item q] show ?thesis by auto
next
  case (Cons item rest)
  then have "wi_JobID item \<in> set (pending (s, held))" by (simp add: pending_def)
  with assms(1) obtain j where j: "mj_abs (jobs_of s) (wi_JobID item) = Some j" "job_Status j = JobQueued"
    by (auto simp: service_inv_def tracked_def)
  obtain res us where "UserService_CreateUser memory_users (wi_Payload item) (w_users (app_world s)) = (res, us)"
    by force
  from memw.item_processed [OF _ _ j this] assms(1) obtain c w where
    "worker_item memory_jobs memory_users False item 0 (app_world s) = Some (c, w)"
    by (fastforce simp: service_inv_def)
  then show ?thesis using worker_step.process [of item held 0 s c w n] Cons by fastforce
qed

lemma worker_decreases: "worker_step n c c' \<Longrightarrow> backlog c' < backlog c"
  by (induction rule: worker_step.induct)
     (auto simp: backlog_def Chan_receive_def length_remove1 dest: length_pos_if_in_set split: list.splits)

lemma workers_finish:
  assumes "service_inv c" and "0 < n"
  shows "\<exists>s'. (worker_step n)\<^sup>*\<^sup>* c (s', []) \<and> pending (s', []) = [] \<and> service_inv (s', [])"
  using assms(1)
proof (induction "backlog c" arbitrary: c rule: less_induct)
  case less
  obtain s held where c: "c = (s, held)" by force
  show ?case
  proof (cases "pending c = []")
    case True
    with c less.prems show ?thesis by (auto simp: pending_def)
  next
    case False
    then obtain c' where "worker_step n c c'" using worker_enabled less.prems assms(2) c by blast
    with less.hyps [OF worker_decreases worker_tracked] less.prems show ?thesis
      by (meson converse_rtranclp_into_rtranclp)
  qed
qed

lemma worker_keeps_jobs:
  assumes "worker_step n c c'" and "service_inv c"
  shows "dom (mj_abs (jobs_of (fst c'))) = dom (mj_abs (jobs_of (fst c)))"
  using assms
proof (induction rule: worker_step.induct)
  case (process item held t s c w)
  then have "wi_JobID item \<in> set (pending (s, held))" by (auto simp: pending_def)
  with process obtain j where j: "mj_abs (jobs_of s) (wi_JobID item) = Some j" "job_Status j = JobQueued"
    by (auto simp: service_inv_def tracked_def)
  obtain res us where "UserService_CreateUser memory_users (wi_Payload item) (w_users (app_world s)) = (res, us)"
    by force
  from memw.item_processed [OF _ _ j this, of t] process j(1) show ?case
    by (auto simp: service_inv_def split: if_splits)
qed simp

lemma workers_keep:
  "(worker_step n)\<^sup>*\<^sup>* c c' \<Longrightarrow> service_inv c \<Longrightarrow>
     service_inv c' \<and> dom (mj_abs (jobs_of (fst c'))) = dom (mj_abs (jobs_of (fst c)))"
  by (induction rule: rtranclp_induct) (simp, metis worker_tracked worker_keeps_jobs)

lemma service_start:
  assumes "jobs_of s = NewMemoryJobRepository" and "NewHub m = Some (w_hub (app_world s))" and "q_ch (app_queue s) = []"
  shows "service_inv (s, [])"
  using assms mj_inv_New hub_inv_New
  by (auto simp: service_inv_def tracked_def pending_def mj_abs_def NewMemoryJobRepository_def)

lemma quiet_terminal:
  assumes "service_inv c" and "pending c = []" and "mj_abs (jobs_of (fst c)) i = Some j"
  shows "IsTerminal (job_Status j)"
  using assms by (auto simp: service_inv_def tracked_def)

end
