(* ===== verification/RuntimeInfo.thy ===== *)
theory RuntimeInfo
  imports Router "HOL-Library.Word"
begin

text \<open>
  The snapshot of the Go runtime behind \<open>GET /debug/runtime\<close> (\<open>internal/runtimeinfo/runtimeinfo.go\<close>).  What the
  runtime reports is a parameter; floating-point numbers are values of a type variable that the code only
  copies.
\<close>

section \<open>Snapshots\<close>

definition selectedMetricNames :: "string list" where
  "selectedMetricNames = [
     ''/cpu/classes/gc/pause:cpu-seconds'', ''/cpu/classes/gc/total:cpu-seconds'', ''/cpu/classes/user:cpu-seconds'',
     ''/gc/cycles/automatic:gc-cycles'', ''/gc/cycles/forced:gc-cycles'', ''/gc/cycles/total:gc-cycles'', ''/gc/gogc:percent'',
     ''/gc/gomemlimit:bytes'', ''/gc/heap/allocs:bytes'', ''/gc/heap/frees:bytes'', ''/gc/heap/goal:bytes'', ''/gc/heap/live:bytes'',
     ''/gc/heap/objects:objects'', ''/gc/limiter/last-enabled:gc-cycle'', ''/memory/classes/heap/objects:bytes'',
     ''/memory/classes/heap/released:bytes'', ''/memory/classes/metadata/other:bytes'', ''/memory/classes/profiling/buckets:bytes'',
     ''/memory/classes/total:bytes'', ''/sched/gomaxprocs:threads'', ''/sched/goroutines:goroutines'']"

text \<open>The part of \<open>runtime.MemStats\<close> the program reads.\<close>

record 'f MemStats =
  ms_Alloc :: "64 word"
  ms_TotalAlloc :: "64 word"
  ms_Sys :: "64 word"
  ms_Mallocs :: "64 word"
  ms_Frees :: "64 word"
  ms_HeapAlloc :: "64 word"
  ms_HeapSys :: "64 word"
  ms_HeapIdle :: "64 word"
  ms_HeapInuse :: "64 word"
  ms_HeapReleased :: "64 word"
  ms_HeapObjects :: "64 word"
  ms_StackInuse :: "64 word"
  ms_MSpanInuse :: "64 word"
  ms_MCacheInuse :: "64 word"
  ms_GCSys :: "64 word"
  ms_OtherSys :: "64 word"
  ms_NextGC :: "64 word"
  ms_LastGC :: "64 word"
  ms_PauseTotalNs :: "64 word"
  ms_NumGC :: "32 word"
  ms_NumForcedGC :: "32 word"
  ms_GCCPUFraction :: 'f

record 'f MemStatsSnapshot =
  AllocBytes :: "64 word"
  TotalAllocBytes :: "64 word"
  SysBytes :: "64 word"
  RuntimeMemoryUsedBytes :: "64 word"
  Mallocs :: "64 word"
  Frees :: "64 word"
  HeapAllocBytes :: "64 word"
  HeapSysBytes :: "64 word"
  HeapIdleBytes :: "64 word"
  HeapInuseBytes :: "64 word"
  HeapReleasedBytes :: "64 word"
  HeapObjects :: "64 word"
  StackInuseBytes :: "64 word"
  MSpanInuseBytes :: "64 word"
  MCacheInuseBytes :: "64 word"
  GCSysBytes :: "64 word"
  OtherSysBytes :: "64 word"
  NextGCBytes :: "64 word"
  LastGCUnixNano :: "64 word"
  PauseTotalNs :: "64 word"
  NumGC :: "32 word"
  NumForcedGC :: "32 word"
  GCCPUFraction :: 'f

definition snapshotMemStats :: "'f MemStats \<Rightarrow> 'f MemStatsSnapshot" where
  "snapshotMemStats ms =
     (let runtimeMemoryUsed = (if ms_HeapReleased ms \<le> ms_Sys ms then ms_Sys ms - ms_HeapReleased ms else ms_Sys ms)
      in \<lparr>AllocBytes = ms_Alloc ms, TotalAllocBytes = ms_TotalAlloc ms, SysBytes = ms_Sys ms,
          RuntimeMemoryUsedBytes = runtimeMemoryUsed, Mallocs = ms_Mallocs ms, Frees = ms_Frees ms,
          HeapAllocBytes = ms_HeapAlloc ms, HeapSysBytes = ms_HeapSys ms, HeapIdleBytes = ms_HeapIdle ms,
          HeapInuseBytes = ms_HeapInuse ms, HeapReleasedBytes = ms_HeapReleased ms, HeapObjects = ms_HeapObjects ms,
          StackInuseBytes = ms_StackInuse ms, MSpanInuseBytes = ms_MSpanInuse ms, MCacheInuseBytes = ms_MCacheInuse ms,
          GCSysBytes = ms_GCSys ms, OtherSysBytes = ms_OtherSys ms, NextGCBytes = ms_NextGC ms, LastGCUnixNano = ms_LastGC ms,
          PauseTotalNs = ms_PauseTotalNs ms, NumGC = ms_NumGC ms, NumForcedGC = ms_NumForcedGC ms,
          GCCPUFraction = ms_GCCPUFraction ms\<rparr>)"

section \<open>Metrics\<close>

record 'f HistogramSummary =
  hs_Count :: "64 word"
  hs_Min :: 'f
  hs_Max :: 'f

text \<open>The loop over the buckets; \<open>None\<close> is the panic of an index that is out of range.\<close>

fun summarize_loop :: "'f list \<Rightarrow> nat \<Rightarrow> 64 word list \<Rightarrow> bool \<Rightarrow> 'f HistogramSummary \<Rightarrow> 'f HistogramSummary option" where
  "summarize_loop buckets i [] found acc = Some acc"
| "summarize_loop buckets i (n # ns) found acc =
     (if n = 0 then summarize_loop buckets (Suc i) ns found acc
      else if \<not> found \<and> i \<ge> length buckets then None
      else if Suc i \<ge> length buckets then None
      else
        summarize_loop buckets (Suc i) ns True
          (acc\<lparr>hs_Count := hs_Count acc + n, hs_Min := (if found then hs_Min acc else buckets ! i), hs_Max := buckets ! Suc i\<rparr>))"

definition summarizeHistogram :: "'f \<Rightarrow> 64 word list \<Rightarrow> 'f list \<Rightarrow> 'f HistogramSummary option" where
  "summarizeHistogram zero counts buckets =
     summarize_loop buckets 0 counts False \<lparr>hs_Count = 0, hs_Min = zero, hs_Max = zero\<rparr>"

datatype 'f metric_kind = KindBad | KindUint64 "64 word" | KindFloat64 'f | KindFloat64Histogram "64 word list" "'f list"

record 'f MetricSample =
  sm_Kind :: string
  sm_Uint64 :: "64 word option"
  sm_Float64 :: "'f option"
  sm_Hist :: "'f HistogramSummary option"

text \<open>The sample of a value and whether it is known; a panic makes the whole \<open>None\<close>.\<close>

definition metricValue :: "'f \<Rightarrow> 'f metric_kind \<Rightarrow> 'f MetricSample option option" where
  "metricValue zero v =
     (case v of
        KindUint64 n \<Rightarrow> Some (Some \<lparr>sm_Kind = ''uint64'', sm_Uint64 = Some n, sm_Float64 = None, sm_Hist = None\<rparr>)
      | KindFloat64 n \<Rightarrow> Some (Some \<lparr>sm_Kind = ''float64'', sm_Uint64 = None, sm_Float64 = Some n, sm_Hist = None\<rparr>)
      | KindFloat64Histogram counts buckets \<Rightarrow>
          map_option (\<lambda>h. Some \<lparr>sm_Kind = ''float64_histogram'', sm_Uint64 = None, sm_Float64 = None, sm_Hist = Some h\<rparr>)
            (summarizeHistogram zero counts buckets)
      | KindBad \<Rightarrow> Some None)"

definition supportedRuntimeMetrics :: "string list \<Rightarrow> (string, unit) gomap" where
  "supportedRuntimeMetrics descriptions = foldl (\<lambda>m name. gm_update name () m) [] descriptions"

fun collect_samples :: "'f \<Rightarrow> (string \<Rightarrow> 'f metric_kind) \<Rightarrow> string list \<Rightarrow> (string, 'f MetricSample) gomap \<Rightarrow> (string, 'f MetricSample) gomap option" where
  "collect_samples zero reading [] out = Some out"
| "collect_samples zero reading (name # ns) out =
     (case metricValue zero (reading name) of
        None \<Rightarrow> None
      | Some None \<Rightarrow> collect_samples zero reading ns out
      | Some (Some v) \<Rightarrow> collect_samples zero reading ns (gm_update name v out))"

definition readRuntimeMetrics :: "'f \<Rightarrow> string list \<Rightarrow> (string \<Rightarrow> 'f metric_kind) \<Rightarrow> (string, 'f MetricSample) gomap option" where
  "readRuntimeMetrics zero descriptions reading =
     (let supported = supportedRuntimeMetrics descriptions;
          samples = filter (\<lambda>name. gm_lookup supported name \<noteq> None) selectedMetricNames
      in collect_samples zero reading samples [])"

record GoSnapshot =
  go_Version :: string
  go_NumCPU :: int64
  go_GOMAXPROCS :: int64
  go_NumGoroutine :: int64

record 'f Snapshot =
  sn_Timestamp :: string
  sn_Go :: GoSnapshot
  sn_MemStats :: "'f MemStatsSnapshot"
  sn_Metrics :: "(string, 'f MetricSample) gomap"

record 'f go_runtime =
  gr_Go :: GoSnapshot
  gr_MemStats :: "'f MemStats"
  gr_All :: "string list"
  gr_Read :: "string \<Rightarrow> 'f metric_kind"

definition ReadSnapshot :: "'f \<Rightarrow> 'f go_runtime \<Rightarrow> string \<Rightarrow> 'f Snapshot option" where
  "ReadSnapshot zero gort timestamp =
     map_option (\<lambda>m. \<lparr>sn_Timestamp = timestamp, sn_Go = gr_Go gort, sn_MemStats = snapshotMemStats (gr_MemStats gort), sn_Metrics = m\<rparr>)
       (readRuntimeMetrics zero (gr_All gort) (gr_Read gort))"

definition RuntimeInfo_Handler :: "'f \<Rightarrow> 'f go_runtime \<Rightarrow> string \<Rightarrow> ('f Snapshot \<Rightarrow> response_body) \<Rightarrow> 's http_handler" where
  "RuntimeInfo_Handler zero gort timestamp encode r w s =
     (if req_Method r \<noteq> ''GET'' then
        (Returned (), r, http_Error 405 ''Method Not Allowed'' (set_header ''Allow'' ''GET'' w), s)
      else
        (let w1 = set_header ''Content-Type'' ''application/json'' w in
         case ReadSnapshot zero gort timestamp of
           None \<Rightarrow> (Panicked, r, w1, s)
         | Some sn \<Rightarrow> (Returned (), r, Write (encode sn) w1, s)))"

section \<open>Properties\<close>

text \<open>The memory in use never wraps around.\<close>

lemma memory_used:
  "unat (RuntimeMemoryUsedBytes (snapshotMemStats ms)) =
     (if unat (ms_HeapReleased ms) \<le> unat (ms_Sys ms) then unat (ms_Sys ms) - unat (ms_HeapReleased ms) else unat (ms_Sys ms))"
  by (simp add: snapshotMemStats_def Let_def word_le_nat_alt unat_sub)

text \<open>
  Go documents that a histogram has one more bound than it has counts.  Then the summary is total, and it is the
  sum of the counts with the lower bound of the first and the upper bound of the last bucket that is not empty.
\<close>

fun nonempty_from :: "nat \<Rightarrow> 64 word list \<Rightarrow> nat list" where
  "nonempty_from i [] = []"
| "nonempty_from i (n # ns) = (if n = 0 then [] else [i]) @ nonempty_from (Suc i) ns"

lemma summarize_loop_spec:
  assumes "length buckets > i + length ns"
  shows "summarize_loop buckets i ns found acc =
    (let nz = nonempty_from i ns in
     Some (acc\<lparr>hs_Count := hs_Count acc + sum_list ns,
               hs_Min := (if found \<or> nz = [] then hs_Min acc else buckets ! hd nz),
               hs_Max := (if nz = [] then hs_Max acc else buckets ! Suc (last nz))\<rparr>))"
  using assms
proof (induction ns arbitrary: i found acc)
  case (Cons n ns)
  then have "length buckets > Suc i + length ns" by simp
  note IH = Cons.IH [OF this]
  show ?case
    using Cons.prems by (cases "n = 0") (auto simp: IH Let_def algebra_simps)
qed (cases acc; simp)

lemma summarizeHistogram_spec:
  assumes "length buckets = length counts + 1"
  shows "summarizeHistogram zero counts buckets =
    (let nz = nonempty_from 0 counts in
     Some (if nz = [] then \<lparr>hs_Count = 0, hs_Min = zero, hs_Max = zero\<rparr>
           else \<lparr>hs_Count = sum_list counts, hs_Min = buckets ! hd nz, hs_Max = buckets ! Suc (last nz)\<rparr>))"
proof -
  have "nonempty_from i ns = [] \<Longrightarrow> sum_list ns = 0" for i ns
    by (induction i ns rule: nonempty_from.induct) (auto split: if_splits)
  with assms show ?thesis by (simp add: summarizeHistogram_def summarize_loop_spec Let_def)
qed

text \<open>So no well-formed reading makes the endpoint panic, and every metric it shows is a selected one.\<close>

definition readings_ok :: "(string \<Rightarrow> 'f metric_kind) \<Rightarrow> bool" where
  "readings_ok reading \<longleftrightarrow> (\<forall>name counts buckets. reading name = KindFloat64Histogram counts buckets \<longrightarrow> length buckets = length counts + 1)"

lemma metricValue_total: "readings_ok reading \<Longrightarrow> \<exists>v. metricValue zero (reading name) = Some v"
  by (cases "reading name") (auto simp: metricValue_def readings_ok_def summarizeHistogram_spec Let_def)

lemma collect_samples_total:
  assumes "readings_ok reading"
  shows "\<exists>m. collect_samples zero reading names out = Some m \<and> (\<forall>k. gm_lookup m k \<noteq> None \<longrightarrow> k \<in> set names \<or> gm_lookup out k \<noteq> None)"
proof (induction names arbitrary: out)
  case (Cons name names)
  obtain v where v: "metricValue zero (reading name) = Some v" using metricValue_total [OF assms] by blast
  show ?case
  proof (cases v)
    case None
    with v Cons [of out] show ?thesis by auto
  next
    case (Some sample)
    with v Cons [of "gm_update name sample out"] show ?thesis by (auto simp: gomap_simps split: if_splits)
  qed
qed simp

lemma runtime_handler_returns:
  assumes "readings_ok (gr_Read gort)"
  shows "fst (RuntimeInfo_Handler zero gort timestamp encode r w s) = Returned ()"
proof -
  obtain m where "readRuntimeMetrics zero (gr_All gort) (gr_Read gort) = Some m"
    using collect_samples_total [OF assms] by (fastforce simp: readRuntimeMetrics_def Let_def)
  then show ?thesis by (simp add: RuntimeInfo_Handler_def ReadSnapshot_def Let_def)
qed

end
