(* ===== verification/RequestIDs.thy ===== *)
theory RequestIDs
  imports Middleware "HOL-Library.Word"
begin

text \<open>
  The request identifiers (\<open>internal/requestid\<close>): the identifiers the program makes itself, from the clock and a
  sequence number, and what holds of every identifier a handler sees.
\<close>

section \<open>Generated identifiers\<close>

text \<open>\<open>strconv.FormatInt(_, 36)\<close>.\<close>

definition digit36 :: "nat \<Rightarrow> char" where
  "digit36 d = char_of (if d < 10 then 48 + d else 87 + d)"

fun digits36 :: "nat \<Rightarrow> string" where
  "digits36 n = (if n < 36 then [digit36 n] else digits36 (n div 36) @ [digit36 (n mod 36)])"

declare digits36.simps [simp del]

definition FormatInt36 :: "int \<Rightarrow> string" where
  "FormatInt36 n = (if n < 0 then CHR ''-'' # digits36 (nat (- n)) else digits36 (nat n))"

text \<open>The clock in nanoseconds and the counter; the addition is atomic, so every call has its own number.\<close>

definition NewRequestID :: "int64 \<Rightarrow> 64 word \<Rightarrow> string \<times> 64 word" where
  "NewRequestID unixNano ridSeq =
     (let n = ridSeq + 1 in (ToLower (FormatInt36 unixNano) @ ''-'' @ FormatInt36 (sint n), n))"

text \<open>The identifiers of a sequence of calls, in the order of their additions.\<close>

fun request_ids :: "int64 list \<Rightarrow> 64 word \<Rightarrow> string list" where
  "request_ids [] ridSeq = []"
| "request_ids (t # ts) ridSeq = (case NewRequestID t ridSeq of (i, n) \<Rightarrow> i # request_ids ts n)"

section \<open>Their form\<close>

definition alnum36 :: "char \<Rightarrow> bool" where
  "alnum36 c \<longleftrightarrow> (48::nat) \<le> of_char c \<and> of_char c \<le> (57::nat) \<or> (97::nat) \<le> of_char c \<and> of_char c \<le> (122::nat)"

definition value36 :: "char \<Rightarrow> nat" where
  "value36 c = (if of_char c \<le> (57::nat) then of_char c - 48 else of_char c - 87)"

lemma of_char_digit36: "d < 36 \<Longrightarrow> (of_char (digit36 d) :: nat) = (if d < 10 then 48 + d else 87 + d)"
  by (simp add: digit36_def)

lemma digit36_simps [simp]: "d < 36 \<Longrightarrow> alnum36 (digit36 d)" "d < 36 \<Longrightarrow> value36 (digit36 d) = d"
  by (auto simp: alnum36_def value36_def of_char_digit36)

lemma digits36_chars: "list_all alnum36 (digits36 n)"
proof (induction n rule: digits36.induct)
  case (1 n)
  then show ?case by (simp add: digits36.simps [of n])
qed

lemma digits36_value: "foldl (\<lambda>acc c. 36 * acc + value36 c) 0 (digits36 n) = n"
proof (induction n rule: digits36.induct)
  case (1 n)
  then show ?case by (simp add: digits36.simps [of n])
qed

lemma digits36_inj: "digits36 m = digits36 n \<Longrightarrow> m = n"
  by (metis digits36_value)

lemma digits36_nonempty: "digits36 n \<noteq> []"
  by (subst digits36.simps) simp

lemma minus_not_alnum [simp]: "\<not> alnum36 CHR ''-''"
  by (simp add: alnum36_def)

lemma digits36_no_minus [simp]: "CHR ''-'' \<notin> set (digits36 n)"
  using digits36_chars [of n] by (auto simp: list_all_iff)

lemma length_digits36: "n < 36 ^ Suc k \<Longrightarrow> length (digits36 n) \<le> Suc k"
proof (induction k arbitrary: n)
  case (Suc k)
  show ?case
  proof (cases "n < 36")
    case False
    have "n div 36 < 36 ^ Suc k" using Suc.prems by (simp add: less_mult_imp_div_less)
    from Suc.IH [OF this] False show ?thesis by (simp add: digits36.simps [of n])
  qed (simp add: digits36.simps [of n])
qed (simp add: digits36.simps)

lemma length_FormatInt36: "in_int64 n \<Longrightarrow> length (FormatInt36 n) \<le> 14"
proof -
  assume "in_int64 n"
  then have "nat (- n) < 36 ^ Suc 12" "nat n < 36 ^ Suc 12"
    by (auto simp: in_int64_def int64_min_def int64_max_def nat_less_iff)
  from this [THEN length_digits36] show ?thesis by (simp add: FormatInt36_def)
qed

lemma lower_alnum: "alnum36 c \<Longrightarrow> lower_char c = c"
  by (auto simp: alnum36_def lower_char_def)

lemma ToLower_FormatInt36 [simp]: "ToLower (FormatInt36 n) = FormatInt36 n"
proof -
  have "map lower_char (digits36 m) = digits36 m" for m
    using digits36_chars [of m] by (intro map_idI) (auto simp: list_all_iff lower_alnum)
  moreover have "lower_char CHR ''-'' = CHR ''-''" by (simp add: lower_char_def)
  ultimately show ?thesis by (simp add: ToLower_def FormatInt36_def)
qed

text \<open>The separator can be told from the signs of the two numbers.\<close>

lemma split_at: "x \<notin> set xs \<Longrightarrow> x \<notin> set ys \<Longrightarrow> xs @ x # us = ys @ x # vs \<longleftrightarrow> xs = ys \<and> us = vs"
  by (induction xs ys rule: list_induct2') auto

lemma FormatInt36_pair:
  assumes "FormatInt36 a @ CHR ''-'' # FormatInt36 b = FormatInt36 c @ CHR ''-'' # FormatInt36 d"
  shows "a = c \<and> b = d"
proof -
  have first: "digits36 m @ CHR ''-'' # s \<noteq> CHR ''-'' # t" for m s t
    using digits36_nonempty [of m] digits36_no_minus [of m] by (cases "digits36 m") auto
  have "(a < 0) = (c < 0) \<and> digits36 (nat \<bar>a\<bar>) @ CHR ''-'' # FormatInt36 b = digits36 (nat \<bar>c\<bar>) @ CHR ''-'' # FormatInt36 d"
    using assms first first [symmetric] by (auto simp: FormatInt36_def [of a] FormatInt36_def [of c] split: if_splits)
  then have ac: "(a < 0) = (c < 0)" "digits36 (nat \<bar>a\<bar>) = digits36 (nat \<bar>c\<bar>)" and bd: "FormatInt36 b = FormatInt36 d"
    using split_at [OF digits36_no_minus digits36_no_minus] by blast+
  have "x = y" if "(x < 0) = (y < 0)" "digits36 (nat \<bar>x\<bar>) = digits36 (nat \<bar>y\<bar>)" for x y
    using that digits36_inj [OF that(2)] by (auto simp: nat_eq_iff split: if_splits)
  moreover have "(b < 0) = (d < 0) \<and> digits36 (nat \<bar>b\<bar>) = digits36 (nat \<bar>d\<bar>)"
    using bd first by (auto simp: FormatInt36_def split: if_splits) (metis digits36_no_minus list.set_intros(1))+
  ultimately show ?thesis using ac by blast
qed

lemma NewRequestID_inj: "fst (NewRequestID t m) = fst (NewRequestID u n) \<longleftrightarrow> t = u \<and> m = n"
proof
  assume "fst (NewRequestID t m) = fst (NewRequestID u n)"
  then have "t = u" "sint (m + 1) = sint (n + 1)"
    using FormatInt36_pair [of t "sint (m + 1)" u "sint (n + 1)"] by (simp_all add: NewRequestID_def Let_def)
  then have "m + 1 = n + 1" by (blast intro: signed_word_eqI)
  with \<open>t = u\<close> show "t = u \<and> m = n" by simp
qed simp

lemma request_ids_from: "i \<in> set (request_ids ts n) \<Longrightarrow> \<exists>k t. k < length ts \<and> i = fst (NewRequestID t (n + of_nat k))"
proof (induction ts arbitrary: n)
  case (Cons u ts)
  show ?case
  proof (cases "i = fst (NewRequestID u n)")
    case True
    then show ?thesis by (intro exI [of _ 0] exI [of _ u]) simp
  next
    case False
    with Cons.prems have "i \<in> set (request_ids ts (n + 1))" by (auto simp: NewRequestID_def Let_def)
    from Cons.IH [OF this] obtain k t where "k < length ts" "i = fst (NewRequestID t (n + 1 + of_nat k))" by blast
    then show ?thesis by (intro exI [of _ "Suc k"] exI [of _ t]) (simp add: add.assoc)
  qed
qed simp

lemma request_ids_distinct: "length ts \<le> 2 ^ 64 \<Longrightarrow> distinct (request_ids ts n)"
proof (induction ts arbitrary: n)
  case (Cons u ts)
  have "fst (NewRequestID u n) \<notin> set (request_ids ts (n + 1))"
  proof
    assume "fst (NewRequestID u n) \<in> set (request_ids ts (n + 1))"
    then obtain k t where k: "k < length ts" "fst (NewRequestID u n) = fst (NewRequestID t (n + 1 + of_nat k))"
      using request_ids_from by blast
    then have "n = n + (1 + of_nat k)" by (simp add: NewRequestID_inj add.assoc)
    then have "(1 + of_nat k :: 64 word) = 0" by (metis add_cancel_left_right)
    then have "(of_nat (Suc k) :: 64 word) = 0" by simp
    then have "2 ^ 64 dvd Suc k" by (simp only: word_of_nat_eq_0_iff) simp
    then show False using Cons.prems k(1) by (auto dest: dvd_imp_le)
  qed
  with Cons show ?case by (auto simp: NewRequestID_def Let_def)
qed simp

section \<open>Every identifier a handler sees\<close>

lemma visible_graphic: "list_ex (\<lambda>b. of_char b < (0x21::nat) \<or> of_char b > (0x7e::nat)) s \<longleftrightarrow> \<not> list_all graphic s"
  by (induction s) (auto simp: graphic_def)

lemma sanitize_idem: "sanitizeRequestID s = Some x \<Longrightarrow> sanitizeRequestID x = Some x"
  by (auto simp: sanitizeRequestID_def Let_def split: if_splits)

lemma FormatInt36_graphic: "list_all graphic (FormatInt36 m)"
  using digits36_chars [of "nat m"] digits36_chars [of "nat (- m)"]
  by (auto simp: FormatInt36_def list_all_iff alnum36_def graphic_def)

lemma sanitize_NewRequestID:
  assumes "in_int64 t"
  shows "sanitizeRequestID (fst (NewRequestID t n)) = Some (fst (NewRequestID t n))"
proof -
  let ?id = "FormatInt36 t @ CHR ''-'' # FormatInt36 (sint (n + 1))"
  have "in_int64 (sint (n + 1))"
    using sint_greater_eq [of "n + 1"] sint_less [of "n + 1"] by (simp add: in_int64_def int64_min_def int64_max_def)
  then have "length ?id \<le> 128" using length_FormatInt36 [of "sint (n + 1)"] length_FormatInt36 [OF assms] by simp
  moreover have ok: "list_all graphic ?id"
    using FormatInt36_graphic by (simp add: graphic_def)
  moreover have "TrimSpace ?id = ?id"
    using ok by (intro TrimSpace_graphic) (simp only: list_all_iff, simp add: hd_append)
  ultimately show ?thesis
    by (simp add: sanitizeRequestID_def NewRequestID_def Let_def visible_graphic del: list_all_append)
qed

text \<open>C22: every handler behind the middleware sees a request identifier, and it is the one in the response header: at most
  128 bytes, all of them visible ASCII, whatever the client sent, so it cannot break a log line or a header.
  The identifiers the program makes itself are pairwise different, whatever the clock does.\<close>

theorem request_id_safe:
  assumes "in_int64 t" and "length ts \<le> 2 ^ 64"
  shows "(\<exists>rid. rid \<noteq> [] \<and> length rid \<le> 128 \<and> list_all graphic rid \<and>
      (\<forall>next. RequestIDMiddleware (fst (NewRequestID t n)) next r w s =
         with_copy r (next (r\<lparr>req_RequestID := Some rid\<rparr>) (set_header HeaderName rid w) s))) \<and>
    distinct (request_ids ts n)"
proof -
  define rid where "rid = (case sanitizeRequestID (Header_Get (req_Header r) HeaderName) of
    Some x \<Rightarrow> x | None \<Rightarrow> fst (NewRequestID t n))"
  have "sanitizeRequestID rid = Some rid"
    using sanitize_idem sanitize_NewRequestID [OF assms(1), of n] by (auto simp: rid_def split: option.splits)
  then have "rid \<noteq> [] \<and> length rid \<le> 128 \<and> list_all graphic rid"
    by (auto simp: sanitizeRequestID_def Let_def visible_graphic split: if_splits)
  moreover have "\<forall>next. RequestIDMiddleware (fst (NewRequestID t n)) next r w s =
      with_copy r (next (r\<lparr>req_RequestID := Some rid\<rparr>) (set_header HeaderName rid w) s)"
    by (simp add: RequestIDMiddleware_def rid_def Let_def)
  ultimately show ?thesis using request_ids_distinct [OF assms(2)] by blast
qed

theorem request_id_safe_witness:
  "\<exists>rid. length rid \<le> 128 \<and> list_all graphic rid \<and>
     RequestIDMiddleware (fst (NewRequestID 1700000000000000000 0)) (\<lambda>r w s. (Returned (), r, w, s))
       (sample_request\<lparr>req_Header := [(''X-Request-Id'', [''two words''])]\<rparr>) fresh_writer () =
       (Returned (), sample_request\<lparr>req_Header := [(''X-Request-Id'', [''two words''])]\<rparr>, set_header HeaderName rid fresh_writer, ())"
proof -
  have "in_int64 1700000000000000000" by (simp add: in_int64_def int64_min_def int64_max_def)
  from request_id_safe [OF this, of "[]" 0 "sample_request\<lparr>req_Header := [(''X-Request-Id'', [''two words''])]\<rparr>" fresh_writer "()"]
  show ?thesis by (auto simp: with_copy_def)
qed

end
