(* ===== verification/Program.thy ===== *)
theory Program
  imports Wiring
begin

text \<open>
  The whole HTTP side of the program: the handlers that \<open>run\<close> (\<open>cmd/api/main.go\<close>) makes of its services, behind
  the routers and the chain of middleware, and what one request can do to the jobs and the queue.
\<close>

section \<open>The handlers of the program\<close>

text \<open>What the handlers use of libraries and of other goroutines: the exchange of bytes, file serving, the profile
  client, the bridge's client and its status decoder, the encoder of events, and the run of a stream.\<close>

record ('j, 'u) handler_env =
  he_exchange :: exchange
  he_content :: "string \<Rightarrow> string \<Rightarrow> Request \<Rightarrow> ResponseWriter \<Rightarrow> ResponseWriter"
  he_profile :: "int64 \<Rightarrow> string \<Rightarrow> go_error + Profile"
  he_client :: "bridge_client option"
  he_status :: "go_error \<Rightarrow> (grpc_code \<times> string) option"
  he_encode :: "event_data \<Rightarrow> go_error + string"
  he_flusher :: bool
  he_stream :: "('j, 'u) sse_run"

definition NewUserHandler :: "'j JobRepository \<Rightarrow> 'u UserRepository \<Rightarrow> ('j, 'u) handler_env \<Rightarrow> ('j, 'u) App UsersAPI" where
  "NewUserHandler jr ur he =
     \<lparr>ua_List = UsersHandler_List ur (he_exchange he), ua_Create = UsersHandler_Create jr ur (he_exchange he),
      ua_GetByID = UsersHandler_GetByID ur (he_exchange he), ua_Export = UsersHandler_Export ur (he_exchange he) (he_content he)\<rparr>"

definition NewUserV2Handler :: "'j JobRepository \<Rightarrow> 'u UserRepository \<Rightarrow> ('j, 'u) handler_env \<Rightarrow> ('j, 'u) App UsersAPI" where
  "NewUserV2Handler jr ur he =
     \<lparr>ua_List = UsersV2Handler_List ur (he_exchange he), ua_Create = UsersV2Handler_Create jr ur (he_exchange he),
      ua_GetByID = UsersV2Handler_GetByID ur (he_exchange he), ua_Export = UsersV2Handler_Export\<rparr>"

definition NewJobHandler :: "'j JobRepository \<Rightarrow> int64 \<Rightarrow> bridge_client option \<Rightarrow> ('j, 'u) handler_env \<Rightarrow> ('j, 'u) App JobsAPI" where
  "NewJobHandler jr writeTimeout client he =
     \<lparr>ja_GetByID = JobHandler_GetByID jr (he_exchange he),
      ja_Events = JobHandler_Events jr writeTimeout (he_encode he) (he_flusher he) (he_stream he),
      ja_GetByIDViaGRPC = JobHandler_GetByIDViaGRPC client (he_status he) (he_exchange he)\<rparr>"

definition NewUsersProfileHandler :: "'u UserRepository \<Rightarrow> ('j, 'u) handler_env \<Rightarrow> int64 \<Rightarrow> ('j, 'u) App app_handler" where
  "NewUsersProfileHandler ur he = GetUserProfile ur (he_profile he) (he_exchange he)"

definition program_api :: "'j JobRepository \<Rightarrow> 'u UserRepository \<Rightarrow> Config \<Rightarrow> ('j, 'u) handler_env \<Rightarrow> ('j, 'u) App API" where
  "program_api jr ur cfg he =
     \<lparr>api_users = NewUserHandler jr ur he, api_usersV2 = NewUserV2Handler jr ur he,
      api_jobs = NewJobHandler jr (sc_WriteTimeout (cfg_Streaming cfg)) (he_client he) he,
      api_usersProfile = Some (NewUsersProfileHandler ur he)\<rparr>"

definition program_handler ::
  "'j JobRepository \<Rightarrow> 'u UserRepository \<Rightarrow> Config \<Rightarrow> ('j, 'u) handler_env \<Rightarrow> wiring \<Rightarrow> string \<Rightarrow> observation \<Rightarrow>
     ('j, 'u) App guards \<Rightarrow> ('j, 'u) App http_handler \<Rightarrow> (string \<Rightarrow> ('j, 'u) App http_handler) option \<Rightarrow> ('j, 'u) App http_handler" where
  "program_handler jr ur cfg he wr fresh ob g health debug =
     server_handler wr fresh ob g health (program_api jr ur cfg he) debug"

section \<open>Effects of a request\<close>

text \<open>
  The middleware keeps its own counters and logs; everything else of the state is \<open>Counters.more\<close>.  A handler
  has the effect \<open>Q\<close> on requests \<open>P\<close> when it relates the rest of the state before and after by \<open>Q\<close>.
\<close>

definition effect ::
  "(Request \<Rightarrow> bool) \<Rightarrow> ('x \<Rightarrow> 'x \<Rightarrow> bool) \<Rightarrow>
     (Request \<Rightarrow> ResponseWriter \<Rightarrow> 'x Counters_scheme \<Rightarrow> 'o \<times> Request \<times> ResponseWriter \<times> 'x Counters_scheme) \<Rightarrow> bool" where
  "effect P Q h \<longleftrightarrow> (\<forall>r w s. P r \<longrightarrow> Q (Counters.more s) (Counters.more (snd (snd (snd (h r w s))))))"

lemma effectD: "effect P Q h \<Longrightarrow> P r \<Longrightarrow> Q (Counters.more s) (Counters.more (snd (snd (snd (h r w s)))))"
  by (simp add: effect_def)

named_theorems more_simps

lemma more_counters [more_simps]:
  "Counters.more (incAuthN k s) = Counters.more s" "Counters.more (logAuthNDenied r k s) = Counters.more s"
  "Counters.more (logAuthZDenied r z s) = Counters.more s" "Counters.more (Bulkhead_leave s) = Counters.more s"
  "Counters.more (Metrics_in_flight d s) = Counters.more s" "Counters.more (logCORSDenied r t s) = Counters.more s"
  by (simp_all add: incAuthN_def logAuthNDenied_def logAuthZDenied_def Bulkhead_leave_def Metrics_in_flight_def logCORSDenied_def
      logSecurityDecision_def)

lemma snd_with_copy [more_simps]: "snd (snd (snd (with_copy r x))) = snd (snd (snd x))"
  by (cases x) (simp add: with_copy_def)

text \<open>What the middleware relies on: doing nothing is allowed, the requests are closed under what middleware
  changes of a request, and so is logging in with the verifier.\<close>

locale request_effects =
  fixes P :: "Request \<Rightarrow> bool" and Q :: "'x \<Rightarrow> 'x \<Rightarrow> bool" and verify :: verifier
  assumes idle: "Q x x"
    and pass: "P r \<Longrightarrow> same_head r r' \<Longrightarrow> req_Principal r' = req_Principal r \<Longrightarrow> P r'"
    and login: "P r \<Longrightarrow> parseBearerToken (Header_Get (req_Header r) ''Authorization'') = Inr token \<Longrightarrow> verify token = Inr p \<Longrightarrow>
      P (r\<lparr>req_Principal := Some p\<rparr>)"
begin

lemma pass_updates:
  "P r \<Longrightarrow> P (r\<lparr>req_Pattern := p, req_PathValues := b\<rparr>)" "P r \<Longrightarrow> P (r\<lparr>req_RequestID := i\<rparr>)" "P r \<Longrightarrow> P (r\<lparr>req_Info := x\<rparr>)"
  by (rule pass; simp add: same_head_def)+

lemma effect_keep: "(\<And>r w s. Counters.more (snd (snd (snd (h r w s)))) = Counters.more s) \<Longrightarrow> effect P Q h"
  by (simp add: effect_def idle)

lemma effect_fails: "effect P Q (fails e)"
  by (rule effect_keep) (simp add: fails_def)

text \<open>A middleware that runs the next handler at most once, on a request it may pass on, has its effect.\<close>

lemma effect_around:
  assumes "effect P Q h"
    and "\<And>r w s. P r \<Longrightarrow> Counters.more (snd (snd (snd (m r w s)))) = Counters.more s \<or>
      (\<exists>r' w' s'. P r' \<and> Counters.more s' = Counters.more s \<and>
        Counters.more (snd (snd (snd (m r w s)))) = Counters.more (snd (snd (snd (h r' w' s')))))"
  shows "effect P Q m"
  unfolding effect_def
proof (intro allI impI)
  fix r w s assume r: "P r"
  show "Q (Counters.more s) (Counters.more (snd (snd (snd (m r w s)))))"
    using assms(2) [OF r, of w s] effectD [OF assms(1)] idle by metis
qed

lemma effect_through:
  assumes "effect P Q h" and "\<And>r w s. P r \<Longrightarrow> P (f r w s)" and "\<And>r w s. Counters.more (k r w s) = Counters.more s"
    and "\<And>r w s. Counters.more (snd (snd (snd (m r w s)))) = Counters.more (snd (snd (snd (h (f r w s) (g r w s) (k r w s)))))"
  shows "effect P Q m"
  using assms(2-4) by (intro effect_around [OF assms(1)]) metis

lemma effect_Recover: "effect P Q h \<Longrightarrow> effect P Q (Recover ob h)"
  by (erule effect_through [where f = "\<lambda>r w s. r" and g = "\<lambda>r w s. w" and k = "\<lambda>r w s. s"])
     (auto simp: Recover_def Let_def split: prod.splits outcome.splits)

lemma effect_Logger: "effect P Q h \<Longrightarrow> effect P Q (LoggerMiddleware ob h)"
  by (erule effect_through [where f = "\<lambda>r w s. r" and g = "\<lambda>r w s. w" and k = "\<lambda>r w s. s"])
     (auto simp: LoggerMiddleware_def split: prod.splits outcome.splits)

lemma effect_Metrics: "effect P Q h \<Longrightarrow> effect P Q (Metrics d h)"
  by (erule effect_through [where f = "\<lambda>r w s. r" and g = "\<lambda>r w s. w" and k = "\<lambda>r w s. Metrics_in_flight 1 s"])
     (auto simp: Metrics_def Let_def more_simps split: prod.splits outcome.splits option.splits)

lemma effect_TrustProxy: "effect P Q h \<Longrightarrow> effect P Q (TrustProxy p h)"
  by (erule effect_through [where f = "\<lambda>r w s. r\<lparr>req_Info := Some (proxy_request_info p r)\<rparr>" and g = "\<lambda>r w s. w" and k = "\<lambda>r w s. s"])
     (auto simp: TrustProxy_def more_simps intro: pass_updates)

lemma effect_RequestID: "effect P Q h \<Longrightarrow> effect P Q (RequestIDMiddleware fresh h)"
  by (erule effect_through [where k = "\<lambda>r w s. s"
        and f = "\<lambda>r w s. r\<lparr>req_RequestID := Some (case sanitizeRequestID (Header_Get (req_Header r) HeaderName) of Some x \<Rightarrow> x | None \<Rightarrow> fresh)\<rparr>"
        and g = "\<lambda>r w s. set_header HeaderName (case sanitizeRequestID (Header_Get (req_Header r) HeaderName) of Some x \<Rightarrow> x | None \<Rightarrow> fresh) w"])
     (auto simp: RequestIDMiddleware_def Let_def more_simps intro: pass_updates)

lemma pass_Sanitize: "P r \<Longrightarrow> P (r\<lparr>req_Header := Header_Del HeaderName (req_Header r)\<rparr>)"
proof (rule pass)
  have "CanonicalHeaderKey ''Authorization'' \<noteq> CanonicalHeaderKey HeaderName" by code_simp
  then show "same_head r (r\<lparr>req_Header := Header_Del HeaderName (req_Header r)\<rparr>)" by (simp add: same_head_def)
qed simp_all

lemma effect_Sanitize: "effect P Q h \<Longrightarrow> effect P Q (SanitizeRequestIDHeader p h)"
  unfolding effect_def by (simp add: SanitizeRequestIDHeader_def Let_def pass_Sanitize)

lemma effect_SecurityHeaders: "effect P Q h \<Longrightarrow> effect P Q (SecurityHeaders c h)"
  unfolding effect_def by (simp add: SecurityHeaders_def Let_def)

lemma effect_CORS: "effect P Q h \<Longrightarrow> effect P Q (CORS c h)"
  unfolding effect_def by (simp add: CORS_def cors_preflight_def cors_deny_def Let_def idle more_simps)

lemma effect_AppHandler: "effect P Q h \<Longrightarrow> effect P Q (AppHandler_ServeHTTP h)"
  by (erule effect_through [where f = "\<lambda>r w s. r" and g = "\<lambda>r w s. w" and k = "\<lambda>r w s. s"])
     (auto simp: AppHandler_ServeHTTP_def Let_def split: prod.splits outcome.splits option.splits)

lemma effect_HandlerToApp: "effect P Q h \<Longrightarrow> effect P Q (HandlerToApp h)"
proof -
  have "snd (snd (snd (HandlerToApp h r w s))) = snd (snd (snd (h r w s)))" for r w s
    by (cases "h r w s"; cases "fst (h r w s)") (simp_all add: HandlerToApp_def split: unit.split)
  then show "effect P Q h \<Longrightarrow> ?thesis" by (simp add: effect_def)
qed

lemma effect_Bulkhead:
  assumes "effect P Q h"
  shows "effect P Q (Bulkhead n h)"
proof (rule effect_around [OF assms])
  fix r w s assume r: "P r"
  show "Counters.more (snd (snd (snd (Bulkhead n h r w s)))) = Counters.more s \<or>
      (\<exists>r' w' s'. P r' \<and> Counters.more s' = Counters.more s \<and>
        Counters.more (snd (snd (snd (Bulkhead n h r w s)))) = Counters.more (snd (snd (snd (h r' w' s')))))"
  proof (cases "Bulkhead_enter n s")
    case (Some s1)
    then have "Counters.more s1 = Counters.more s" by (auto simp: Bulkhead_enter_def split: if_splits)
    moreover have "Counters.more (snd (snd (snd (Bulkhead n h r w s)))) = Counters.more (snd (snd (snd (h r w s1))))"
      using Some by (simp add: Bulkhead_def more_simps split: prod.splits)
    ultimately show ?thesis using r by blast
  qed (simp add: Bulkhead_def)
qed

lemma effect_Authorize: "effect P Q h \<Longrightarrow> effect P Q (Authorize rules h)"
  unfolding effect_def
  by (auto simp: Authorize_def forbid_def Let_def idle more_simps split: option.splits AccessLevel.splits)

lemma effect_Authenticate: "effect P Q h \<Longrightarrow> effect P Q (Authenticate verify h)"
  unfolding effect_def
  by (auto simp: Authenticate_def Let_def idle more_simps login split: sum.splits)

lemma effect_RateLimiter:
  assumes "effect P Q h" and "\<And>s. Counters.more (snd (lim_Reserve lim s)) = Counters.more s"
    and "\<And>s. Counters.more (lim_Cancel lim s) = Counters.more s"
  shows "effect P Q (RateLimiter lim h)"
proof -
  have lim: "Counters.more (snd (RateLimited_Process lim s)) = Counters.more s" for s
    using assms(2) [of s] assms(3) by (auto simp: RateLimited_Process_def Let_def split: prod.splits)
  have "Q (Counters.more s) (Counters.more (snd (snd (snd (RateLimiter lim h r w s)))))" if "P r" for r w s
  proof (cases "RateLimited_Process lim s")
    case (Pair e s1)
    then have "Counters.more s1 = Counters.more s" using lim [of s] by simp
    with Pair effectD [OF assms(1) that, of s1 w] idle show ?thesis by (cases e) (simp_all add: RateLimiter_def)
  qed
  then show ?thesis by (simp add: effect_def)
qed

text \<open>A multiplexer runs at most one of its handlers, one that is registered for the method of the request.\<close>

lemma effect_mux:
  assumes "\<And>pat h r. (pat, h) \<in> set m \<Longrightarrow> P r \<Longrightarrow> pat_method (parsePattern pat) \<in> set (method_keys (req_Method r)) \<Longrightarrow> effect P Q h"
  shows "effect P Q (mux_ServeHTTP m)"
proof -
  have "Q (Counters.more s) (Counters.more (snd (snd (snd (mux_ServeHTTP m r w s)))))" if "P r" for r w s
  proof (cases "findHandler m (req_Method r) (req_Path r)")
    case (Found pat binds h)
    then have "effect P Q h" using assms [OF _ that] findHandler_Found [OF Found] by blast
    from effectD [OF this pass_updates(1) [OF that]] Found show ?thesis by (simp add: mux_ServeHTTP_def)
  qed (simp_all add: mux_ServeHTTP_def Let_def idle)
  then show ?thesis by (simp add: effect_def)
qed

lemma effect_wrap:
  assumes "effect P Q h" and "gd_auth g = verify" and "\<And>s. Counters.more (snd (lim_Reserve (gd_limiter g) s)) = Counters.more s"
    and "\<And>s. Counters.more (lim_Cancel (gd_limiter g) s) = Counters.more s"
  shows "effect P Q (wrap g h)"
  unfolding wrap_def assms(2)
  by (intro effect_AppHandler effect_Bulkhead effect_RateLimiter effect_Authenticate effect_Authorize assms)

lemma effect_with_id: "(\<And>i. effect P Q (h i)) \<Longrightarrow> effect P Q (with_id h)"
  by (auto simp: effect_def with_id_def fails_def idle split: option.splits)

lemma effect_get_only: "effect P Q h \<Longrightarrow> effect P Q (get_only h)"
  by (auto simp: effect_def get_only_def fails_def idle)

lemma effect_NewRouter:
  assumes "\<And>pat h r. (pat, h) \<in> set (api_routes api) \<Longrightarrow> P r \<Longrightarrow> pat_method (parsePattern pat) \<in> set (method_keys (req_Method r)) \<Longrightarrow> effect P Q h"
    and "gd_auth g = verify" and "\<And>s. Counters.more (snd (lim_Reserve (gd_limiter g) s)) = Counters.more s"
    and "\<And>s. Counters.more (lim_Cancel (gd_limiter g) s) = Counters.more s"
  shows "effect P Q (NewRouter g api)"
proof -
  let ?m = "map (\<lambda>(pat, h). (pat, wrap g h)) (api_routes api)"
  have "effect P Q (mux_ServeHTTP ?m)"
    using assms(1) by (intro effect_mux) (auto intro!: effect_wrap [OF _ assms(2-4)])
  then show ?thesis by (auto simp: effect_def NewRouter_def WithProblemNotFound_def idle)
qed

text \<open>The whole chain of the server.\<close>

lemma effect_server:
  assumes "effect P Q (NewRouter g api)" and "effect P Q health" and "\<And>d k. debug = Some d \<Longrightarrow> effect P Q (d k)" and "gd_auth g = verify"
  shows "effect P Q (server_handler wr fresh ob g health api debug)"
proof -
  have dbg: "effect P Q (debug_handler g (NewDebugRouter d))" if "debug = Some d" for d
    unfolding debug_handler_def NewDebugRouter_def assms(4)
    by (intro effect_AppHandler effect_Authenticate effect_Authorize effect_HandlerToApp effect_mux) (use assms(3) [OF that] in auto)
  have "effect P Q (NewRoot (api_handler wr g api) health (map_option (\<lambda>d. debug_handler g (NewDebugRouter d)) debug))"
    unfolding NewRoot_def api_handler_def
    using assms(1,2) dbg by (intro effect_mux) (auto split: option.splits intro: effect_SecurityHeaders effect_CORS)
  then show ?thesis
    unfolding server_handler_def middleware_chain_def
    by (intro effect_Sanitize effect_RequestID effect_Recover effect_TrustProxy effect_Metrics effect_Logger)
qed

end

section \<open>Who can create jobs\<close>

text \<open>The principal a request proves to be.\<close>

definition verified :: "verifier \<Rightarrow> Request \<Rightarrow> Principal option" where
  "verified verify r =
     (case parseBearerToken (Header_Get (req_Header r) ''Authorization'') of
        Inl _ \<Rightarrow> None
      | Inr token \<Rightarrow> (case verify token of Inl _ \<Rightarrow> None | Inr p \<Rightarrow> Some p))"

definition app_ready :: "(MemoryJobRepository, 'u) App \<Rightarrow> bool" where
  "app_ready s \<longleftrightarrow> mj_inv (jobs_of s) \<and> mj_nextID (jobs_of s) < int64_max \<and> hub_inv (w_hub (app_world s))"

definition job_effect :: "verifier \<Rightarrow> Request \<Rightarrow> (MemoryJobRepository, 'u) App \<Rightarrow> (MemoryJobRepository, 'u) App \<Rightarrow> bool" where
  "job_effect verify r s s' \<longleftrightarrow>
     refused mj_abs s s' \<or>
     req_Method r = ''POST'' \<and> (\<exists>who inp job. verified verify r = Some who \<and> admitted mj_abs who inp job s s')"

text \<open>The same for the part of the state that is not the middleware's.\<close>

definition more_effect where
  "more_effect verify r x y \<longleftrightarrow>
     (\<forall>s s'. Counters.more s = x \<longrightarrow> Counters.more s' = y \<longrightarrow> app_ready s \<longrightarrow> job_effect verify r s s')"

lemma more_app:
  assumes "Counters.more s = Counters.more t"
  shows "app_world s = app_world t \<and> app_queue s = app_queue t"
  using assms by (cases s, cases t) simp

lemma effect_app:
  assumes "\<And>r w s. P r \<Longrightarrow> app_ready s \<Longrightarrow> job_effect verify r0 s (snd (snd (snd (h r w s))))"
  shows "effect P (more_effect verify r0) h"
  unfolding effect_def more_effect_def
proof (intro allI impI)
  fix r w s0 s s'
  assume r: "P r" and more: "Counters.more s = Counters.more s0" "Counters.more s' = Counters.more (snd (snd (snd (h r w s0))))" and ready: "app_ready s"
  have "app_ready s0" using ready more_app [OF more(1)] by (simp add: app_ready_def)
  from assms [OF r this, of w] show "job_effect verify r0 s s'"
    using more_app [OF more(1)] more_app [OF more(2)] by (simp add: job_effect_def refused_def admitted_def)
qed

text \<open>The requests that middleware makes of \<open>r0\<close>.\<close>

definition derived :: "verifier \<Rightarrow> Request \<Rightarrow> Request \<Rightarrow> bool" where
  "derived verify r0 r \<longleftrightarrow> same_head r0 r \<and> (req_Principal r = None \<or> req_Principal r = verified verify r0)"

lemma job_effects: "request_effects (derived verify r0) (more_effect verify r0) verify"
proof
  show "more_effect verify r0 x x" for x
    by (auto simp: more_effect_def job_effect_def refused_def dest!: more_app)
  show "derived verify r0 r \<Longrightarrow> same_head r r' \<Longrightarrow> req_Principal r' = req_Principal r \<Longrightarrow> derived verify r0 r'" for r r'
    by (simp add: derived_def same_head_def)
  show "derived verify r0 (r\<lparr>req_Principal := Some p\<rparr>)"
    if "derived verify r0 r" "parseBearerToken (Header_Get (req_Header r) ''Authorization'') = Inr token" "verify token = Inr p" for r token p
    using that by (auto simp: derived_def same_head_def verified_def)
qed

interpretation je: request_effects "derived verify r0" "more_effect verify r0" verify for verify r0
  by (rule job_effects)

lemma job_effect_none: "refused mj_abs s s' \<Longrightarrow> job_effect verify r s s'"
  by (simp add: job_effect_def)

lemma async_effect:
  assumes "app_ready s" and "req_Principal r = None \<or> req_Principal r = verified verify r0" and "req_Method r0 = ''POST''"
  shows "job_effect verify r0 s (snd (snd (snd (async_create memory_jobs ex inp r w s))))"
proof (cases "req_Principal r")
  case None
  then show ?thesis by (simp add: async_create_def fails_def job_effect_def refused_def)
next
  case (Some who)
  from memory_async_admission [OF _ _ _ Some, of s ex inp w] assms Some show ?thesis
    by (auto simp: app_ready_def job_effect_def)
qed

lemma sync_effect: "job_effect verify r0 s (snd (snd (snd (sync_create ur ex loc repr inp r w s))))"
  by (auto simp: sync_create_def fails_def replies_def refused_def intro!: job_effect_none split: prod.splits sum.splits)

lemma fails_effect: "job_effect verify r0 s (snd (snd (snd (fails e r w s))))"
  by (simp add: fails_def refused_def job_effect_none)

lemma effect_Create:
  assumes "req_Method r0 = ''POST''"
  shows "effect (derived verify r0) (more_effect verify r0) (UsersHandler_Create memory_jobs ur ex)"
    "effect (derived verify r0) (more_effect verify r0) (UsersV2Handler_Create memory_jobs ur ex)"
proof -
  have async: "job_effect verify r0 s (snd (snd (snd (async_create memory_jobs ex inp (LimitBody r n) w s))))"
    if "derived verify r0 r" "app_ready s" for r n inp w s
    using that assms by (intro async_effect) (auto simp: derived_def LimitBody_def)
  show "effect (derived verify r0) (more_effect verify r0) (UsersHandler_Create memory_jobs ur ex)"
    by (rule effect_app) (simp add: UsersHandler_Create_def Let_def async sync_effect fails_effect split: option.splits sum.splits)
  show "effect (derived verify r0) (more_effect verify r0) (UsersV2Handler_Create memory_jobs ur ex)"
    by (rule effect_app) (simp add: UsersV2Handler_Create_def Let_def async sync_effect fails_effect split: option.splits sum.splits)
qed

text \<open>Everything else only reads jobs.\<close>

lemma refused_updates [simp]: "refused mj_abs s (with_users us s)" "refused mj_abs s s"
  by (simp_all add: refused_def with_users_def)

lemma own_user_only_effect:
  "(\<And>r w s. refused mj_abs s (snd (snd (snd (h r w s))))) \<Longrightarrow> refused mj_abs s (snd (snd (snd (own_user_only uid h r w s))))"
  by (auto simp: own_user_only_def fails_def split: option.splits)

lemma effect_reads_users:
  "effect P (more_effect verify r0) (UsersHandler_List ur ex)" "effect P (more_effect verify r0) (UsersV2Handler_List ur ex)"
  "effect P (more_effect verify r0) (UsersHandler_GetByID ur ex i)"
  "effect P (more_effect verify r0) (UsersHandler_Export ur ex content i)"
  "effect P (more_effect verify r0) (GetUserProfile ur fetch ex i)"
proof -
  show "effect P (more_effect verify r0) (UsersHandler_List ur ex)" "effect P (more_effect verify r0) (UsersV2Handler_List ur ex)"
    by (rule effect_app, auto intro!: job_effect_none simp: UsersHandler_List_def UsersV2Handler_List_def fails_def replies_def split: prod.splits sum.splits)+
  show "effect P (more_effect verify r0) (UsersHandler_GetByID ur ex i)"
    by (rule effect_app, auto intro!: job_effect_none own_user_only_effect simp: UsersHandler_GetByID_def fails_def replies_def split: prod.splits sum.splits)
  show "effect P (more_effect verify r0) (UsersHandler_Export ur ex content i)"
    by (rule effect_app, auto intro!: job_effect_none own_user_only_effect simp: UsersHandler_Export_def fails_def replies_def Let_def split: prod.splits sum.splits)
  show "effect P (more_effect verify r0) (GetUserProfile ur fetch ex i)"
    by (rule effect_app, auto intro!: job_effect_none own_user_only_effect simp: GetUserProfile_def fails_def replies_def Let_def split: prod.splits sum.splits)
qed

lemma own_job_only_effect:
  assumes "app_ready s" and "\<And>job r w s. refused mj_abs s (snd (snd (snd (h job r w s))))"
  shows "refused mj_abs s (snd (snd (snd (own_job_only memory_jobs jid h r w s))))"
proof -
  have get: "JobService_GetByID memory_jobs jid (jobs_of s) = (res, js) \<Longrightarrow> js = jobs_of s" for res js
    using mem.get [of "jobs_of s" jid] assms(1) by (auto simp: JobService_GetByID_def app_ready_def)
  have same: "with_jobs (jobs_of s) s = s" by (simp add: with_jobs_def)
  show ?thesis
    using assms(2) by (auto simp: own_job_only_def fails_def same dest!: get split: prod.splits sum.splits option.splits)
qed

text \<open>A stream runs beside the rest of the program; its own effect is what it does when the rest leaves jobs and
  queue alone.\<close>

definition quiet_stream :: "(MemoryJobRepository, 'u) sse_run \<Rightarrow> bool" where
  "quiet_stream sr \<longleftrightarrow> (\<forall>s. refused mj_abs s (run_between sr s))"

lemma refused_trans: "refused m s t \<Longrightarrow> refused m t u \<Longrightarrow> refused m s u"
  by (simp add: refused_def)

lemma refused_logs [simp]:
  "refused m t (sse_log l msg ev jid r attrs s) = refused m t s" "refused m t (set_hub h s) = refused m t s"
  "refused m (sse_log l msg ev jid r attrs s) t = refused m s t" "refused m (set_hub h s) t = refused m s t"
  by (simp_all add: refused_def sse_log_def set_hub_def)

lemma sse_stream_effect:
  assumes "quiet_stream sr"
  shows "refused mj_abs s (snd (snd (snd (sse_stream wt enc fl sr jid r w s))))"
proof -
  have "refused mj_abs s (run_between sr (sse_log l msg ev jid r attrs (set_hub h s)))" for l msg ev attrs h
    using assms by (metis quiet_stream_def refused_logs(3,4))
  then show ?thesis
    by (auto simp: sse_stream_def fails_def Let_def logSSEWriteFailure_def log_sse_closed_def split: option.splits prod.splits sum.splits)
qed

lemma effect_reads_jobs:
  "effect P (more_effect verify r0) (JobHandler_GetByID memory_jobs ex i)"
  "quiet_stream sr \<Longrightarrow> effect P (more_effect verify r0) (JobHandler_Events memory_jobs wt enc fl sr i)"
  "effect P (more_effect verify r0) (JobHandler_GetByIDViaGRPC client status ex i)"
proof -
  show "effect P (more_effect verify r0) (JobHandler_GetByID memory_jobs ex i)"
    by (rule effect_app) (auto intro!: job_effect_none own_job_only_effect simp: JobHandler_GetByID_def replies_def)
  show "effect P (more_effect verify r0) (JobHandler_Events memory_jobs wt enc fl sr i)" if "quiet_stream sr"
    by (rule effect_app) (auto intro!: job_effect_none own_job_only_effect sse_stream_effect that simp: JobHandler_Events_def)
  show "effect P (more_effect verify r0) (JobHandler_GetByIDViaGRPC client status ex i)"
    by (rule effect_app) (auto intro!: job_effect_none simp: JobHandler_GetByIDViaGRPC_def fails_def replies_def split: option.splits sum.splits)
qed

lemma effect_users_collection:
  "effect (derived verify r0) (more_effect verify r0) (users_collection (NewUserHandler memory_jobs ur he))"
proof (cases "req_Method r0 = ''POST''")
  case True
  show ?thesis
    unfolding effect_def
    using effectD [OF effect_Create(1) [OF True, of verify ur "he_exchange he"]] effectD [OF effect_reads_users(1) [of "derived verify r0" verify r0 ur "he_exchange he"]]
    by (simp add: users_collection_def NewUserHandler_def fails_def je.idle)
next
  case False
  then have "derived verify r0 r \<Longrightarrow> req_Method r \<noteq> ''POST''" for r by (simp add: derived_def same_head_def)
  then show ?thesis
    unfolding effect_def
    using effectD [OF effect_reads_users(1) [of "derived verify r0" verify r0 ur "he_exchange he"]]
    by (simp add: users_collection_def NewUserHandler_def fails_def je.idle)
qed

text \<open>The API of the in-memory program, with any profile handler.\<close>

definition memory_api where
  "memory_api ur wt client prof he =
     \<lparr>api_users = NewUserHandler memory_jobs ur he, api_usersV2 = NewUserV2Handler memory_jobs ur he,
      api_jobs = NewJobHandler memory_jobs wt client he, api_usersProfile = prof\<rparr>"

lemma effect_api_routes:
  assumes "quiet_stream (he_stream he)" and "\<forall>h i. prof = Some h \<longrightarrow> effect (derived verify r0) (more_effect verify r0) (h i)"
  shows "list_all (\<lambda>(pat, h). pat = ''POST /api/v1/users'' \<and> h = UsersHandler_Create memory_jobs ur (he_exchange he) \<or>
      pat = ''POST /api/v2/users'' \<and> h = UsersV2Handler_Create memory_jobs ur (he_exchange he) \<or>
      effect (derived verify r0) (more_effect verify r0) h) (api_routes (memory_api ur wt client prof he))"
proof -
  have v1: "api_users (memory_api ur wt client prof he) = NewUserHandler memory_jobs ur he" by (simp add: memory_api_def)
  have none: "effect (derived verify r0) (more_effect verify r0) method_not_allowed"
    unfolding effect_def method_not_allowed_def using effectD [OF je.effect_fails] by blast
  show ?thesis
    using assms(2)
    by (simp add: api_routes_def v1 effect_users_collection none)
       (simp add: memory_api_def NewUserHandler_def NewUserV2Handler_def NewJobHandler_def
         je.effect_get_only je.effect_with_id effect_reads_users effect_reads_jobs assms(1) split: option.split)
qed

lemma effect_memory_router:
  assumes "quiet_stream (he_stream he)" and "\<forall>h i. prof = Some h \<longrightarrow> effect (derived (gd_auth g) r0) (more_effect (gd_auth g) r0) (h i)"
    and "\<And>s. Counters.more (snd (lim_Reserve (gd_limiter g) s)) = Counters.more s"
    and "\<And>s. Counters.more (lim_Cancel (gd_limiter g) s) = Counters.more s"
  shows "effect (derived (gd_auth g) r0) (more_effect (gd_auth g) r0) (NewRouter g (memory_api ur wt client prof he))"
proof (rule je.effect_NewRouter [OF _ refl assms(3,4)])
  fix pat h r
  assume route: "(pat, h) \<in> set (api_routes (memory_api ur wt client prof he))" and r: "derived (gd_auth g) r0 r"
    and key: "pat_method (parsePattern pat) \<in> set (method_keys (req_Method r))"
  have post: "pat_method (parsePattern ''POST /api/v1/users'') = Some ''POST''" "pat_method (parsePattern ''POST /api/v2/users'') = Some ''POST''"
    by code_simp+
  have meth: "req_Method r = req_Method r0" using r by (simp add: derived_def same_head_def)
  consider "pat = ''POST /api/v1/users''" "h = UsersHandler_Create memory_jobs ur (he_exchange he)"
    | "pat = ''POST /api/v2/users''" "h = UsersV2Handler_Create memory_jobs ur (he_exchange he)"
    | "effect (derived (gd_auth g) r0) (more_effect (gd_auth g) r0) h"
    using effect_api_routes [OF assms(1,2), of ur wt client] route unfolding list_all_iff by blast
  then show "effect (derived (gd_auth g) r0) (more_effect (gd_auth g) r0) h"
  proof cases
    case 1
    then have "req_Method r0 = ''POST''" using key post(1) meth by (auto simp: method_keys_def split: if_splits)
    with 1 show ?thesis by (simp add: effect_Create(1))
  next
    case 2
    then have "req_Method r0 = ''POST''" using key post(2) meth by (auto simp: method_keys_def split: if_splits)
    with 2 show ?thesis by (simp add: effect_Create(2))
  qed simp
qed

text \<open>What an allowed effect means for the states before and after.\<close>

lemma more_effectD:
  assumes "more_effect verify r (Counters.more s) (Counters.more s')" and "app_ready s"
  shows "mj_abs (jobs_of s') = mj_abs (jobs_of s) \<and> q_ch (app_queue s') = q_ch (app_queue s) \<or>
    req_Method r = ''POST'' \<and>
    (\<exists>token who inp job. parseBearerToken (Header_Get (req_Header r) ''Authorization'') = Inr token \<and> verify token = Inr who \<and>
       admitted mj_abs who inp job s s')"
  using assms by (auto simp: more_effect_def job_effect_def refused_def verified_def split: sum.splits)

text \<open>C2: Through the whole program, the middleware, the routers and the real handlers over the in-memory repositories,
  one request changes jobs or queue in at most one way: it is a \<open>POST\<close> with a bearer token that the verifier accepts,
  exactly one new queued job is stored, owned by the token's principal, and exactly its item is queued.  Every other
  request, whatever its method, path, headers and outcome, leaves the stored jobs and the queued items as they were.\<close>

theorem request_job_effects:
  assumes "app_ready s" and "req_Principal r = None" and "quiet_stream (he_stream he)"
    and "\<And>s. Counters.more (snd (lim_Reserve (gd_limiter g) s)) = Counters.more s"
    and "\<And>s. Counters.more (lim_Cancel (gd_limiter g) s) = Counters.more s"
    and "\<And>r w s. Counters.more (snd (snd (snd (health r w s)))) = Counters.more s"
    and "\<And>d k r w s. debug = Some d \<Longrightarrow> Counters.more (snd (snd (snd (d k r w s)))) = Counters.more s"
    and "program_handler memory_jobs ur cfg he wr fresh ob g health debug r w s = (out, r', w', s')"
  shows "mj_abs (jobs_of s') = mj_abs (jobs_of s) \<and> q_ch (app_queue s') = q_ch (app_queue s) \<or>
    req_Method r = ''POST'' \<and>
    (\<exists>token who inp job. parseBearerToken (Header_Get (req_Header r) ''Authorization'') = Inr token \<and> gd_auth g token = Inr who \<and>
       admitted mj_abs who inp job s s')"
proof -
  let ?P = "derived (gd_auth g) r" and ?Q = "more_effect (gd_auth g) r"
  have "effect ?P ?Q (NewRouter g (program_api memory_jobs ur cfg he))"
    using effect_memory_router [OF assms(3) _ assms(4,5), of "Some (NewUsersProfileHandler ur he)" r ur "sc_WriteTimeout (cfg_Streaming cfg)" "he_client he"]
    by (simp add: program_api_def memory_api_def NewUsersProfileHandler_def effect_reads_users)
  moreover have "effect ?P ?Q health" by (rule je.effect_keep) (rule assms(6))
  moreover have "effect ?P ?Q (d k)" if "debug = Some d" for d k by (rule je.effect_keep) (rule assms(7) [OF that])
  ultimately have "effect ?P ?Q (program_handler memory_jobs ur cfg he wr fresh ob g health debug)"
    unfolding program_handler_def by (intro je.effect_server) auto
  moreover have "?P r" using assms(2) by (simp add: derived_def same_head_def)
  ultimately have "?Q (Counters.more s) (Counters.more s')"
    using effectD [of ?P ?Q "program_handler memory_jobs ur cfg he wr fresh ob g health debug" r s w] assms(8) by simp
  then show ?thesis by (rule more_effectD [OF _ assms(1)])
qed

definition sample_handlers :: "(MemoryJobRepository, MemoryUserRepository) handler_env" where
  "sample_handlers = \<lparr>he_exchange = sample_exchange, he_content = \<lambda>_ _ _ w. w, he_profile = \<lambda>_ _. Inl (OpaqueError []),
     he_client = None, he_status = \<lambda>_. None, he_encode = \<lambda>_. Inr [], he_flusher = True,
     he_stream = \<lparr>run_between = \<lambda>s. s, run_cases = [], run_closing = Sentinel ContextCanceled, run_elapsed = 0\<rparr>\<rparr>"

definition open_guards :: "(MemoryJobRepository, MemoryUserRepository) App guards" where
  "open_guards = \<lparr>gd_limiter = \<lparr>lim_Reserve = \<lambda>s. ((True, 0), s), lim_Cancel = \<lambda>s. s\<rparr>, gd_bulkhead = 1,
     gd_auth = (\<lambda>t. if t = ''good'' then Inr \<lparr>pr_UserID = 9, pr_Role = RoleAdmin\<rparr> else Inl (OpaqueError [])),
     gd_rbac = (case NewAuthorizeAPI DefaultPolicy of Inr rules \<Rightarrow> rules | Inl _ \<Rightarrow> [])\<rparr>"

definition sample_program :: "Request \<Rightarrow> unit outcome \<times> Request \<times> ResponseWriter \<times> (MemoryJobRepository, MemoryUserRepository) App" where
  "sample_program r = program_handler memory_jobs memory_users defaultConfig sample_handlers sample_wiring ''rid'' sample_observation open_guards
     (LivenessHandler (\<lambda>_ _. [])) None r fresh_writer sample_app"

text \<open>A creation without credentials.\<close>

definition sample_post :: Request where
  "sample_post = sample_request\<lparr>req_Method := ''POST'', req_Path := ''/api/v1/users'', req_RawQuery := ''async=1'',
     req_Header := [(''Content-Type'', [''application/json''])]\<rparr>"

theorem request_job_effects_witness:
  "q_ch (app_queue (snd (snd (snd (sample_program sample_post))))) = q_ch (app_queue sample_app) \<and>
   mj_abs (jobs_of (snd (snd (snd (sample_program sample_post))))) = mj_abs (jobs_of sample_app)"
proof -
  obtain out r' w' s' where run: "program_handler memory_jobs memory_users defaultConfig sample_handlers sample_wiring ''rid'' sample_observation
      open_guards (LivenessHandler (\<lambda>_ _. [])) None sample_post fresh_writer sample_app = (out, r', w', s')"
    by (metis surj_pair)
  have "mj_nextID sample_repo < int64_max" by code_simp
  then have ready: "app_ready sample_app"
    using sample_repo_inv hub_inv_New [OF sample_hub_New] by (simp add: app_ready_def sample_app_def sample_world_def)
  have quiet: "quiet_stream (he_stream sample_handlers)" by (simp add: quiet_stream_def sample_handlers_def)
  have "isl (parseBearerToken (Header_Get (req_Header sample_post) ''Authorization''))" by code_simp
  then have "\<nexists>token. parseBearerToken (Header_Get (req_Header sample_post) ''Authorization'') = Inr token" by auto
  moreover have "req_Principal sample_post = None" by (simp add: sample_post_def sample_request_def)
  note request_job_effects [OF ready this quiet _ _ _ _ run]
  ultimately have "mj_abs (jobs_of s') = mj_abs (jobs_of sample_app) \<and> q_ch (app_queue s') = q_ch (app_queue sample_app)"
    by (simp add: open_guards_def LivenessHandler_def)
  with run show ?thesis by (simp add: sample_program_def)
qed

end
