(* ===== verification/Testkit.thy ===== *)
theory Testkit
  imports Complex_Main Program
begin

text \<open>
  The test kit (\<open>internal/testkit/testkit.go\<close>): the application that the tests of the repository run, with
  in-memory repositories, a stub verifier and a shorter chain of middleware.  The theory shows what those
  tests rely on: requests without credentials act as the configured principal, and the requests they make
  change jobs and queue only as they do through the real chain.
\<close>

section \<open>Options\<close>

type_synonym test_app = "(MemoryJobRepository, MemoryUserRepository) App"

record options =
  o_queueSize :: int64
  o_rps :: rat
  o_burst :: int64
  o_bulkhead :: int64
  o_usersProfile :: "(int64 \<Rightarrow> test_app app_handler) option"
  o_health :: "test_app http_handler"
  o_debug :: "test_app http_handler option"
  o_principal :: Principal
  o_authToken :: string
  o_policy :: "RouteRule list"
  o_injectAuth :: bool
  o_corsConfig :: "CORSConfig option"

type_synonym option_fn = "options \<Rightarrow> options"

definition WithQueueSize :: "int64 \<Rightarrow> option_fn" where
  "WithQueueSize n opt = opt\<lparr>o_queueSize := n\<rparr>"

definition WithRateLimit :: "rat \<Rightarrow> int64 \<Rightarrow> option_fn" where
  "WithRateLimit rps burst opt = opt\<lparr>o_rps := rps, o_burst := burst\<rparr>"

definition WithBulkhead :: "int64 \<Rightarrow> option_fn" where
  "WithBulkhead maxParallel opt = opt\<lparr>o_bulkhead := maxParallel\<rparr>"

definition WithUsersProfile :: "(int64 \<Rightarrow> test_app app_handler) option \<Rightarrow> option_fn" where
  "WithUsersProfile ph opt = opt\<lparr>o_usersProfile := ph\<rparr>"

definition WithHealth :: "test_app http_handler \<Rightarrow> option_fn" where
  "WithHealth h opt = opt\<lparr>o_health := h\<rparr>"

definition WithDebug :: "test_app http_handler option \<Rightarrow> option_fn" where
  "WithDebug h opt = opt\<lparr>o_debug := h\<rparr>"

definition WithoutAuthInjection :: option_fn where
  "WithoutAuthInjection opt = opt\<lparr>o_injectAuth := False\<rparr>"

definition WithPrincipalUser :: "int64 \<Rightarrow> option_fn" where
  "WithPrincipalUser uid opt = opt\<lparr>o_principal := \<lparr>pr_UserID = uid, pr_Role = RoleUser\<rparr>\<rparr>"

definition WithPrincipalAdmin :: "int64 \<Rightarrow> option_fn" where
  "WithPrincipalAdmin uid opt = opt\<lparr>o_principal := \<lparr>pr_UserID = uid, pr_Role = RoleAdmin\<rparr>\<rparr>"

definition WithCORSAllowlist :: "string list \<Rightarrow> option_fn" where
  "WithCORSAllowlist origins opt =
     opt\<lparr>o_corsConfig := Some
       \<lparr>co_AllowedOrigins = origins, co_AllowedMethods = [''GET'', ''POST'', ''OPTIONS''],
        co_AllowedHeaders = [''Authorization'', ''Content-Type'', ''If-None-Match'', ''X-Request-Id''],
        co_AllowCredentials = False, co_MaxAge = 5 * time_Minute\<rparr>\<rparr>"

definition defaultOptions :: options where
  "defaultOptions =
     \<lparr>o_queueSize = 10, o_rps = 1000, o_burst = 1000, o_bulkhead = 1000, o_usersProfile = None,
      o_health = mux_ServeHTTP [], o_debug = None, o_principal = \<lparr>pr_UserID = 1, pr_Role = RoleAdmin\<rparr>,
      o_authToken = ''test'', o_policy = DefaultPolicy, o_injectAuth = True, o_corsConfig = None\<rparr>"

section \<open>The application\<close>

record StubVerifier =
  sv_P :: Principal
  sv_Token :: string

definition StubVerifier_Verify :: "StubVerifier \<Rightarrow> verifier" where
  "StubVerifier_Verify v token =
     (if sv_Token v \<noteq> [] \<and> token \<noteq> sv_Token v then Inl (AuthNError AuthNInvalid None) else Inr (sv_P v))"

definition injectBearer :: "string \<Rightarrow> 's http_handler \<Rightarrow> 's http_handler" where
  "injectBearer token next r w s =
     (if Header_Get (req_Header r) ''Authorization'' = [] \<and> token \<noteq> []
      then next (r\<lparr>req_Header := Header_Set ''Authorization'' (''Bearer '' @ token) (req_Header r)\<rparr>) w s
      else next r w s)"

text \<open>The metrics are those of the process: \<open>s0\<close> is the state they are in.  A negative queue size or bulkhead
  panics (\<open>None\<close>).\<close>

definition newApp :: "test_app \<Rightarrow> option_fn list \<Rightarrow> (test_app \<times> nat \<times> options) option" where
  "newApp s0 opts =
     (let opt = foldl (\<lambda>c f. f c) defaultOptions opts in
      case Queue.New (o_queueSize opt) of
        None \<Rightarrow> None
      | Some q \<Rightarrow>
          (case NewBulkhead (o_bulkhead opt) of
             None \<Rightarrow> None
           | Some bh \<Rightarrow>
               (case NewHub 16 of
                  None \<Rightarrow> None
                | Some hub \<Rightarrow>
                    Some (s0\<lparr>bulkheadSem := 0,
                        app_world := (app_world s0)\<lparr>w_jobs := NewMemoryJobRepository, w_users := NewMemoryUserRepository, w_hub := hub\<rparr>,
                        app_queue := q\<rparr>, bh, opt))))"

definition test_api :: "options \<Rightarrow> (MemoryJobRepository, MemoryUserRepository) handler_env \<Rightarrow> test_app API" where
  "test_api opt he =
     \<lparr>api_users = NewUserHandler memory_jobs memory_users he, api_usersV2 = NewUserV2Handler memory_jobs memory_users he,
      api_jobs = NewJobHandler memory_jobs 0 None he, api_usersProfile = o_usersProfile opt\<rparr>"

text \<open>The guarded API with CORS, if configured, and security headers, in both constructors; \<open>Inl\<close> is what \<open>t.Fatalf\<close>
  reports.\<close>

definition test_router ::
  "options \<Rightarrow> nat \<Rightarrow> test_app limiter \<Rightarrow> (MemoryJobRepository, MemoryUserRepository) handler_env \<Rightarrow> go_error + test_app http_handler" where
  "test_router opt bh rl he =
     (case NewAuthAPI (Some (StubVerifier_Verify \<lparr>sv_P = o_principal opt, sv_Token = o_authToken opt\<rparr>)) of
        Inl e \<Rightarrow> Inl (WrapError ''NewAuthAPI'' e)
      | Inr auth \<Rightarrow>
          (case NewAuthorizeAPI (o_policy opt) of
             Inl e \<Rightarrow> Inl (WrapError ''NewAuthorizeAPI'' e)
           | Inr rbac \<Rightarrow>
               (let api = NewRouter \<lparr>gd_limiter = rl, gd_bulkhead = bh, gd_auth = auth, gd_rbac = rbac\<rparr> (test_api opt he);
                    corsed = (case o_corsConfig opt of None \<Rightarrow> api | Some c \<Rightarrow> CORS (NewCORS c) api)
                in Inr (SecurityHeaders \<lparr>sh_Enable = True, sh_ReferrerPolicy = ''no-referrer'',
                          sh_HSTS = \<lparr>hs_Enable = False, hs_MaxAge = 0\<rparr>\<rparr> corsed))))"

definition test_inject :: "options \<Rightarrow> test_app http_handler \<Rightarrow> test_app http_handler" where
  "test_inject opt h = (if o_injectAuth opt \<and> o_authToken opt \<noteq> [] then injectBearer (o_authToken opt) h else h)"

text \<open>\<open>mk\<close> is the library's rate limiter.\<close>

definition NewUserRouter ::
  "(rat \<Rightarrow> int64 \<Rightarrow> test_app limiter) \<Rightarrow> (MemoryJobRepository, MemoryUserRepository) handler_env \<Rightarrow> string \<Rightarrow> test_app \<Rightarrow>
     option_fn list \<Rightarrow> (go_error + test_app http_handler \<times> test_app) option" where
  "NewUserRouter mk he fresh s0 opts =
     (case newApp s0 opts of
        None \<Rightarrow> None
      | Some (s, bh, opt) \<Rightarrow>
          (case test_router opt bh (mk (o_rps opt) (o_burst opt)) he of
             Inl e \<Rightarrow> Some (Inl e)
           | Inr h \<Rightarrow> Some (Inr (test_inject opt (RequestIDMiddleware fresh h), s))))"

definition testkit_NewServer ::
  "(rat \<Rightarrow> int64 \<Rightarrow> test_app limiter) \<Rightarrow> (MemoryJobRepository, MemoryUserRepository) handler_env \<Rightarrow> string \<Rightarrow> observation \<Rightarrow> test_app \<Rightarrow>
     option_fn list \<Rightarrow> (go_error + test_app http_handler \<times> test_app) option" where
  "testkit_NewServer mk he fresh ob s0 opts =
     (case newApp s0 opts of
        None \<Rightarrow> None
      | Some (s, bh, opt) \<Rightarrow>
          (case test_router opt bh (mk (o_rps opt) (o_burst opt)) he of
             Inl e \<Rightarrow> Some (Inl e)
           | Inr h \<Rightarrow>
               Some (Inr (test_inject opt
                 (RequestIDMiddleware fresh
                   (Recover ob (Metrics (ob_elapsed ob) (LoggerMiddleware ob (Recover ob (NewRoot h (o_health opt) (o_debug opt))))))), s))))"

definition MustMediaType :: "ResponseWriter \<Rightarrow> string option" where
  "MustMediaType rec = ParseMediaType (Header_Get (rw_Header rec) ''Content-Type'')"

definition testkit_CreateUser :: "string \<Rightarrow> string \<Rightarrow> int64 \<Rightarrow> CreateUserInput" where
  "testkit_CreateUser name email age = \<lparr>cui_Name = name, cui_Age = age, cui_Email = email\<rparr>"

section \<open>What the tests rely on\<close>

text \<open>With the default options a request without credentials comes from the administrator.\<close>

lemma default_principal:
  assumes "Header_Get (req_Header r) ''Authorization'' = []"
  shows "\<exists>r'. test_inject defaultOptions h r w s = h r' w s \<and>
    verified (StubVerifier_Verify \<lparr>sv_P = o_principal defaultOptions, sv_Token = o_authToken defaultOptions\<rparr>) r' =
      Some \<lparr>pr_UserID = 1, pr_Role = RoleAdmin\<rparr>"
proof -
  have "parseBearerToken ''Bearer test'' = Inr ''test''" by code_simp
  with assms show ?thesis
    by (intro exI [of _ "r\<lparr>req_Header := Header_Set ''Authorization'' ''Bearer test'' (req_Header r)\<rparr>"])
       (simp add: test_inject_def injectBearer_def defaultOptions_def verified_def StubVerifier_Verify_def)
qed

text \<open>A request with credentials of its own is not changed, and a wrong token is refused.\<close>

lemma own_credentials:
  assumes "Header_Get (req_Header r) ''Authorization'' \<noteq> []"
  shows "test_inject opt h r w s = h r w s"
  using assms by (simp add: test_inject_def injectBearer_def)

lemma newApp_fresh:
  assumes "newApp s0 opts = Some (s, bh, opt)"
  shows "app_ready s \<and> mj_abs (jobs_of s) = Map.empty \<and> q_ch (app_queue s) = [] \<and> 0 \<le> o_queueSize opt \<and> bh = nat (o_bulkhead opt)"
proof -
  have inv: "mj_inv NewMemoryJobRepository" "mj_nextID NewMemoryJobRepository < int64_max" "mj_abs NewMemoryJobRepository = Map.empty"
    by (simp_all add: mj_inv_def mj_abs_def NewMemoryJobRepository_def in_int64_def int64_min_def int64_max_def fun_eq_iff)
  show ?thesis
    using assms inv hub_inv_New [of 16]
    by (auto simp: newApp_def app_ready_def Queue.New_def NewBulkhead_def Let_def split: option.splits if_splits)
qed

text \<open>A request through the test server to which nothing is injected changes jobs and queue at most by one new job of
  the configured principal.\<close>

lemma testkit_job_effects:
  assumes server: "testkit_NewServer mk he fresh ob s0 opts = Some (Inr (h, s))"
    and opt: "newApp s0 opts = Some (s, bh, opt)" "Header_Get (req_Header r) ''Authorization'' \<noteq> [] \<or> \<not> o_injectAuth opt \<or> o_authToken opt = []"
    and quiet: "quiet_stream (he_stream he)" "req_Principal r = None" "\<And>p i. o_usersProfile opt = Some p \<Longrightarrow>
        (\<And>r w s. Counters.more (snd (snd (snd (p i r w s)))) = Counters.more s)"
      "\<And>rps b s. Counters.more (snd (lim_Reserve (mk rps b) s)) = Counters.more s" "\<And>rps b s. Counters.more (lim_Cancel (mk rps b) s) = Counters.more s"
      "\<And>r w s. Counters.more (snd (snd (snd (o_health opt r w s)))) = Counters.more s"
      "\<And>d r w s. o_debug opt = Some d \<Longrightarrow> Counters.more (snd (snd (snd (d r w s)))) = Counters.more s"
    and run: "h r w t = (out, r', w', t')" "app_ready t"
  shows "mj_abs (jobs_of t') = mj_abs (jobs_of t) \<and> q_ch (app_queue t') = q_ch (app_queue t) \<or>
    req_Method r = ''POST'' \<and> (\<exists>inp job. admitted mj_abs (o_principal opt) inp job t t')"
proof -
  let ?v = "StubVerifier_Verify \<lparr>sv_P = o_principal opt, sv_Token = o_authToken opt\<rparr>"
  let ?P = "derived ?v r" and ?Q = "more_effect ?v r"
  obtain api where api: "test_router opt bh (mk (o_rps opt) (o_burst opt)) he = Inr api"
    and h: "h = test_inject opt (RequestIDMiddleware fresh
        (Recover ob (Metrics (ob_elapsed ob) (LoggerMiddleware ob (Recover ob (NewRoot api (o_health opt) (o_debug opt)))))))"
    using server opt(1) by (auto simp: testkit_NewServer_def split: sum.splits)
  obtain rbac where rbac: "NewAuthorizeAPI (o_policy opt) = Inr rbac"
    using api by (auto simp: test_router_def NewAuthAPI_def split: sum.splits)
  let ?g = "\<lparr>gd_limiter = mk (o_rps opt) (o_burst opt), gd_bulkhead = bh, gd_auth = ?v, gd_rbac = rbac\<rparr>"
  have "effect (derived (gd_auth ?g) r) (more_effect (gd_auth ?g) r) (NewRouter ?g (memory_api memory_users 0 None (o_usersProfile opt) he))"
  proof (rule effect_memory_router [OF quiet(1)])
    show "\<forall>p i. o_usersProfile opt = Some p \<longrightarrow> effect (derived (gd_auth ?g) r) (more_effect (gd_auth ?g) r) (p i)"
      using quiet(3) by (auto intro!: je.effect_keep)
  qed (simp_all add: quiet(4,5))
  then have "effect ?P ?Q api"
    using api rbac by (auto simp: test_router_def NewAuthAPI_def test_api_def memory_api_def Let_def
        intro!: je.effect_SecurityHeaders je.effect_CORS split: option.splits)
  moreover have "effect ?P ?Q (o_health opt)" by (rule je.effect_keep) (rule quiet(6))
  moreover have "effect ?P ?Q d" if "o_debug opt = Some d" for d by (rule je.effect_keep) (rule quiet(7) [OF that])
  ultimately have "effect ?P ?Q (NewRoot api (o_health opt) (o_debug opt))"
    unfolding NewRoot_def by (intro je.effect_mux) (auto split: option.splits)
  moreover define H where "H = RequestIDMiddleware fresh
      (Recover ob (Metrics (ob_elapsed ob) (LoggerMiddleware ob (Recover ob (NewRoot api (o_health opt) (o_debug opt))))))"
  ultimately have "effect ?P ?Q H"
    by (simp add: je.effect_RequestID je.effect_Recover je.effect_Metrics je.effect_Logger)
  moreover have "?P r" using quiet(2) by (simp add: derived_def same_head_def)
  ultimately have "?Q (Counters.more t) (Counters.more (snd (snd (snd (H r w t)))))" by (rule effectD)
  moreover have "h r w t = H r w t" using opt(2) by (auto simp: h H_def test_inject_def injectBearer_def)
  then have "H r w t = (out, r', w', t')" using run(1) by simp
  ultimately have "?Q (Counters.more t) (Counters.more t')" by simp
  from more_effectD [OF this run(2)] show ?thesis by (auto simp: StubVerifier_Verify_def split: if_splits)
qed

end
