(* ===== verification/Protogen.thy ===== *)
theory Protogen
  imports GoStrings
begin

text \<open>
  The code generation script (\<open>scripts/protogen/main.go\<close>): it looks for the repository root above the working
  directory, checks the versions of the compiler and its two plugins, and runs the compiler there.  The
  file system and the commands are parameters.  The search is a loop without a bound; it ends because
  \<open>filepath.Dir\<close> shortens every path that is not its own parent.
\<close>

section \<open>Paths\<close>

text \<open>\<open>filepath.Clean\<close>, \<open>Dir\<close> and \<open>Join\<close> on Unix: the elements of a path are put on a stack, from which
  \<open>..\<close> takes one.\<close>

fun clean_push :: "bool \<Rightarrow> string \<Rightarrow> string list \<Rightarrow> string list" where
  "clean_push rooted seg out =
     (if seg = [] \<or> seg = ''.'' then out
      else if seg = ''..'' then
        (case out of
           [] \<Rightarrow> if rooted then [] else [''..'']
         | seg1 # rest \<Rightarrow> if seg1 = ''..'' then ''..'' # out else rest)
      else seg # out)"

definition filepath_Clean :: "string \<Rightarrow> string" where
  "filepath_Clean path =
     (let rooted = (case path of c # _ \<Rightarrow> c = CHR ''/'' | [] \<Rightarrow> False);
          elems = rev (foldl (\<lambda>out seg. clean_push rooted seg out) [] (Split path CHR ''/''));
          res = (if rooted then ''/'' else []) @ Join elems ''/''
      in if res = [] then ''.'' else res)"

definition filepath_Dir :: "string \<Rightarrow> string" where
  "filepath_Dir path = filepath_Clean (rev (dropWhile (\<lambda>c. c \<noteq> CHR ''/'') (rev path)))"

definition filepath_Join :: "string \<Rightarrow> string \<Rightarrow> string" where
  "filepath_Join dir name = (if dir = [] then filepath_Clean name else filepath_Clean (dir @ ''/'' @ name))"

lemma clean_examples:
  "filepath_Clean ''/a//b/./c/..'' = ''/a/b''" "filepath_Clean ''../x/../..'' = ''../..''" "filepath_Clean ''/..'' = ''/''"
  "filepath_Dir ''/a/b'' = ''/a''" "filepath_Dir ''/'' = ''/''" "filepath_Dir ''a'' = ''.''" "filepath_Dir '''' = ''.''"
  by code_simp+

text \<open>The length of a path with a separator after each element.\<close>

definition seg_length :: "string list \<Rightarrow> nat" where
  "seg_length segs = sum_list (map (\<lambda>s. Suc (length s)) segs)"

lemma seg_length_simps [simp]: "seg_length [] = 0" "seg_length (s # ss) = Suc (length s) + seg_length ss"
    "seg_length (xs @ ys) = seg_length xs + seg_length ys"
  by (simp_all add: seg_length_def)

lemma seg_length_Split: "seg_length (Split p c) = Suc (length p)"
  by (induction p c rule: Split.induct) (auto split: list.splits)

lemma length_Join: "length (Join segs ''/'') = seg_length segs - 1"
  by (induction segs "''/''" rule: Join.induct) auto

lemma clean_push_length: "seg_length (clean_push rooted seg out) \<le> seg_length out + (if seg = [] then 0 else Suc (length seg))"
  by (auto split: list.splits)

lemma clean_elems_length:
  "seg_length (foldl (\<lambda>out seg. clean_push rooted seg out) out segs) \<le>
     seg_length out + seg_length (filter (\<lambda>s. s \<noteq> []) segs)"
proof (induction segs arbitrary: out)
  case (Cons seg segs)
  then show ?case using clean_push_length [of rooted seg out] by (fastforce intro: order_trans simp del: clean_push.simps)
qed simp

lemma seg_length_rev [simp]: "seg_length (rev xs) = seg_length xs"
  by (induction xs) auto

lemma Split_snoc: "Split (q @ [c]) c = Split q c @ [[]]"
  by (induction q) (auto split: list.splits simp: Split_nonempty)

lemma seg_length_filter_le: "seg_length (filter P segs) \<le> seg_length segs"
  by (induction segs) auto

text \<open>A path that ends in a separator gets shorter, except the root.\<close>

lemma Clean_shorter:
  assumes "q \<noteq> []"
  shows "length (filepath_Clean (q @ ''/'')) < length (q @ ''/'')"
proof -
  define rooted where "rooted = (case q @ ''/'' of c # _ \<Rightarrow> c = CHR ''/'' | [] \<Rightarrow> False)"
  define segs where "segs = Split q CHR ''/'' @ [[]]"
  define elems where "elems = rev (foldl (\<lambda>out seg. clean_push rooted seg out) [] segs)"
  have elems: "seg_length elems \<le> seg_length (filter (\<lambda>s. s \<noteq> []) (Split q CHR ''/''))"
    using clean_elems_length [of rooted "[]" segs] by (simp add: elems_def segs_def)
  have "seg_length (filter (\<lambda>s. s \<noteq> []) (Split q CHR ''/'')) \<le> length q + (if rooted then 0 else 1)"
  proof (cases rooted)
    case True
    then obtain q' where q': "q = CHR ''/'' # q'" using assms by (cases q) (auto simp: rooted_def)
    then show ?thesis
      using True seg_length_filter_le [of "\<lambda>s. s \<noteq> []" "Split q' CHR ''/''"] by (simp add: seg_length_Split)
  next
    case False
    then show ?thesis
      using seg_length_filter_le [of "\<lambda>s. s \<noteq> []" "Split q CHR ''/''"] by (simp add: seg_length_Split)
  qed
  moreover have "filepath_Clean (q @ ''/'') = (let res = (if rooted then ''/'' else []) @ Join elems ''/'' in if res = [] then ''.'' else res)"
    using assms by (simp add: filepath_Clean_def rooted_def elems_def segs_def Split_snoc Let_def)
  ultimately show ?thesis
    using elems assms by (cases "elems = []") (auto simp: length_Join Let_def neq_Nil_conv)
qed

definition path_rank :: "string \<Rightarrow> nat" where
  "path_rank d = (if d = [] then 3 else if d = ''.'' then 1 else 2 * length d)"

lemma Dir_rank:
  assumes "filepath_Dir d \<noteq> d"
  shows "path_rank (filepath_Dir d) < path_rank d"
proof -
  define p where "p = rev (dropWhile (\<lambda>c. c \<noteq> CHR ''/'') (rev d))"
  have dir: "filepath_Dir d = filepath_Clean p" by (simp add: filepath_Dir_def p_def)
  have "d = p @ rev (takeWhile (\<lambda>c. c \<noteq> CHR ''/'') (rev d))"
    unfolding p_def by (metis rev_append rev_rev_ident takeWhile_dropWhile_id)
  then have len: "length p \<le> length d" "length p = length d \<Longrightarrow> p = d"
    by (metis length_append le_add1, metis append_eq_append_conv append_Nil2)
  have "p \<noteq> [] \<Longrightarrow> last p = CHR ''/''"
    using hd_dropWhile [of "\<lambda>c. c \<noteq> CHR ''/''" "rev d"] by (auto simp: p_def last_rev)
  then consider "p = []" | "p = ''/''" | q where "q \<noteq> []" "p = q @ ''/''"
    by (cases p rule: rev_cases) fastforce+
  then show ?thesis
  proof cases
    case 1
    have "filepath_Clean [] = ''.''" by code_simp
    with 1 dir assms show ?thesis by (cases d) (auto simp: path_rank_def)
  next
    case 2
    have "filepath_Clean ''/'' = ''/''" by code_simp
    moreover have "length d \<noteq> 1" using 2 dir assms len(2) calculation by auto
    ultimately show ?thesis using 2 dir len(1) by (auto simp: path_rank_def)
  next
    case 3
    then have "length (filepath_Dir d) < length d" "2 \<le> length d"
      using Clean_shorter [OF 3(1)] dir len(1) by (auto simp: Suc_le_eq neq_Nil_conv)
    then show ?thesis by (auto simp: path_rank_def)
  qed
qed

section \<open>The script\<close>

text \<open>\<open>stat\<close> says which files exist.\<close>

function search_root :: "(string \<Rightarrow> bool) \<Rightarrow> string \<Rightarrow> string option" where
  "search_root stat dir =
     (if stat (filepath_Join dir ''go.mod'') then Some dir
      else (let parent = filepath_Dir dir in if parent = dir then None else search_root stat parent))"
  by pat_completeness auto
termination
  by (relation "measure (\<lambda>(stat, dir). path_rank dir)") (auto simp: Dir_rank)

declare search_root.simps [simp del]

record protogen_env =
  pe_Getwd :: "string + string"
  pe_Stat :: "string \<Rightarrow> bool"
  pe_Run :: "string \<Rightarrow> string list \<Rightarrow> string \<times> string \<times> string option"

text \<open>Errors are their texts: the script only prints them.\<close>

definition findRepoRoot :: "protogen_env \<Rightarrow> string + string" where
  "findRepoRoot pe =
     (case pe_Getwd pe of
        Inl e \<Rightarrow> Inl e
      | Inr wd \<Rightarrow>
          (case search_root (pe_Stat pe) wd of
             Some dir \<Rightarrow> Inr dir
           | None \<Rightarrow> Inl (''could not find repository root from '' @ wd)))"

definition commandOutput :: "protogen_env \<Rightarrow> string \<Rightarrow> string list \<Rightarrow> string + string" where
  "commandOutput pe command args =
     (case pe_Run pe command args of
        (out, err, None) \<Rightarrow> Inr (TrimSpace out)
      | (out, err, Some e) \<Rightarrow>
          (let output = TrimSpace (out @ err) in
           if output = [] then Inl (''run '' @ command @ '': '' @ e)
           else Inl (''run '' @ command @ '': '' @ e @ '': '' @ output)))"

definition requireExactVersion :: "protogen_env \<Rightarrow> string \<Rightarrow> string list \<Rightarrow> string \<Rightarrow> string option" where
  "requireExactVersion pe command args want =
     (case commandOutput pe command args of
        Inl e \<Rightarrow> Some e
      | Inr got \<Rightarrow>
          if got \<noteq> want then Some (command @ '' version '' @ Quote got @ '', want '' @ Quote want) else None)"

definition normalizeVersionToken :: "string \<Rightarrow> string" where
  "normalizeVersionToken token =
     (let cut = (\<lambda>c. List.member ([CHR '' '', CHR 0x09, CHR 0x0D, CHR 0x0A, CHR 0x22, CHR 0x27, CHR 0x60] @ ''()[]{}<>,;'') c)
      in rev (dropWhile cut (rev (dropWhile cut token))))"

definition hasNormalizedVersionToken :: "string \<Rightarrow> string \<Rightarrow> bool" where
  "hasNormalizedVersionToken output want =
     list_ex (\<lambda>token. normalizeVersionToken token = normalizeVersionToken want) (Fields output)"

definition requireVersionToken :: "protogen_env \<Rightarrow> string \<Rightarrow> string list \<Rightarrow> string \<Rightarrow> string option" where
  "requireVersionToken pe command args want =
     (case commandOutput pe command args of
        Inl e \<Rightarrow> Some e
      | Inr got \<Rightarrow>
          if \<not> hasNormalizedVersionToken got want
          then Some (command @ '' version '' @ Quote got @ '', want exact token '' @ Quote want) else None)"

definition protoFiles :: "string list" where
  "protoFiles = [''internal/transport/pb/user.proto'', ''internal/transport/pb/job.proto'']"

definition protoc_args :: "string list" where
  "protoc_args =
     [''-I'', ''.'', ''--go_out=.'', ''--go_opt=paths=source_relative'', ''--go-grpc_out=.'', ''--go-grpc_opt=paths=source_relative''] @
     protoFiles"

text \<open>\<open>main\<close>: the error it prints before it exits with status 1, and the directory in which it ran the compiler,
  if it did; \<open>gen\<close> is the compiler's result there.\<close>

definition protogen_main :: "protogen_env \<Rightarrow> (string \<Rightarrow> string list \<Rightarrow> string option) \<Rightarrow> string option \<times> string option" where
  "protogen_main pe gen =
     (case findRepoRoot pe of
        Inl e \<Rightarrow> (Some e, None)
      | Inr repoRoot \<Rightarrow>
          (case requireExactVersion pe ''protoc'' [''--version''] ''libprotoc 34.0'' of
             Some e \<Rightarrow> (Some e, None)
           | None \<Rightarrow>
               (case requireVersionToken pe ''protoc-gen-go'' [''--version''] ''v1.36.11'' of
                  Some e \<Rightarrow> (Some e, None)
                | None \<Rightarrow>
                    (case requireVersionToken pe ''protoc-gen-go-grpc'' [''--version''] ''1.6.1'' of
                       Some e \<Rightarrow> (Some e, None)
                     | None \<Rightarrow>
                         (case gen repoRoot protoc_args of
                            Some e \<Rightarrow> (Some (''run protoc: '' @ e), Some repoRoot)
                          | None \<Rightarrow> (None, Some repoRoot))))))"

section \<open>The nearest root\<close>

text \<open>The directories above a directory, nearest first.\<close>

abbreviation above :: "nat \<Rightarrow> string \<Rightarrow> string" where
  "above n d \<equiv> (filepath_Dir ^^ n) d"

lemma above_fixed: "filepath_Dir d = d \<Longrightarrow> above n d = d"
  by (induction n) auto

lemma search_root_spec:
  "case search_root stat d of
     Some root \<Rightarrow> \<exists>n. root = above n d \<and> stat (filepath_Join root ''go.mod'') \<and> (\<forall>k < n. \<not> stat (filepath_Join (above k d) ''go.mod''))
   | None \<Rightarrow> \<forall>n. \<not> stat (filepath_Join (above n d) ''go.mod'')"
proof (induction stat d rule: search_root.induct)
  case (1 stat d)
  consider (here) "stat (filepath_Join d ''go.mod'')"
    | (root) "\<not> stat (filepath_Join d ''go.mod'')" "filepath_Dir d = d"
    | (up) "\<not> stat (filepath_Join d ''go.mod'')" "filepath_Dir d \<noteq> d" by blast
  then show ?case
  proof cases
    case here
    then show ?thesis by (auto simp: search_root.simps [of stat d] intro: exI [of _ 0])
  next
    case root
    then show ?thesis by (auto simp: search_root.simps [of stat d] above_fixed)
  next
    case up
    have eq: "search_root stat d = search_root stat (filepath_Dir d)" using up by (simp add: search_root.simps [of stat d])
    have step: "above (Suc n) d = above n (filepath_Dir d)" for n by (simp add: funpow_swap1)
    note IH = 1 [OF up(1) refl up(2)]
    show ?thesis
    proof (cases "search_root stat (filepath_Dir d)")
      case None
      then have "\<not> stat (filepath_Join (above n d) ''go.mod'')" for n
        using IH up(1) step by (cases n) auto
      with None eq show ?thesis by simp
    next
      case (Some r)
      then obtain n where n: "r = above n (filepath_Dir d)" "stat (filepath_Join r ''go.mod'')"
        "\<forall>k < n. \<not> stat (filepath_Join (above k (filepath_Dir d)) ''go.mod'')" using IH by auto
      have "\<not> stat (filepath_Join (above k d) ''go.mod'')" if "k < Suc n" for k
        using that n(3) up(1) step by (cases k) auto
      with n step [of n] eq Some show ?thesis by (auto simp del: funpow.simps intro!: exI [of _ "Suc n"])
    qed
  qed
qed

text \<open>C40: The code generation script always ends, and it runs the compiler in at most one place: the nearest directory
  at or above the working directory that has a \<open>go.mod\<close>, and only when the compiler prints exactly the required
  version and both plugins print the required version as a word of their output.  If no directory above the
  working directory has a \<open>go.mod\<close>, it reports that.\<close>

theorem protogen_pinned:
  assumes "pe_Getwd pe = Inr wd"
  shows "case protogen_main pe gen of
      (err, Some root) \<Rightarrow>
        (\<exists>n. root = above n wd \<and> pe_Stat pe (filepath_Join root ''go.mod'') \<and>
           (\<forall>k < n. \<not> pe_Stat pe (filepath_Join (above k wd) ''go.mod''))) \<and>
        commandOutput pe ''protoc'' [''--version''] = Inr ''libprotoc 34.0'' \<and>
        (\<exists>v. commandOutput pe ''protoc-gen-go'' [''--version''] = Inr v \<and> hasNormalizedVersionToken v ''v1.36.11'') \<and>
        (\<exists>v. commandOutput pe ''protoc-gen-go-grpc'' [''--version''] = Inr v \<and> hasNormalizedVersionToken v ''1.6.1'') \<and>
        (err = None \<longleftrightarrow> gen root protoc_args = None)
    | (err, None) \<Rightarrow> err \<noteq> None \<and>
        ((\<forall>n. \<not> pe_Stat pe (filepath_Join (above n wd) ''go.mod'')) \<longrightarrow>
           err = Some (''could not find repository root from '' @ wd))"
proof (cases "search_root (pe_Stat pe) wd")
  case None
  with assms show ?thesis by (simp add: protogen_main_def findRepoRoot_def)
next
  case (Some root)
  with search_root_spec [of "pe_Stat pe" wd] have root: "\<exists>n. root = above n wd \<and> pe_Stat pe (filepath_Join root ''go.mod'') \<and>
      (\<forall>k < n. \<not> pe_Stat pe (filepath_Join (above k wd) ''go.mod''))" by simp
  then have "\<not> (\<forall>n. \<not> pe_Stat pe (filepath_Join (above n wd) ''go.mod''))" by blast
  with root Some assms show ?thesis
    by (auto simp: protogen_main_def findRepoRoot_def requireExactVersion_def requireVersionToken_def
        split: option.splits sum.splits if_splits)
qed

definition sample_protogen :: protogen_env where
  "sample_protogen = \<lparr>pe_Getwd = Inr ''/src/repo/scripts/protogen'', pe_Stat = (\<lambda>p. p = ''/src/repo/go.mod'' \<or> p = ''/src/go.mod''),
     pe_Run = (\<lambda>cmd args. (if cmd = ''protoc'' then ''libprotoc 34.0'' else if cmd = ''protoc-gen-go'' then ''protoc-gen-go v1.36.11''
       else ''protoc-gen-go-grpc 1.6.1'', [], None))\<rparr>"

theorem protogen_pinned_witness:
  "protogen_main sample_protogen (\<lambda>_ _. None) = (None, Some ''/src/repo'') \<and>
   hasNormalizedVersionToken ''protoc-gen-go v1.36.11'' ''v1.36.11''"
proof -
  have run: "protogen_main sample_protogen (\<lambda>_ _. None) = (None, Some ''/src/repo'')" by code_simp
  have "commandOutput sample_protogen ''protoc-gen-go'' [''--version''] = Inr ''protoc-gen-go v1.36.11''" by code_simp
  with protogen_pinned [of sample_protogen "''/src/repo/scripts/protogen''" "\<lambda>_ _. None"] run show ?thesis
    by (simp add: sample_protogen_def)
qed

end
