(* ===== verification/Spec2Isabelle.thy ===== *)
theory Spec2Isabelle
  imports Health Pipeline RuntimeInfo RequestIDs Testkit Protogen
begin

text \<open>
  A verification of the API server in this repository (\<open>cmd/api\<close> and \<open>internal\<close>, in Go): a service that
  stores users, creates them synchronously or as background jobs, streams the progress of those jobs to
  its clients, and shows users together with a profile fetched from another service.

  \<^bold>\<open>The program.\<close>  A request passes a chain of middleware (request identifier, recovery, trusted proxies,
  metrics, access log, CORS, security headers), a multiplexer, and for every route of the API a bulkhead, a
  rate limiter, authentication by JWT and authorization by a declarative policy.  The handlers call the
  services; an asynchronous creation stores a queued job, announces it in the event hub and puts an item
  into a bounded queue.  The workers of a pool take items, run the user service, and move the job through
  its state machine, announcing each change.  Jobs and users live in memory or in PostgreSQL.  The jobs are
  also served over gRPC.  The main program builds every component from the environment, and a supervisor starts
  all of this and, on a signal or a failure, shuts it down in order.

  \<^bold>\<open>The theories,\<close> from the bottom; each opens with a text of its own.

  \<^item> Prelude: 64-bit integers over \<open>int\<close> with \<open>wrap64\<close>, Go maps as association lists without duplicate keys
    (\<open>gomap\<close>), outcomes of calls that may panic, and the collections of facts the proofs share.
  \<^item> GoStrings, GoErrors, GoNet: what the program uses of \<open>strings\<close>, \<open>strconv\<close>, \<open>errors\<close>, \<open>time.ParseDuration\<close>,
    \<open>net\<close>, \<open>net/netip\<close> and \<open>net/url\<close>.  Error values are trees with \<open>errors.Is\<close>, \<open>errors.As\<close> and \<open>errors.Join\<close>.
  \<^item> Entity (\<open>internal/entity\<close>, \<open>internal/apperr\<close>): jobs, users, and the job state machine with its step relation.
  \<^item> Security (\<open>internal/security\<close>): roles, the default policy, ownership, the JWT verifier with key rotation.
  \<^item> Http (\<open>internal/httputils\<close>, \<open>internal/requestid\<close>): requests and responses, negotiation by \<open>Accept\<close>, entity
    tags, validation of inputs, problem documents.  ErrMap (\<open>errmap.go\<close> and its neighbours): the mapping
    from errors to responses.
  \<^item> Config (\<open>internal/config\<close>): every variable, parser and check of \<open>Load\<close>, and the logging options.
  \<^item> JobRepo, JobSQL, UserRepo (\<open>internal/store\<close>, and the interfaces in \<open>internal/service\<close>): the in-memory
    repositories, and the PostgreSQL ones over a model of their tables and statements.
  \<^item> Services (\<open>internal/service\<close>): the job, user and profile services over any repository.
  \<^item> Queue (\<open>internal/queue\<close>), Stream (\<open>internal/stream\<close>), WorkerPool (\<open>internal/workerpool\<close>).
  \<^item> Middleware (\<open>internal/middleware\<close>, \<open>internal/metrics/http.go\<close>), RequestIDs (\<open>internal/requestid\<close>), Outbound
    (\<open>internal/outbound\<close>), Telemetry (\<open>internal/telemetry\<close>), RuntimeInfo (\<open>internal/runtimeinfo\<close>).
  \<^item> Handlers (\<open>internal/routes\<close>), Router (\<open>internal/router\<close>, \<open>internal/health\<close>, and \<open>http.ServeMux\<close>), Wiring
    (\<open>cmd/api/main.go\<close>): the handler the HTTP server runs.  Program: the same with the real handlers in it, and
    the effects of one request on the jobs.
  \<^item> Grpc (\<open>internal/interceptors\<close>, \<open>internal/transport\<close>) and Server (\<open>internal/api/server.go\<close>).  ErrorTexts: the \<open>Error\<close>
    methods of all error types.
  \<^item> Startup (\<open>main\<close> and \<open>run\<close> of \<open>cmd/api/main.go\<close>, \<open>internal/db\<close>, \<open>internal/outbound/httpclient\<close>, the gRPC client and the
    loading of its certificates): how the components are built, what is deferred, and the exit status.  Health: the
    readiness checks on the running server.
  \<^item> Testkit (\<open>internal/testkit\<close>): the application the tests run.  Protogen (\<open>scripts/protogen\<close>): the code generation
    script.
  \<^item> Pipeline: requests, queue, workers and event streams as one transition system; this theory holds the
    property of the whole.

  \<^bold>\<open>Correspondence.\<close>  A struct is a record, a method \<open>Receiver_Method\<close> a definition on explicit state, a
  package-level function has its own name, and an interface is a record of its methods.  An error is a value
  (\<open>go_error option\<close>, or \<open>go_error + 'a\<close>); a panic is \<open>Panicked\<close>, or \<open>None\<close> where the operation can only panic on a
  closed channel.  An operation that the code runs under a mutex is one step; where it does not (\<open>Close\<close> of the
  hub, the check before a transition in the job service, a handler between taking and giving back its place in
  the bulkhead, \<open>Start\<close> and \<open>Stop\<close> of the pool, the gRPC runtime) the parts are separate steps that others may
  come between.

  \<^bold>\<open>Interfaces.\<close>  The locale \<open>job_repository\<close> is the contract of the job store: each method against a finite
  map of jobs, a transition being one compare-and-set.  The in-memory and the PostgreSQL repository
  interpret it, the services, the pool and the handlers are verified inside it.  \<open>user_repository\<close> is the
  contract for users, with the notion of equal addresses as a parameter because the two implementations
  differ in it; \<open>worker_env\<close> joins both for the pool, and \<open>admission_queue\<close> is what the producers and
  consumers of the queue rely on.  \<open>request_effects\<close> is what a middleware may do with a request and the state that is
  not its own; every middleware is verified in it once, for the real chain and for the one of the tests.

  \<^bold>\<open>What is shown.\<close>

  \<^item> Jobs: terminal jobs never change and every change follows the state machine, in memory and, with the
    same answers, in PostgreSQL, which refines the abstract store; a database failure never does more than
    its statement; the check of the service may be outdated by the time of the call without harm.
  \<^item> Pipeline: an admission is all or nothing, the queue is a bounded first-in first-out buffer that
    accepts nothing after its stop, a worker brings its job to a terminal status, a stopped pool leaves no active
    job and no worker, and no job is lost under any interleaving (below).
  \<^item> Requests: whatever a handler does, the chain of middleware answers, with one access record, a panic record
    for a panic, and balanced metrics.  Through the whole program one request changes jobs or queue at most by one new
    job of the principal whose token it carries, and only if it is a \<open>POST\<close>.
  \<^item> Events: no operation of the hub panics or blocks, a subscriber first gets the last events of its job, then
    every event its buffer has room for, and closing is final.
  \<^item> Access: the response depends on an API handler or a debug endpoint only for a verified token whose
    principal a rule of the policy admits; a verified token is declared HS256, was signed with a configured
    key (the one its \<open>kid\<close> names, if any) and gives a known role; CORS answers and forwarded headers are limited to configured origins
    and proxies; every error becomes a documented status and internal errors say nothing.  A denied request is
    in the security log exactly once and without its credentials, and the request identifiers that logs and headers
    carry are short and printable, whatever the client sent.
  \<^item> Configuration: whatever the environment, a configuration that \<open>Load\<close> returns respects the documented bounds
    and the rules for protected environments; from such a configuration \<open>run\<close> builds every component without a
    panic, and without an error where the database, the files and the network answer.
  \<^item> Outbound: retries stop, are bounded in number and happen only for transient errors; the result is that of the
    last call unless the context was done first; the delay is exponential up to its cap until the doubling wraps around.
  \<^item> Shutdown: the outcome that is reported is the worst of its parts, and the gRPC runtime always comes to its end.
    The server runs to an end without a panic; if it reports no error, no worker is alive, no job is active, the queue
    and the hub are closed.  \<open>/readyz\<close> says 200 exactly while everything is up, and never once shutdown has begun.
    With gRPC disabled the program never gets that far: it exits with status 1.
  \<^item> Telemetry: the error handler logs at most one failure per interval, however many goroutines call it at once,
    and accounts for every failure; a failed set-up leaves telemetry disabled, with the exporters it had made shut
    down, and the providers are shut down once.

  \<^bold>\<open>Parameters.\<close>  Code outside the repository is an argument: the faults of the SQL driver, the JSON and
  protobuf codecs, the JWT library, the token bucket, random numbers, the clock, the HTTP transport and
  servers, \<open>http.ServeContent\<close>, gRPC's \<open>Serve\<close> and \<open>GracefulStop\<close>, \<open>status.FromError\<close>, the OpenTelemetry SDK, the database
  driver, files and certificates, dialling, the commands of the script, and the readings of the Go runtime.  What a theorem needs of
  one is a hypothesis by name (\<open>codec_ok\<close>: encoding and decoding an error payload gives it back).

  \<^bold>\<open>Bounds.\<close>  Every loop is a structural recursion or has a termination proof, with two exceptions that
  recurse on a counter: \<open>duration_parts\<close> and \<open>media_params_ok\<close> start it at the length of the text, and every
  round consumes a character.  The identifiers of the hub are the first \<open>2 ^ 64 - 1\<close>; those of the in-memory stores
  are hypotheses below \<open>2 ^ 63 - 1\<close>.  The multiplexer is modelled for paths without percent-encoding, and the \<open>Allow\<close>
  header for the methods the routes use.  The loop of an event stream runs over the cases the runtime finds
  ready, for every stream that ends.  In the pipeline one item is processed in one step; the races inside
  it are those of the job service (\<open>job_service_race\<close>) and of the stop of the pool (\<open>pool_stop_repairs\<close>).

  \<^bold>\<open>Deviations.\<close>  A string is a list of bytes, and letter case is folded for ASCII only.  The fractional part of a
  duration is computed exactly where Go uses a float.  Texts of errors made by libraries are opaque.
  Of the log, the records of the security decisions, the access log, recovered panics, the outbound calls, the event
  streams, the shutdown and the telemetry failures are modelled; other messages are left out.  While \<open>Run\<close> serves
  and drains, the rest of the program is any sequence of the steps of \<open>serve_env\<close>.  The checks of \<open>/readyz\<close> read one
  state, where the code reads one component after the other.

  \<^bold>\<open>Not modelled.\<close>  The formatting of log records and the hand-over of signals to the context of \<open>Run\<close> are library
  code, and the protobuf code is generated.
\<close>

section \<open>The job pipeline\<close>


definition sample_service :: service where
  "sample_service = sample_app\<lparr>app_world := sample_world\<lparr>w_jobs := NewMemoryJobRepository\<rparr>\<rparr>"


end
